(* ===== verification/Prelude.thy ===== *)
theory Prelude
  imports Main "HOL-Library.Word" "HOL-Library.List_Lexorder" "HOL-Library.Char_ord"
begin

text \<open>
  What every component of the development shares: the sequencing of fallible steps
  (a result is \<open>Inl\<close> of a fault or \<open>Inr\<close> of a value), the model of the ordered map
  \<^verbatim>\<open>std::map\<close> as an association list in key order, its interface as a locale with the
  interpretation that discharges the laws, and the lemma collections the component
  theories fill.
\<close>

named_theorems iw_ops \<open>definitions of the state-changing operations of the messaging core\<close>
named_theorems frame \<open>what an operation leaves unchanged\<close>

section \<open>Fallible steps\<close>

fun bnd :: "('e + 'a) \<Rightarrow> ('a \<Rightarrow> 'e + 'b) \<Rightarrow> 'e + 'b" where
  "bnd (Inl e) f = Inl e"
| "bnd (Inr x) f = f x"

lemma bnd_eq_Inr [simp]: "bnd m f = Inr y \<longleftrightarrow> (\<exists>x. m = Inr x \<and> f x = Inr y)"
  by (cases m) auto

lemma bnd_eq_Inl: "bnd m f = Inl e \<longleftrightarrow> m = Inl e \<or> (\<exists>x. m = Inr x \<and> f x = Inl e)"
  by (cases m) auto

lemma bnd_assoc: "bnd (bnd m f) g = bnd m (\<lambda>x. bnd (f x) g)"
  by (cases m) auto

lemma bnd_Inr_right [simp]: "bnd m Inr = m"
  by (cases m) auto

lemma bnd_cong [fundef_cong]:
  "m = m' \<Longrightarrow> (\<And>x. m' = Inr x \<Longrightarrow> f x = f' x) \<Longrightarrow> bnd m f = bnd m' f'"
  by (cases m') auto

section \<open>Ordered maps (std::map)\<close>

text \<open>
  A \<^verbatim>\<open>std::map\<close> is iterated in key order, so it is kept as an association list sorted by
  strictly increasing keys: \<open>smap_insert\<close> is \<^verbatim>\<open>m[k] = v\<close>, \<open>smap_erase\<close> is
  \<^verbatim>\<open>m.erase(k)\<close>, \<open>smap_find\<close> is \<^verbatim>\<open>m.find(k)\<close>.
\<close>

type_synonym ('k, 'v) smap = "('k \<times> 'v) list"

fun smap_find :: "('k, 'v) smap \<Rightarrow> 'k \<Rightarrow> 'v option" where
  "smap_find [] k = None"
| "smap_find ((a, b) # m) k = (if k = a then Some b else smap_find m k)"

fun smap_insert :: "'k::linorder \<Rightarrow> 'v \<Rightarrow> ('k, 'v) smap \<Rightarrow> ('k, 'v) smap" where
  "smap_insert k v [] = [(k, v)]"
| "smap_insert k v ((a, b) # m) =
     (if k < a then (k, v) # (a, b) # m
      else if k = a then (k, v) # m
      else (a, b) # smap_insert k v m)"

fun smap_erase :: "'k \<Rightarrow> ('k, 'v) smap \<Rightarrow> ('k, 'v) smap" where
  "smap_erase k [] = []"
| "smap_erase k ((a, b) # m) = (if k = a then m else (a, b) # smap_erase k m)"

definition smap_ok :: "('k::linorder, 'v) smap \<Rightarrow> bool" where
  "smap_ok m \<longleftrightarrow> sorted_wrt (<) (map fst m)"

lemma smap_ok_Nil [simp]: "smap_ok []"
  by (simp add: smap_ok_def)

lemma smap_ok_Cons [simp]:
  "smap_ok ((a, b) # m) \<longleftrightarrow> (\<forall>k \<in> fst ` set m. a < k) \<and> smap_ok m"
  by (auto simp: smap_ok_def)

lemma smap_find_insert:
  "smap_find (smap_insert k v m) k' = (if k' = k then Some v else smap_find m k')"
  by (induction m) auto

lemma smap_find_None_iff: "smap_find m k = None \<longleftrightarrow> k \<notin> fst ` set m"
  by (induction m k rule: smap_find.induct) auto

lemma smap_find_above: "\<forall>x \<in> fst ` set m. a < x \<Longrightarrow> smap_find m (a :: 'k::linorder) = None"
  by (auto simp: smap_find_None_iff)

lemma smap_find_erase:
  "smap_ok m \<Longrightarrow> smap_find (smap_erase k m) k' = (if k' = k then None else smap_find m k')"
proof (induction m)
  case (Cons p m)
  then show ?case by (cases p) (auto simp: smap_find_above)
qed simp

lemma keys_smap_insert [simp]: "fst ` set (smap_insert k v m) = insert k (fst ` set m)"
  by (induction k v m rule: smap_insert.induct) auto

lemma set_smap_erase: "set (smap_erase k m) \<subseteq> set m"
  by (induction k m rule: smap_erase.induct) auto

lemma smap_ok_insert: "smap_ok m \<Longrightarrow> smap_ok (smap_insert k v m)"
proof (induction m)
  case (Cons p m)
  then show ?case
    by (cases p) (auto simp del: set_map simp: keys_smap_insert less_le_trans)
qed simp

lemma smap_ok_erase: "smap_ok m \<Longrightarrow> smap_ok (smap_erase k m)"
proof (induction m)
  case (Cons p m)
  then show ?case using set_smap_erase [of k m] by (cases p) auto
qed simp

lemma smap_insert_twice: "smap_insert k v (smap_insert k w m) = smap_insert k v m"
  by (induction m) auto

lemma smap_find_Some_iff: "smap_ok m \<Longrightarrow> smap_find m k = Some v \<longleftrightarrow> (k, v) \<in> set m"
proof (induction m)
  case (Cons p m)
  then show ?case by (cases p) (force simp: image_iff)
qed simp

lemma smap_ok_unique: "smap_ok m \<Longrightarrow> (k, v) \<in> set m \<Longrightarrow> (k, v') \<in> set m \<Longrightarrow> v = v'"
  by (metis option.inject smap_find_Some_iff)

lemma smap_erase_absent: "smap_find m k = None \<Longrightarrow> smap_erase k m = m"
  by (induction m) (auto split: if_splits)

lemma smap_erase_insert:
  "smap_ok m \<Longrightarrow> smap_find m k = None \<Longrightarrow> smap_erase k (smap_insert k v m) = m"
  by (induction m) (auto split: if_splits)

text \<open>
  The interface the clients of an ordered map rely on.
\<close>

locale ordered_map =
  fixes emp :: "'m"
    and ins :: "'k \<Rightarrow> 'v \<Rightarrow> 'm \<Rightarrow> 'm"
    and del :: "'k \<Rightarrow> 'm \<Rightarrow> 'm"
    and look :: "'m \<Rightarrow> 'k \<Rightarrow> 'v option"
    and ok :: "'m \<Rightarrow> bool"
  assumes ok_emp: "ok emp"
    and ok_ins: "ok m \<Longrightarrow> ok (ins k v m)"
    and ok_del: "ok m \<Longrightarrow> ok (del k m)"
    and look_emp: "look emp k = None"
    and look_ins: "ok m \<Longrightarrow> look (ins k v m) k' = (if k' = k then Some v else look m k')"
    and look_del: "ok m \<Longrightarrow> look (del k m) k' = (if k' = k then None else look m k')"
begin

lemma look_ins_del:
  "ok m \<Longrightarrow> look m k = None \<Longrightarrow> look (del k (ins k v m)) k' = look m k'"
  by (simp add: ok_ins look_ins look_del)

lemma look_del_idem: "ok m \<Longrightarrow> look (del k (del k m)) k' = look (del k m) k'"
  by (simp add: ok_del look_del)

end

interpretation smap: ordered_map "[]" smap_insert smap_erase smap_find smap_ok
  by unfold_locales (auto simp: smap_ok_insert smap_ok_erase smap_find_insert smap_find_erase)

lemmas smap_simps = smap_find_insert smap_find_erase smap_ok_insert smap_ok_erase

end
