(* ===== verification/Iw_Message.thy ===== *)
theory Iw_Message
  imports Prelude
begin

text \<open>
  The vocabulary of the messaging core (\<^verbatim>\<open>iw_core/IwBase.h\<close>, \<^verbatim>\<open>iw_core/Message.h\<close>,
  \<^verbatim>\<open>iw_telephony/OfferAnswerSession.h\<close>): error codes, message identifiers with the numbers
  the enums give them, the message envelope and the data of the call messages.  A
  message travels as a value; the queue timestamp (used for profiling only) and the
  optional parameter map are left out.
\<close>

datatype ApiErrorCode =
    API_SUCCESS | API_FAILURE | API_SOCKET_INIT_FAILURE | API_TIMER_INIT_FAILURE
  | API_SERVER_FAILURE | API_TIMEOUT | API_WRONG_PARAMETER | API_WRONG_STATE | API_HANGUP
  | API_UNKNOWN_DESTINATION | API_FEATURE_DISABLED | API_UNKNOWN_RESPONSE
  | API_PENDING_OPERATION

definition IW_UNDEFINED :: int where
  "IW_UNDEFINED = -1"

definition IW_FAILURE :: "ApiErrorCode \<Rightarrow> bool" where
  "IW_FAILURE x \<longleftrightarrow> x \<noteq> API_SUCCESS"

text \<open>The identifiers of \<^verbatim>\<open>enum MessageId\<close> and of \<^verbatim>\<open>enum CallEvts\<close>.\<close>

datatype MessageId =
    MSG_MARKER | MSG_UNKNOWN | MSG_TIMEOUT | MSG_ACK | MSG_NACK | MSG_PING | MSG_PONG
  | MSG_PROC_SHUTDOWN_REQ | MSG_PROC_SHUTDOWN_ACK | MSG_PROC_SHUTDOWN_EVT
  | MSG_PROC_READY | MSG_PROC_RESUME | MSG_PROC_FAILURE
  | MSG_CALL_OFFERED | MSG_CALL_OFFERED_ACK | MSG_CALL_OFFERED_NACK | MSG_CALL_CONNECTED
  | MSG_CALL_HANG_UP_EVT | MSG_CALL_TERMINATED | MSG_CALL_DTMF_EVT
  | MSG_MAKE_CALL_REQ | MSG_MAKE_CALL_OK | MSG_MAKE_CALL_ACK | MSG_MAKE_CALL_NACK
  | MSG_CALL_REOFFER_REQ | MSG_CALL_REOFFER_ACK | MSG_CALL_REOFFER_NACK
  | MSG_HANGUP_CALL_REQ
  | MSG_CALL_BLIND_XFER_REQ | MSG_CALL_BLIND_XFER_ACK | MSG_CALL_BLIND_XFER_NACK
  | MSG_CALL_SUBSCRIBE_REQ | MSG_CALL_SUBSCRIBE_ACK | MSG_CALL_SUBSCRIBE_NACK
  | MSG_CALL_LAST_ONE
  | MSG_OTHER nat

text \<open>
  The identifiers the other modules define: \<open>MSG_OTHER n\<close> is \<^verbatim>\<open>MSG_USER_DEFINED + n\<close>, with the
  bases of \<^verbatim>\<open>iw_telephony/Telephony.h\<close>.  The speech sessions and the handle waiter both start at
  \<^verbatim>\<open>MSG_USER_DEFINED\<close> itself, so some of their identifiers are the same number.
\<close>

abbreviation MSG_RTP_PROXY_ALLOCATE_REQ :: MessageId where "MSG_RTP_PROXY_ALLOCATE_REQ \<equiv> MSG_OTHER 6000"
abbreviation MSG_RTP_PROXY_ACK :: MessageId where "MSG_RTP_PROXY_ACK \<equiv> MSG_OTHER 6001"
abbreviation MSG_RTP_PROXY_NACK :: MessageId where "MSG_RTP_PROXY_NACK \<equiv> MSG_OTHER 6002"
abbreviation MSG_RTP_PROXY_DTMF_EVT :: MessageId where "MSG_RTP_PROXY_DTMF_EVT \<equiv> MSG_OTHER 6003"
abbreviation MSG_RTP_PROXY_BRIDGE_REQ :: MessageId where "MSG_RTP_PROXY_BRIDGE_REQ \<equiv> MSG_OTHER 6004"
abbreviation MSG_RTP_PROXY_MODIFY_REQ :: MessageId where "MSG_RTP_PROXY_MODIFY_REQ \<equiv> MSG_OTHER 6005"
abbreviation MSG_RTP_PROXY_DEALLOCATE_REQ :: MessageId where "MSG_RTP_PROXY_DEALLOCATE_REQ \<equiv> MSG_OTHER 6006"
abbreviation MSG_STREAM_ALLOCATE_SESSION_REQ :: MessageId where "MSG_STREAM_ALLOCATE_SESSION_REQ \<equiv> MSG_OTHER 5000"
abbreviation MSG_STREAM_ALLOCATE_SESSION_ACK :: MessageId where "MSG_STREAM_ALLOCATE_SESSION_ACK \<equiv> MSG_OTHER 5001"
abbreviation MSG_STREAM_ALLOCATE_SESSION_NACK :: MessageId where "MSG_STREAM_ALLOCATE_SESSION_NACK \<equiv> MSG_OTHER 5002"
abbreviation MSG_STREAM_PLAY_REQUEST :: MessageId where "MSG_STREAM_PLAY_REQUEST \<equiv> MSG_OTHER 5003"
abbreviation MSG_STREAM_PLAY_ACK :: MessageId where "MSG_STREAM_PLAY_ACK \<equiv> MSG_OTHER 5004"
abbreviation MSG_STREAM_PLAY_NACK :: MessageId where "MSG_STREAM_PLAY_NACK \<equiv> MSG_OTHER 5005"
abbreviation MSG_STREAM_STOP_PLAY_REQ :: MessageId where "MSG_STREAM_STOP_PLAY_REQ \<equiv> MSG_OTHER 5006"
abbreviation MSG_STREAM_STOP_PLAY_ACK :: MessageId where "MSG_STREAM_STOP_PLAY_ACK \<equiv> MSG_OTHER 5007"
abbreviation MSG_STREAM_STOP_PLAY_NACK :: MessageId where "MSG_STREAM_STOP_PLAY_NACK \<equiv> MSG_OTHER 5008"
abbreviation MSG_STREAM_PLAY_STOPPED_EVT :: MessageId where "MSG_STREAM_PLAY_STOPPED_EVT \<equiv> MSG_OTHER 5009"
abbreviation MSG_STREAM_TEARDOWN_REQ :: MessageId where "MSG_STREAM_TEARDOWN_REQ \<equiv> MSG_OTHER 5010"
abbreviation MSG_STREAM_MODIFY_REQ :: MessageId where "MSG_STREAM_MODIFY_REQ \<equiv> MSG_OTHER 5011"
abbreviation MSG_STREAM_MODIFY_ACK :: MessageId where "MSG_STREAM_MODIFY_ACK \<equiv> MSG_OTHER 5012"
abbreviation MSG_STREAM_MODIFY_NACK :: MessageId where "MSG_STREAM_MODIFY_NACK \<equiv> MSG_OTHER 5013"
abbreviation MSG_RTSP_SETUP_SESSION_REQ :: MessageId where "MSG_RTSP_SETUP_SESSION_REQ \<equiv> MSG_OTHER 4000"
abbreviation MSG_RTSP_SETUP_SESSION_ACK :: MessageId where "MSG_RTSP_SETUP_SESSION_ACK \<equiv> MSG_OTHER 4001"
abbreviation MSG_RTSP_SETUP_SESSION_NACK :: MessageId where "MSG_RTSP_SETUP_SESSION_NACK \<equiv> MSG_OTHER 4002"
abbreviation MSG_RTSP_PLAY_REQ :: MessageId where "MSG_RTSP_PLAY_REQ \<equiv> MSG_OTHER 4003"
abbreviation MSG_RTSP_PLAY_ACK :: MessageId where "MSG_RTSP_PLAY_ACK \<equiv> MSG_OTHER 4004"
abbreviation MSG_RTSP_PLAY_NACK :: MessageId where "MSG_RTSP_PLAY_NACK \<equiv> MSG_OTHER 4005"
abbreviation MSG_RTSP_PAUSE_REQ :: MessageId where "MSG_RTSP_PAUSE_REQ \<equiv> MSG_OTHER 4006"
abbreviation MSG_RTSP_PAUSE_ACK :: MessageId where "MSG_RTSP_PAUSE_ACK \<equiv> MSG_OTHER 4007"
abbreviation MSG_RTSP_PAUSE_NACK :: MessageId where "MSG_RTSP_PAUSE_NACK \<equiv> MSG_OTHER 4008"
abbreviation MSG_RTSP_TEARDOWN_REQ :: MessageId where "MSG_RTSP_TEARDOWN_REQ \<equiv> MSG_OTHER 4009"
abbreviation MSG_RTSP_TEARDOWN_ACK :: MessageId where "MSG_RTSP_TEARDOWN_ACK \<equiv> MSG_OTHER 4010"
abbreviation MSG_RTSP_TEARDOWN_NACK :: MessageId where "MSG_RTSP_TEARDOWN_NACK \<equiv> MSG_OTHER 4011"
abbreviation SIP_CALL_INFO_REQ :: MessageId where "SIP_CALL_INFO_REQ \<equiv> MSG_OTHER 2000"
abbreviation SIP_CALL_INFO_ACK :: MessageId where "SIP_CALL_INFO_ACK \<equiv> MSG_OTHER 2001"
abbreviation SIP_CALL_INFO_NACK :: MessageId where "SIP_CALL_INFO_NACK \<equiv> MSG_OTHER 2002"
abbreviation SIP_CALL_NOTIFY_EVT :: MessageId where "SIP_CALL_NOTIFY_EVT \<equiv> MSG_OTHER 2003"
abbreviation SIP_CALL_SUBSCRIBE_REQ :: MessageId where "SIP_CALL_SUBSCRIBE_REQ \<equiv> MSG_OTHER 2004"
abbreviation SIP_CALL_SUBSCRIBE_ACK :: MessageId where "SIP_CALL_SUBSCRIBE_ACK \<equiv> MSG_OTHER 2005"
abbreviation SIP_CALL_SUBSCRIBE_NACK :: MessageId where "SIP_CALL_SUBSCRIBE_NACK \<equiv> MSG_OTHER 2006"
abbreviation SIP_CALL_UNSUBSCRIBE_REQ :: MessageId where "SIP_CALL_UNSUBSCRIBE_REQ \<equiv> MSG_OTHER 2007"
abbreviation SIP_CALL_UNSUBSCRIBE_EVT :: MessageId where "SIP_CALL_UNSUBSCRIBE_EVT \<equiv> MSG_OTHER 2008"
abbreviation SIP_CALL_REGISTER_REQ :: MessageId where "SIP_CALL_REGISTER_REQ \<equiv> MSG_OTHER 2009"
abbreviation SIP_CALL_REGISTER_ACK :: MessageId where "SIP_CALL_REGISTER_ACK \<equiv> MSG_OTHER 2010"
abbreviation SIP_CALL_REGISTER_NACK :: MessageId where "SIP_CALL_REGISTER_NACK \<equiv> MSG_OTHER 2011"
abbreviation SIP_CALL_UNREGISTER_REQ :: MessageId where "SIP_CALL_UNREGISTER_REQ \<equiv> MSG_OTHER 2012"
abbreviation SIP_CALL_UNREGISTER_EVT :: MessageId where "SIP_CALL_UNREGISTER_EVT \<equiv> MSG_OTHER 2013"
abbreviation MSG_MRCP_ALLOCATE_SESSION_REQ :: MessageId where "MSG_MRCP_ALLOCATE_SESSION_REQ \<equiv> MSG_OTHER 0"
abbreviation MSG_MRCP_ALLOCATE_SESSION_ACK :: MessageId where "MSG_MRCP_ALLOCATE_SESSION_ACK \<equiv> MSG_OTHER 1"
abbreviation MSG_MRCP_ALLOCATE_SESSION_NACK :: MessageId where "MSG_MRCP_ALLOCATE_SESSION_NACK \<equiv> MSG_OTHER 2"
abbreviation MSG_MRCP_SPEAK_REQ :: MessageId where "MSG_MRCP_SPEAK_REQ \<equiv> MSG_OTHER 3"
abbreviation MSG_MRCP_SPEAK_ACK :: MessageId where "MSG_MRCP_SPEAK_ACK \<equiv> MSG_OTHER 4"
abbreviation MSG_MRCP_SPEAK_NACK :: MessageId where "MSG_MRCP_SPEAK_NACK \<equiv> MSG_OTHER 5"
abbreviation MSG_MRCP_RECOGNIZE_REQ :: MessageId where "MSG_MRCP_RECOGNIZE_REQ \<equiv> MSG_OTHER 6"
abbreviation MSG_MRCP_RECOGNIZE_ACK :: MessageId where "MSG_MRCP_RECOGNIZE_ACK \<equiv> MSG_OTHER 7"
abbreviation MSG_MRCP_DEFINE_GRAMMAR_REQ :: MessageId where "MSG_MRCP_DEFINE_GRAMMAR_REQ \<equiv> MSG_OTHER 8"
abbreviation MSG_MRCP_DEFINE_GRAMMAR_ACK :: MessageId where "MSG_MRCP_DEFINE_GRAMMAR_ACK \<equiv> MSG_OTHER 9"
abbreviation MSG_MRCP_DEFINE_GRAMMAR_NACK :: MessageId where "MSG_MRCP_DEFINE_GRAMMAR_NACK \<equiv> MSG_OTHER 10"
abbreviation MSG_MRCP_RECOGNITION_COMPLETE_EVT :: MessageId where "MSG_MRCP_RECOGNITION_COMPLETE_EVT \<equiv> MSG_OTHER 11"
abbreviation MSG_MRCP_RECOGNIZE_NACK :: MessageId where "MSG_MRCP_RECOGNIZE_NACK \<equiv> MSG_OTHER 12"
abbreviation MSG_MRCP_STOP_SPEAK_REQ :: MessageId where "MSG_MRCP_STOP_SPEAK_REQ \<equiv> MSG_OTHER 13"
abbreviation MSG_MRCP_STOP_SPEAK_ACK :: MessageId where "MSG_MRCP_STOP_SPEAK_ACK \<equiv> MSG_OTHER 14"
abbreviation MSG_MRCP_STOP_SPEAK_NACK :: MessageId where "MSG_MRCP_STOP_SPEAK_NACK \<equiv> MSG_OTHER 15"
abbreviation MSG_MRCP_SPEAK_STOPPED_EVT :: MessageId where "MSG_MRCP_SPEAK_STOPPED_EVT \<equiv> MSG_OTHER 16"
abbreviation MSG_MRCP_TEARDOWN_REQ :: MessageId where "MSG_MRCP_TEARDOWN_REQ \<equiv> MSG_OTHER 17"
abbreviation MSG_MRCP_TEARDOWN_EVT :: MessageId where "MSG_MRCP_TEARDOWN_EVT \<equiv> MSG_OTHER 18"
abbreviation MSG_MRCP_MODIFY_REQ :: MessageId where "MSG_MRCP_MODIFY_REQ \<equiv> MSG_OTHER 19"
abbreviation MSG_MRCP_MODIFY_ACK :: MessageId where "MSG_MRCP_MODIFY_ACK \<equiv> MSG_OTHER 20"
abbreviation MSG_MRCP_MODIFY_NACK :: MessageId where "MSG_MRCP_MODIFY_NACK \<equiv> MSG_OTHER 21"
abbreviation MSG_WAITER_SUBMIT :: MessageId where "MSG_WAITER_SUBMIT \<equiv> MSG_OTHER 0"
abbreviation MSG_WAIT_ACK :: MessageId where "MSG_WAIT_ACK \<equiv> MSG_OTHER 1"

record IpcAdddress =
  handle_id :: int
  queue_path :: string

record AbstractOffer =
  offer_body :: string
  offer_type :: string

text \<open>
  \<open>call_data\<close> is \<^verbatim>\<open>MsgVoipCallMixin\<close> with the fields its subclasses add (the destination of
  a make-call or transfer request, the DTMF signal, the handle of the caller's handler and
  the handler pair of an offered call, the listener of a subscription).
  Handles are named by their UID; \<open>None\<close> is the null pointer.
\<close>

record call_data =
  stack_call_handle :: int
  ani :: string
  dnis :: string
  localOffer :: AbstractOffer
  remoteOffer :: AbstractOffer
  destination_uri :: string
  signal :: string
  handler_inbound :: "int option"
  call_handler :: "(int \<times> int) option"
  listener_handle :: "int option"

definition new_call_data :: call_data where
  "new_call_data = \<lparr>stack_call_handle = IW_UNDEFINED, ani = [], dnis = [],
     localOffer = \<lparr>offer_body = [], offer_type = []\<rparr>,
     remoteOffer = \<lparr>offer_body = [], offer_type = []\<rparr>,
     destination_uri = [], signal = [], handler_inbound = None, call_handler = None, listener_handle = None\<rparr>"

text \<open>
  \<^verbatim>\<open>RtpProxyMixin\<close> of \<^verbatim>\<open>iw_telephony/RtpProxySession.h\<close> with the fields of its requests and of the
  DTMF event.
\<close>

record rtp_data =
  rtp_proxy_handle :: int
  rtp_offer :: AbstractOffer
  rtp_handler :: "int option"
  output_conn :: int
  full_duplex :: bool
  rtp_signal :: string

definition new_rtp_data :: rtp_data where
  "new_rtp_data = \<lparr>rtp_proxy_handle = IW_UNDEFINED, rtp_offer = \<lparr>offer_body = [], offer_type = []\<rparr>,
     rtp_handler = None, output_conn = IW_UNDEFINED, full_duplex = False, rtp_signal = []\<rparr>"

text \<open>\<^verbatim>\<open>StreamMixin\<close> of \<^verbatim>\<open>iw_telephony/StreamingSession.h\<close>; device types by their enum number.\<close>

record stream_data =
  streamer_handle :: int
  stream_correlation_id :: int
  stream_offer :: AbstractOffer
  stream_handler :: "(int \<times> int) option"
  snd_device_type :: nat
  rcv_device_type :: nat
  file_name :: string
  loop_play :: bool

definition new_stream_data :: stream_data where
  "new_stream_data = \<lparr>streamer_handle = IW_UNDEFINED, stream_correlation_id = IW_UNDEFINED,
     stream_offer = \<lparr>offer_body = [], offer_type = []\<rparr>, stream_handler = None,
     snd_device_type = 0, rcv_device_type = 0, file_name = [], loop_play = False\<rparr>"

text \<open>\<^verbatim>\<open>RtspMixin\<close> of \<^verbatim>\<open>iw_telephony/RtspSession.h\<close>; the times are the bits of a double.\<close>

record rtsp_data =
  rtsp_handle :: int
  request_url :: string
  rtsp_offer :: AbstractOffer
  rtsp_start_time :: "64 word"
  rtsp_duration :: "64 word"
  rtsp_scale :: "64 word"

definition new_rtsp_data :: rtsp_data where
  "new_rtsp_data = \<lparr>rtsp_handle = IW_UNDEFINED, request_url = [],
     rtsp_offer = \<lparr>offer_body = [], offer_type = []\<rparr>,
     rtsp_start_time = 0, rtsp_duration = 0, rtsp_scale = 0x3FF0000000000000\<rparr>"

text \<open>\<^verbatim>\<open>MrcpMixin\<close> of \<^verbatim>\<open>iw_telephony/MrcpSession.h\<close>; the parameters are passed on unread.\<close>

datatype MrcpResource = UKNOWN_MRCP_RESOURCE | SYNTHESIZER | RECOGNIZER

record mrcp_data =
  mrcp_handle :: int
  mrcp_correlation_id :: int
  mrcp_params :: "(string, string) smap"
  mrcp_offer :: AbstractOffer
  mrcp_body :: string
  response_error_code :: int
  mrcp_handler :: "(int \<times> int) option"
  mrcp_resource :: MrcpResource

definition new_mrcp_data :: mrcp_data where
  "new_mrcp_data = \<lparr>mrcp_handle = IW_UNDEFINED, mrcp_correlation_id = IW_UNDEFINED, mrcp_params = [],
     mrcp_offer = \<lparr>offer_body = [], offer_type = []\<rparr>, mrcp_body = [],
     response_error_code = IW_UNDEFINED, mrcp_handler = None,
     mrcp_resource = UKNOWN_MRCP_RESOURCE\<rparr>"

text \<open>What the SIP messages of \<^verbatim>\<open>iw_telephony/SipCall.h\<close> add to the data of a call.\<close>

record sip_data =
  registration_id :: int
  subscription_handle :: int
  sip_contacts :: "string list"
  sip_dest :: string
  sip_credentials :: "string \<times> string \<times> string"
  events_package :: string
  subscription_time :: int
  refresh_interval :: int
  sip_offer :: AbstractOffer
  sip_handler :: "int option"
  sip_registrar :: string
  max_registration_time :: int
  registration_retry_time :: int

definition new_sip_data :: sip_data where
  "new_sip_data = \<lparr>registration_id = IW_UNDEFINED, subscription_handle = IW_UNDEFINED,
     sip_contacts = [], sip_dest = [], sip_credentials = ([], [], []), events_package = [],
     subscription_time = 0, refresh_interval = 0, sip_offer = \<lparr>offer_body = [], offer_type = []\<rparr>,
     sip_handler = None, sip_registrar = [], max_registration_time = IW_UNDEFINED,
     registration_retry_time = IW_UNDEFINED\<rparr>"

text \<open>The request and the answer of the process that waits for operating system handles.\<close>

record waiter_data =
  handle_to_wait :: int
  wait_timeout :: "32 word"
  wait_error_code :: "32 word"

datatype payload =
    NoPayload | ShutdownEvt int | CallPayload call_data | RtpPayload rtp_data
  | StreamPayload stream_data | RtspPayload rtsp_data | MrcpPayload mrcp_data
  | SipPayload call_data sip_data | WaiterPayload waiter_data

record iw_message =
  message_id :: MessageId
  source :: IpcAdddress
  dest :: IpcAdddress
  transaction_id :: int
  preferrable_ipc_interface :: int
  is_response :: bool
  payload :: payload

definition new_IpcAdddress :: IpcAdddress where
  "new_IpcAdddress = \<lparr>handle_id = IW_UNDEFINED, queue_path = []\<rparr>"

definition new_IwMessage :: "MessageId \<Rightarrow> iw_message" where
  "new_IwMessage mid = \<lparr>message_id = mid, source = new_IpcAdddress, dest = new_IpcAdddress,
     transaction_id = -1, preferrable_ipc_interface = IW_UNDEFINED, is_response = False,
     payload = NoPayload\<rparr>"

definition new_MsgResponse :: "MessageId \<Rightarrow> iw_message" where
  "new_MsgResponse mid = (new_IwMessage mid)\<lparr>is_response := True\<rparr>"

definition copy_data_on_response :: "iw_message \<Rightarrow> iw_message \<Rightarrow> iw_message" where
  "copy_data_on_response resp req = resp\<lparr>transaction_id := transaction_id req,
     dest := source req, preferrable_ipc_interface := preferrable_ipc_interface req\<rparr>"

lemma copy_data_fields [simp]:
  "message_id (copy_data_on_response resp req) = message_id resp"
  "transaction_id (copy_data_on_response resp req) = transaction_id req"
  "dest (copy_data_on_response resp req) = source req"
  "source (copy_data_on_response resp req) = source resp"
  "preferrable_ipc_interface (copy_data_on_response resp req) = preferrable_ipc_interface req"
  "payload (copy_data_on_response resp req) = payload resp"
  by (simp_all add: copy_data_on_response_def)

lemma new_message_fields [simp]:
  "message_id (new_IwMessage mid) = mid" "message_id (new_MsgResponse mid) = mid"
  "source (new_IwMessage mid) = new_IpcAdddress" "source (new_MsgResponse mid) = new_IpcAdddress"
  "handle_id new_IpcAdddress = IW_UNDEFINED"
  "preferrable_ipc_interface (new_IwMessage mid) = IW_UNDEFINED"
  by (simp_all add: new_IwMessage_def new_MsgResponse_def new_IpcAdddress_def)

end
