(* ===== verification/Iw_Media.thy ===== *)
theory Iw_Media
  imports Iw_Message
begin

unbundle bit_operations_syntax

text \<open>
  Media formats, transport addresses and session descriptions (\<^verbatim>\<open>iw_telephony/Telephony.cpp\<close>,
  \<^verbatim>\<open>iw_core/IwBase.cpp\<close>).  The parser of session descriptions belongs to a library that is not
  in the tree: what it returns is the record \<open>sdp_session\<close>, and the parser is a parameter.
\<close>

section \<open>Numbers as text\<close>

text \<open>The decimal digits of a number that is not negative.\<close>

function digits :: "int \<Rightarrow> string" where
  "digits n = (if n < 10 then [char_of (48 + n)] else digits (n div 10) @ [char_of (48 + n mod 10)])"
  by pat_completeness auto

termination by (relation "measure nat") auto

declare digits.simps [simp del]

definition itoa :: "int \<Rightarrow> string" where
  "itoa i = (if i < 0 then CHR ''-'' # digits (- i) else digits i)"

text \<open>\<^verbatim>\<open>_itoa_s\<close> into a buffer of ten characters fails when the text and its end do not fit.\<close>

definition itoa_s10 :: "int \<Rightarrow> string" where
  "itoa_s10 i = (if length (itoa i) < 10 then itoa i else ''INVALID'')"

section \<open>Transport addresses\<close>

text \<open>The address and the port are kept in network byte order, as in \<^verbatim>\<open>sockaddr_in\<close>.\<close>

record cnx_info =
  sin_addr :: "32 word"
  sin_port :: "16 word"

definition INADDR_NONE :: "32 word" where "INADDR_NONE = 0xFFFFFFFF"

definition htons :: "16 word \<Rightarrow> 16 word" where
  "htons p = push_bit 8 p OR drop_bit 8 p"

definition new_CnxInfo :: cnx_info where
  "new_CnxInfo = \<lparr>sin_addr = INADDR_NONE, sin_port = word_of_int IW_UNDEFINED\<rparr>"

definition CnxInfo_addr :: "32 word \<Rightarrow> int \<Rightarrow> cnx_info" where
  "CnxInfo_addr a p = \<lparr>sin_addr = a, sin_port = htons (word_of_int p)\<rparr>"

definition CnxInfo_host :: "(string \<Rightarrow> 32 word) \<Rightarrow> string \<Rightarrow> int \<Rightarrow> cnx_info" where
  "CnxInfo_host inet_addr host p = CnxInfo_addr (inet_addr host) p"

definition is_ip_valid :: "cnx_info \<Rightarrow> bool" where
  "is_ip_valid c \<longleftrightarrow> sin_addr c \<noteq> INADDR_NONE"

text \<open>The port is promoted to \<^verbatim>\<open>int\<close> for the comparison.\<close>

definition is_port_valid :: "cnx_info \<Rightarrow> bool" where
  "is_port_valid c \<longleftrightarrow> uint (sin_port c) \<noteq> IW_UNDEFINED"

text \<open>So every port is valid, that of an unset address included.\<close>

lemma is_port_valid_always [simp]: "is_port_valid c"
proof -
  have "0 \<le> uint (sin_port c)" by simp
  then show ?thesis unfolding is_port_valid_def IW_UNDEFINED_def by linarith
qed

definition port_ho :: "cnx_info \<Rightarrow> int" where
  "port_ho c = uint (htons (sin_port c))"

definition iptoa :: "cnx_info \<Rightarrow> string" where
  "iptoa c =
     (let a = sin_addr c; octet = (\<lambda>i. itoa (uint (drop_bit (8 * i) a AND 255)))
      in octet 0 @ ''.'' @ octet 1 @ ''.'' @ octet 2 @ ''.'' @ octet 3)"

definition ipporttos :: "cnx_info \<Rightarrow> string" where
  "ipporttos c = iptoa c @ '':'' @ itoa_s10 (port_ho c)"

section \<open>Media formats\<close>

datatype MediaType = MediaType_UNKNOWN | MediaType_SPEECH | MediaType_DTMF | MediaType_CN

record MediaFormat =
  mf_name :: string
  mf_rate :: int
  mf_mapping :: int
  mf_type :: MediaType

definition mf_UNKNOWN :: MediaFormat where
  "mf_UNKNOWN = \<lparr>mf_name = ''INVALID'', mf_rate = IW_UNDEFINED, mf_mapping = IW_UNDEFINED,
     mf_type = MediaType_UNKNOWN\<rparr>"

definition mf_PCMU :: MediaFormat where
  "mf_PCMU = \<lparr>mf_name = ''PCMU'', mf_rate = 8000, mf_mapping = 0, mf_type = MediaType_SPEECH\<rparr>"
definition mf_PCMA :: MediaFormat where
  "mf_PCMA = \<lparr>mf_name = ''PCMA'', mf_rate = 8000, mf_mapping = 8, mf_type = MediaType_SPEECH\<rparr>"
definition mf_SPEEX :: MediaFormat where
  "mf_SPEEX = \<lparr>mf_name = ''SPEEX'', mf_rate = 8000, mf_mapping = 97, mf_type = MediaType_SPEECH\<rparr>"
definition mf_DTMF_RFC2833 :: MediaFormat where
  "mf_DTMF_RFC2833 = \<lparr>mf_name = ''telephone-event'', mf_rate = 8000, mf_mapping = 101,
     mf_type = MediaType_DTMF\<rparr>"

definition mf_map :: "(string, MediaFormat) smap" where
  "mf_map = smap_insert ''telephone-event'' mf_DTMF_RFC2833 (smap_insert ''SPEEX'' mf_SPEEX
     (smap_insert ''PCMU'' mf_PCMU (smap_insert ''PCMA'' mf_PCMA [])))"

definition GetMediaFormat :: "string \<Rightarrow> MediaFormat" where
  "GetMediaFormat nm = (case smap_find mf_map nm of None \<Rightarrow> mf_UNKNOWN | Some f \<Rightarrow> f)"

definition GetMediaType :: "string \<Rightarrow> MediaType" where
  "GetMediaType nm = mf_type (GetMediaFormat nm)"

definition new_MediaFormat :: "string \<Rightarrow> int \<Rightarrow> int \<Rightarrow> MediaType \<Rightarrow> MediaFormat" where
  "new_MediaFormat nm rate mapping mt =
     \<lparr>mf_name = nm, mf_rate = rate, mf_mapping = mapping,
      mf_type = (if mt = MediaType_UNKNOWN then GetMediaType nm else mt)\<rparr>"

definition get_sdp_a :: "MediaFormat \<Rightarrow> string" where
  "get_sdp_a f = ''a=rtpmap:'' @ itoa_s10 (mf_mapping f) @ '' '' @ mf_name f @ ''/'' @ itoa_s10 (mf_rate f)"

text \<open>\<^verbatim>\<open>operator ==\<close> leaves the media type out.\<close>

definition mf_eq :: "MediaFormat \<Rightarrow> MediaFormat \<Rightarrow> bool" where
  "mf_eq f g \<longleftrightarrow> mf_mapping g = mf_mapping f \<and> mf_rate g = mf_rate f \<and> mf_name g = mf_name f"

section \<open>Types of offers\<close>

fun find_first_of :: "char \<Rightarrow> string \<Rightarrow> nat option" where
  "find_first_of c [] = None"
| "find_first_of c (x # xs) = (if x = c then Some 0 else map_option Suc (find_first_of c xs))"

definition offer_Type :: "string \<Rightarrow> string" where
  "offer_Type s =
     (case find_first_of (CHR ''/'') s of
        None \<Rightarrow> s | Some i \<Rightarrow> if i = 0 then s else take i s)"

definition offer_SubType :: "string \<Rightarrow> string" where
  "offer_SubType s =
     (case find_first_of (CHR ''/'') s of
        None \<Rightarrow> [] | Some i \<Rightarrow> if i = length s then [] else take (length s - (i + 1)) (drop (i + 1) s))"

section \<open>Session descriptions\<close>

text \<open>
  A codec is its name, rate and payload type; the connections of a medium are their host
  names.
\<close>

record sdp_medium =
  sm_name :: string
  sm_port :: int
  sm_connections :: "string list"
  sm_codecs :: "(string \<times> int \<times> int) list"

record sdp_session =
  ss_address :: string
  ss_media :: "sdp_medium list"

record medium =
  med_connection :: cnx_info
  med_list :: "MediaFormat list"
  med_dtmf :: MediaFormat
  med_cn :: MediaFormat

definition new_medium :: medium where
  "new_medium = \<lparr>med_connection = new_CnxInfo, med_list = [], med_dtmf = mf_UNKNOWN, med_cn = mf_UNKNOWN\<rparr>"

definition to_lower :: "char \<Rightarrow> char" where
  "to_lower c = (if CHR ''A'' \<le> c \<and> c \<le> CHR ''Z'' then char_of (of_char c + 32 :: int) else c)"

definition add_codec :: "string \<times> int \<times> int \<Rightarrow> medium \<Rightarrow> medium" where
  "add_codec codec res =
     (let (nm, rate, pt) = codec;
          res1 = (if nm = ''CN'' then res\<lparr>med_cn := new_MediaFormat nm rate pt MediaType_CN\<rparr>
                  else if nm = ''telephone-event''
                  then res\<lparr>med_dtmf := new_MediaFormat nm rate pt MediaType_DTMF\<rparr> else res)
      in res1\<lparr>med_list := med_list res1 @ [new_MediaFormat nm rate pt MediaType_UNKNOWN]\<rparr>)"

text \<open>\<open>None\<close>: the parser has thrown.\<close>

definition first_audio_medium :: "(string \<Rightarrow> 32 word) \<Rightarrow> sdp_session option \<Rightarrow> medium" where
  "first_audio_medium inet_addr so =
     (case so of
        None \<Rightarrow> new_medium
      | Some s \<Rightarrow>
          (case find (\<lambda>m. map to_lower (sm_name m) = ''audio'') (ss_media s) of
             None \<Rightarrow> new_medium
           | Some m \<Rightarrow>
               fold add_codec (sm_codecs m)
                 (new_medium\<lparr>med_connection :=
                    (case sm_connections m of
                       [] \<Rightarrow> CnxInfo_host inet_addr (ss_address s) (sm_port m)
                     | h # _ \<Rightarrow> CnxInfo_host inet_addr h (sm_port m))\<rparr>)))"

definition append_codec_list :: "medium \<Rightarrow> string" where
  "append_codec_list m = concat (map (\<lambda>f. '' '' @ itoa (mf_mapping f)) (med_list m))"

definition CRLF :: string where "CRLF = [CHR 0x0D, CHR 0x0A]"

definition append_rtp_map :: "medium \<Rightarrow> string" where
  "append_rtp_map m = concat (map (\<lambda>f. get_sdp_a f @ CRLF) (med_list m))"

end
