(* ===== verification/Json_Spirit.thy ===== *)
theory Json_Spirit
  imports Iw_Media
begin

text \<open>
  The configuration format (\<^verbatim>\<open>json_spirit\<close>): values, the semantic actions that build a value
  while a text is parsed, and the writer.  The parser itself is the Spirit library, which is not
  in the tree: parsing a text amounts to the list of semantic actions it calls, in order, and
  whether it consumed the whole text.  Characters are bytes (the code is instantiated at
  \<^verbatim>\<open>std::string\<close>).
\<close>

section \<open>Values\<close>

text \<open>Integers are 64 bits wide; a real is the bits of a \<^verbatim>\<open>double\<close>.\<close>

datatype json =
    JObj "(string \<times> json) list"
  | JArr "json list"
  | JStr string
  | JBool bool
  | JInt "64 word"
  | JReal "64 word"
  | JNull

datatype value_type = obj_type | array_type | str_type | bool_type | int_type | real_type | null_type

fun type_of :: "json \<Rightarrow> value_type" where
  "type_of (JObj ps) = obj_type"
| "type_of (JArr vs) = array_type"
| "type_of (JStr s) = str_type"
| "type_of (JBool b) = bool_type"
| "type_of (JInt i) = int_type"
| "type_of (JReal d) = real_type"
| "type_of JNull = null_type"

text \<open>Every accessor asserts the type of the value.\<close>

datatype json_fault = Assertion | Empty_stack | Null_pointer

fun get_obj :: "json \<Rightarrow> json_fault + (string \<times> json) list" where
  "get_obj (JObj ps) = Inr ps"
| "get_obj _ = Inl Assertion"

text \<open>\<^verbatim>\<open>get_int\<close> narrows the stored integer to 32 bits.\<close>

fun get_int :: "json \<Rightarrow> json_fault + 32 word" where
  "get_int (JInt i) = Inr (ucast i)"
| "get_int _ = Inl Assertion"

section \<open>Reading: strings\<close>

abbreviation code_at :: "char \<Rightarrow> int" where
  "code_at c \<equiv> of_char c"

definition BACKSLASH :: char where "BACKSLASH = CHR 0x5C"
definition QUOTE :: char where "QUOTE = CHR 0x22"

definition hex_to_num :: "char \<Rightarrow> int" where
  "hex_to_num c =
     (if 48 \<le> code_at c \<and> code_at c \<le> 57 then code_at c - 48
      else if 97 \<le> code_at c \<and> code_at c \<le> 102 then code_at c - 97 + 10
      else if 65 \<le> code_at c \<and> code_at c \<le> 70 then code_at c - 65 + 10
      else 0)"

text \<open>The result is a \<^verbatim>\<open>char\<close>: \<open>char_of\<close> keeps the low eight bits.\<close>

definition hex_str_to_char :: "char \<Rightarrow> char \<Rightarrow> char" where
  "hex_str_to_char c1 c2 = char_of (hex_to_num c1 * 16 + hex_to_num c2)"

definition unicode_str_to_char :: "char \<Rightarrow> char \<Rightarrow> char \<Rightarrow> char \<Rightarrow> char" where
  "unicode_str_to_char c1 c2 c3 c4 =
     char_of (hex_to_num c1 * 4096 + hex_to_num c2 * 256 + hex_to_num c3 * 16 + hex_to_num c4)"

text \<open>
  One escape: the character after the backslash and what follows it, and how many characters of
  what follows are consumed.  An escape that is not known, or whose digits are missing, adds
  nothing.
\<close>

fun escape :: "char \<Rightarrow> string \<Rightarrow> string \<times> nat" where
  "escape c2 rest =
     (if c2 = CHR ''t'' then ([CHR 0x09], 0)
      else if c2 = CHR ''b'' then ([CHR 0x08], 0)
      else if c2 = CHR ''f'' then ([CHR 0x0C], 0)
      else if c2 = CHR ''n'' then ([CHR 0x0A], 0)
      else if c2 = CHR ''r'' then ([CHR 0x0D], 0)
      else if c2 = BACKSLASH then ([BACKSLASH], 0)
      else if c2 = CHR ''/'' then (''/'', 0)
      else if c2 = QUOTE then ([QUOTE], 0)
      else if c2 = CHR ''x'' then
        (case rest of d1 # d2 # _ \<Rightarrow> ([hex_str_to_char d1 d2], 2) | _ \<Rightarrow> ([], 0))
      else if c2 = CHR ''u'' then
        (case rest of
           d1 # d2 # d3 # d4 # _ \<Rightarrow> ([unicode_str_to_char d1 d2 d3 d4], 4) | _ \<Rightarrow> ([], 0))
      else ([], 0))"

declare escape.simps [simp del]

text \<open>The loop of \<^verbatim>\<open>substitute_esc_chars\<close>; a backslash at the very end is kept.\<close>

function esc_loop :: "string \<Rightarrow> string" where
  "esc_loop [] = []"
| "esc_loop [c] = [c]"
| "esc_loop (c1 # c2 # cs) =
     (if c1 = BACKSLASH then fst (escape c2 cs) @ esc_loop (drop (snd (escape c2 cs)) cs)
      else c1 # esc_loop (c2 # cs))"
  by pat_completeness auto

termination by (relation "measure length") auto

definition substitute_esc_chars :: "string \<Rightarrow> string" where
  "substitute_esc_chars s = (if length s < 2 then s else esc_loop s)"

text \<open>The text of a string with its quotes.\<close>

definition get_str :: "string \<Rightarrow> json_fault + string" where
  "get_str t = (if length t < 2 then Inl Assertion else Inr (substitute_esc_chars (butlast (tl t))))"

section \<open>Reading: semantic actions\<close>

text \<open>
  A pointer into the value under construction is the path from the root: the index of a child at
  every level.  \<open>sa_current\<close> is \<^verbatim>\<open>current_p_\<close>, with \<open>None\<close> for the null pointer, and the last
  element of \<open>sa_stack\<close> is the top of \<^verbatim>\<open>stack_\<close>.
\<close>

type_synonym path = "nat list"

fun get_at :: "path \<Rightarrow> json \<Rightarrow> json option" where
  "get_at [] v = Some v"
| "get_at (i # p) (JArr vs) = (if i < length vs then get_at p (vs ! i) else None)"
| "get_at (i # p) (JObj ps) = (if i < length ps then get_at p (snd (ps ! i)) else None)"
| "get_at (i # p) _ = None"

fun upd_at :: "path \<Rightarrow> (json \<Rightarrow> json) \<Rightarrow> json \<Rightarrow> json" where
  "upd_at [] f v = f v"
| "upd_at (i # p) f (JArr vs) = (if i < length vs then JArr (vs[i := upd_at p f (vs ! i)]) else JArr vs)"
| "upd_at (i # p) f (JObj ps) =
     (if i < length ps then JObj (ps[i := (fst (ps ! i), upd_at p f (snd (ps ! i)))]) else JObj ps)"
| "upd_at (i # p) f v = v"

record semantic_actions =
  sa_value :: json
  sa_current :: "path option"
  sa_stack :: "path list"
  sa_name :: string

definition new_actions :: "json \<Rightarrow> semantic_actions" where
  "new_actions v = \<lparr>sa_value = v, sa_current = None, sa_stack = [], sa_name = []\<rparr>"

definition add_first :: "json \<Rightarrow> semantic_actions \<Rightarrow> json_fault + semantic_actions" where
  "add_first v s =
     (if sa_current s \<noteq> None then Inl Assertion
      else Inr (s\<lparr>sa_value := v, sa_current := Some []\<rparr>))"

fun append_child :: "string \<Rightarrow> json \<Rightarrow> json \<Rightarrow> json" where
  "append_child n v (JArr vs) = JArr (vs @ [v])"
| "append_child n v (JObj ps) = JObj (ps @ [(n, v)])"
| "append_child n v w = w"

definition add_to_current :: "json \<Rightarrow> semantic_actions \<Rightarrow> json_fault + semantic_actions" where
  "add_to_current v s =
     (case sa_current s of
        None \<Rightarrow> add_first v s
      | Some p \<Rightarrow> Inr (s\<lparr>sa_value := upd_at p (append_child (sa_name s) v) (sa_value s)\<rparr>))"

text \<open>
  After the new child is added, the current pointer goes to the last child, through
  \<^verbatim>\<open>get_array().back()\<close> or \<^verbatim>\<open>get_obj().back().value_\<close>.
\<close>

fun last_child :: "json option \<Rightarrow> json_fault + nat" where
  "last_child (Some (JArr vs)) = Inr (length vs - 1)"
| "last_child (Some (JObj ps)) = Inr (length ps - 1)"
| "last_child _ = Inl Assertion"

definition begin_compound :: "json \<Rightarrow> semantic_actions \<Rightarrow> json_fault + semantic_actions" where
  "begin_compound new s =
     (case sa_current s of
        None \<Rightarrow> add_first new s
      | Some p \<Rightarrow>
          bnd (add_to_current new (s\<lparr>sa_stack := sa_stack s @ [p]\<rparr>)) (\<lambda>s1.
          bnd (last_child (get_at p (sa_value s1))) (\<lambda>i.
          Inr (s1\<lparr>sa_current := Some (p @ [i])\<rparr>))))"

definition end_compound :: "semantic_actions \<Rightarrow> json_fault + semantic_actions" where
  "end_compound s =
     (if sa_current s \<noteq> Some [] then
        (if sa_stack s = [] then Inl Empty_stack
         else Inr (s\<lparr>sa_current := Some (last (sa_stack s)), sa_stack := butlast (sa_stack s)\<rparr>))
      else Inr s)"

text \<open>The names and strings carry the text that was matched, quotes included.\<close>

datatype json_action =
    Begin_obj | End_obj | Begin_array | End_array
  | New_name string | New_str string | New_true | New_false | New_null
  | New_int "64 word" | New_real "64 word"

fun perform :: "json_action \<Rightarrow> semantic_actions \<Rightarrow> json_fault + semantic_actions" where
  "perform Begin_obj s = begin_compound (JObj []) s"
| "perform End_obj s = end_compound s"
| "perform Begin_array s = begin_compound (JArr []) s"
| "perform End_array s = end_compound s"
| "perform (New_name t) s =
     (case sa_current s of
        None \<Rightarrow> Inl Null_pointer
      | Some p \<Rightarrow>
          (if map_option type_of (get_at p (sa_value s)) \<noteq> Some obj_type then Inl Assertion
           else bnd (get_str t) (\<lambda>n. Inr (s\<lparr>sa_name := n\<rparr>))))"
| "perform (New_str t) s = bnd (get_str t) (\<lambda>x. add_to_current (JStr x) s)"
| "perform New_true s = add_to_current (JBool True) s"
| "perform New_false s = add_to_current (JBool False) s"
| "perform New_null s = add_to_current JNull s"
| "perform (New_int i) s = add_to_current (JInt i) s"
| "perform (New_real d) s = add_to_current (JReal d) s"

fun perform_all :: "json_action list \<Rightarrow> semantic_actions \<Rightarrow> json_fault + semantic_actions" where
  "perform_all [] s = Inr s"
| "perform_all (a # as) s = bnd (perform a s) (perform_all as)"

text \<open>
  \<open>parse\<close> is the Spirit parser with the grammar of the reader: the actions it calls for a text,
  and whether it consumed all of it (\<^verbatim>\<open>parse_info::full\<close>).
\<close>

definition read_string ::
  "(string \<Rightarrow> json_action list \<times> bool) \<Rightarrow> string \<Rightarrow> json \<Rightarrow> json_fault + (bool \<times> json)" where
  "read_string parse text v =
     (case parse text of (acts, full) \<Rightarrow>
        bnd (perform_all acts (new_actions v)) (\<lambda>s. Inr (full, sa_value s)))"

text \<open>
  Where the productions of the grammar put the actions: the actions called for a text whose
  structure is that of the value, with \<open>q\<close> the text of a string in it.
\<close>

primrec grammar_actions :: "(string \<Rightarrow> string) \<Rightarrow> json \<Rightarrow> json_action list" where
  "grammar_actions q (JObj ps) =
     Begin_obj # concat (map (\<lambda>(n, as). New_name (q n) # as) (map (map_prod id (grammar_actions q)) ps)) @
     [End_obj]"
| "grammar_actions q (JArr vs) = Begin_array # concat (map (grammar_actions q) vs) @ [End_array]"
| "grammar_actions q (JStr s) = [New_str (q s)]"
| "grammar_actions q (JBool b) = [if b then New_true else New_false]"
| "grammar_actions q (JInt i) = [New_int i]"
| "grammar_actions q (JReal d) = [New_real d]"
| "grammar_actions q JNull = [New_null]"

section \<open>Writing\<close>

definition to_hex :: "int \<Rightarrow> char" where
  "to_hex c = char_of (if c < 10 then 48 + c else 65 + c - 10)"

definition non_printable_to_string :: "int \<Rightarrow> string" where
  "non_printable_to_string c =
     [BACKSLASH, CHR ''u'', to_hex (c div 4096 mod 16), to_hex (c div 256 mod 16),
      to_hex (c div 16 mod 16), to_hex (c mod 16)]"

definition add_esc_char :: "char \<Rightarrow> string option" where
  "add_esc_char c =
     (if c = QUOTE then Some [BACKSLASH, QUOTE]
      else if c = BACKSLASH then Some [BACKSLASH, BACKSLASH]
      else if c = CHR 0x08 then Some [BACKSLASH, CHR ''b'']
      else if c = CHR 0x0C then Some [BACKSLASH, CHR ''f'']
      else if c = CHR 0x0A then Some [BACKSLASH, CHR ''n'']
      else if c = CHR 0x0D then Some [BACKSLASH, CHR ''r'']
      else if c = CHR 0x09 then Some [BACKSLASH, CHR ''t'']
      else None)"

text \<open>\<open>pr\<close> is the \<^verbatim>\<open>iswprint\<close> of the locale, on the code of the byte read as unsigned.\<close>

fun add_esc_chars :: "(int \<Rightarrow> bool) \<Rightarrow> string \<Rightarrow> string" where
  "add_esc_chars pr [] = []"
| "add_esc_chars pr (c # cs) =
     (case add_esc_char c of
        Some e \<Rightarrow> e
      | None \<Rightarrow> if pr (code_at c) then [c] else non_printable_to_string (code_at c)) @
     add_esc_chars pr cs"

definition quoted :: "(int \<Rightarrow> bool) \<Rightarrow> string \<Rightarrow> string" where
  "quoted pr s = QUOTE # add_esc_chars pr s @ [QUOTE]"

end
