(* ===== verification/Iw_Config.thy ===== *)
theory Iw_Config
  imports Json_Spirit
begin

text \<open>
  The configuration (\<^verbatim>\<open>iw_core/JSONConfiguration.cpp\<close>): options found by a path of names
  through the objects of the file, read with the type the caller expects.
\<close>

section \<open>Errors\<close>

text \<open>
  A \<^verbatim>\<open>configuration_exception\<close> thrown by value and the same thrown as a pointer are different:
  handlers for the class do not catch the pointer.
\<close>

datatype config_error =
    Configuration_exception string
  | Configuration_exception_pointer string
  | Failed_assertion
  | Uninitialized_string

section \<open>Finding a value\<close>

text \<open>The first pair of that name; \<^verbatim>\<open>Value::null\<close> when there is none.\<close>

fun find_value :: "(string \<times> json) list \<Rightarrow> string \<Rightarrow> json" where
  "find_value [] name = JNull"
| "find_value ((n, v) # ps) name = (if n = name then v else find_value ps name)"

text \<open>\<^verbatim>\<open>name.find_first_of("/")\<close>: what is before the first separator and after it.\<close>

fun split_path :: "string \<Rightarrow> (string \<times> string) option" where
  "split_path [] = None"
| "split_path (c # cs) =
     (if c = CHR ''/'' then Some ([], cs)
      else map_option (\<lambda>(a, b). (c # a, b)) (split_path cs))"

lemma split_path_length [termination_simp]: "split_path s = Some (a, b) \<Longrightarrow> length b < length s"
  by (induction s arbitrary: a) (auto split: if_splits)

fun query_value_with_path :: "(string \<times> json) list \<Rightarrow> string \<Rightarrow> config_error + json" where
  "query_value_with_path obj name =
     (case split_path name of
        None \<Rightarrow> Inr (find_value obj name)
      | Some (next_parent_key, remainder) \<Rightarrow>
          (case find_value obj next_parent_key of
             JObj ps \<Rightarrow> query_value_with_path ps remainder
           | _ \<Rightarrow> Inl (Configuration_exception
                        ''path not found, next_parent_key is not an object'')))"

declare query_value_with_path.simps [simp del]

text \<open>The root is read with \<^verbatim>\<open>get_obj\<close>, whose assertion fails when it is not an object.\<close>

definition query_root :: "json \<Rightarrow> string \<Rightarrow> config_error + json" where
  "query_root root name =
     (case get_obj root of
        Inl _ \<Rightarrow> Inl Failed_assertion
      | Inr obj \<Rightarrow> query_value_with_path obj name)"

section \<open>Typed access\<close>

definition GetInt :: "json \<Rightarrow> string \<Rightarrow> config_error + 32 word" where
  "GetInt root name =
     bnd (query_root root name) (\<lambda>v. case v of
       JInt i \<Rightarrow> Inr (ucast i)
     | _ \<Rightarrow> Inl (Configuration_exception (name @ '' does not exist or not int type'')))"

definition GetBool :: "json \<Rightarrow> string \<Rightarrow> config_error + bool" where
  "GetBool root name =
     bnd (query_root root name) (\<lambda>v. case v of
       JBool b \<Rightarrow> Inr b
     | _ \<Rightarrow> Inl (Configuration_exception (name @ '' does not exist or not bool type'')))"

text \<open>
  \<open>env\<close> is the environment of the process.  For a variable that is not set, \<^verbatim>\<open>getenv_s\<close> leaves
  the buffer as \<^verbatim>\<open>malloc\<close> returned it, and the code makes a string of it.
\<close>

definition get_env_variable_as_str :: "(string \<Rightarrow> string option) \<Rightarrow> string \<Rightarrow> config_error + string" where
  "get_env_variable_as_str env x =
     (case env x of None \<Rightarrow> Inl Uninitialized_string | Some s \<Rightarrow> Inr s)"

definition GetString :: "(string \<Rightarrow> string option) \<Rightarrow> json \<Rightarrow> string \<Rightarrow> config_error + string" where
  "GetString env root name =
     bnd (query_root root name) (\<lambda>v. case v of
       JStr s \<Rightarrow> (case s of
           c # cs \<Rightarrow> if c = CHR ''$'' then get_env_variable_as_str env cs else Inr s
         | [] \<Rightarrow> Inr s)
     | _ \<Rightarrow> Inl (Configuration_exception (name @ '' does not exist or not string type'')))"

text \<open>Only an exception of the class itself is caught.\<close>

definition HasOption :: "json \<Rightarrow> string \<Rightarrow> config_error + bool" where
  "HasOption root name =
     (case query_root root name of
        Inr v \<Rightarrow> Inr (type_of v \<noteq> null_type)
      | Inl (Configuration_exception _) \<Rightarrow> Inr False
      | Inl e \<Rightarrow> Inl e)"

text \<open>The elements handed out: what \<^verbatim>\<open>boost::any\<close> can hold here.\<close>

datatype any = Any_str string | Any_bool bool | Any_int "32 word" | Any_real "64 word"

fun array_items :: "json list \<Rightarrow> config_error + any list" where
  "array_items [] = Inr []"
| "array_items (v # vs) =
     (case v of
        JStr s \<Rightarrow> bnd (array_items vs) (\<lambda>r. Inr (Any_str s # r))
      | JBool b \<Rightarrow> bnd (array_items vs) (\<lambda>r. Inr (Any_bool b # r))
      | JInt i \<Rightarrow> bnd (array_items vs) (\<lambda>r. Inr (Any_int (ucast i) # r))
      | JReal d \<Rightarrow> bnd (array_items vs) (\<lambda>r. Inr (Any_real d # r))
      | _ \<Rightarrow> Inl (Configuration_exception_pointer ''not supported JSON type. (TBD)''))"

definition GetArray :: "json \<Rightarrow> string \<Rightarrow> config_error + any list" where
  "GetArray root name =
     bnd (query_root root name) (\<lambda>v. case v of
       JArr vs \<Rightarrow> array_items vs
     | _ \<Rightarrow> Inl (Configuration_exception (name @ '' does not exist or not array type'')))"

section \<open>Loading\<close>

text \<open>
  \<open>file\<close> is the text of the file, \<open>None\<close> when it cannot be read (the stream is then empty), and
  \<open>reopens\<close> whether it opens again for the dump.  The result is the code and the new root.
\<close>

definition InitFromFile ::
  "(string \<Rightarrow> json_action list \<times> bool) \<Rightarrow> string option \<Rightarrow> bool \<Rightarrow> json \<Rightarrow>
   config_error + (ApiErrorCode \<times> json)" where
  "InitFromFile parse file reopens root =
     (case read_string parse (case file of None \<Rightarrow> [] | Some t \<Rightarrow> t) root of
        Inl _ \<Rightarrow> Inl Failed_assertion
      | Inr (False, root') \<Rightarrow> Inr (API_FAILURE, root')
      | Inr (True, root') \<Rightarrow>
          bnd (HasOption root' ''dump_configuration'') (\<lambda>has.
          bnd (if has then GetBool root' ''dump_configuration'' else Inr False) (\<lambda>dump.
          Inr (if dump \<and> \<not> reopens then API_FAILURE else API_SUCCESS, root'))))"

text \<open>The factory returns the configuration even when it could not be read.\<close>

definition CreateJsonConfiguration ::
  "(string \<Rightarrow> json_action list \<times> bool) \<Rightarrow> string option \<Rightarrow> bool \<Rightarrow>
   config_error + (ApiErrorCode \<times> json)" where
  "CreateJsonConfiguration parse file reopens = InitFromFile parse file reopens JNull"

end
