(* ===== verification/Iw_CmdLine.thy ===== *)
theory Iw_CmdLine
  imports Iw_Message
begin

text \<open>
  The command line of the executables (\<^verbatim>\<open>iw_core/CmdLine.cpp\<close>): a map from switches to their
  arguments.
\<close>

type_synonym cmd_line = "(string, string list) smap"

definition is_digit :: "char \<Rightarrow> bool" where
  "is_digit c \<longleftrightarrow> 48 \<le> (of_char c :: nat) \<and> (of_char c :: nat) \<le> 57"

definition IsSwitch :: "string \<Rightarrow> bool" where
  "IsSwitch p \<longleftrightarrow> 1 < length p \<and> p ! 0 = CHR ''-'' \<and> \<not> is_digit (p ! 1)"

text \<open>\<^verbatim>\<open>std::map::insert\<close> leaves the value of a key that is there.\<close>

definition insert_new :: "string \<Rightarrow> string list \<Rightarrow> cmd_line \<Rightarrow> cmd_line" where
  "insert_new k v m = (if smap_find m k = None then smap_insert k v m else m)"

text \<open>
  The loop over the arguments after the name of the program.  A switch takes the next argument
  with it, unless that is a switch; other arguments go to the last switch seen.
\<close>

fun split_loop :: "string list \<Rightarrow> string \<Rightarrow> cmd_line \<Rightarrow> cmd_line" where
  "split_loop [] curParam m = m"
| "split_loop (a # rest) curParam m =
     (if IsSwitch a then
        (case rest of
           b # rest' \<Rightarrow>
             if \<not> IsSwitch b
             then split_loop rest' a (insert_new a (if b \<noteq> [] then [b] else []) m)
             else split_loop rest a (insert_new a [] m)
         | [] \<Rightarrow> split_loop rest a (insert_new a [] m))
      else
        (case smap_find m curParam of
           Some ss \<Rightarrow> split_loop rest curParam (smap_insert curParam (ss @ [a]) m)
         | None \<Rightarrow> split_loop rest curParam m))"

definition SplitLine :: "string list \<Rightarrow> cmd_line" where
  "SplitLine argv = split_loop (tl argv) [] []"

definition switch_count :: "string list \<Rightarrow> int" where
  "switch_count argv = int (length (SplitLine argv))"

definition HasSwitch :: "cmd_line \<Rightarrow> string \<Rightarrow> bool" where
  "HasSwitch m pSwitch \<longleftrightarrow> smap_find m pSwitch \<noteq> None"

text \<open>
  The index is compared with the unsigned size, so a negative one is too large.  The exception is
  the integer 0.
\<close>

definition GetArgument :: "cmd_line \<Rightarrow> string \<Rightarrow> 32 word \<Rightarrow> int + string" where
  "GetArgument m pSwitch iIdx =
     (case smap_find m pSwitch of
        Some ss \<Rightarrow> if unat iIdx < length ss then Inr (ss ! unat iIdx) else Inl 0
      | None \<Rightarrow> Inl 0)"

definition GetSafeArgument :: "cmd_line \<Rightarrow> string \<Rightarrow> 32 word \<Rightarrow> string option \<Rightarrow> string" where
  "GetSafeArgument m pSwitch iIdx pDefault =
     (case GetArgument m pSwitch iIdx of
        Inr s \<Rightarrow> s
      | Inl _ \<Rightarrow> (case pDefault of Some d \<Rightarrow> d | None \<Rightarrow> []))"

definition GetArgumentCount :: "cmd_line \<Rightarrow> string \<Rightarrow> int" where
  "GetArgumentCount m pSwitch =
     (case smap_find m pSwitch of Some ss \<Rightarrow> int (length ss) | None \<Rightarrow> - 1)"

section \<open>What the arguments of a switch are\<close>

text \<open>The line cut at its switches: every occurrence with the arguments that follow it.\<close>

fun segments :: "string list \<Rightarrow> (string \<times> string list) list" where
  "segments [] = []"
| "segments (a # rest) =
     (if IsSwitch a then (a, takeWhile (\<lambda>x. \<not> IsSwitch x) rest) # segments rest else segments rest)"

text \<open>
  The first occurrence of a switch gives its arguments, without an empty one right after the
  switch.  Every later occurrence gives its arguments but the first.
\<close>

fun collected :: "string list list \<Rightarrow> string list option" where
  "collected [] = None"
| "collected (xs # later) =
     Some ((if xs \<noteq> [] \<and> hd xs = [] then tl xs else xs) @ concat (map tl later))"

definition leading :: "string list \<Rightarrow> string list" where
  "leading line = takeWhile (\<lambda>x. \<not> IsSwitch x) line"

definition occurrences :: "string \<Rightarrow> string list \<Rightarrow> string list list" where
  "occurrences k line = map snd (filter (\<lambda>s. fst s = k) (segments line))"

lemma leading_simps [simp]:
  "leading [] = []"
  "leading (a # rest) = (if IsSwitch a then [] else a # leading rest)"
  by (simp_all add: leading_def)

lemma occurrences_simps [simp]:
  "occurrences k [] = []"
  "occurrences k (a # rest) =
     (if IsSwitch a \<and> a = k then leading rest # occurrences k rest else occurrences k rest)"
  by (auto simp: occurrences_def leading_def)

lemma find_insert_new:
  "smap_find (insert_new k v m) j =
     (if smap_find m k = None \<and> j = k then Some v else smap_find m j)"
  by (simp add: insert_new_def smap_find_insert)

text \<open>What the loop has collected for one switch, from any state of the map.\<close>

lemma split_loop_find:
  "smap_find (split_loop line cur m) k =
     (case smap_find m k of
        Some ss \<Rightarrow> Some (ss @ (if k = cur then leading line else []) @ concat (map tl (occurrences k line)))
      | None \<Rightarrow> collected (occurrences k line))"
proof (induction line cur m rule: split_loop.induct)
  case (1 cur m)
  then show ?case by (simp split: option.splits)
next
  case (2 a rest cur m)
  show ?case
  proof (cases "IsSwitch a")
    case True
    then show ?thesis
      using 2 by (cases rest) (auto simp: find_insert_new split: option.splits)
  next
    case False
    then show ?thesis
      using 2 by (cases "smap_find m cur")
        (auto simp: smap_find_insert split: option.splits)
  qed
qed

end
