(* ===== verification/Json_Facts.thy ===== *)
theory Json_Facts
  imports Json_Spirit
begin

text \<open>
  What the reader and the writer of the configuration format guarantee: a string comes back from
  its escaped text, and the semantic actions of a text rebuild the value.
\<close>

section \<open>Strings\<close>

lemma esc_loop_plain: "c \<noteq> BACKSLASH \<Longrightarrow> esc_loop (c # t) = c # esc_loop t"
  by (cases t) auto

lemma esc_loop_escape:
  "esc_loop (BACKSLASH # e # t) = fst (escape e t) @ esc_loop (drop (snd (escape e t)) t)"
  by simp

lemma hex_to_num_to_hex [simp]: "0 \<le> d \<Longrightarrow> d < 16 \<Longrightarrow> hex_to_num (to_hex d) = d"
  by (simp add: hex_to_num_def to_hex_def)

lemma unicode_roundtrip:
  assumes "0 \<le> n" "n < 65536"
  shows "unicode_str_to_char (to_hex (n div 4096 mod 16)) (to_hex (n div 256 mod 16))
           (to_hex (n div 16 mod 16)) (to_hex (n mod 16)) = char_of n"
proof -
  have steps: "n div 256 = n div 16 div 16" "n div 4096 = n div 16 div 16 div 16"
    by (simp_all add: zdiv_zmult2_eq [symmetric])
  have top: "n div 16 div 16 div 16 mod 16 = n div 16 div 16 div 16"
    using assms by (simp add: zdiv_zmult2_eq [symmetric])
  have "n div 4096 mod 16 * 4096 + n div 256 mod 16 * 256 + n div 16 mod 16 * 16 + n mod 16 = n"
    using div_mult_mod_eq [of n 16] div_mult_mod_eq [of "n div 16" 16]
      div_mult_mod_eq [of "n div 16 div 16" 16] unfolding steps top by linarith
  then show ?thesis
    by (simp only: unicode_str_to_char_def hex_to_num_to_hex pos_mod_sign pos_mod_bound zero_less_numeral)
qed

lemma code_at_range: "0 \<le> code_at c" "code_at c < 256"
proof -
  have "code_at c mod 256 = code_at c" by (rule of_char_mod_256)
  then show "0 \<le> code_at c" "code_at c < 256"
    using pos_mod_bound [of 256 "code_at c"] pos_mod_sign [of 256 "code_at c"] by simp_all
qed

lemma esc_unicode:
  "esc_loop (BACKSLASH # CHR ''u'' # a # b # c # d # t) = unicode_str_to_char a b c d # esc_loop t"
  by (simp add: escape.simps BACKSLASH_def QUOTE_def)

lemma esc_loop_char: "esc_loop (add_esc_chars pr [c] @ t) = c # esc_loop t"
proof (cases "add_esc_char c")
  case None
  then have "c \<noteq> BACKSLASH"
    by (auto simp: add_esc_char_def BACKSLASH_def QUOTE_def split: if_splits)
  moreover have "unicode_str_to_char (to_hex (code_at c div 4096 mod 16)) (to_hex (code_at c div 256 mod 16))
      (to_hex (code_at c div 16 mod 16)) (to_hex (code_at c mod 16)) = c"
    by (rule trans [OF unicode_roundtrip]) (use code_at_range [of c] in auto)
  ultimately show ?thesis
    using None by (cases "pr (code_at c)")
      (simp_all only: add_esc_chars.simps option.case if_True if_False append_Nil append_Nil2 append_Cons
        esc_loop_plain esc_unicode non_printable_to_string_def not_False_eq_True)
next
  case (Some e)
  then show ?thesis
    by (auto simp: add_esc_char_def escape.simps BACKSLASH_def QUOTE_def split: if_splits)
qed

lemma add_esc_chars_Cons: "add_esc_chars pr (c # cs) = add_esc_chars pr [c] @ add_esc_chars pr cs"
  by (simp split: option.splits)

lemma esc_loop_add_esc_chars: "esc_loop (add_esc_chars pr s) = s"
proof (induction s)
  case (Cons c cs)
  then show ?case by (simp only: add_esc_chars_Cons [of pr c cs] esc_loop_char)
qed simp

lemma esc_loop_short: "length t < 2 \<Longrightarrow> esc_loop t = t"
  by (cases t rule: esc_loop.cases) auto

lemma substitute_is_loop: "substitute_esc_chars t = esc_loop t"
  by (simp add: substitute_esc_chars_def esc_loop_short)

lemma get_str_quoted: "get_str (quoted pr s) = Inr s"
  by (simp add: get_str_def quoted_def substitute_is_loop esc_loop_add_esc_chars)

section \<open>Pointers into the value\<close>

lemma get_upd_at: "get_at p v = Some w \<Longrightarrow> get_at p (upd_at p f v) = Some (f w)"
  by (induction p f v rule: upd_at.induct) (auto split: if_splits)

lemma upd_upd_at: "get_at p v = Some w \<Longrightarrow> upd_at p g (upd_at p f v) = upd_at p (\<lambda>x. g (f x)) v"
  by (induction p f v rule: upd_at.induct) (auto split: if_splits)

lemma upd_at_cong: "get_at p v = Some w \<Longrightarrow> f w = g w \<Longrightarrow> upd_at p f v = upd_at p g v"
  by (induction p f v rule: upd_at.induct) (auto split: if_splits)

lemma upd_at_same: "get_at p v = Some w \<Longrightarrow> upd_at p (\<lambda>_. w) v = v"
  by (induction p v rule: get_at.induct) (auto split: if_splits)

lemma get_at_append: "get_at (p @ q) v = Option.bind (get_at p v) (get_at q)"
  by (induction p v rule: get_at.induct) auto

lemma upd_at_append:
  "get_at p v = Some w \<Longrightarrow> upd_at (p @ q) f v = upd_at p (upd_at q f) v"
  by (induction p "upd_at q f" v rule: upd_at.induct) (auto split: if_splits)

text \<open>A state in which the current pointer is valid, and what is at it.\<close>

definition at_current :: "semantic_actions \<Rightarrow> path \<Rightarrow> json \<Rightarrow> bool" where
  "at_current s p w \<longleftrightarrow> sa_current s = Some p \<and> get_at p (sa_value s) = Some w"

fun is_compound :: "json \<Rightarrow> bool" where
  "is_compound (JArr vs) = True"
| "is_compound (JObj ps) = True"
| "is_compound v = False"

text \<open>Where the child that is added next will be.\<close>

fun children :: "json \<Rightarrow> nat" where
  "children (JArr vs) = length vs"
| "children (JObj ps) = length ps"
| "children v = 0"

text \<open>Adding one value under the current pointer.\<close>

definition added :: "json \<Rightarrow> path \<Rightarrow> semantic_actions \<Rightarrow> semantic_actions" where
  "added v p s = s\<lparr>sa_value := upd_at p (append_child (sa_name s) v) (sa_value s)\<rparr>"

lemma add_to_current_at: "at_current s p w \<Longrightarrow> add_to_current v s = Inr (added v p s)"
  by (simp add: at_current_def add_to_current_def added_def)

lemma at_current_added:
  "at_current s p w \<Longrightarrow> at_current (added v p s) p (append_child (sa_name s) v w)"
  by (simp add: at_current_def added_def get_upd_at)

lemma last_child_append:
  "is_compound w \<Longrightarrow> last_child (Some (append_child n v w)) = Inr (children w)"
  by (cases w) auto

lemma get_at_child: "is_compound w \<Longrightarrow> get_at [children w] (append_child n v w) = Some v"
  by (cases w) auto

lemma upd_at_child:
  "is_compound w \<Longrightarrow> upd_at [children w] f (append_child n v w) = append_child n (f v) w"
  by (cases w) auto

section \<open>The actions of a text rebuild its value\<close>

lemma perform_all_append: "perform_all (xs @ ys) s = bnd (perform_all xs s) (perform_all ys)"
proof (induction xs arbitrary: s)
  case (Cons a xs)
  then show ?case by (cases "perform a s") simp_all
qed simp

text \<open>The state right after a nested object or array was begun, and after it was filled.\<close>

definition opened :: "json \<Rightarrow> path \<Rightarrow> nat \<Rightarrow> semantic_actions \<Rightarrow> semantic_actions" where
  "opened e p k s = (added e p (s\<lparr>sa_stack := sa_stack s @ [p]\<rparr>))\<lparr>sa_current := Some (p @ [k])\<rparr>"

definition filled :: "json \<Rightarrow> path \<Rightarrow> string \<Rightarrow> semantic_actions \<Rightarrow> semantic_actions" where
  "filled v p n s = s\<lparr>sa_value := upd_at p (\<lambda>_. v) (sa_value s), sa_name := n\<rparr>"

lemma at_current_stack: "at_current (s\<lparr>sa_stack := st\<rparr>) p w = at_current s p w"
  by (simp add: at_current_def)

lemma begin_compound_at:
  assumes "at_current s p w" "is_compound w"
  shows "begin_compound e s = Inr (opened e p (children w) s)"
proof -
  let ?s = "s\<lparr>sa_stack := sa_stack s @ [p]\<rparr>"
  have "at_current ?s p w" using assms(1) by (simp add: at_current_stack)
  then have "add_to_current e ?s = Inr (added e p ?s)"
    "get_at p (sa_value (added e p ?s)) = Some (append_child (sa_name ?s) e w)"
    using at_current_added [of ?s p w e] by (simp_all add: add_to_current_at at_current_def)
  then show ?thesis
    using assms by (simp add: begin_compound_def at_current_def opened_def last_child_append)
qed

lemma at_current_opened:
  assumes "at_current s p w" "is_compound w"
  shows "at_current (opened e p (children w) s) (p @ [children w]) e"
  using assms by (simp add: at_current_def opened_def added_def get_at_append get_upd_at get_at_child)

lemma end_compound_filled:
  assumes "at_current s p w" "is_compound w"
  shows "end_compound (filled v (p @ [children w]) n (opened e p (children w) s)) =
    Inr ((added v p s)\<lparr>sa_name := n\<rparr>)"
proof -
  let ?V = "sa_value s" and ?a = "append_child (sa_name s)"
  have at: "get_at p ?V = Some w" and cur: "sa_current s = Some p"
    using assms(1) by (simp_all add: at_current_def)
  have "upd_at (p @ [children w]) (\<lambda>_. v) (upd_at p (?a e) ?V) =
      upd_at p (\<lambda>x. upd_at [children w] (\<lambda>_. v) (?a e x)) ?V"
    using get_upd_at [OF at] by (simp only: upd_at_append upd_upd_at [OF at])
  also have "\<dots> = upd_at p (?a v) ?V"
    by (rule upd_at_cong [OF at]) (rule upd_at_child [OF assms(2)])
  finally show ?thesis
    using cur by (simp add: end_compound_def filled_def opened_def added_def)
qed

text \<open>Values one after the other into an array, named values into an object.\<close>

definition adds :: "(string \<Rightarrow> string) \<Rightarrow> json \<Rightarrow> bool" where
  "adds q v \<longleftrightarrow> (\<forall>s p w. at_current s p w \<and> is_compound w \<longrightarrow>
     (\<exists>n. perform_all (grammar_actions q v) s = Inr ((added v p s)\<lparr>sa_name := n\<rparr>)))"

lemma addsE:
  assumes "adds q v" "at_current s p w" "is_compound w"
  obtains n where "perform_all (grammar_actions q v) s = Inr ((added v p s)\<lparr>sa_name := n\<rparr>)"
  using assms unfolding adds_def by blast

lemma filled_same: "at_current s p w \<Longrightarrow> filled w p (sa_name s) s = s"
  by (simp add: at_current_def filled_def upd_at_same)

lemma array_items_fill:
  assumes "\<forall>v \<in> set vs. adds q v" "at_current s p (JArr xs)"
  shows "\<exists>n. perform_all (concat (map (grammar_actions q) vs)) s = Inr (filled (JArr (xs @ vs)) p n s)"
  using assms
proof (induction vs arbitrary: s xs)
  case Nil
  then have "filled (JArr (xs @ [])) p (sa_name s) s = s"
    using filled_same [of s p "JArr xs"] by simp
  then show ?case by (metis concat.simps(1) list.simps(8) perform_all.simps(1))
next
  case (Cons v vs)
  obtain n where n: "perform_all (grammar_actions q v) s = Inr ((added v p s)\<lparr>sa_name := n\<rparr>)"
    using Cons.prems addsE [of q v s p "JArr xs"] by auto
  let ?s = "(added v p s)\<lparr>sa_name := n\<rparr>"
  have "at_current ?s p (JArr (xs @ [v]))"
    using at_current_added [OF Cons.prems(2), of v] by (simp add: at_current_def)
  then obtain m where "perform_all (concat (map (grammar_actions q) vs)) ?s =
      Inr (filled (JArr (xs @ v # vs)) p m ?s)"
    using Cons.IH [of ?s "xs @ [v]"] Cons.prems(1) by auto
  moreover have "filled (JArr (xs @ v # vs)) p m ?s = filled (JArr (xs @ v # vs)) p m s"
    using Cons.prems(2) by (simp add: filled_def added_def at_current_def upd_upd_at)
  ultimately show ?case using n by (auto simp: perform_all_append)
qed

definition named_actions :: "(string \<Rightarrow> string) \<Rightarrow> (string \<times> json) list \<Rightarrow> json_action list" where
  "named_actions q ps =
     concat (map (\<lambda>(n, as). New_name (q n) # as) (map (map_prod id (grammar_actions q)) ps))"

lemma named_actions_simps [simp]:
  "named_actions q [] = []"
  "named_actions q ((k, v) # ps) = New_name (q k) # grammar_actions q v @ named_actions q ps"
  by (simp_all add: named_actions_def)

lemma grammar_actions_JObj: "grammar_actions q (JObj ps) = Begin_obj # named_actions q ps @ [End_obj]"
  by (simp add: named_actions_def)

lemma rename_exists: "\<exists>n. t = t\<lparr>sa_name := n\<rparr>"
  by (rule exI [of _ "sa_name t"]) simp

lemma object_items_fill:
  assumes "\<forall>x \<in> set qs. adds q (snd x)" "\<And>t. get_str (q t) = Inr t" "at_current s p (JObj ps)"
  shows "\<exists>n. perform_all
      (named_actions q qs) s =
    Inr (filled (JObj (ps @ qs)) p n s)"
  using assms
proof (induction qs arbitrary: s ps)
  case Nil
  then have "filled (JObj (ps @ [])) p (sa_name s) s = s"
    using filled_same [of s p "JObj ps"] by simp
  then show ?case by (metis named_actions_simps(1) perform_all.simps(1))
next
  case (Cons x qs)
  obtain k v where x: "x = (k, v)" by (cases x)
  let ?s0 = "s\<lparr>sa_name := k\<rparr>"
  have at0: "at_current ?s0 p (JObj ps)" using Cons.prems(3) by (simp add: at_current_def)
  have name: "perform (New_name (q k)) s = Inr ?s0"
    using Cons.prems(2,3) by (simp add: at_current_def)
  obtain n where n: "perform_all (grammar_actions q v) ?s0 = Inr ((added v p ?s0)\<lparr>sa_name := n\<rparr>)"
    using Cons.prems(1) at0 x addsE [of q v ?s0 p "JObj ps"] by auto
  let ?s = "(added v p ?s0)\<lparr>sa_name := n\<rparr>"
  have "at_current ?s p (JObj (ps @ [(k, v)]))"
    using at_current_added [OF at0, of v] by (simp add: at_current_def)
  then obtain m where "perform_all
      (named_actions q qs) ?s =
      Inr (filled (JObj (ps @ (k, v) # qs)) p m ?s)"
    using Cons.IH [of ?s "ps @ [(k, v)]"] Cons.prems(1,2) by auto
  moreover have "filled (JObj (ps @ (k, v) # qs)) p m ?s = filled (JObj (ps @ (k, v) # qs)) p m s"
    using Cons.prems(3) by (simp add: filled_def added_def at_current_def upd_upd_at)
  ultimately show ?case using n x name by (auto simp: perform_all_append simp del: perform.simps)
qed

lemma end_filled:
  assumes "at_current s p w" "is_compound w" "perform_all acts (opened e p (children w) s) =
      Inr (filled v (p @ [children w]) n (opened e p (children w) s))"
  shows "bnd (begin_compound e s) (\<lambda>t. bnd (perform_all acts t) end_compound) =
    Inr ((added v p s)\<lparr>sa_name := n\<rparr>)"
  using assms by (simp add: begin_compound_at end_compound_filled)

lemma grammar_actions_add:
  assumes q: "\<And>t. get_str (q t) = Inr t"
  shows "adds q v"
proof (induction v)
  case (JObj qs)
  have all: "\<forall>x \<in> set qs. adds q (snd x)" using JObj by (metis snds.intros prod.collapse)
  show ?case unfolding adds_def
  proof (intro allI impI, elim conjE)
    fix s p w assume w: "at_current s p w" "is_compound w"
    from object_items_fill [OF all q at_current_opened [OF w, of "JObj []"]]
    obtain n where "perform_all
        (named_actions q qs)
        (opened (JObj []) p (children w) s) =
        Inr (filled (JObj qs) (p @ [children w]) n (opened (JObj []) p (children w) s))"
      by auto
    from end_filled [OF w this]
    show "\<exists>n. perform_all (grammar_actions q (JObj qs)) s = Inr ((added (JObj qs) p s)\<lparr>sa_name := n\<rparr>)"
      by (auto simp: perform_all_append grammar_actions_JObj simp del: grammar_actions.simps(1))
  qed
next
  case (JArr vs)
  have all: "\<forall>v \<in> set vs. adds q v" using JArr by simp
  show ?case unfolding adds_def
  proof (intro allI impI, elim conjE)
    fix s p w assume w: "at_current s p w" "is_compound w"
    from array_items_fill [OF all at_current_opened [OF w, of "JArr []"]]
    obtain n where "perform_all (concat (map (grammar_actions q) vs)) (opened (JArr []) p (children w) s) =
        Inr (filled (JArr vs) (p @ [children w]) n (opened (JArr []) p (children w) s))"
      by auto
    from end_filled [OF w this]
    show "\<exists>n. perform_all (grammar_actions q (JArr vs)) s = Inr ((added (JArr vs) p s)\<lparr>sa_name := n\<rparr>)"
      by (auto simp: perform_all_append)
  qed
qed (auto simp: adds_def add_to_current_at q rename_exists)

end
