(* ===== verification/Iw_Handle.thy ===== *)
theory Iw_Handle
  imports Iw_Message
begin

text \<open>
  Message handles (\<^verbatim>\<open>iw_core/LpHandle.cpp\<close>) over the buffered channels of the CSP
  library (\<^verbatim>\<open>kentcsp/kentcsp/src/buffered_channel.h\<close>, \<^verbatim>\<open>channel_buffers.h\<close>): the bounded
  FIFO with its poison flag, the interruptors, and the operations of one handle: send,
  read, poison, the single-reader check.  A handle is a value here; the heap of
  handles and the waiting operations are in the theory \<open>Iw_World\<close>.
\<close>

section \<open>Channels of the CSP library\<close>

definition MAX_MESSAGES_IN_QUEUE :: nat where
  "MAX_MESSAGES_IN_QUEUE = 1000"

record 'a channel =
  buffer :: "'a list"
  isPoisoned :: bool

text \<open>\<open>WouldWait\<close>: the caller is descheduled until the other side acts.\<close>

datatype chan_exn = PoisonException | WouldWait

definition new_channel :: "'a channel" where
  "new_channel = \<lparr>buffer = [], isPoisoned = False\<rparr>"

definition outputWouldSucceed :: "'a channel \<Rightarrow> bool" where
  "outputWouldSucceed c \<longleftrightarrow> length (buffer c) + 1 \<le> MAX_MESSAGES_IN_QUEUE"

definition chan_output :: "'a \<Rightarrow> 'a channel \<Rightarrow> chan_exn + 'a channel" where
  "chan_output x c =
     (if isPoisoned c then Inl PoisonException
      else if \<not> outputWouldSucceed c then Inl WouldWait
      else Inr (c\<lparr>buffer := buffer c @ [x]\<rparr>))"

definition chan_input :: "'a channel \<Rightarrow> chan_exn + ('a \<times> 'a channel)" where
  "chan_input c =
     (case buffer c of
        [] \<Rightarrow> if isPoisoned c then Inl PoisonException else Inl WouldWait
      | x # xs \<Rightarrow> Inr (x, c\<lparr>buffer := xs\<rparr>))"

definition chan_pending :: "'a channel \<Rightarrow> bool" where
  "chan_pending c \<longleftrightarrow> buffer c \<noteq> [] \<or> isPoisoned c"

definition poisonIn :: "'a channel \<Rightarrow> 'a channel" where
  "poisonIn c = c\<lparr>isPoisoned := True, buffer := []\<rparr>"

definition poisonOut :: "'a channel \<Rightarrow> 'a channel" where
  "poisonOut c = c\<lparr>isPoisoned := True\<rparr>"

section \<open>Handles\<close>

datatype fault =
    Terminate  \<comment> \<open>a bare \<^verbatim>\<open>throw;\<close> with no exception in flight\<close>
  | Critical_exception
  | Null_deref
  | Blocked    \<comment> \<open>the caller waits for ever on a full or an empty channel\<close>

datatype HandleDirection =
  MSG_DIRECTION_UNDEFINED | MSG_DIRECTION_INBOUND | MSG_DIRECTION_OUTBOUND

text \<open>The count is that of the OS object: semaphore units or queued completions.\<close>

datatype interruptor = SemaphoreInterruptor nat | IocpInterruptor nat

fun SignalDataIn :: "interruptor \<Rightarrow> fault + interruptor" where
  "SignalDataIn (SemaphoreInterruptor n) =
     (if n + 1 \<le> MAX_MESSAGES_IN_QUEUE then Inr (SemaphoreInterruptor (n + 1))
      else Inl Terminate)"
| "SignalDataIn (IocpInterruptor n) = Inr (IocpInterruptor (n + 1))"

type_synonym fiber = "int \<times> int"

record lp_handle =
  hnd_name :: string
  hnd_direction :: HandleDirection
  hnd_channel :: "iw_message channel"
  hnd_interruptor :: "interruptor option"
  hnd_reader :: "fiber option"
  hnd_size :: int

definition new_LpHandle :: lp_handle where
  "new_LpHandle = \<lparr>hnd_name = [], hnd_direction = MSG_DIRECTION_UNDEFINED,
     hnd_channel = new_channel, hnd_interruptor = None, hnd_reader = None, hnd_size = 0\<rparr>"

definition signal_in :: "lp_handle \<Rightarrow> fault + lp_handle" where
  "signal_in h =
     (case hnd_interruptor h of
        None \<Rightarrow> Inr h
      | Some i \<Rightarrow> bnd (SignalDataIn i) (\<lambda>i'. Inr (h\<lparr>hnd_interruptor := Some i'\<rparr>)))"

definition stamp_source :: "int \<Rightarrow> iw_message \<Rightarrow> iw_message" where
  "stamp_source lpid m =
     (if handle_id (source m) = IW_UNDEFINED
      then m\<lparr>source := (source m)\<lparr>handle_id := lpid\<rparr>\<rparr> else m)"

definition LpHandle_Send ::
  "int \<Rightarrow> iw_message \<Rightarrow> lp_handle \<Rightarrow> fault + (ApiErrorCode \<times> lp_handle)" where
  "LpHandle_Send lpid msg h =
     (case chan_output (stamp_source lpid msg) (hnd_channel h) of
        Inl PoisonException \<Rightarrow> Inr (API_FAILURE, h)
      | Inl WouldWait \<Rightarrow> Inl Blocked
      | Inr c \<Rightarrow>
          bnd (signal_in (h\<lparr>hnd_channel := c, hnd_size := hnd_size h + 1\<rparr>))
            (\<lambda>h'. Inr (API_SUCCESS, h')))"

definition CheckReader :: "fiber \<Rightarrow> lp_handle \<Rightarrow> fault + lp_handle" where
  "CheckReader me h =
     (case hnd_reader h of
        None \<Rightarrow> Inr (h\<lparr>hnd_reader := Some me\<rparr>)
      | Some r \<Rightarrow> if r \<noteq> me then Inl Terminate else Inr h)"

definition InboundPending :: "fiber \<Rightarrow> lp_handle \<Rightarrow> fault + (bool \<times> lp_handle)" where
  "InboundPending me h =
     bnd (CheckReader me h) (\<lambda>h'. Inr (chan_pending (hnd_channel h'), h'))"

definition LpHandle_Poison :: "lp_handle \<Rightarrow> lp_handle" where
  "LpHandle_Poison h = h\<lparr>hnd_channel := poisonOut (poisonIn (hnd_channel h))\<rparr>"

definition PoisonedForWrite :: "lp_handle \<Rightarrow> bool" where
  "PoisonedForWrite h \<longleftrightarrow> isPoisoned (hnd_channel h)"

text \<open>\<open>None\<close> is \<^verbatim>\<open>NULL_MSG\<close>, what a read of a poisoned handle gives.\<close>

definition LpHandle_Read ::
  "fiber \<Rightarrow> lp_handle \<Rightarrow> fault + (iw_message option \<times> lp_handle)" where
  "LpHandle_Read me h =
     bnd (CheckReader me h) (\<lambda>h1.
       case chan_input (hnd_channel h1) of
         Inl PoisonException \<Rightarrow> Inr (None, h1)
       | Inl WouldWait \<Rightarrow> Inl Blocked
       | Inr (m, c) \<Rightarrow> Inr (Some m, h1\<lparr>hnd_channel := c, hnd_size := hnd_size h1 - 1\<rparr>))"

section \<open>The queue a channel promises\<close>

text \<open>
  What the clients of a channel rely on: an open channel below its capacity accepts,
  and the elements come out in the order they went in.
\<close>

fun put_all :: "('a \<Rightarrow> 'q \<Rightarrow> 'e + 'q) \<Rightarrow> 'a list \<Rightarrow> 'q \<Rightarrow> 'e + 'q" where
  "put_all put [] q = Inr q"
| "put_all put (x # xs) q = bnd (put x q) (put_all put xs)"

fun get_n :: "('q \<Rightarrow> 'e + ('a \<times> 'q)) \<Rightarrow> nat \<Rightarrow> 'q \<Rightarrow> 'e + ('a list \<times> 'q)" where
  "get_n get 0 q = Inr ([], q)"
| "get_n get (Suc n) q =
     bnd (get q) (\<lambda>(x, q'). bnd (get_n get n q') (\<lambda>(xs, q''). Inr (x # xs, q'')))"

locale bounded_fifo =
  fixes contents :: "'q \<Rightarrow> 'a list"
    and is_open :: "'q \<Rightarrow> bool"
    and put :: "'a \<Rightarrow> 'q \<Rightarrow> 'e + 'q"
    and get :: "'q \<Rightarrow> 'e + ('a \<times> 'q)"
    and cap :: nat
  assumes put_ok: "is_open q \<Longrightarrow> length (contents q) < cap \<Longrightarrow>
      \<exists>q'. put x q = Inr q' \<and> contents q' = contents q @ [x] \<and> is_open q'"
    and get_ok: "is_open q \<Longrightarrow> contents q = x # xs \<Longrightarrow>
      \<exists>q'. get q = Inr (x, q') \<and> contents q' = xs \<and> is_open q'"
begin

lemma put_all_ok:
  "is_open q \<Longrightarrow> length (contents q) + length xs \<le> cap \<Longrightarrow>
     \<exists>q'. put_all put xs q = Inr q' \<and> contents q' = contents q @ xs \<and> is_open q'"
proof (induction xs arbitrary: q)
  case (Cons x xs)
  from Cons.prems obtain q1 where q1: "put x q = Inr q1" "contents q1 = contents q @ [x]" "is_open q1"
    using put_ok [of q x] by auto
  with Cons.IH [of q1] Cons.prems show ?case by auto
qed simp

lemma get_n_ok:
  "is_open q \<Longrightarrow> contents q = xs @ ys \<Longrightarrow>
     \<exists>q'. get_n get (length xs) q = Inr (xs, q') \<and> contents q' = ys \<and> is_open q'"
proof (induction xs arbitrary: q)
  case (Cons x xs)
  then obtain q1 where "get q = Inr (x, q1)" "contents q1 = xs @ ys" "is_open q1"
    using get_ok [of q x "xs @ ys"] by auto
  with Cons.IH [of q1] show ?case by auto
qed simp

theorem fifo_order:
  assumes "is_open q" and "contents q = []" and "length xs \<le> cap"
  shows "\<exists>q' q''. put_all put xs q = Inr q' \<and> get_n get (length xs) q' = Inr (xs, q'') \<and>
           contents q'' = []"
  using put_all_ok [of q xs] get_n_ok [of _ xs "[]"] assms by fastforce

end

interpretation chan: bounded_fifo buffer "\<lambda>c. \<not> isPoisoned c" chan_output chan_input
  MAX_MESSAGES_IN_QUEUE
  by unfold_locales (auto simp: chan_output_def chan_input_def outputWouldSucceed_def)

text \<open>
  A handle with no interruptor, read by one fiber, is the same queue of messages, as
  long as the messages carry their sender.
\<close>

definition handle_put :: "iw_message \<Rightarrow> lp_handle \<Rightarrow> fault + lp_handle" where
  "handle_put m h = bnd (LpHandle_Send IW_UNDEFINED m h)
     (\<lambda>(r, h'). if IW_FAILURE r then Inl Terminate else Inr h')"

definition handle_get :: "fiber \<Rightarrow> lp_handle \<Rightarrow> fault + (iw_message \<times> lp_handle)" where
  "handle_get me h = bnd (LpHandle_Read me h)
     (\<lambda>(m, h'). case m of None \<Rightarrow> Inl Null_deref | Some x \<Rightarrow> Inr (x, h'))"

section \<open>Lemmas on single handles\<close>

lemma stamp_source_id [simp]: "handle_id (source m) \<noteq> IW_UNDEFINED \<Longrightarrow> stamp_source l m = m"
  by (simp add: stamp_source_def)

lemma stamp_source_undefined [simp]: "stamp_source IW_UNDEFINED m = m"
  by (simp add: stamp_source_def)

lemma stamp_source_fields [simp]:
  "message_id (stamp_source l m) = message_id m"
  "transaction_id (stamp_source l m) = transaction_id m"
  "dest (stamp_source l m) = dest m" "payload (stamp_source l m) = payload m"
  by (simp_all add: stamp_source_def)

text \<open>The size counter agrees with the queue for as long as the handle is not poisoned.\<close>

definition handle_ok :: "lp_handle \<Rightarrow> bool" where
  "handle_ok h \<longleftrightarrow>
     (\<not> isPoisoned (hnd_channel h) \<longrightarrow> hnd_size h = int (length (buffer (hnd_channel h)))) \<and>
     length (buffer (hnd_channel h)) \<le> MAX_MESSAGES_IN_QUEUE"

lemma handle_ok_new [simp]: "handle_ok new_LpHandle"
  by (simp add: handle_ok_def new_LpHandle_def new_channel_def)

lemma signal_in_channel:
  "signal_in h = Inr h' \<Longrightarrow> hnd_channel h' = hnd_channel h \<and> hnd_size h' = hnd_size h \<and>
     hnd_reader h' = hnd_reader h"
  by (auto simp: signal_in_def split: option.splits)

lemma Send_success:
  assumes "LpHandle_Send l m h = Inr (API_SUCCESS, h')"
  shows "buffer (hnd_channel h') = buffer (hnd_channel h) @ [stamp_source l m] \<and>
    \<not> isPoisoned (hnd_channel h) \<and> \<not> isPoisoned (hnd_channel h') \<and>
    hnd_size h' = hnd_size h + 1 \<and> hnd_reader h' = hnd_reader h"
  using assms
  by (auto simp: LpHandle_Send_def chan_output_def split: sum.splits chan_exn.splits if_splits
      dest!: signal_in_channel)

lemma Send_code:
  "LpHandle_Send l m h = Inr (r, h') \<Longrightarrow>
     (r = API_SUCCESS \<longleftrightarrow> \<not> isPoisoned (hnd_channel h)) \<and> (r \<noteq> API_SUCCESS \<longrightarrow> h' = h)"
  by (auto simp: LpHandle_Send_def chan_output_def split: sum.splits chan_exn.splits if_splits)

lemma Send_ok: "handle_ok h \<Longrightarrow> LpHandle_Send l m h = Inr (r, h') \<Longrightarrow> handle_ok h'"
  by (auto simp: LpHandle_Send_def chan_output_def handle_ok_def outputWouldSucceed_def
      split: sum.splits chan_exn.splits if_splits dest!: signal_in_channel)

lemma CheckReader_frame:
  "CheckReader me h = Inr h' \<Longrightarrow>
     hnd_channel h' = hnd_channel h \<and> hnd_size h' = hnd_size h \<and> hnd_reader h' = Some me \<and>
     hnd_interruptor h' = hnd_interruptor h"
  by (auto simp: CheckReader_def split: option.splits if_splits)

lemma Read_Some:
  "LpHandle_Read me h = Inr (Some m, h') \<Longrightarrow>
     buffer (hnd_channel h) = m # buffer (hnd_channel h') \<and>
     isPoisoned (hnd_channel h') = isPoisoned (hnd_channel h) \<and> hnd_size h' = hnd_size h - 1"
  by (auto simp: LpHandle_Read_def chan_input_def split: sum.splits chan_exn.splits list.splits
      if_splits dest!: CheckReader_frame)

lemma Read_None:
  "LpHandle_Read me h = Inr (None, h') \<Longrightarrow>
     isPoisoned (hnd_channel h) \<and> buffer (hnd_channel h) = [] \<and> hnd_channel h' = hnd_channel h
     \<and> hnd_size h' = hnd_size h"
  by (auto simp: LpHandle_Read_def chan_input_def split: sum.splits chan_exn.splits list.splits
      if_splits dest!: CheckReader_frame)

lemma Read_ok: "handle_ok h \<Longrightarrow> LpHandle_Read me h = Inr (m, h') \<Longrightarrow> handle_ok h'"
  by (cases m) (auto simp: handle_ok_def dest!: Read_Some Read_None)

lemma Poison_ok: "handle_ok h \<Longrightarrow> handle_ok (LpHandle_Poison h)"
  by (simp add: LpHandle_Poison_def handle_ok_def poisonIn_def poisonOut_def)

lemma Poison_Send: "LpHandle_Send l m (LpHandle_Poison h) = Inr (API_FAILURE, LpHandle_Poison h)"
  by (simp add: LpHandle_Send_def LpHandle_Poison_def poisonIn_def poisonOut_def chan_output_def)

interpretation hq: bounded_fifo "\<lambda>h. buffer (hnd_channel h)"
  "\<lambda>h. \<not> isPoisoned (hnd_channel h) \<and> hnd_interruptor h = None \<and> hnd_reader h = Some me"
  handle_put "handle_get me" MAX_MESSAGES_IN_QUEUE for me
proof
  fix q :: lp_handle and x
  assume "\<not> isPoisoned (hnd_channel q) \<and> hnd_interruptor q = None \<and> hnd_reader q = Some me"
    and "length (buffer (hnd_channel q)) < MAX_MESSAGES_IN_QUEUE"
  then show "\<exists>q'. handle_put x q = Inr q' \<and>
      buffer (hnd_channel q') = buffer (hnd_channel q) @ [x] \<and>
      \<not> isPoisoned (hnd_channel q') \<and> hnd_interruptor q' = None \<and> hnd_reader q' = Some me"
    by (simp add: handle_put_def LpHandle_Send_def chan_output_def outputWouldSucceed_def
        signal_in_def IW_FAILURE_def)
next
  fix q :: lp_handle and x xs
  assume "\<not> isPoisoned (hnd_channel q) \<and> hnd_interruptor q = None \<and> hnd_reader q = Some me"
    and "buffer (hnd_channel q) = x # xs"
  then show "\<exists>q'. handle_get me q = Inr (x, q') \<and> buffer (hnd_channel q') = xs \<and>
      \<not> isPoisoned (hnd_channel q') \<and> hnd_interruptor q' = None \<and> hnd_reader q' = Some me"
    by (simp add: handle_get_def LpHandle_Read_def CheckReader_def chan_input_def)
qed

end
