(* ===== verification/Iw_World.thy ===== *)
theory Iw_World
  imports Iw_Handle
begin

text \<open>
  The state the lightweight processes share: the heap of handles (by object UID), the
  local process registrar (\<^verbatim>\<open>iw_core/LocalProcessRegistrar.cpp\<close>), the UID and transaction
  counters, the clock, and the future: what the other processes will do to the handles
  and when, as an explicit timeline.  Waiting operations consume the timeline, so a
  theorem for every world is a theorem for every interleaving with the other processes.
  \<open>w_fibers\<close> is the thread-local map of running contexts (by process id).  The registrar's
  mutex makes each of its operations one step here.
\<close>

section \<open>The shared state\<close>

record registrar =
  locProcessesMap :: "(int, int) smap"
  listenersMap :: "(int, int list) smap"
  servicesMap :: "(int, string) smap"

datatype env_event = EvSend int iw_message | EvPoison int

record world =
  w_handles :: "int \<Rightarrow> lp_handle option"
  w_reg :: registrar
  w_pidIndex :: int
  w_txn :: "32 word"
  w_fibers :: "fiber \<Rightarrow> int option"
  w_clock :: nat
  w_future :: "(nat \<times> env_event) list"

definition set_handle :: "int \<Rightarrow> lp_handle \<Rightarrow> world \<Rightarrow> world" where
  "set_handle u h w = w\<lparr>w_handles := (w_handles w)(u \<mapsto> h)\<rparr>"

definition on_handle :: "(lp_handle \<Rightarrow> fault + ('a \<times> lp_handle)) \<Rightarrow> int \<Rightarrow> world \<Rightarrow>
    fault + ('a \<times> world)" where
  "on_handle f u w =
     (case w_handles w u of
        None \<Rightarrow> Inl Null_deref
      | Some h \<Rightarrow> bnd (f h) (\<lambda>(r, h'). Inr (r, set_handle u h' w)))"

definition GenerateNewUID :: "world \<Rightarrow> int \<times> world" where
  "GenerateNewUID w = (w_pidIndex w, w\<lparr>w_pidIndex := w_pidIndex w + 1\<rparr>)"

text \<open>\<^verbatim>\<open>InterlockedExchangeAdd\<close> on a 32-bit \<^verbatim>\<open>long\<close>: the old value, wrapping.\<close>

definition GenerateNewTxnId :: "world \<Rightarrow> int \<times> world" where
  "GenerateNewTxnId w = (sint (w_txn w), w\<lparr>w_txn := w_txn w + 1\<rparr>)"

definition declare_handle :: "string \<Rightarrow> HandleDirection \<Rightarrow> world \<Rightarrow> int \<times> world" where
  "declare_handle nm dir w =
     (let (u, w1) = GenerateNewUID w
      in (u, set_handle u (new_LpHandle\<lparr>hnd_name := nm, hnd_direction := dir\<rparr>) w1))"

text \<open>The last reference goes: the destructor poisons the channel and the object is gone.\<close>

definition destroy_handle :: "int \<Rightarrow> world \<Rightarrow> world" where
  "destroy_handle u w = w\<lparr>w_handles := (w_handles w)(u := None)\<rparr>"

section \<open>Handle operations on the heap\<close>

definition handle_send :: "int \<Rightarrow> int \<Rightarrow> iw_message \<Rightarrow> world \<Rightarrow> fault + (ApiErrorCode \<times> world)" where
  "handle_send lpid u m = on_handle (LpHandle_Send lpid m) u"

definition handle_read :: "fiber \<Rightarrow> int \<Rightarrow> world \<Rightarrow> fault + (iw_message option \<times> world)" where
  "handle_read me = on_handle (LpHandle_Read me)"

definition handle_pending :: "fiber \<Rightarrow> int \<Rightarrow> world \<Rightarrow> fault + (bool \<times> world)" where
  "handle_pending me = on_handle (InboundPending me)"

definition handle_poison :: "int \<Rightarrow> world \<Rightarrow> fault + (unit \<times> world)" where
  "handle_poison = on_handle (\<lambda>h. Inr ((), LpHandle_Poison h))"

text \<open>
  An event of the environment: another process sends to a handle or poisons it.  A send
  that cannot complete leaves that process waiting and the heap as it was.
\<close>

definition apply_event :: "env_event \<Rightarrow> world \<Rightarrow> world" where
  "apply_event e w =
     (case e of
        EvSend u m \<Rightarrow> (case handle_send IW_UNDEFINED u m w of Inr (_, w') \<Rightarrow> w' | Inl _ \<Rightarrow> w)
      | EvPoison u \<Rightarrow> (case handle_poison u w of Inr (_, w') \<Rightarrow> w' | Inl _ \<Rightarrow> w))"

section \<open>Waiting\<close>

fun first_ready :: "int list \<Rightarrow> world \<Rightarrow> nat option" where
  "first_ready [] w = None"
| "first_ready (u # us) w =
     (case w_handles w u of
        Some h \<Rightarrow> if chan_pending (hnd_channel h) then Some 0
                  else map_option Suc (first_ready us w)
      | None \<Rightarrow> map_option Suc (first_ready us w))"

text \<open>
  \<^verbatim>\<open>Alternative::priSelect\<close> over the input guards of \<open>us\<close> with a timeout guard last: the
  first ready guard in list order, or the timeout when none gets ready in \<open>t\<close>
  milliseconds.  The timeline is walked event by event.
\<close>

fun alt_wait :: "int list \<Rightarrow> nat \<Rightarrow> (nat \<times> env_event) list \<Rightarrow> world \<Rightarrow> nat option \<times> world" where
  "alt_wait us t [] w =
     (case first_ready us w of
        Some i \<Rightarrow> (Some i, w\<lparr>w_future := []\<rparr>)
      | None \<Rightarrow> (None, w\<lparr>w_future := [], w_clock := w_clock w + t\<rparr>))"
| "alt_wait us t ((dt, e) # fs) w =
     (case first_ready us w of
        Some i \<Rightarrow> (Some i, w\<lparr>w_future := (dt, e) # fs\<rparr>)
      | None \<Rightarrow>
          if dt \<le> t
          then alt_wait us (t - dt) fs (apply_event e (w\<lparr>w_clock := w_clock w + dt\<rparr>))
          else (None, w\<lparr>w_future := (dt - t, e) # fs, w_clock := w_clock w + t\<rparr>))"

definition priSelect :: "int list \<Rightarrow> nat \<Rightarrow> world \<Rightarrow> nat option \<times> world" where
  "priSelect us t w = alt_wait us t (w_future w) w"

definition LpHandle_Wait ::
  "fiber \<Rightarrow> int \<Rightarrow> nat \<Rightarrow> world \<Rightarrow> fault + ((ApiErrorCode \<times> iw_message option) \<times> world)" where
  "LpHandle_Wait me u timeout w =
     bnd (on_handle (\<lambda>h. bnd (CheckReader me h) (\<lambda>h'. Inr ((), h'))) u w) (\<lambda>(_, w1).
       if timeout = 0
       then (case w_handles w1 u of
               None \<Rightarrow> Inl Null_deref
             | Some h \<Rightarrow>
                 if chan_pending (hnd_channel h)
                 then bnd (handle_read me u w1) (\<lambda>(m, w2). Inr ((API_SUCCESS, m), w2))
                 else Inr ((API_TIMEOUT, None), w1))
       else (case priSelect [u] timeout w1 of
               (Some _, w2) \<Rightarrow> bnd (handle_read me u w2) (\<lambda>(m, w3). Inr ((API_SUCCESS, m), w3))
             | (None, w2) \<Rightarrow> Inr ((API_TIMEOUT, None), w2)))"

definition MAX_NUM_OF_CHANNELS_IN_SELECT :: nat where
  "MAX_NUM_OF_CHANNELS_IN_SELECT = 10"

text \<open>The first loop: the first handle, in order, with something pending.\<close>

fun scan_pending :: "fiber \<Rightarrow> nat \<Rightarrow> int list \<Rightarrow> world \<Rightarrow> fault + (nat option \<times> world)" where
  "scan_pending me i [] w = Inr (None, w)"
| "scan_pending me i (u # us) w =
     bnd (handle_pending me u w) (\<lambda>(p, w1).
       if p then Inr (Some i, w1) else scan_pending me (Suc i) us w1)"

text \<open>
  The output parameters are passed in and out: \<open>idx\<close> and \<open>resp\<close> keep their value where
  the code does not assign them.
\<close>

definition SelectFromChannels ::
  "fiber \<Rightarrow> int list \<Rightarrow> nat \<Rightarrow> int \<Rightarrow> iw_message option \<Rightarrow> world \<Rightarrow>
     fault + ((ApiErrorCode \<times> int \<times> iw_message option) \<times> world)" where
  "SelectFromChannels me us timeout idx resp w =
     (if length us = 0 \<or> length us > MAX_NUM_OF_CHANNELS_IN_SELECT
      then Inr ((API_FAILURE, idx, resp), w)
      else bnd (scan_pending me 0 us w) (\<lambda>(found, w1).
        case found of
          Some i \<Rightarrow>
            bnd (handle_read me (us ! i) w1) (\<lambda>(m, w2). Inr ((API_SUCCESS, int i, m), w2))
        | None \<Rightarrow>
            (case priSelect us timeout w1 of
               (None, w2) \<Rightarrow> Inr ((API_TIMEOUT, IW_UNDEFINED, resp), w2)
             | (Some i, w2) \<Rightarrow>
                 bnd (handle_read me (us ! i) w2)
                   (\<lambda>(m, w3). Inr ((API_SUCCESS, int i, m), w3)))))"

section \<open>The registrar\<close>

definition MsgShutdownEvt :: "int \<Rightarrow> iw_message" where
  "MsgShutdownEvt p = (new_MsgResponse MSG_PROC_SHUTDOWN_EVT)\<lparr>payload := ShutdownEvt p\<rparr>"

definition RegisterChannel :: "int \<Rightarrow> int \<Rightarrow> string \<Rightarrow> world \<Rightarrow> fault + (unit \<times> world)" where
  "RegisterChannel hid ptr service w =
     (if hid = IW_UNDEFINED then Inr ((), w)
      else if smap_find (locProcessesMap (w_reg w)) hid \<noteq> None then Inl Critical_exception
      else Inr ((), w\<lparr>w_reg := (w_reg w)
             \<lparr>locProcessesMap := smap_insert hid ptr (locProcessesMap (w_reg w)),
              servicesMap := smap_insert hid service (servicesMap (w_reg w))\<rparr>\<rparr>))"

fun notify_all :: "int \<Rightarrow> iw_message \<Rightarrow> int list \<Rightarrow> world \<Rightarrow> fault + (unit \<times> world)" where
  "notify_all lpid m [] w = Inr ((), w)"
| "notify_all lpid m (u # us) w =
     bnd (handle_send lpid u m w) (\<lambda>(_, w'). notify_all lpid m us w')"

definition UnregisterChannel :: "int \<Rightarrow> int \<Rightarrow> world \<Rightarrow> fault + (unit \<times> world)" where
  "UnregisterChannel lpid hid w =
     (if hid = IW_UNDEFINED then Inr ((), w)
      else if smap_find (locProcessesMap (w_reg w)) hid = None then Inr ((), w)
      else
        let w1 = w\<lparr>w_reg := (w_reg w)
                   \<lparr>locProcessesMap := smap_erase hid (locProcessesMap (w_reg w)),
                    servicesMap := smap_erase hid (servicesMap (w_reg w))\<rparr>\<rparr>
        in (case smap_find (listenersMap (w_reg w1)) hid of
              None \<Rightarrow> Inr ((), w1)
            | Some ls \<Rightarrow>
                bnd (notify_all lpid (MsgShutdownEvt hid) ls w1) (\<lambda>(_, w2).
                  Inr ((), w2\<lparr>w_reg := (w_reg w2)
                    \<lparr>listenersMap := smap_erase hid (listenersMap (w_reg w2))\<rparr>\<rparr>))))"

definition AddShutdownListener :: "int \<Rightarrow> int \<Rightarrow> world \<Rightarrow> world" where
  "AddShutdownListener procId chan w =
     (let ls = listenersMap (w_reg w);
          cur = (case smap_find ls procId of None \<Rightarrow> [] | Some l \<Rightarrow> l)
      in w\<lparr>w_reg := (w_reg w)\<lparr>listenersMap := smap_insert procId (cur @ [chan]) ls\<rparr>\<rparr>)"

definition GetHandle :: "int \<Rightarrow> world \<Rightarrow> int option" where
  "GetHandle procId w = smap_find (locProcessesMap (w_reg w)) procId"

text \<open>
  Lookup by service: \<^verbatim>\<open>boost::regex_match\<close> is the parameter \<open>matches\<close> (pattern, name).
  The first match in the order of the handle numbers is taken; \<^verbatim>\<open>_servicesMap[proc_id]\<close> of
  an absent key is the empty string.
\<close>

fun find_service :: "(string \<Rightarrow> string \<Rightarrow> bool) \<Rightarrow> string \<Rightarrow> (int, string) smap \<Rightarrow>
    (int, int) smap \<Rightarrow> int option" where
  "find_service matches rx svc [] = None"
| "find_service matches rx svc ((p, u) # ps) =
     (if matches rx (case smap_find svc p of None \<Rightarrow> [] | Some s \<Rightarrow> s) then Some u
      else find_service matches rx svc ps)"

definition GetHandle_service :: "(string \<Rightarrow> string \<Rightarrow> bool) \<Rightarrow> string \<Rightarrow> world \<Rightarrow> int option" where
  "GetHandle_service matches rx w =
     find_service matches rx (servicesMap (w_reg w)) (locProcessesMap (w_reg w))"

text \<open>\<^verbatim>\<open>doUnReliableShutdownAll\<close>: a shutdown request to every handle that is not poisoned.\<close>

fun shutdown_all :: "int \<Rightarrow> (int, int) smap \<Rightarrow> world \<Rightarrow> fault + (unit \<times> world)" where
  "shutdown_all lpid [] w = Inr ((), w)"
| "shutdown_all lpid ((p, u) # ps) w =
     (case w_handles w u of
        None \<Rightarrow> Inl Null_deref
      | Some h \<Rightarrow>
          if PoisonedForWrite h then shutdown_all lpid ps w
          else
            let (t, w1) = GenerateNewTxnId w;
                m = (new_IwMessage MSG_PROC_SHUTDOWN_REQ)\<lparr>transaction_id := t\<rparr>
            in bnd (handle_send lpid u m w1) (\<lambda>(_, w2). shutdown_all lpid ps w2))"

definition doUnReliableShutdownAll :: "int \<Rightarrow> world \<Rightarrow> fault + (unit \<times> world)" where
  "doUnReliableShutdownAll lpid w = shutdown_all lpid (locProcessesMap (w_reg w)) w"

section \<open>Frame lemmas\<close>

lemma set_handle_fields [simp]:
  "w_handles (set_handle u h w) = (w_handles w)(u \<mapsto> h)" "w_reg (set_handle u h w) = w_reg w"
  "w_pidIndex (set_handle u h w) = w_pidIndex w" "w_txn (set_handle u h w) = w_txn w"
  "w_clock (set_handle u h w) = w_clock w" "w_future (set_handle u h w) = w_future w"
  "w_fibers (set_handle u h w) = w_fibers w"
  by (simp_all add: set_handle_def)

lemma on_handle_Inr:
  "on_handle f u w = Inr (r, w') \<longleftrightarrow>
     (\<exists>h h'. w_handles w u = Some h \<and> f h = Inr (r, h') \<and> w' = set_handle u h' w)"
  by (auto simp: on_handle_def split: option.splits)

text \<open>
  \<open>same_but_handles w w'\<close>: only the contents of existing handles differ.  Every operation on
  a single handle has this frame.
\<close>

definition same_but_handles :: "world \<Rightarrow> world \<Rightarrow> bool" where
  "same_but_handles w w' \<longleftrightarrow>
     dom (w_handles w') = dom (w_handles w) \<and> w_reg w' = w_reg w \<and>
     w_pidIndex w' = w_pidIndex w \<and> w_txn w' = w_txn w \<and> w_fibers w' = w_fibers w \<and>
     w_clock w' = w_clock w \<and> w_future w' = w_future w"

lemma same_but_handles_refl [simp]: "same_but_handles w w"
  by (simp add: same_but_handles_def)

lemma same_but_handles_trans:
  "same_but_handles w w' \<Longrightarrow> same_but_handles w' w'' \<Longrightarrow> same_but_handles w w''"
  by (simp add: same_but_handles_def)

lemma on_handle_same: "on_handle f u w = Inr (r, w') \<Longrightarrow> same_but_handles w w'"
  by (auto simp: on_handle_Inr same_but_handles_def split: if_splits)

lemma handle_ops_same [frame]:
  "handle_send l u m w = Inr (rc, w') \<Longrightarrow> same_but_handles w w'"
  "handle_read me u w = Inr (rm, w') \<Longrightarrow> same_but_handles w w'"
  "handle_pending me u w = Inr (rb, w') \<Longrightarrow> same_but_handles w w'"
  "handle_poison u w = Inr (ru, w') \<Longrightarrow> same_but_handles w w'"
  by (simp_all add: handle_send_def handle_read_def handle_pending_def handle_poison_def
      on_handle_same)

lemma scan_pending_same [frame]: "scan_pending me i us w = Inr (r, w') \<Longrightarrow> same_but_handles w w'"
proof (induction us arbitrary: i w)
  case (Cons u us)
  then show ?case
    by (auto split: if_splits dest: handle_ops_same(3) intro: same_but_handles_trans)
qed simp

lemma notify_all_same [frame]: "notify_all l m us w = Inr (r, w') \<Longrightarrow> same_but_handles w w'"
proof (induction us arbitrary: w)
  case (Cons u us)
  then show ?case by (auto dest: handle_ops_same(1) intro: same_but_handles_trans)
qed simp

lemma apply_event_same [frame]: "same_but_handles w (apply_event e w)"
  by (auto simp: apply_event_def split: env_event.splits sum.splits dest: handle_ops_same)

section \<open>The invariant of the heap and of the registrar\<close>

definition handles_ok :: "world \<Rightarrow> bool" where
  "handles_ok w \<longleftrightarrow> (\<forall>u h. w_handles w u = Some h \<longrightarrow> handle_ok h \<and> u < w_pidIndex w)"

definition reg_ok :: "world \<Rightarrow> bool" where
  "reg_ok w \<longleftrightarrow> smap_ok (locProcessesMap (w_reg w)) \<and> smap_ok (servicesMap (w_reg w)) \<and>
     smap_ok (listenersMap (w_reg w)) \<and>
     (\<forall>k. smap_find (servicesMap (w_reg w)) k = None \<longleftrightarrow>
          smap_find (locProcessesMap (w_reg w)) k = None)"

lemma on_handle_ok:
  assumes "on_handle f u w = Inr (r, w')" and "handles_ok w"
    and "\<And>h h'. handle_ok h \<Longrightarrow> f h = Inr (r, h') \<Longrightarrow> handle_ok h'"
  shows "handles_ok w'"
proof -
  from assms(1) obtain h h' where h: "w_handles w u = Some h" "f h = Inr (r, h')"
    and w': "w' = set_handle u h' w"
    by (auto simp: on_handle_Inr)
  have "handle_ok h'"
    using assms(2,3) h by (auto simp: handles_ok_def)
  with h w' assms(2) show ?thesis by (auto simp: handles_ok_def split: if_splits)
qed

lemma CheckReader_ok: "handle_ok h \<Longrightarrow> CheckReader me h = Inr h' \<Longrightarrow> handle_ok h'"
  by (auto simp: handle_ok_def dest!: CheckReader_frame)

lemma handle_ops_ok:
  "handle_send l u m w = Inr (rc, w') \<Longrightarrow> handles_ok w \<Longrightarrow> handles_ok w'"
  "handle_read me u w = Inr (rm, w') \<Longrightarrow> handles_ok w \<Longrightarrow> handles_ok w'"
  "handle_pending me u w = Inr (rb, w') \<Longrightarrow> handles_ok w \<Longrightarrow> handles_ok w'"
  "handle_poison u w = Inr (ru, w') \<Longrightarrow> handles_ok w \<Longrightarrow> handles_ok w'"
     apply (auto simp: handle_send_def handle_read_def handle_pending_def handle_poison_def
      InboundPending_def elim!: on_handle_ok dest: Send_ok Read_ok CheckReader_ok
      intro: Poison_ok)
  done

lemma apply_event_ok: "handles_ok w \<Longrightarrow> handles_ok (apply_event e w)"
  by (auto simp: apply_event_def split: env_event.splits sum.splits dest: handle_ops_ok)

lemma handles_ok_time [simp]:
  "handles_ok (w\<lparr>w_clock := c\<rparr>) = handles_ok w" "handles_ok (w\<lparr>w_future := f\<rparr>) = handles_ok w"
  "handles_ok (w\<lparr>w_reg := r\<rparr>) = handles_ok w" "handles_ok (w\<lparr>w_txn := t\<rparr>) = handles_ok w"
  by (simp_all add: handles_ok_def)

lemma alt_wait_ok: "handles_ok w \<Longrightarrow> handles_ok (snd (alt_wait us t fs w))"
  by (induction us t fs w rule: alt_wait.induct) (auto simp: apply_event_ok split: option.splits)

lemma priSelect_ok: "handles_ok w \<Longrightarrow> handles_ok (snd (priSelect us t w))"
  by (simp add: priSelect_def alt_wait_ok)

lemma alt_wait_frame:
  "alt_wait us t fs w = (r, w') \<Longrightarrow>
     dom (w_handles w') = dom (w_handles w) \<and> w_reg w' = w_reg w \<and>
     w_pidIndex w' = w_pidIndex w \<and> w_txn w' = w_txn w \<and> w_fibers w' = w_fibers w \<and>
     length (w_future w') \<le> length fs"
proof (induction us t fs w arbitrary: r w' rule: alt_wait.induct)
  case (2 us t dt e fs w)
  have "same_but_handles (w\<lparr>w_clock := w_clock w + dt\<rparr>) (apply_event e (w\<lparr>w_clock := w_clock w + dt\<rparr>))"
    by (rule apply_event_same)
  with 2 show ?case by (auto simp: same_but_handles_def split: option.splits if_splits)
qed (auto split: option.splits)

text \<open>A wait never lasts longer than its timeout, and a timeout is not early.\<close>

lemma alt_wait_clock:
  "alt_wait us t fs w = (r, w') \<Longrightarrow>
     w_clock w \<le> w_clock w' \<and> w_clock w' \<le> w_clock w + t \<and>
     (r = None \<longrightarrow> w_clock w' = w_clock w + t)"
proof (induction us t fs w arbitrary: r w' rule: alt_wait.induct)
  case (2 us t dt e fs w)
  have "w_clock (apply_event e (w\<lparr>w_clock := w_clock w + dt\<rparr>)) = w_clock w + dt"
    using apply_event_same [of "w\<lparr>w_clock := w_clock w + dt\<rparr>" e] by (simp add: same_but_handles_def)
  with 2 show ?case by (fastforce split: option.splits if_splits)
qed (auto split: option.splits)

lemma first_ready_future [simp]:
  "first_ready us (w\<lparr>w_future := f\<rparr>) = first_ready us w"
  "first_ready us (w\<lparr>w_clock := c\<rparr>) = first_ready us w"
  by (induction us) (auto split: option.split)

lemma alt_wait_ready:
  "alt_wait us t fs w = (Some i, w') \<Longrightarrow> first_ready us w' = Some i"
  by (induction us t fs w arbitrary: w' rule: alt_wait.induct)
    (auto split: option.splits if_splits)

lemma first_ready_SomeD:
  "first_ready us w = Some i \<Longrightarrow>
     i < length us \<and> (\<exists>h. w_handles w (us ! i) = Some h \<and> chan_pending (hnd_channel h)) \<and>
     (\<forall>j < i. \<forall>h. w_handles w (us ! j) = Some h \<longrightarrow> \<not> chan_pending (hnd_channel h))"
proof (induction us arbitrary: i)
  case (Cons u us)
  then show ?case
    by (fastforce simp: less_Suc_eq_0_disj split: option.splits if_splits)
qed simp

end
