(* ===== verification/Iw_Process.thy ===== *)
theory Iw_Process
  imports Iw_World
begin

text \<open>
  Lightweight processes (\<^verbatim>\<open>iw_core/LightweightProcess.cpp\<close>): the running context with its
  inbound and outbound handles, sending by process id, the request/response
  transaction over a temporary handle, out-of-band messages, process start, shutdown,
  and the boot and shutdown of the configured modules.
\<close>

section \<open>The running context\<close>

text \<open>
  \<open>rc_fiber\<close> is the thread and fiber the context runs in; \<open>rc_appdata\<close> is the \<^verbatim>\<open>AppData\<close>
  map, whose only entries are the maps of accepting handles.
\<close>

record running_context =
  rc_name :: string
  rc_serviceId :: string
  rc_processId :: int
  rc_inbound :: int
  rc_outbound :: int
  rc_transactionTimeout :: int
  rc_startSuspended :: bool
  rc_fiber :: fiber
  rc_appdata :: "(string, (string, int) smap) smap"

definition set_direction :: "int \<Rightarrow> string \<Rightarrow> HandleDirection \<Rightarrow> world \<Rightarrow> fault + (unit \<times> world)" where
  "set_direction u nm d =
     on_handle (\<lambda>h. Inr ((), h\<lparr>hnd_name := nm, hnd_direction := d\<rparr>)) u"

definition new_RunningContext ::
  "int \<times> int \<Rightarrow> string \<Rightarrow> bool \<Rightarrow> fiber \<Rightarrow> world \<Rightarrow> fault + (running_context \<times> world)" where
  "new_RunningContext pair owner suspended fib w =
     (if fst pair = snd pair then Inl Terminate
      else bnd (set_direction (fst pair) owner MSG_DIRECTION_INBOUND w) (\<lambda>(_, w1).
           bnd (set_direction (snd pair) owner MSG_DIRECTION_OUTBOUND w1) (\<lambda>(_, w2).
           Inr (\<lparr>rc_name = owner, rc_serviceId = [], rc_processId = fst pair,
                 rc_inbound = fst pair, rc_outbound = snd pair,
                 rc_transactionTimeout = 5000, rc_startSuspended = suspended,
                 rc_fiber = fib, rc_appdata = []\<rparr>, w2))))"

text \<open>\<^verbatim>\<open>ServiceId()\<close> returns \<^verbatim>\<open>_name\<close>; \<^verbatim>\<open>ServiceId(val)\<close> sets \<^verbatim>\<open>_serviceId\<close>.\<close>

definition ServiceId :: "running_context \<Rightarrow> string" where
  "ServiceId ctx = rc_name ctx"

definition set_ServiceId :: "string \<Rightarrow> running_context \<Rightarrow> running_context" where
  "set_ServiceId s ctx = ctx\<lparr>rc_serviceId := s\<rparr>"

section \<open>Sending\<close>

definition complete_message :: "running_context \<Rightarrow> iw_message \<Rightarrow> world \<Rightarrow> iw_message \<times> world" where
  "complete_message ctx m w =
     (let m1 = (if handle_id (source m) = IW_UNDEFINED
                then m\<lparr>source := (source m)\<lparr>handle_id := rc_processId ctx\<rparr>\<rparr> else m)
      in if transaction_id m1 = IW_UNDEFINED
         then let (t, w1) = GenerateNewTxnId w in (m1\<lparr>transaction_id := t\<rparr>, w1)
         else (m1, w))"

text \<open>
  The destination: the handle registered for the preferred interface when the message
  names one and it is registered, the handle registered for the destination otherwise.
\<close>

definition resolve :: "iw_message \<Rightarrow> world \<Rightarrow> int option" where
  "resolve m w =
     (let pref = (if preferrable_ipc_interface m \<noteq> IW_UNDEFINED
                  then GetHandle (preferrable_ipc_interface m) w else None)
      in case pref of None \<Rightarrow> GetHandle (handle_id (dest m)) w | Some u \<Rightarrow> Some u)"

definition SendMessage ::
  "running_context \<Rightarrow> iw_message \<Rightarrow> world \<Rightarrow> fault + (ApiErrorCode \<times> world)" where
  "SendMessage ctx m w =
     (let (m1, w1) = complete_message ctx m w
      in case resolve m1 w1 of
           Some u \<Rightarrow> bnd (handle_send (rc_processId ctx) u m1 w1)
                        (\<lambda>(_, w2). Inr (API_SUCCESS, w2))
         | None \<Rightarrow> Inr (API_UNKNOWN_DESTINATION, w1))"

definition SendMessage_to ::
  "running_context \<Rightarrow> int \<Rightarrow> iw_message \<Rightarrow> world \<Rightarrow> fault + (ApiErrorCode \<times> world)" where
  "SendMessage_to ctx qid m = SendMessage ctx (m\<lparr>dest := (dest m)\<lparr>handle_id := qid\<rparr>\<rparr>)"

definition SendResponse ::
  "running_context \<Rightarrow> iw_message \<Rightarrow> iw_message \<Rightarrow> world \<Rightarrow> fault + (ApiErrorCode \<times> world)" where
  "SendResponse ctx req resp = SendMessage ctx (copy_data_on_response resp req)"

text \<open>A null message is dereferenced by the log line and the switch.\<close>

definition HandleOOBMessage ::
  "running_context \<Rightarrow> iw_message option \<Rightarrow> world \<Rightarrow> fault + (bool \<times> world)" where
  "HandleOOBMessage ctx mo w =
     (case mo of
        None \<Rightarrow> Inl Null_deref
      | Some m \<Rightarrow>
          if message_id m = MSG_PING
          then bnd (SendResponse ctx m (new_MsgResponse MSG_PONG) w) (\<lambda>(_, w'). Inr (True, w'))
          else Inr (False, w))"

section \<open>Transactions\<close>

text \<open>
  The message waiting loop.  The fuel bounds the rounds; the caller gives enough
  (\<open>wait_loop_enough\<close> below).
\<close>

fun wait_loop :: "nat \<Rightarrow> running_context \<Rightarrow> int list \<Rightarrow> int \<Rightarrow> int \<Rightarrow> iw_message option \<Rightarrow>
    world \<Rightarrow> (fault + ((ApiErrorCode \<times> int \<times> iw_message option) \<times> world)) option" where
  "wait_loop 0 ctx lst left idx resp w = None"
| "wait_loop (Suc n) ctx lst left idx resp w =
     (if left < 0 then Some (Inr ((API_SUCCESS, idx, resp), w))
      else
        let start = w_clock w in
        case SelectFromChannels (rc_fiber ctx) lst (nat left) IW_UNDEFINED resp w of
          Inl e \<Rightarrow> Some (Inl e)
        | Inr ((code, i, resp1), w1) \<Rightarrow>
            if IW_FAILURE code then Some (Inr ((code, idx, resp1), w1))
            else if i = 0 then
              (case HandleOOBMessage ctx resp1 w1 of
                 Inl e \<Rightarrow> Some (Inl e)
               | Inr (handled, w2) \<Rightarrow>
                   if \<not> handled then Some (Inr ((API_UNKNOWN_RESPONSE, idx, resp1), w2))
                   else
                     let left1 = left - int (w_clock w2 - start);
                         left2 = (if left1 < 0 then 0 else left1)
                     in wait_loop n ctx lst left2 idx resp1 w2)
            else Some (Inr ((API_SUCCESS, i - 1, resp1), w1)))"

definition is_ping :: "iw_message \<Rightarrow> bool" where
  "is_ping m \<longleftrightarrow> message_id m = MSG_PING"

definition inbound_pings :: "int \<Rightarrow> world \<Rightarrow> nat" where
  "inbound_pings u w =
     (case w_handles w u of
        None \<Rightarrow> 0 | Some h \<Rightarrow> length (filter is_ping (buffer (hnd_channel h))))"

text \<open>All messages a handle holds.\<close>

definition queued :: "int \<Rightarrow> world \<Rightarrow> nat" where
  "queued u w = (case w_handles w u of None \<Rightarrow> 0 | Some h \<Rightarrow> length (buffer (hnd_channel h)))"

definition wait_fuel :: "running_context \<Rightarrow> world \<Rightarrow> nat" where
  "wait_fuel ctx w = Suc (inbound_pings (rc_inbound ctx) w + length (w_future w))"

text \<open>The loop never runs out of the fuel given here (\<open>wait_loop_enough\<close>).\<close>

definition WaitForTxnResponse_list ::
  "running_context \<Rightarrow> int list \<Rightarrow> int \<Rightarrow> iw_message option \<Rightarrow> int \<Rightarrow> world \<Rightarrow>
     fault + ((ApiErrorCode \<times> int \<times> iw_message option) \<times> world)" where
  "WaitForTxnResponse_list ctx hs idx resp timeout w =
     (if timeout < 0 then Inr ((API_WRONG_PARAMETER, idx, resp), w)
      else case wait_loop (wait_fuel ctx w) ctx (rc_inbound ctx # hs) timeout idx resp w of
             Some r \<Rightarrow> r
           | None \<Rightarrow> Inl Blocked)"

definition WaitForTxnResponse ::
  "running_context \<Rightarrow> int \<Rightarrow> iw_message option \<Rightarrow> int \<Rightarrow> world \<Rightarrow>
     fault + ((ApiErrorCode \<times> iw_message option) \<times> world)" where
  "WaitForTxnResponse ctx hnd resp timeout w =
     bnd (WaitForTxnResponse_list ctx [hnd] IW_UNDEFINED resp timeout w)
       (\<lambda>((code, _, resp'), w'). Inr ((code, resp'), w'))"

text \<open>
  The registration guard and the temporary handle go out of scope on every way out: the
  channel is unregistered and the handle destroyed.
\<close>

definition with_txn_handle ::
  "running_context \<Rightarrow> string \<Rightarrow> (int \<Rightarrow> world \<Rightarrow> fault + ('a \<times> world)) \<Rightarrow> world \<Rightarrow>
     fault + ('a \<times> world)" where
  "with_txn_handle ctx nm body w =
     (let (u, w1) = declare_handle nm MSG_DIRECTION_INBOUND w
      in bnd (RegisterChannel u u [] w1) (\<lambda>(_, w2).
         bnd (body u w2) (\<lambda>(r, w3).
         bnd (UnregisterChannel (rc_processId ctx) u w3) (\<lambda>(_, w4).
         Inr (r, destroy_handle u w4)))))"

definition DoRequestResponseTransaction_handle ::
  "running_context \<Rightarrow> int \<Rightarrow> iw_message \<Rightarrow> iw_message option \<Rightarrow> int \<Rightarrow> string \<Rightarrow> world \<Rightarrow>
     fault + ((ApiErrorCode \<times> iw_message option) \<times> world)" where
  "DoRequestResponseTransaction_handle ctx dst request resp timeout nm =
     with_txn_handle ctx nm (\<lambda>u w.
       let (t, w1) = GenerateNewTxnId w;
           req = request\<lparr>source := (source request)\<lparr>handle_id := u\<rparr>, transaction_id := t\<rparr>
       in bnd (handle_send (rc_processId ctx) dst req w1) (\<lambda>(code, w2).
            if IW_FAILURE code then Inr ((API_UNKNOWN_DESTINATION, resp), w2)
            else WaitForTxnResponse ctx u resp timeout w2))"

definition DoRequestResponseTransaction ::
  "running_context \<Rightarrow> int \<Rightarrow> iw_message \<Rightarrow> iw_message option \<Rightarrow> int \<Rightarrow> string \<Rightarrow> world \<Rightarrow>
     fault + ((ApiErrorCode \<times> iw_message option) \<times> world)" where
  "DoRequestResponseTransaction ctx dst request resp timeout nm =
     with_txn_handle ctx nm (\<lambda>u w.
       let (t, w1) = GenerateNewTxnId w;
           req = request\<lparr>source := (source request)\<lparr>handle_id := u\<rparr>,
                         dest := (dest request)\<lparr>handle_id := dst\<rparr>, transaction_id := t\<rparr>
       in bnd (SendMessage ctx req w1) (\<lambda>(code, w2).
            if IW_FAILURE code then Inr ((code, resp), w2)
            else WaitForTxnResponse ctx u resp timeout w2))"

definition new_MsgRequest :: "MessageId \<Rightarrow> world \<Rightarrow> iw_message \<times> world" where
  "new_MsgRequest mid w =
     (let (t, w1) = GenerateNewTxnId w in ((new_IwMessage mid)\<lparr>transaction_id := t\<rparr>, w1))"

section \<open>Process management\<close>

definition SendReadyMessage :: "running_context \<Rightarrow> world \<Rightarrow> fault + (ApiErrorCode \<times> world)" where
  "SendReadyMessage ctx w =
     bnd (handle_send (rc_processId ctx) (rc_outbound ctx) (new_IwMessage MSG_PROC_READY) w)
       (\<lambda>(_, w'). Inr (API_SUCCESS, w'))"

definition Ping :: "running_context \<Rightarrow> int \<Rightarrow> world \<Rightarrow> fault + (ApiErrorCode \<times> world)" where
  "Ping ctx qid w =
     (let (m, w1) = new_MsgRequest MSG_PING w
      in bnd (DoRequestResponseTransaction ctx qid m None (rc_transactionTimeout ctx)
                ''Ping-Pong TXN'' w1) (\<lambda>((code, _), w2). Inr (code, w2)))"

definition Shutdown ::
  "running_context \<Rightarrow> int \<Rightarrow> int \<times> int \<Rightarrow> world \<Rightarrow> fault + (ApiErrorCode \<times> world)" where
  "Shutdown ctx time pair w =
     (let (m, w1) = new_MsgRequest MSG_PROC_SHUTDOWN_REQ w
      in bnd (DoRequestResponseTransaction_handle ctx (fst pair) m None time ''Shutdown TXN'' w1)
           (\<lambda>((code, resp), w2).
              if IW_FAILURE code then Inr (code, w2)
              else case resp of
                     None \<Rightarrow> Inl Null_deref
                   | Some r \<Rightarrow> Inr (if message_id r = MSG_PROC_SHUTDOWN_ACK then API_SUCCESS
                                    else API_FAILURE, w2)))"

definition WaitTillReady ::
  "running_context \<Rightarrow> nat \<Rightarrow> int \<times> int \<Rightarrow> world \<Rightarrow> fault + (ApiErrorCode \<times> world)" where
  "WaitTillReady ctx time pair w =
     bnd (LpHandle_Wait (rc_fiber ctx) (snd pair) time w) (\<lambda>((code, resp), w1).
       if code = API_TIMEOUT
       then bnd (Shutdown ctx 0 pair w1) (\<lambda>(_, w2). Inr (API_FAILURE, w2))
       else case resp of
              None \<Rightarrow> Inl Null_deref
            | Some r \<Rightarrow> Inr (if message_id r = MSG_PROC_READY then API_SUCCESS
                             else API_FAILURE, w1))"

definition NON_FIBEROUS_THREAD :: int where
  "NON_FIBEROUS_THREAD = 0x1E00"

definition RegisterContext :: "running_context \<Rightarrow> world \<Rightarrow> fault + (unit \<times> world)" where
  "RegisterContext ctx w =
     bnd (RegisterChannel (rc_inbound ctx) (rc_inbound ctx) (rc_serviceId ctx) w) (\<lambda>(_, w1).
       if w_fibers w1 (rc_fiber ctx) \<noteq> None then Inl Terminate
       else if snd (rc_fiber ctx) = 0 \<or> snd (rc_fiber ctx) = NON_FIBEROUS_THREAD
       then Inl Critical_exception
       else Inr ((), w1\<lparr>w_fibers := (w_fibers w1)(rc_fiber ctx \<mapsto> rc_processId ctx)\<rparr>))"

text \<open>The fiber is erased first, so the messages sent after it carry no process id.\<close>

definition UnregisterContext :: "running_context \<Rightarrow> world \<Rightarrow> fault + (unit \<times> world)" where
  "UnregisterContext ctx w =
     (if w_fibers w (rc_fiber ctx) = None then Inr ((), w)
      else bnd (handle_poison (rc_inbound ctx) w) (\<lambda>(_, w1).
        let w2 = w1\<lparr>w_fibers := (w_fibers w1)(rc_fiber ctx := None)\<rparr>
        in bnd (handle_send IW_UNDEFINED (rc_outbound ctx) (MsgShutdownEvt IW_UNDEFINED) w2)
             (\<lambda>(_, w3). UnregisterChannel IW_UNDEFINED (rc_inbound ctx) w3)))"

text \<open>
  Waiting for the resume message.  \<^verbatim>\<open>case MSG_PROC_RESUME: break;\<close> leaves the switch, not
  the \<^verbatim>\<open>do ... while (true)\<close>: the only way out is \<^verbatim>\<open>goto clean\<close>.  \<open>None\<close>: still in
  the loop after \<open>n\<close> rounds.
\<close>

fun suspended_loop :: "nat \<Rightarrow> running_context \<Rightarrow> world \<Rightarrow> (fault + world) option" where
  "suspended_loop 0 ctx w = None"
| "suspended_loop (Suc n) ctx w =
     (case LpHandle_Wait (rc_fiber ctx) (rc_inbound ctx) 60000 w of
        Inl e \<Rightarrow> Some (Inl e)
      | Inr ((code, mo), w1) \<Rightarrow>
          if code = API_TIMEOUT then suspended_loop n ctx w1
          else (case mo of
                  None \<Rightarrow> Some (Inl Null_deref)
                | Some m \<Rightarrow>
                    (case message_id m of
                       MSG_PROC_SHUTDOWN_EVT \<Rightarrow> Some (Inr w1)
                     | MSG_PROC_RESUME \<Rightarrow> suspended_loop n ctx w1
                     | _ \<Rightarrow> (case HandleOOBMessage ctx (Some m) w1 of
                               Inl e \<Rightarrow> Some (Inl e)
                             | Inr (handled, w2) \<Rightarrow>
                                 if \<not> handled then Some (Inr w2)
                                 else suspended_loop n ctx w2))))"

text \<open>
  \<open>real_run\<close> is the body of the concrete process; an exception it throws is caught, so the
  parameter gives the world either way.
\<close>

definition LightweightProcess_run ::
  "nat \<Rightarrow> running_context \<Rightarrow> (world \<Rightarrow> fault + world) \<Rightarrow> world \<Rightarrow> (fault + world) option" where
  "LightweightProcess_run n ctx real_run w =
     (case RegisterContext ctx w of
        Inl e \<Rightarrow> Some (Inl e)
      | Inr (_, w1) \<Rightarrow>
          let clean = (\<lambda>r. bnd r (\<lambda>w2. bnd (UnregisterContext ctx w2) (\<lambda>(_, w3). Inr w3)))
          in if rc_startSuspended ctx
             then map_option clean (suspended_loop n ctx w1)
             else Some (clean (real_run w1)))"

section \<open>Boot and shutdown of the modules\<close>

text \<open>
  A factory creates the process of a module on a fresh pair of handles: \<open>None\<close> is an
  exception of \<^verbatim>\<open>Create\<close>.  What the forked process does is in the world's future.
\<close>

type_synonym proc_factory = "int \<times> int \<Rightarrow> world \<Rightarrow> world option"

datatype boot_step = Booted "(int \<times> int)" int | Boot_failed | Boot_exception

definition boot_one ::
  "running_context \<Rightarrow> nat \<Rightarrow> proc_factory \<Rightarrow> world \<Rightarrow> fault + (boot_step \<times> world)" where
  "boot_one ctx default_timeout factory w =
     (let (sh, w1) = declare_handle [] MSG_DIRECTION_UNDEFINED w;
          (i, w2) = declare_handle [] MSG_DIRECTION_UNDEFINED w1;
          (ob, w3) = declare_handle [] MSG_DIRECTION_UNDEFINED w2;
          w4 = AddShutdownListener i sh w3
      in case factory (i, ob) w4 of
           None \<Rightarrow> Inr (Boot_exception, w4)
         | Some w5 \<Rightarrow>
             bnd (WaitTillReady ctx default_timeout (i, ob) w5) (\<lambda>(code, w6).
               Inr (if IW_FAILURE code then Boot_failed else Booted (i, ob) sh, w6)))"

type_synonym booted = "(int \<times> int) list \<times> int list"

text \<open>\<^verbatim>\<open>BootProcesses\<close>: \<^verbatim>\<open>all_booted\<close> is set but never read.\<close>

fun BootProcesses ::
  "running_context \<Rightarrow> nat \<Rightarrow> proc_factory list \<Rightarrow> booted \<Rightarrow> world \<Rightarrow>
     fault + ((ApiErrorCode \<times> booted) \<times> world)" where
  "BootProcesses ctx t [] b w = Inr ((API_SUCCESS, b), w)"
| "BootProcesses ctx t (f # fs) (ps, shs) w =
     bnd (boot_one ctx t f w) (\<lambda>(r, w1).
       case r of
         Boot_exception \<Rightarrow> Inr ((API_FAILURE, (ps, shs)), w1)
       | Boot_failed \<Rightarrow> Inr ((API_SUCCESS, (ps, shs)), w1)
       | Booted p sh \<Rightarrow> BootProcesses ctx t fs (ps @ [p], shs @ [sh]) w1)"

fun shutdown_each ::
  "running_context \<Rightarrow> int \<Rightarrow> (int \<times> int) list \<Rightarrow> world \<Rightarrow> fault + (unit \<times> world)" where
  "shutdown_each ctx t [] w = Inr ((), w)"
| "shutdown_each ctx t (p # ps) w =
     bnd (Shutdown ctx t p w) (\<lambda>(_, w1). shutdown_each ctx t ps w1)"

text \<open>The boot time is a number of milliseconds at boot and of seconds here.\<close>

definition ShutdownModules ::
  "running_context \<Rightarrow> int \<Rightarrow> (int \<times> int) list \<Rightarrow> world \<Rightarrow> fault + (ApiErrorCode \<times> world)" where
  "ShutdownModules ctx default_boot_time ps w =
     bnd (shutdown_each ctx (1000 * default_boot_time) (rev ps) w)
       (\<lambda>(_, w1). Inr (API_SUCCESS, w1))"

fun boot_simple_loop ::
  "running_context \<Rightarrow> nat \<Rightarrow> proc_factory list \<Rightarrow> booted \<Rightarrow> world \<Rightarrow>
     fault + ((bool \<times> booted) \<times> world)" where
  "boot_simple_loop ctx t [] b w = Inr ((True, b), w)"
| "boot_simple_loop ctx t (f # fs) (ps, shs) w =
     bnd (boot_one ctx t f w) (\<lambda>(r, w1).
       case r of
         Boot_exception \<Rightarrow> Inr ((False, (ps, shs)), w1)
       | Boot_failed \<Rightarrow> Inr ((False, (ps, shs)), w1)
       | Booted p sh \<Rightarrow> boot_simple_loop ctx t fs (ps @ [p], shs @ [sh]) w1)"

definition BootModulesSimple ::
  "running_context \<Rightarrow> nat \<Rightarrow> proc_factory list \<Rightarrow> booted \<Rightarrow> world \<Rightarrow>
     fault + ((ApiErrorCode \<times> booted) \<times> world)" where
  "BootModulesSimple ctx t fs b w =
     (if fs = [] then Inr ((API_SUCCESS, b), w)
      else bnd (boot_simple_loop ctx t fs b w) (\<lambda>((all_booted, b1), w1).
        if all_booted then Inr ((API_SUCCESS, b1), w1)
        else bnd (ShutdownModules ctx (int t) (fst b1) w1)
               (\<lambda>(_, w2). Inr ((API_FAILURE, b1), w2))))"

end
