(* ===== verification/Iw_Process_Facts.thy ===== *)
theory Iw_Process_Facts
  imports Iw_Process
begin

text \<open>
  What the processes guarantee: the waiting loop ends and keeps its deadline, a
  transaction leaves the registrar as it found it, a message reaches the handle its
  destination is registered with, an unregistered process is gone from the registrar
  and its listeners know, and what a suspended start and a failed boot do.
\<close>

section \<open>Frames of the process operations\<close>

text \<open>\<open>same_scene\<close>: registrar, heap domain, UIDs and fibers are unchanged.\<close>

definition same_scene :: "world \<Rightarrow> world \<Rightarrow> bool" where
  "same_scene w w' \<longleftrightarrow> dom (w_handles w') = dom (w_handles w) \<and> w_reg w' = w_reg w \<and>
     w_pidIndex w' = w_pidIndex w \<and> w_fibers w' = w_fibers w"

lemma same_scene_refl [simp]: "same_scene w w"
  by (simp add: same_scene_def)

lemma same_scene_trans: "same_scene w w' \<Longrightarrow> same_scene w' w'' \<Longrightarrow> same_scene w w''"
  by (simp add: same_scene_def)

lemma same_but_handles_scene: "same_but_handles w w' \<Longrightarrow> same_scene w w'"
  by (simp add: same_but_handles_def same_scene_def)

lemma same_but_handlesD:
  "same_but_handles w w' \<Longrightarrow> same_scene w w' \<and> w_clock w' = w_clock w \<and> w_future w' = w_future w"
  by (simp add: same_but_handles_def same_scene_def)

lemmas handle_ops_frame = handle_ops_same [THEN same_but_handlesD]

lemma priSelect_frame: "priSelect us t w = (r, w') \<Longrightarrow> same_scene w w'"
  unfolding priSelect_def same_scene_def by (drule alt_wait_frame) simp

lemma complete_message_frame:
  "complete_message ctx m w = (m', w') \<Longrightarrow>
     same_scene w w' \<and> w_handles w' = w_handles w \<and> w_clock w' = w_clock w \<and>
     w_future w' = w_future w \<and> dest m' = dest m \<and> message_id m' = message_id m \<and>
     payload m' = payload m \<and> preferrable_ipc_interface m' = preferrable_ipc_interface m"
  by (auto simp: complete_message_def GenerateNewTxnId_def same_scene_def Let_def split: if_splits)

lemma SendMessage_frame:
  "SendMessage ctx m w = Inr (r, w') \<Longrightarrow>
     same_scene w w' \<and> w_clock w' = w_clock w \<and> w_future w' = w_future w"
  by (auto simp: SendMessage_def split: prod.splits option.splits
      dest!: complete_message_frame handle_ops_frame(1) intro: same_scene_trans)

lemma HandleOOB_frame:
  "HandleOOBMessage ctx mo w = Inr (r, w') \<Longrightarrow>
     same_scene w w' \<and> w_clock w' = w_clock w \<and> w_future w' = w_future w"
  by (auto simp: HandleOOBMessage_def SendResponse_def split: option.splits if_splits
      dest: SendMessage_frame)

lemma priSelect_clock:
  "priSelect us t w = (r, w') \<Longrightarrow> same_scene w w' \<and> w_clock w \<le> w_clock w' \<and>
     w_clock w' \<le> w_clock w + t \<and> (r = None \<longrightarrow> w_clock w' = w_clock w + t)"
  using priSelect_frame alt_wait_clock unfolding priSelect_def by blast

lemma SelectFromChannels_frame:
  assumes "SelectFromChannels me us t idx resp w = Inr (r, w')"
  shows "same_scene w w' \<and> w_clock w \<le> w_clock w' \<and> w_clock w' \<le> w_clock w + t"
  using assms
  by (auto simp: SelectFromChannels_def split: if_splits option.splits prod.splits
      dest!: scan_pending_same [THEN same_but_handlesD] handle_ops_frame(2) priSelect_clock
      intro: same_scene_trans)

lemma wait_loop_frame:
  "wait_loop n ctx lst left idx resp w = Some (Inr (r, w')) \<Longrightarrow> same_scene w w'"
proof (induction n arbitrary: left idx resp w)
  case (Suc n)
  then show ?case
    by (auto simp: Let_def split: if_splits sum.splits prod.splits
        dest!: SelectFromChannels_frame HandleOOB_frame intro: same_scene_trans)
qed simp

lemma wait_loop_deadline:
  "wait_loop n ctx lst left idx resp w = Some (Inr (r, w')) \<Longrightarrow> 0 \<le> left \<Longrightarrow>
     int (w_clock w') \<le> int (w_clock w) + left"
proof (induction n arbitrary: left idx resp w)
  case (Suc n)
  from Suc.prems obtain code i m w1 where
    sel: "SelectFromChannels (rc_fiber ctx) lst (nat left) IW_UNDEFINED resp w = Inr ((code, i, m), w1)"
    by (auto simp: Let_def split: sum.splits)
  note t1 = SelectFromChannels_frame [OF sel]
  show ?case
  proof (cases "IW_FAILURE code \<or> i \<noteq> 0")
    case True
    with Suc.prems sel t1 show ?thesis by (auto simp: Let_def split: if_splits)
  next
    case False
    with Suc.prems sel obtain handled w2 where
      oob: "HandleOOBMessage ctx m w1 = Inr (handled, w2)"
      by (auto simp: Let_def split: sum.splits)
    note t2 = HandleOOB_frame [OF oob]
    show ?thesis
    proof (cases handled)
      case True
      let ?l = "left - int (w_clock w2 - w_clock w)"
      from t1 t2 \<open>0 \<le> left\<close> have nn: "0 \<le> ?l" by auto
      with False True Suc.prems sel oob
      have "wait_loop n ctx lst ?l idx m w2 = Some (Inr (r, w'))"
        by (simp add: Let_def)
      from Suc.IH [OF this nn] t1 t2 show ?thesis by auto
    next
      case False': False
      with False Suc.prems sel oob t1 t2 show ?thesis by (auto simp: Let_def)
    qed
  qed
qed simp

text \<open>A success names one of the caller's handles, never the inbound handle.\<close>

lemma scan_pending_index:
  "scan_pending me k us w = Inr (Some i, w') \<Longrightarrow> k \<le> i \<and> i < k + length us"
  by (induction us arbitrary: k w) (fastforce split: if_splits)+

lemma SelectFromChannels_index:
  assumes "SelectFromChannels me us t idx resp w = Inr ((API_SUCCESS, i, m), w')"
  shows "0 \<le> i \<and> nat i < length us"
  using assms
  by (auto simp: SelectFromChannels_def priSelect_def split: if_splits option.splits prod.splits
      dest!: scan_pending_index alt_wait_ready first_ready_SomeD)

lemma wait_loop_index:
  "wait_loop n ctx (inb # hs) left idx resp w = Some (Inr ((API_SUCCESS, i, m), w')) \<Longrightarrow>
     0 \<le> left \<Longrightarrow> 0 \<le> i \<and> nat i < length hs"
proof (induction n arbitrary: left resp w)
  case (Suc n)
  then show ?case
    by (auto simp: Let_def IW_FAILURE_def split: if_splits sum.splits prod.splits
        dest!: SelectFromChannels_index)
qed simp

section \<open>The waiting loop ends\<close>

lemma apply_event_pings:
  "inbound_pings u (apply_event e w) \<le> Suc (inbound_pings u w)"
  by (auto simp: apply_event_def handle_send_def handle_poison_def on_handle_Inr inbound_pings_def
      LpHandle_Send_def chan_output_def LpHandle_Poison_def poisonIn_def poisonOut_def
      split: env_event.splits sum.splits option.splits chan_exn.splits if_splits
      dest!: signal_in_channel)

lemma inbound_pings_time [simp]:
  "inbound_pings u (w\<lparr>w_clock := c\<rparr>) = inbound_pings u w"
  "inbound_pings u (w\<lparr>w_future := f\<rparr>) = inbound_pings u w"
  by (simp_all add: inbound_pings_def)

lemma alt_wait_pings:
  "alt_wait us t fs w = (r, w') \<Longrightarrow>
     inbound_pings u w' + length (w_future w') \<le> inbound_pings u w + length fs"
proof (induction us t fs w arbitrary: r w' rule: alt_wait.induct)
  case (2 us t dt e fs w)
  then show ?case
    using apply_event_pings [of u e "w\<lparr>w_clock := w_clock w + dt\<rparr>"]
    by (fastforce split: option.splits if_splits)
qed (auto split: option.splits)

lemma handle_pending_pings:
  "handle_pending me v w = Inr (b, w') \<Longrightarrow> inbound_pings u w' = inbound_pings u w"
  by (auto simp: handle_pending_def on_handle_Inr InboundPending_def inbound_pings_def
      dest!: CheckReader_frame)

lemma scan_pending_pings:
  "scan_pending me i us w = Inr (r, w') \<Longrightarrow> inbound_pings u w' = inbound_pings u w"
  by (induction us arbitrary: i w) (auto split: if_splits dest!: handle_pending_pings)

lemma handle_read_pings:
  "handle_read me v w = Inr (m, w') \<Longrightarrow>
     inbound_pings u w' \<le> inbound_pings u w \<and>
     (v = u \<and> m = Some x \<and> is_ping x \<longrightarrow> inbound_pings u w' < inbound_pings u w)"
  by (cases m) (auto simp: handle_read_def on_handle_Inr inbound_pings_def dest!: Read_Some Read_None)

lemma priSelect_pings:
  "priSelect us t w = (r, w') \<Longrightarrow>
     inbound_pings u w' + length (w_future w') \<le> inbound_pings u w + length (w_future w)"
  unfolding priSelect_def by (rule alt_wait_pings)

text \<open>A successful select is a read of the chosen handle after the time that went by.\<close>

lemma SelectFromChannels_read:
  assumes "SelectFromChannels me us t idx resp w = Inr ((API_SUCCESS, i, m), w')"
  obtains w1 where "handle_read me (us ! nat i) w1 = Inr (m, w')"
    and "inbound_pings u w1 + length (w_future w1) \<le> inbound_pings u w + length (w_future w)"
proof -
  from assms obtain found w1 where sc: "scan_pending me 0 us w = Inr (found, w1)"
    by (auto simp: SelectFromChannels_def split: if_splits)
  have p1: "inbound_pings u w1 = inbound_pings u w" "w_future w1 = w_future w"
    using scan_pending_pings [OF sc] scan_pending_same [OF sc] by (auto simp: same_but_handles_def)
  show thesis
  proof (cases found)
    case (Some k)
    with assms sc have "handle_read me (us ! nat i) w1 = Inr (m, w')"
      by (auto simp: SelectFromChannels_def split: if_splits)
    with p1 show thesis by (intro that [of w1]) auto
  next
    case None
    obtain k w2 where ps: "priSelect us t w1 = (k, w2)" by (cases "priSelect us t w1")
    with None assms sc have "handle_read me (us ! nat i) w2 = Inr (m, w')"
      by (auto simp: SelectFromChannels_def split: if_splits option.splits)
    with p1 priSelect_pings [OF ps, of u] show thesis by (intro that [of w2]) auto
  qed
qed

lemma SelectFromChannels_pings:
  assumes "SelectFromChannels me (u # hs) t idx resp w = Inr ((API_SUCCESS, 0, Some x), w')"
    and "is_ping x"
  shows "inbound_pings u w' + length (w_future w') < inbound_pings u w + length (w_future w)"
proof -
  obtain w1 where rd: "handle_read me u w1 = Inr (Some x, w')"
    and le: "inbound_pings u w1 + length (w_future w1) \<le> inbound_pings u w + length (w_future w)"
    using SelectFromChannels_read [OF assms(1), of u] by auto
  with handle_read_pings [OF rd, of u x] handle_ops_frame(2) [OF rd] assms(2) show ?thesis by auto
qed

lemma SendMessage_pings:
  "SendMessage ctx m w = Inr (r, w') \<Longrightarrow> \<not> is_ping m \<Longrightarrow>
     inbound_pings u w' = inbound_pings u w"
  by (auto simp: SendMessage_def handle_send_def on_handle_Inr inbound_pings_def is_ping_def
      LpHandle_Send_def chan_output_def
      split: prod.splits option.splits sum.splits chan_exn.splits if_splits
      dest!: complete_message_frame signal_in_channel)

lemma HandleOOB_pings:
  "HandleOOBMessage ctx mo w = Inr (True, w') \<Longrightarrow>
     (\<exists>m. mo = Some m \<and> is_ping m) \<and> inbound_pings u w' = inbound_pings u w"
  by (auto simp: HandleOOBMessage_def SendResponse_def is_ping_def split: option.splits if_splits
      intro!: SendMessage_pings)

lemma wait_loop_enough:
  "inbound_pings u w + length (w_future w) < n \<Longrightarrow>
     \<exists>r. wait_loop n ctx (u # hs) left idx resp w = Some r"
proof (induction n arbitrary: left resp w)
  case (Suc n)
  show ?case
  proof (cases "\<exists>code i m w1 w2. 0 \<le> left \<and>
      SelectFromChannels (rc_fiber ctx) (u # hs) (nat left) IW_UNDEFINED resp w = Inr ((code, i, m), w1)
      \<and> \<not> IW_FAILURE code \<and> i = 0 \<and> HandleOOBMessage ctx m w1 = Inr (True, w2)")
    case True
    then obtain m w1 w2 where l: "0 \<le> left" and
      sel: "SelectFromChannels (rc_fiber ctx) (u # hs) (nat left) IW_UNDEFINED resp w
              = Inr ((API_SUCCESS, 0, m), w1)"
      and oob: "HandleOOBMessage ctx m w1 = Inr (True, w2)"
      by (auto simp: IW_FAILURE_def)
    from HandleOOB_pings [OF oob, of u] obtain x where "m = Some x" "is_ping x"
      and "inbound_pings u w2 = inbound_pings u w1" by auto
    have "inbound_pings u w1 + length (w_future w1) < inbound_pings u w + length (w_future w)"
      using SelectFromChannels_pings [OF _ \<open>is_ping x\<close>] sel \<open>m = Some x\<close> by blast
    with HandleOOB_frame [OF oob] Suc.prems \<open>inbound_pings u w2 = inbound_pings u w1\<close>
    have "inbound_pings u w2 + length (w_future w2) < n" by simp
    from Suc.IH [OF this] l sel oob show ?thesis by (simp add: Let_def IW_FAILURE_def)
  next
    case False
    then show ?thesis by (force simp: Let_def split: sum.splits prod.splits)
  qed
qed simp

section \<open>What a wait leaves in a channel\<close>

text \<open>
  \<open>load p u\<close>: the messages of the channel \<open>p\<close> and the pings of the inbound handle \<open>u\<close>.  Together
  with the timeline they bound what can still be read from \<open>p\<close>: an answered ping puts at most
  one message there.
\<close>

definition load :: "int \<Rightarrow> int \<Rightarrow> world \<Rightarrow> nat" where
  "load p u w = queued p w + inbound_pings u w"

lemma load_time [simp]:
  "load p u (w\<lparr>w_clock := c\<rparr>) = load p u w" "load p u (w\<lparr>w_future := f\<rparr>) = load p u w"
  by (simp_all add: load_def queued_def)

lemma handle_send_load:
  "handle_send l v m w = Inr (r, w') \<Longrightarrow> p \<noteq> u \<Longrightarrow> load p u w' \<le> Suc (load p u w)"
  by (auto simp: handle_send_def on_handle_Inr load_def queued_def inbound_pings_def LpHandle_Send_def
      chan_output_def split: sum.splits chan_exn.splits if_splits dest!: signal_in_channel)

lemma handle_poison_load: "handle_poison v w = Inr (r, w') \<Longrightarrow> load p u w' \<le> load p u w"
  by (auto simp: handle_poison_def on_handle_Inr load_def queued_def inbound_pings_def
      LpHandle_Poison_def poisonIn_def poisonOut_def split: if_splits)

lemma apply_event_load: "p \<noteq> u \<Longrightarrow> load p u (apply_event e w) \<le> Suc (load p u w)"
  by (auto simp: apply_event_def le_SucI split: env_event.splits sum.splits
      dest: handle_send_load handle_poison_load [of _ _ _ _ p u])

lemma alt_wait_load:
  "alt_wait us t fs w = (r, w') \<Longrightarrow> p \<noteq> u \<Longrightarrow>
     load p u w' + length (w_future w') \<le> load p u w + length fs"
proof (induction us t fs w arbitrary: r w' rule: alt_wait.induct)
  case (2 us t dt e fs w)
  then show ?case
    using apply_event_load [of p u e "w\<lparr>w_clock := w_clock w + dt\<rparr>"]
    by (fastforce split: option.splits if_splits)
qed (auto split: option.splits)

lemma handle_pending_load: "handle_pending me v w = Inr (b, w') \<Longrightarrow> load p u w' = load p u w"
  by (auto simp: handle_pending_def on_handle_Inr InboundPending_def load_def queued_def inbound_pings_def
      dest!: CheckReader_frame)

lemma scan_pending_load: "scan_pending me i us w = Inr (r, w') \<Longrightarrow> load p u w' = load p u w"
  by (induction us arbitrary: i w) (auto split: if_splits dest!: handle_pending_load)

lemma handle_read_load:
  assumes "handle_read me v w = Inr (m, w')"
  shows "load p u w' \<le> load p u w"
    and "v = p \<Longrightarrow> m = Some x \<Longrightarrow> load p u w' < load p u w"
    and "v = u \<Longrightarrow> m = Some x \<Longrightarrow> is_ping x \<Longrightarrow> load p u w' < load p u w"
  using assms
  by (cases m; auto simp: handle_read_def on_handle_Inr load_def queued_def inbound_pings_def
      dest!: Read_Some Read_None)+

lemma HandleOOB_load:
  "HandleOOBMessage ctx mo w = Inr (b, w') \<Longrightarrow> p \<noteq> u \<Longrightarrow> load p u w' \<le> Suc (load p u w)"
  by (auto simp: HandleOOBMessage_def SendResponse_def SendMessage_def load_def queued_def inbound_pings_def
      split: option.splits if_splits prod.splits
      dest!: complete_message_frame dest: handle_send_load [unfolded load_def queued_def inbound_pings_def])

lemma SelectFromChannels_load:
  assumes "SelectFromChannels me us t idx resp w = Inr ((API_SUCCESS, i, m), w')" and "p \<noteq> u"
  obtains w1 where "handle_read me (us ! nat i) w1 = Inr (m, w')"
    and "load p u w1 + length (w_future w1) \<le> load p u w + length (w_future w)"
proof -
  from assms obtain found w1 where sc: "scan_pending me 0 us w = Inr (found, w1)"
    by (auto simp: SelectFromChannels_def split: if_splits)
  have p1: "load p u w1 = load p u w" "w_future w1 = w_future w"
    using scan_pending_load [OF sc] scan_pending_same [OF sc] by (auto simp: same_but_handles_def)
  show thesis
  proof (cases found)
    case (Some k)
    with assms sc have "handle_read me (us ! nat i) w1 = Inr (m, w')"
      by (auto simp: SelectFromChannels_def split: if_splits)
    with p1 show thesis by (intro that [of w1]) auto
  next
    case None
    obtain k w2 where ps: "priSelect us t w1 = (k, w2)" by (cases "priSelect us t w1")
    with None assms sc have "handle_read me (us ! nat i) w2 = Inr (m, w')"
      by (auto simp: SelectFromChannels_def split: if_splits option.splits)
    with p1 alt_wait_load [OF ps [unfolded priSelect_def] assms(2)] show thesis
      by (intro that [of w2]) auto
  qed
qed

text \<open>What a successful wait returns was read from the handle it names, and nothing is added meanwhile.\<close>

lemma wait_loop_read:
  "wait_loop n ctx (u # hs) left idx resp w = Some (Inr ((API_SUCCESS, i, m), w')) \<Longrightarrow>
     0 \<le> left \<Longrightarrow> p \<noteq> u \<Longrightarrow>
     \<exists>w1. handle_read (rc_fiber ctx) (hs ! nat i) w1 = Inr (m, w') \<and>
       load p u w1 + length (w_future w1) \<le> load p u w + length (w_future w)"
proof (induction n arbitrary: left resp w)
  case (Suc n)
  from Suc.prems obtain code k x w1 where
    sel: "SelectFromChannels (rc_fiber ctx) (u # hs) (nat left) IW_UNDEFINED resp w = Inr ((code, k, x), w1)"
    by (auto simp: Let_def split: sum.splits)
  from sel Suc.prems have code: "code = API_SUCCESS"
    by (auto simp: Let_def IW_FAILURE_def split: if_splits)
  obtain w0 where rd: "handle_read (rc_fiber ctx) ((u # hs) ! nat k) w0 = Inr (x, w1)"
    and le: "load p u w0 + length (w_future w0) \<le> load p u w + length (w_future w)"
    using SelectFromChannels_load [OF sel [unfolded code] \<open>p \<noteq> u\<close>] by blast
  show ?case
  proof (cases "k = 0")
    case True
    with sel code Suc.prems obtain w2 left2 where oob: "HandleOOBMessage ctx x w1 = Inr (True, w2)"
      and rest: "wait_loop n ctx (u # hs) left2 idx x w2 = Some (Inr ((API_SUCCESS, i, m), w'))" "0 \<le> left2"
      by (auto simp: Let_def IW_FAILURE_def split: sum.splits if_splits)
    from HandleOOB_pings [OF oob] obtain y where "x = Some y" "is_ping y" by blast
    with handle_read_load(3) [OF rd, of u y p] True have "load p u w1 < load p u w0" by simp
    with HandleOOB_load [OF oob \<open>p \<noteq> u\<close>] HandleOOB_frame [OF oob] handle_ops_frame(2) [OF rd] le
    have "load p u w2 + length (w_future w2) \<le> load p u w + length (w_future w)" by simp
    with Suc.IH [OF rest \<open>p \<noteq> u\<close>] show ?thesis by fastforce
  next
    case False
    with sel code Suc.prems have e: "k = i + 1" "x = m" "w1 = w'"
      by (auto simp: Let_def IW_FAILURE_def)
    from sel code SelectFromChannels_index have "0 \<le> i + 1" unfolding e by blast
    with False e have "nat (i + 1) = Suc (nat i)" by linarith
    with rd le e show ?thesis by auto
  qed
qed simp

section \<open>Transactions\<close>

lemma WaitForTxnResponse_list_run:
  "0 \<le> timeout \<Longrightarrow>
     \<exists>r. wait_loop (wait_fuel ctx w) ctx (rc_inbound ctx # hs) timeout idx resp w = Some r \<and>
         WaitForTxnResponse_list ctx hs idx resp timeout w = r"
  using wait_loop_enough [of "rc_inbound ctx" w "wait_fuel ctx w" ctx hs timeout idx resp]
  by (auto simp: WaitForTxnResponse_list_def wait_fuel_def)

lemma WaitForTxnResponse_list_frame:
  "WaitForTxnResponse_list ctx hs idx resp timeout w = Inr (r, w') \<Longrightarrow> same_scene w w'"
  by (auto simp: WaitForTxnResponse_list_def split: if_splits option.splits dest: wait_loop_frame)

lemma WaitForTxnResponse_list_deadline:
  "WaitForTxnResponse_list ctx hs idx resp timeout w = Inr (r, w') \<Longrightarrow>
     int (w_clock w') \<le> int (w_clock w) + max 0 timeout"
  by (cases r)
    (auto simp: WaitForTxnResponse_list_def split: if_splits option.splits dest: wait_loop_deadline)

lemma WaitForTxnResponse_frame:
  "WaitForTxnResponse ctx h resp timeout w = Inr (r, w') \<Longrightarrow>
     same_scene w w' \<and> int (w_clock w') \<le> int (w_clock w) + max 0 timeout"
  by (auto simp: WaitForTxnResponse_def
      dest: WaitForTxnResponse_list_frame WaitForTxnResponse_list_deadline)

definition world_ok :: "world \<Rightarrow> bool" where
  "world_ok w \<longleftrightarrow> reg_ok w \<and> w_pidIndex w \<ge> 6000 \<and>
     (\<forall>u. w_handles w u \<noteq> None \<longrightarrow> u < w_pidIndex w) \<and>
     (\<forall>k. smap_find (locProcessesMap (w_reg w)) k \<noteq> None \<longrightarrow> k < w_pidIndex w) \<and>
     (\<forall>k. smap_find (listenersMap (w_reg w)) k \<noteq> None \<longrightarrow> k < w_pidIndex w)"

lemma reg_update_triv [simp]: "w\<lparr>w_reg := w_reg w\<rparr> = w" for w :: world
  by simp

text \<open>
  Whatever the body does to the handles, if it leaves the registrar alone then so does the
  whole transaction: the temporary channel is registered and gone again.
\<close>

lemma with_txn_handle_frame:
  assumes ok: "world_ok w"
    and run: "with_txn_handle ctx nm body w = Inr (r, w')"
    and body: "\<And>u v v' x. body u v = Inr (x, v') \<Longrightarrow> same_scene v v'"
  shows "w_reg w' = w_reg w \<and> w_fibers w' = w_fibers w \<and> w_pidIndex w' = w_pidIndex w + 1 \<and>
    dom (w_handles w') = dom (w_handles w)"
proof -
  let ?u = "w_pidIndex w"
  define w1 where "w1 = snd (declare_handle nm MSG_DIRECTION_INBOUND w)"
  have d: "declare_handle nm MSG_DIRECTION_INBOUND w = (?u, w1)"
    by (simp add: w1_def declare_handle_def GenerateNewUID_def)
  have w1: "w_reg w1 = w_reg w" "w_fibers w1 = w_fibers w" "w_pidIndex w1 = ?u + 1"
    "dom (w_handles w1) = insert ?u (dom (w_handles w))"
    by (simp_all add: w1_def declare_handle_def GenerateNewUID_def)
  have fresh: "smap_find (locProcessesMap (w_reg w)) ?u = None"
    "smap_find (listenersMap (w_reg w)) ?u = None" "?u \<notin> dom (w_handles w)" "?u \<noteq> IW_UNDEFINED"
    using ok by (fastforce simp: world_ok_def IW_UNDEFINED_def)+
  then have svc: "smap_find (servicesMap (w_reg w)) ?u = None"
    using ok by (simp add: world_ok_def reg_ok_def)
  from run d obtain w2 w3 w4 where
    rc: "RegisterChannel ?u ?u [] w1 = Inr ((), w2)" and b: "body ?u w2 = Inr (r, w3)"
    and ur: "UnregisterChannel (rc_processId ctx) ?u w3 = Inr ((), w4)"
    and w': "w' = destroy_handle ?u w4"
    by (auto simp: with_txn_handle_def)
  from rc fresh w1 have w2: "w_reg w2 = (w_reg w)
      \<lparr>locProcessesMap := smap_insert ?u ?u (locProcessesMap (w_reg w)),
       servicesMap := smap_insert ?u [] (servicesMap (w_reg w))\<rparr>"
    "w_handles w2 = w_handles w1" "w_fibers w2 = w_fibers w1" "w_pidIndex w2 = w_pidIndex w1"
    by (auto simp: RegisterChannel_def)
  note s = body [OF b]
  from s w2 have reg3: "w_reg w3 = w_reg w2" by (simp add: same_scene_def)
  have ok': "smap_ok (locProcessesMap (w_reg w))" "smap_ok (servicesMap (w_reg w))"
    using ok by (simp_all add: world_ok_def reg_ok_def)
  have "w4 = w3\<lparr>w_reg := w_reg w\<rparr>"
    using ur fresh ok' svc unfolding UnregisterChannel_def reg3 w2(1)
    by (simp add: smap_find_insert smap_erase_insert split: if_splits)
  with w' s w2 w1 fresh show ?thesis
    by (auto simp: destroy_handle_def same_scene_def)
qed

lemma GenerateNewTxnId_frame:
  "GenerateNewTxnId w = (t, w') \<Longrightarrow>
     same_scene w w' \<and> w_clock w' = w_clock w \<and> w_handles w' = w_handles w \<and>
     w_future w' = w_future w"
  by (auto simp: GenerateNewTxnId_def same_scene_def)

lemma DoRequest_body_frame:
  "(let (t, w1) = GenerateNewTxnId v
    in bnd (SendMessage ctx (f t) w1) (\<lambda>(code, w2).
         if IW_FAILURE code then Inr ((code, resp), w2)
         else WaitForTxnResponse ctx u resp timeout w2)) = Inr (x, v') \<Longrightarrow> same_scene v v'"
  by (auto split: prod.splits if_splits
      dest!: GenerateNewTxnId_frame SendMessage_frame WaitForTxnResponse_frame
      intro: same_scene_trans)

lemma DoRequest_handle_body_frame:
  "(let (t, w1) = GenerateNewTxnId v
    in bnd (handle_send l dst (f t) w1) (\<lambda>(code, w2).
         if IW_FAILURE code then Inr ((API_UNKNOWN_DESTINATION, resp), w2)
         else WaitForTxnResponse ctx u resp timeout w2)) = Inr (x, v') \<Longrightarrow> same_scene v v'"
  by (auto split: prod.splits if_splits
      dest!: GenerateNewTxnId_frame handle_ops_frame(1) WaitForTxnResponse_frame
      intro: same_scene_trans)

section \<open>Scanning for pending messages\<close>

lemma handle_pending_Inr:
  "handle_pending me u w = Inr (p, w') \<longleftrightarrow>
     (\<exists>h h'. w_handles w u = Some h \<and> CheckReader me h = Inr h' \<and>
        p = chan_pending (hnd_channel h) \<and> w' = set_handle u h' w)"
  using CheckReader_frame [of me]
  by (fastforce simp: handle_pending_def on_handle_Inr InboundPending_def)

lemma scan_pending_ok:
  "scan_pending me k us w = Inr (r, w') \<Longrightarrow> handles_ok w \<Longrightarrow> handles_ok w'"
proof (induction us arbitrary: k w)
  case (Cons u us)
  from Cons.prems(1) obtain p w1 where p: "handle_pending me u w = Inr (p, w1)"
    and rest: "(if p then Inr (Some k, w1) else scan_pending me (Suc k) us w1) = Inr (r, w')"
    by auto
  from handle_ops_ok(3) [OF p Cons.prems(2)] have "handles_ok w1" .
  with rest Cons.IH show ?case by (auto split: if_splits)
qed simp

lemma priSelect_ok': "priSelect us t w = (r, w') \<Longrightarrow> handles_ok w \<Longrightarrow> handles_ok w'"
  using priSelect_ok [of w us t] by simp

lemma scan_pending_finds:
  "scan_pending me k us w = Inr (f, w') \<Longrightarrow> n < length us \<Longrightarrow> distinct us \<Longrightarrow>
     w_handles w (us ! n) = Some g \<Longrightarrow> buffer (hnd_channel g) = m # ms \<Longrightarrow>
     \<forall>j < n. \<forall>g. w_handles w (us ! j) = Some g \<longrightarrow> \<not> chan_pending (hnd_channel g) \<Longrightarrow>
     f = Some (k + n) \<and> w_clock w' = w_clock w \<and>
     (\<exists>g'. w_handles w' (us ! n) = Some g' \<and> buffer (hnd_channel g') = m # ms)"
proof (induction us arbitrary: k w n)
  case (Cons u us)
  from Cons.prems(1) obtain p w1 where "handle_pending me u w = Inr (p, w1)"
    and rest: "(if p then Inr (Some k, w1) else scan_pending me (Suc k) us w1) = Inr (f, w')"
    by auto
  then obtain h0 h1 where h0: "w_handles w u = Some h0" and h1: "CheckReader me h0 = Inr h1"
    and w1: "w1 = set_handle u h1 w" and pp: "p = chan_pending (hnd_channel h0)"
    by (auto simp: handle_pending_Inr)
  show ?case
  proof (cases n)
    case 0
    with Cons.prems h0 pp rest w1 CheckReader_frame [OF h1] show ?thesis
      by (auto simp: chan_pending_def)
  next
    case (Suc n')
    with Cons.prems(6) h0 pp have "\<not> p" by auto
    moreover from Suc Cons.prems(2,3,4) w1 have "w_handles w1 (us ! n') = Some g" by auto
    moreover have "\<forall>j < n'. \<forall>g. w_handles w1 (us ! j) = Some g \<longrightarrow> \<not> chan_pending (hnd_channel g)"
      using Suc Cons.prems(2,3,6) w1 by (fastforce split: if_splits)
    ultimately show ?thesis
      using Cons.IH [of "Suc k" w1 n'] Cons.prems(2,3,5) Suc rest w1 by auto
  qed
qed simp

lemma handle_read_head:
  "handle_read me u w = Inr (r, w') \<Longrightarrow> w_handles w u = Some g \<Longrightarrow>
     buffer (hnd_channel g) = m # ms \<Longrightarrow> r = Some m \<and> w_clock w' = w_clock w"
  by (cases r) (auto simp: handle_read_def on_handle_Inr dest!: Read_Some Read_None)

lemma resolve_complete:
  "complete_message ctx m w = (m1, w1) \<Longrightarrow> resolve m1 w1 = resolve m w"
  by (drule complete_message_frame)
    (auto simp: resolve_def GetHandle_def same_scene_def split: option.split)

section \<open>Unregistering\<close>

text \<open>An open handle with room and no interruptor accepts; nothing else changes.\<close>

definition accepts :: "lp_handle \<Rightarrow> bool" where
  "accepts h \<longleftrightarrow> \<not> isPoisoned (hnd_channel h) \<and> hnd_interruptor h = None \<and>
     length (buffer (hnd_channel h)) < MAX_MESSAGES_IN_QUEUE"

lemma handle_send_accepts:
  "w_handles w u = Some h \<Longrightarrow> accepts h \<Longrightarrow>
     \<exists>h'. handle_send l u m w = Inr (API_SUCCESS, set_handle u h' w) \<and>
          buffer (hnd_channel h') = buffer (hnd_channel h) @ [stamp_source l m]"
  by (auto simp: accepts_def handle_send_def on_handle_def LpHandle_Send_def chan_output_def
      outputWouldSucceed_def signal_in_def)

lemma notify_all_delivers:
  "distinct us \<Longrightarrow> \<forall>u \<in> set us. \<exists>h. w_handles w u = Some h \<and> accepts h \<Longrightarrow>
     \<exists>w'. notify_all l m us w = Inr ((), w') \<and>
       (\<forall>u h. w_handles w u = Some h \<longrightarrow> (\<exists>h'. w_handles w' u = Some h' \<and>
          buffer (hnd_channel h') = buffer (hnd_channel h) @
            (if u \<in> set us then [stamp_source l m] else [])))"
proof (induction us arbitrary: w)
  case (Cons u us)
  then obtain h where h: "w_handles w u = Some h" "accepts h" by auto
  from handle_send_accepts [OF this, of l m] obtain h1 where
    snd: "handle_send l u m w = Inr (API_SUCCESS, set_handle u h1 w)"
    and b: "buffer (hnd_channel h1) = buffer (hnd_channel h) @ [stamp_source l m]" by blast
  from Cons.prems have pre: "\<forall>v \<in> set us. \<exists>h. w_handles (set_handle u h1 w) v = Some h \<and> accepts h"
    by auto
  from Cons.prems have "distinct us" "u \<notin> set us" by auto
  from Cons.IH [OF this(1) pre] obtain w' where
    n: "notify_all l m us (set_handle u h1 w) = Inr ((), w')"
    and d: "\<And>v g. w_handles (set_handle u h1 w) v = Some g \<Longrightarrow> \<exists>h'. w_handles w' v = Some h' \<and>
          buffer (hnd_channel h') = buffer (hnd_channel g) @
            (if v \<in> set us then [stamp_source l m] else [])"
    by blast
  have "\<exists>h'. w_handles w' v = Some h' \<and> buffer (hnd_channel h') = buffer (hnd_channel g) @
      (if v \<in> set (u # us) then [stamp_source l m] else [])" if "w_handles w v = Some g" for v g
    using d [of v "if v = u then h1 else g"] that h b \<open>u \<notin> set us\<close> by (cases "v = u") auto
  with snd n show ?case by auto
qed auto

section \<open>Suspended processes\<close>

text \<open>Only resume messages are queued on the handle or still to come.\<close>

definition only_resume :: "int \<Rightarrow> fiber \<Rightarrow> world \<Rightarrow> bool" where
  "only_resume u me w \<longleftrightarrow>
     (\<exists>h. w_handles w u = Some h \<and> \<not> isPoisoned (hnd_channel h) \<and>
        (hnd_reader h = None \<or> hnd_reader h = Some me) \<and>
        (\<forall>m \<in> set (buffer (hnd_channel h)). message_id m = MSG_PROC_RESUME)) \<and>
     (\<forall>(t, e) \<in> set (w_future w). \<exists>m. e = EvSend u m \<and> message_id m = MSG_PROC_RESUME)"

lemma only_resume_time [simp]: "only_resume u me (w\<lparr>w_clock := c\<rparr>) = only_resume u me w"
  by (simp add: only_resume_def)

lemma only_resume_send:
  assumes "only_resume u me w" and "message_id m = MSG_PROC_RESUME"
  shows "only_resume u me (apply_event (EvSend u m) w)"
  using assms
  by (auto simp: only_resume_def apply_event_def handle_send_def on_handle_def LpHandle_Send_def
      chan_output_def split: sum.splits option.splits chan_exn.splits if_splits
      dest!: signal_in_channel)

lemma only_resume_future:
  "only_resume u me (w\<lparr>w_future := f\<rparr>) \<longleftrightarrow> only_resume u me (w\<lparr>w_future := []\<rparr>) \<and>
     (\<forall>(t, e) \<in> set f. \<exists>m. e = EvSend u m \<and> message_id m = MSG_PROC_RESUME)"
  by (auto simp: only_resume_def)

lemma alt_wait_only_resume:
  assumes "alt_wait us t fs w = (r, w')" and "only_resume u me (w\<lparr>w_future := fs\<rparr>)"
  shows "only_resume u me w'"
  using assms
proof (induction us t fs w arbitrary: r w' rule: alt_wait.induct)
  case (2 us t dt e fs w)
  have step: "only_resume u me ((apply_event e (w\<lparr>w_clock := w_clock w + dt\<rparr>))\<lparr>w_future := fs\<rparr>)"
  proof -
    from 2(3) obtain m where e: "e = EvSend u m" "message_id m = MSG_PROC_RESUME"
      by (auto simp: only_resume_def)
    have "only_resume u me (w\<lparr>w_clock := w_clock w + dt, w_future := []\<rparr>)"
      using 2(3) by (simp add: only_resume_def)
    from only_resume_send [OF this e(2)] have
      "only_resume u me ((apply_event e (w\<lparr>w_clock := w_clock w + dt\<rparr>))\<lparr>w_future := []\<rparr>)"
      by (auto simp: e only_resume_def apply_event_def handle_send_def on_handle_def set_handle_def
          split: sum.splits option.splits)
    with 2(3) show ?thesis
      by (subst only_resume_future) (auto simp: only_resume_def)
  qed
  show ?case
  proof (cases "first_ready us w = None \<and> dt \<le> t")
    case True
    with 2 step show ?thesis by auto
  next
    case False
    with 2(2,3) show ?thesis
      by (auto simp: only_resume_def split: option.splits if_splits)
  qed
qed (auto simp: only_resume_def split: option.splits)

lemma only_resume_ready:
  assumes "only_resume u me w" and "first_ready [u] w = Some i"
  shows "\<exists>m w'. handle_read me u w = Inr (Some m, w') \<and> message_id m = MSG_PROC_RESUME \<and>
    only_resume u me w'"
  using assms
  by (auto simp: only_resume_def handle_read_def on_handle_def LpHandle_Read_def CheckReader_def
      chan_input_def chan_pending_def split: list.splits if_splits)

lemma only_resume_check:
  assumes "only_resume u me w"
  shows "\<exists>w1. on_handle (\<lambda>h. bnd (CheckReader me h) (\<lambda>h'. Inr ((), h'))) u w = Inr ((), w1) \<and>
    only_resume u me w1"
  using assms by (auto simp: only_resume_def on_handle_def CheckReader_def)

lemma suspended_wait:
  assumes "only_resume u me w" and "0 < t"
  shows "\<exists>c mo w'. LpHandle_Wait me u t w = Inr ((c, mo), w') \<and> only_resume u me w' \<and>
    (c = API_TIMEOUT \<or> (\<exists>m. mo = Some m \<and> message_id m = MSG_PROC_RESUME))"
proof -
  obtain w1 where w1: "on_handle (\<lambda>h. bnd (CheckReader me h) (\<lambda>h'. Inr ((), h'))) u w = Inr ((), w1)"
    and r1: "only_resume u me w1"
    using only_resume_check [OF assms(1)] by blast
  obtain i w2 where p: "alt_wait [u] t (w_future w1) w1 = (i, w2)"
    by (cases "alt_wait [u] t (w_future w1) w1")
  have r2: "only_resume u me w2"
    using alt_wait_only_resume [OF p] r1 by simp
  show ?thesis
  proof (cases i)
    case None
    with w1 p r2 assms(2) show ?thesis by (simp add: LpHandle_Wait_def priSelect_def)
  next
    case (Some k)
    with only_resume_ready [OF r2 alt_wait_ready] p obtain m w3 where
      "handle_read me u w2 = Inr (Some m, w3)" "message_id m = MSG_PROC_RESUME" "only_resume u me w3"
      by blast
    with Some w1 p assms(2) show ?thesis by (simp add: LpHandle_Wait_def priSelect_def)
  qed
qed

lemma suspended_loop_stuck:
  "only_resume (rc_inbound ctx) (rc_fiber ctx) w \<Longrightarrow> suspended_loop n ctx w = None"
proof (induction n arbitrary: w)
  case (Suc n)
  from suspended_wait [OF Suc.prems, of 60000] obtain c mo w' where
    wt: "LpHandle_Wait (rc_fiber ctx) (rc_inbound ctx) 60000 w = Inr ((c, mo), w')"
    and r: "only_resume (rc_inbound ctx) (rc_fiber ctx) w'"
    and c: "c = API_TIMEOUT \<or> (\<exists>m. mo = Some m \<and> message_id m = MSG_PROC_RESUME)"
    by auto
  from Suc.IH [OF r] wt c show ?case by auto
qed simp

section \<open>Booting\<close>

lemma boot_simple_loop_length:
  "boot_simple_loop ctx t fs (ps, shs) w = Inr ((ok, (ps', shs')), w') \<Longrightarrow>
     length ps = length shs \<Longrightarrow>
     length ps' = length shs' \<and> (ok \<longleftrightarrow> length ps' = length ps + length fs) \<and>
     length ps' \<le> length ps + length fs \<and> take (length ps) ps' = ps"
proof (induction fs arbitrary: ps shs w)
  case (Cons f fs)
  from Cons.prems(1) obtain r w1 where b: "boot_one ctx t f w = Inr (r, w1)"
    and rest: "(case r of
         Boot_exception \<Rightarrow> Inr ((False, (ps, shs)), w1)
       | Boot_failed \<Rightarrow> Inr ((False, (ps, shs)), w1)
       | Booted p sh \<Rightarrow> boot_simple_loop ctx t fs (ps @ [p], shs @ [sh]) w1)
       = Inr ((ok, (ps', shs')), w')"
    by auto
  show ?case
  proof (cases r)
    case (Booted p sh)
    with rest have "boot_simple_loop ctx t fs (ps @ [p], shs @ [sh]) w1 = Inr ((ok, (ps', shs')), w')"
      by simp
    note IH = Cons.IH [OF this]
    from IH Cons.prems(2) have "take (length (ps @ [p])) ps' = ps @ [p]" by simp
    then have "take (length ps) (take (length (ps @ [p])) ps') = take (length ps) (ps @ [p])"
      by simp
    then have "take (length ps) ps' = ps" by (simp add: min_def)
    with IH Cons.prems(2) show ?thesis by auto
  qed (use rest Cons.prems in auto)
qed auto

end
