(* ===== verification/Iw_ActiveObject.thy ===== *)
theory Iw_ActiveObject
  imports Iw_Process_Facts
begin

text \<open>
  Active objects (\<^verbatim>\<open>iw_core/ActiveObject.cpp\<close>): the list of event listeners, starting and
  stopping the listener process, proxying events, and the loop of that process.
\<close>

record active_object =
  ao_handlePair :: "int \<times> int"
  ao_listeners :: "int list"
  ao_listenerBucket :: bool
  ao_shutdownFlag :: bool
  ao_started :: bool

definition new_ActiveObject :: active_object where
  "new_ActiveObject = \<lparr>ao_handlePair = (IW_UNDEFINED, IW_UNDEFINED), ao_listeners = [],
     ao_listenerBucket = False, ao_shutdownFlag = False, ao_started = False\<rparr>"

definition StartActiveObjectLwProc ::
  "int \<times> int \<Rightarrow> active_object \<Rightarrow> fault + active_object" where
  "StartActiveObjectLwProc pair ao =
     (if ao_started ao then Inl Terminate
      else Inr (ao\<lparr>ao_started := True, ao_handlePair := pair, ao_listenerBucket := True\<rparr>))"

text \<open>The wait for the listener process to end is left to the scheduler.\<close>

definition StopActiveObjectLwProc ::
  "running_context \<Rightarrow> active_object \<Rightarrow> world \<Rightarrow> fault + (active_object \<times> world)" where
  "StopActiveObjectLwProc ctx ao w =
     (if \<not> ao_started ao then Inr (ao, w)
      else let (m, w1) = new_MsgRequest MSG_PROC_SHUTDOWN_REQ w
           in bnd (handle_send (rc_processId ctx) (fst (ao_handlePair ao)) m w1) (\<lambda>(_, w2).
                Inr (ao\<lparr>ao_started := False, ao_shutdownFlag := True\<rparr>, w2)))"

text \<open>
  The erasing loop: \<^verbatim>\<open>erase\<close> gives the iterator of the next element and the loop header
  then advances past it, so the element after an erased one is not looked at.
\<close>

fun remove_loop :: "int \<Rightarrow> int list \<Rightarrow> int list" where
  "remove_loop u [] = []"
| "remove_loop u (x # xs) =
     (if x = u then (case xs of [] \<Rightarrow> [] | y # ys \<Rightarrow> y # remove_loop u ys)
      else x # remove_loop u xs)"

definition RemoveEventListener :: "int option \<Rightarrow> active_object \<Rightarrow> active_object" where
  "RemoveEventListener lh ao =
     (case lh of None \<Rightarrow> ao | Some u \<Rightarrow> ao\<lparr>ao_listeners := remove_loop u (ao_listeners ao)\<rparr>)"

definition AddEventListener :: "int \<Rightarrow> active_object \<Rightarrow> active_object" where
  "AddEventListener u ao =
     (let ao1 = RemoveEventListener (Some u) ao
      in ao1\<lparr>ao_listeners := ao_listeners ao1 @ [u]\<rparr>)"

definition UponActiveObjectEvent ::
  "int \<Rightarrow> iw_message \<Rightarrow> active_object \<Rightarrow> world \<Rightarrow> fault + (unit \<times> world)" where
  "UponActiveObjectEvent lpid m ao w = notify_all lpid m (ao_listeners ao) w"

text \<open>
  The loop of the listener process over what its waits see: the shutdown flag read after
  the wait, the code and the message.  \<open>handler\<close> is the virtual event method.  The result
  tells whether the loop ended within the observed waits.
\<close>

fun listener_loop ::
  "(iw_message \<Rightarrow> 's \<Rightarrow> fault + 's) \<Rightarrow> (bool \<times> ApiErrorCode \<times> iw_message option) list \<Rightarrow> 's \<Rightarrow>
     fault + (bool \<times> 's)" where
  "listener_loop handler [] s = Inr (False, s)"
| "listener_loop handler ((flag, code, mo) # rest) s =
     (if flag then Inr (True, s)
      else if code = API_TIMEOUT then listener_loop handler rest s
      else (case mo of
              None \<Rightarrow> Inl Null_deref
            | Some m \<Rightarrow>
                if message_id m = MSG_PROC_SHUTDOWN_REQ then Inr (True, s)
                else bnd (handler m s) (listener_loop handler rest)))"

lemma remove_loop_filter: "distinct xs \<Longrightarrow> remove_loop u xs = filter (\<lambda>x. x \<noteq> u) xs"
  by (induction u xs rule: remove_loop.induct) (auto split: list.splits intro!: filter_True [symmetric])

lemma remove_loop_absent: "u \<notin> set xs \<Longrightarrow> remove_loop u xs = xs"
  by (induction u xs rule: remove_loop.induct) auto

end
