(* ===== verification/Iw_Session.thy ===== *)
theory Iw_Session
  imports Iw_ActiveObject
begin

text \<open>
  The offer/answer session (\<^verbatim>\<open>iw_telephony/OfferAnswerSession.cpp\<close>): the state of one call and
  every operation on it.  A blocking operation lets the session's listener process run;
  the events it handles meanwhile are the argument \<open>evs\<close>, applied when the wait is over.
\<close>

datatype CallState =
    CALL_STATE_UNKNOWN | CALL_STATE_REQUESTED_OFFER | CALL_STATE_OFFERING
  | CALL_STATE_REMOTE_OFFERED | CALL_STATE_INITIAL_OFFERED | CALL_STATE_IN_DIALOG_OFFERED
  | CALL_STATE_CONNECTED | CALL_STATE_HELD | CALL_STATE_TERMINATED

record session =
  s_serviceHandleId :: int
  s_handlerPair :: "int \<times> int"
  s_iwCallHandle :: int
  s_localOffer :: AbstractOffer
  s_remoteOffer :: AbstractOffer
  s_callState :: CallState
  s_dnis :: string
  s_ani :: string
  s_hangupDetected :: bool
  s_dtmfChannel :: int
  s_hangupChannel :: int
  s_uac :: bool
  s_dtmfBuffer :: string
  s_ao :: active_object

definition empty_offer :: AbstractOffer where
  "empty_offer = \<lparr>offer_body = [], offer_type = []\<rparr>"

section \<open>Construction\<close>

definition session_fields :: "int \<Rightarrow> int \<Rightarrow> int \<times> int \<Rightarrow> int \<Rightarrow> int \<Rightarrow> bool \<Rightarrow> session" where
  "session_fields service call pair dtmf hangup uac =
     \<lparr>s_serviceHandleId = service, s_handlerPair = pair, s_iwCallHandle = call,
      s_localOffer = empty_offer, s_remoteOffer = empty_offer,
      s_callState = CALL_STATE_UNKNOWN, s_dnis = [], s_ani = [], s_hangupDetected = False,
      s_dtmfChannel = dtmf, s_hangupChannel = hangup, s_uac = uac, s_dtmfBuffer = [],
      s_ao = new_ActiveObject\<rparr>"

definition declare_anon :: "world \<Rightarrow> int \<times> world" where
  "declare_anon = declare_handle [] MSG_DIRECTION_UNDEFINED"

text \<open>The session without a service: no listener process is started.\<close>

definition new_session_idle :: "world \<Rightarrow> session \<times> world" where
  "new_session_idle w =
     (let (i, w1) = declare_anon w; (ob, w2) = declare_anon w1;
          (d, w3) = declare_anon w2; (h, w4) = declare_anon w3
      in (session_fields IW_UNDEFINED IW_UNDEFINED (i, ob) d h True, w4))"

text \<open>The session of an outgoing call.\<close>

definition new_session_uac :: "int \<Rightarrow> world \<Rightarrow> fault + (session \<times> world)" where
  "new_session_uac service w =
     (let (s, w1) = new_session_idle w
      in bnd (StartActiveObjectLwProc (s_handlerPair s) (s_ao s)) (\<lambda>ao.
           Inr (s\<lparr>s_serviceHandleId := service, s_ao := ao\<rparr>, w1)))"

definition InitFromIncoming :: "call_data \<Rightarrow> session \<Rightarrow> fault + session" where
  "InitFromIncoming offered s =
     bnd (StartActiveObjectLwProc (s_handlerPair s) (s_ao s)) (\<lambda>ao.
       Inr (s\<lparr>s_callState := CALL_STATE_INITIAL_OFFERED, s_ao := ao, s_dnis := dnis offered,
              s_ani := ani offered, s_remoteOffer := remoteOffer offered\<rparr>))"

text \<open>The session of an offered call.\<close>

definition new_session_uas :: "int \<Rightarrow> call_data \<Rightarrow> world \<Rightarrow> fault + (session \<times> world)" where
  "new_session_uas service offered w =
     (let (d, w1) = declare_anon w; (h, w2) = declare_anon w1;
          pair = (case call_handler offered of None \<Rightarrow> (IW_UNDEFINED, IW_UNDEFINED) | Some p \<Rightarrow> p);
          s = session_fields service (stack_call_handle offered) pair d h False
      in bnd (InitFromIncoming offered s) (\<lambda>s1. Inr (s1, w2)))"

section \<open>Events of the call\<close>

definition UponCallTerminated :: "int \<Rightarrow> session \<Rightarrow> world \<Rightarrow> fault + (session \<times> world)" where
  "UponCallTerminated lpid s w =
     bnd (handle_send lpid (s_hangupChannel s) (new_IwMessage MSG_CALL_HANG_UP_EVT) w)
       (\<lambda>(_, w1). Inr (s\<lparr>s_callState := CALL_STATE_TERMINATED\<rparr>, w1))"

text \<open>The payload is reached through a \<^verbatim>\<open>dynamic_pointer_cast\<close> that is not checked.\<close>

definition UponDtmfEvt :: "int \<Rightarrow> iw_message \<Rightarrow> session \<Rightarrow> world \<Rightarrow> fault + (session \<times> world)" where
  "UponDtmfEvt lpid m s w =
     (case payload m of
        CallPayload c \<Rightarrow>
          bnd (handle_send lpid (s_dtmfChannel s) m w)
            (\<lambda>(_, w1). Inr (s\<lparr>s_dtmfBuffer := s_dtmfBuffer s @ signal c\<rparr>, w1))
      | _ \<Rightarrow> Inl Null_deref)"

definition session_event ::
  "int \<Rightarrow> iw_message \<Rightarrow> session \<Rightarrow> world \<Rightarrow> fault + (session \<times> world)" where
  "session_event lpid m s w =
     bnd (if message_id m = MSG_CALL_HANG_UP_EVT then UponCallTerminated lpid s w
          else if message_id m = MSG_CALL_DTMF_EVT then UponDtmfEvt lpid m s w
          else Inr (s, w))
       (\<lambda>(s1, w1). bnd (UponActiveObjectEvent lpid m (s_ao s1) w1) (\<lambda>(_, w2). Inr (s1, w2)))"

fun session_events ::
  "int \<Rightarrow> iw_message list \<Rightarrow> session \<Rightarrow> world \<Rightarrow> fault + (session \<times> world)" where
  "session_events lpid [] s w = Inr (s, w)"
| "session_events lpid (m # ms) s w =
     bnd (session_event lpid m s w) (\<lambda>(s1, w1). session_events lpid ms s1 w1)"

section \<open>Calls\<close>

definition HangupCall ::
  "running_context \<Rightarrow> session \<Rightarrow> world \<Rightarrow> fault + (ApiErrorCode \<times> session \<times> world)" where
  "HangupCall ctx s w =
     (if s_iwCallHandle s = IW_UNDEFINED \<or> s_callState s = CALL_STATE_UNKNOWN \<or>
         s_callState s = CALL_STATE_TERMINATED
      then Inr (API_SUCCESS, s, w)
      else
        let (m, w1) = new_MsgRequest MSG_HANGUP_CALL_REQ w;
            msg = m\<lparr>payload := CallPayload (new_call_data\<lparr>stack_call_handle := s_iwCallHandle s\<rparr>)\<rparr>
        in bnd (SendMessage_to ctx (s_serviceHandleId s) msg w1) (\<lambda>(res, w2).
             Inr (res, s\<lparr>s_iwCallHandle := IW_UNDEFINED, s_hangupDetected := True\<rparr>, w2)))"

text \<open>
  A transaction with the service while the listener handles \<open>evs\<close>; the response comes back
  with the code.
\<close>

definition session_transaction ::
  "running_context \<Rightarrow> iw_message list \<Rightarrow> iw_message \<Rightarrow> int \<Rightarrow> string \<Rightarrow> session \<Rightarrow> world \<Rightarrow>
     fault + ((ApiErrorCode \<times> iw_message option) \<times> session \<times> world)" where
  "session_transaction ctx evs msg timeout nm s w =
     bnd (DoRequestResponseTransaction ctx (s_serviceHandleId s) msg None timeout nm w)
       (\<lambda>(r, w1). bnd (session_events (fst (s_handlerPair s)) evs s w1) (\<lambda>(s1, w2).
          Inr (r, s1, w2)))"

text \<open>What \<open>MakeCall\<close> records when the far end has answered.\<close>

definition call_answered :: "string \<Rightarrow> call_data \<Rightarrow> session \<Rightarrow> session" where
  "call_answered uri ok s =
     s\<lparr>s_remoteOffer := remoteOffer ok, s_iwCallHandle := stack_call_handle ok,
       s_dnis := uri, s_ani := ani ok,
       s_callState := (if offer_body (s_localOffer s) \<noteq> [] then CALL_STATE_CONNECTED
                       else CALL_STATE_REMOTE_OFFERED)\<rparr>"

definition MakeCall ::
  "running_context \<Rightarrow> iw_message list \<Rightarrow> string \<Rightarrow> AbstractOffer \<Rightarrow> int \<Rightarrow> session \<Rightarrow> world \<Rightarrow>
     fault + (ApiErrorCode \<times> session \<times> world)" where
  "MakeCall ctx evs uri offer ring_timeout s w =
     (if s_callState s \<noteq> CALL_STATE_UNKNOWN then Inr (API_FAILURE, s, w)
      else
        let s1 = s\<lparr>s_callState := CALL_STATE_OFFERING, s_localOffer := offer\<rparr>;
            (m, w1) = new_MsgRequest MSG_MAKE_CALL_REQ w;
            msg = m\<lparr>payload := CallPayload (new_call_data
                     \<lparr>destination_uri := uri, localOffer := offer,
                      handler_inbound := Some (fst (s_handlerPair s)),
                      stack_call_handle := s_iwCallHandle s\<rparr>)\<rparr>
        in bnd (session_transaction ctx evs msg ring_timeout
                  ''GenericOfferAnswerSession::MakeCall TXN'' s1 w1) (\<lambda>((res, response), s2, w2).
             if res = API_TIMEOUT
             then bnd (HangupCall ctx s2 w2) (\<lambda>(_, s3, w3). Inr (API_TIMEOUT, s3, w3))
             else if IW_FAILURE res
             then Inr (API_SERVER_FAILURE, s2\<lparr>s_callState := CALL_STATE_UNKNOWN\<rparr>, w2)
             else (case response of
                     None \<Rightarrow> Inl Null_deref
                   | Some r \<Rightarrow>
                       if message_id r = MSG_MAKE_CALL_OK
                       then (case payload r of
                               CallPayload ok \<Rightarrow>
                                 Inr (API_SUCCESS, call_answered uri ok s2, w2)
                             | _ \<Rightarrow> Inl Null_deref)
                       else if message_id r = MSG_MAKE_CALL_NACK
                       then Inr (API_SERVER_FAILURE, s2\<lparr>s_callState := CALL_STATE_UNKNOWN\<rparr>, w2)
                       else Inl Terminate)))"

definition ReOffer ::
  "running_context \<Rightarrow> iw_message list \<Rightarrow> AbstractOffer \<Rightarrow> int \<Rightarrow> session \<Rightarrow> world \<Rightarrow>
     fault + (ApiErrorCode \<times> session \<times> world)" where
  "ReOffer ctx evs offer ring_timeout s w =
     (if offer_body offer = [] then Inr (API_WRONG_PARAMETER, s, w)
      else if s_callState s \<noteq> CALL_STATE_CONNECTED then Inr (API_WRONG_STATE, s, w)
      else
        let s1 = s\<lparr>s_callState := CALL_STATE_IN_DIALOG_OFFERED\<rparr>;
            msg = (new_IwMessage MSG_CALL_REOFFER_REQ)\<lparr>payload := CallPayload (new_call_data
                    \<lparr>localOffer := offer, stack_call_handle := s_iwCallHandle s\<rparr>)\<rparr>
        in bnd (session_transaction ctx evs msg ring_timeout
                  ''GenericOfferAnswerSession::ReOffer TXN'' s1 w) (\<lambda>((res, response), s2, w2).
             if res = API_TIMEOUT
             then bnd (HangupCall ctx s2 w2) (\<lambda>(_, s3, w3). Inr (API_TIMEOUT, s3, w3))
             else if IW_FAILURE res
             then bnd (HangupCall ctx s2 w2) (\<lambda>(_, s3, w3). Inr (API_SERVER_FAILURE, s3, w3))
             else (case response of
                     None \<Rightarrow> Inl Null_deref
                   | Some r \<Rightarrow>
                       if message_id r = MSG_CALL_REOFFER_ACK
                       then (case payload r of
                               CallPayload ok \<Rightarrow>
                                 Inr (API_SUCCESS,
                                   s2\<lparr>s_localOffer := offer, s_remoteOffer := remoteOffer ok,
                                      s_callState := CALL_STATE_CONNECTED\<rparr>, w2)
                             | _ \<Rightarrow> Inl Null_deref)
                       else Inr (API_SERVER_FAILURE,
                              s2\<lparr>s_callState := CALL_STATE_CONNECTED\<rparr>, w2))))"

definition Answer ::
  "running_context \<Rightarrow> iw_message list \<Rightarrow> AbstractOffer \<Rightarrow> session \<Rightarrow> world \<Rightarrow>
     fault + (ApiErrorCode \<times> session \<times> world)" where
  "Answer ctx evs offer s w =
     (if s_callState s \<noteq> CALL_STATE_INITIAL_OFFERED \<and> s_callState s \<noteq> CALL_STATE_REMOTE_OFFERED
      then Inr (API_WRONG_STATE, s, w)
      else
        let s1 = s\<lparr>s_localOffer := offer\<rparr>;
            body = CallPayload (new_call_data
                     \<lparr>stack_call_handle := s_iwCallHandle s, localOffer := offer\<rparr>)
        in if s_uac s
           then bnd (SendMessage_to ctx (s_serviceHandleId s)
                       ((new_IwMessage MSG_CALL_CONNECTED)\<lparr>payload := body\<rparr>) w)
                  (\<lambda>(res, w1). Inr (res, s1\<lparr>s_callState := CALL_STATE_CONNECTED\<rparr>, w1))
           else bnd (session_transaction ctx evs
                       ((new_IwMessage MSG_CALL_OFFERED_ACK)\<lparr>payload := body\<rparr>)
                       (rc_transactionTimeout ctx)
                       ''Accept GenericOfferAnswerSession TXN'' s1 w) (\<lambda>((res, response), s2, w2).
                  if IW_FAILURE res then Inr (res, s2, w2)
                  else (case response of
                          None \<Rightarrow> Inl Null_deref
                        | Some r \<Rightarrow>
                            if message_id r = MSG_CALL_CONNECTED
                            then (case payload r of
                                    CallPayload ok \<Rightarrow>
                                      Inr (API_SUCCESS,
                                        s2\<lparr>s_iwCallHandle := stack_call_handle ok,
                                           s_callState := CALL_STATE_CONNECTED\<rparr>, w2)
                                  | _ \<Rightarrow> Inl Null_deref)
                            else bnd (HangupCall ctx s2 w2)
                                   (\<lambda>(_, s3, w3). Inr (API_SERVER_FAILURE, s3, w3)))))"

definition RejectCall ::
  "running_context \<Rightarrow> session \<Rightarrow> world \<Rightarrow> fault + (ApiErrorCode \<times> session \<times> world)" where
  "RejectCall ctx s w =
     bnd (SendMessage_to ctx (s_serviceHandleId s)
            ((new_IwMessage MSG_CALL_OFFERED_NACK)
               \<lparr>payload := CallPayload (new_call_data\<lparr>stack_call_handle := s_iwCallHandle s\<rparr>)\<rparr>) w)
       (\<lambda>(res, w1). Inr (res, s, w1))"

definition BlindXfer ::
  "running_context \<Rightarrow> iw_message list \<Rightarrow> string \<Rightarrow> session \<Rightarrow> world \<Rightarrow>
     fault + (ApiErrorCode \<times> session \<times> world)" where
  "BlindXfer ctx evs uri s w =
     (if s_iwCallHandle s = IW_UNDEFINED then Inr (API_FAILURE, s, w)
      else
        let msg = (new_IwMessage MSG_CALL_BLIND_XFER_REQ)\<lparr>payload := CallPayload (new_call_data
                    \<lparr>destination_uri := uri, stack_call_handle := s_iwCallHandle s\<rparr>)\<rparr>
        in bnd (session_transaction ctx evs msg 60000
                  ''Blind Xfer GenericOfferAnswerSession TXN'' s w) (\<lambda>((res, response), s2, w2).
             if res \<noteq> API_SUCCESS then Inr (res, s2, w2)
             else (case response of
                     None \<Rightarrow> Inl Null_deref
                   | Some r \<Rightarrow>
                       if message_id r = MSG_CALL_BLIND_XFER_ACK
                       then Inr (API_SUCCESS, s2\<lparr>s_callState := CALL_STATE_TERMINATED\<rparr>, w2)
                       else Inr (API_SERVER_FAILURE, s2, w2))))"

section \<open>DTMF and hangup waits\<close>

definition CleanDtmfBuffer :: "session \<Rightarrow> world \<Rightarrow> fault + (session \<times> world)" where
  "CleanDtmfBuffer s w =
     bnd (handle_poison (s_dtmfChannel s) w) (\<lambda>(_, w1).
       let (d, w2) = declare_anon w1
       in Inr (s\<lparr>s_dtmfBuffer := [], s_dtmfChannel := d\<rparr>, destroy_handle (s_dtmfChannel s) w2))"

text \<open>The result carries the signal; \<open>None\<close> where the output parameter is not assigned.\<close>

definition WaitForDtmf ::
  "running_context \<Rightarrow> int \<Rightarrow> session \<Rightarrow> world \<Rightarrow>
     fault + ((ApiErrorCode \<times> string option) \<times> world)" where
  "WaitForDtmf ctx timeout s w =
     bnd (WaitForTxnResponse_list ctx [s_dtmfChannel s, s_hangupChannel s] IW_UNDEFINED None
            timeout w) (\<lambda>((res, index, response), w1).
       if IW_FAILURE res then Inr ((res, None), w1)
       else if index = 1 then Inr ((API_HANGUP, None), w1)
       else (case response of
               None \<Rightarrow> Inl Null_deref
             | Some r \<Rightarrow> (case payload r of
                            CallPayload c \<Rightarrow> Inr ((API_SUCCESS, Some (signal c)), w1)
                          | _ \<Rightarrow> Inl Null_deref)))"

text \<open>\<open>WaitTillHangup\<close> retries while the wait times out; \<open>None\<close>: still waiting after \<open>n\<close> rounds.\<close>

fun WaitTillHangup :: "nat \<Rightarrow> running_context \<Rightarrow> session \<Rightarrow> world \<Rightarrow> (fault + world) option" where
  "WaitTillHangup 0 ctx s w = None"
| "WaitTillHangup (Suc n) ctx s w =
     (case WaitForTxnResponse ctx (s_hangupChannel s) None 100000 w of
        Inl e \<Rightarrow> Some (Inl e)
      | Inr ((res, _), w1) \<Rightarrow> if res = API_TIMEOUT then WaitTillHangup n ctx s w1 else Some (Inr w1))"

section \<open>Accepting calls\<close>

definition SubscribeToIncomingCalls ::
  "running_context \<Rightarrow> int \<Rightarrow> int \<Rightarrow> world \<Rightarrow> fault + (ApiErrorCode \<times> world)" where
  "SubscribeToIncomingCalls ctx stack listener w =
     bnd (DoRequestResponseTransaction_handle ctx stack
            ((new_IwMessage MSG_CALL_SUBSCRIBE_REQ)
               \<lparr>payload := CallPayload (new_call_data\<lparr>listener_handle := Some listener\<rparr>)\<rparr>)
            None 5000 ''SubscribeToIncomingCalls TXN'' w) (\<lambda>((res, response), w1).
       if res = API_TIMEOUT then Inr (API_TIMEOUT, w1)
       else if IW_FAILURE res then Inr (API_FAILURE, w1)
       else (case response of
               None \<Rightarrow> Inl Null_deref
             | Some r \<Rightarrow> Inr (if message_id r = MSG_CALL_SUBSCRIBE_ACK then API_SUCCESS
                              else API_SERVER_FAILURE, w1)))"

definition accept_key :: string where
  "accept_key = ''handles_map@GenericOfferAnswerSession::Accept''"

text \<open>
  The message loop of an accept waits on the handle declared in this call, whether or not
  it is the one that was subscribed.  A handle that was not stored is gone afterwards.
\<close>

definition accept_wait ::
  "running_context \<Rightarrow> int \<Rightarrow> nat \<Rightarrow> session \<Rightarrow> world \<Rightarrow> fault + (ApiErrorCode \<times> session \<times> world)" where
  "accept_wait ctx listener timeout s w =
     bnd (LpHandle_Wait (rc_fiber ctx) listener timeout w) (\<lambda>((res, mo), w1).
       if IW_FAILURE res then Inr (res, s, w1)
       else (case mo of
               None \<Rightarrow> Inl Null_deref
             | Some m \<Rightarrow>
                 if message_id m = MSG_CALL_OFFERED
                 then (case payload m of
                         CallPayload c \<Rightarrow>
                           bnd (InitFromIncoming c s) (\<lambda>s1. Inr (API_SUCCESS, s1, w1))
                       | _ \<Rightarrow> Inl Null_deref)
                 else Inr (API_UNKNOWN_RESPONSE, s, w1)))"

definition Accept ::
  "(string \<Rightarrow> string \<Rightarrow> bool) \<Rightarrow> running_context \<Rightarrow> string \<Rightarrow> nat \<Rightarrow> session \<Rightarrow> world \<Rightarrow>
     fault + (ApiErrorCode \<times> running_context \<times> session \<times> world)" where
  "Accept matches ctx service timeout s w =
     (let handles = (case smap_find (rc_appdata ctx) accept_key of None \<Rightarrow> [] | Some hm \<Rightarrow> hm);
          ctx1 = ctx\<lparr>rc_appdata := smap_insert accept_key handles (rc_appdata ctx)\<rparr>;
          (listener, w1) = declare_anon w
      in case smap_find handles service of
           Some _ \<Rightarrow>
             bnd (accept_wait ctx1 listener timeout s w1) (\<lambda>(res, s1, w2).
               Inr (res, ctx1, s1, destroy_handle listener w2))
         | None \<Rightarrow>
             (case GetHandle_service matches service w1 of
                None \<Rightarrow> Inl Null_deref
              | Some sh \<Rightarrow>
                  let s1 = s\<lparr>s_serviceHandleId := sh\<rparr>
                  in bnd (SubscribeToIncomingCalls ctx1 sh listener w1) (\<lambda>(res, w2).
                       if IW_FAILURE res then Inr (res, ctx1, s1, w2)
                       else
                         let ctx2 = ctx1\<lparr>rc_appdata := smap_insert accept_key
                                       (smap_insert service listener handles) (rc_appdata ctx1)\<rparr>
                         in bnd (accept_wait ctx2 listener timeout s1 w2) (\<lambda>(res2, s2, w3).
                              Inr (res2, ctx2, s2, w3)))))"

end
