(* ===== verification/Iw_SipStack.thy ===== *)
theory Iw_SipStack
  imports Iw_Media Iw_Config Iw_Session
begin

text \<open>
  The SIP stack process (\<^verbatim>\<open>iw_resip\<close>), its state and the steps its handlers are made of.  The
  process drives a dialog usage manager, which is not in the tree: what that library answers during a
  step (which handles are valid, which dialog set a usage belongs to, which commands it refuses
  with an exception) is an argument, and the commands given to it are output.
\<close>

section \<open>What goes in and out\<close>

text \<open>
  A usage of the library (an invite session, a registration, a subscription) by the number of its
  handle.  A profile has what the process sets in it.
\<close>

record profile =
  pf_max_registration :: "int option"
  pf_retry :: "int option"
  pf_digest :: "(string \<times> string \<times> string) option"
  pf_from :: string

text \<open>The commands of the library the process uses.\<close>

datatype dum_cmd =
    Provisional int int
  | Provide_offer int AbstractOffer
  | Provide_answer int AbstractOffer
  | Provide_local_answer int
  | Accept_call int
  | Reject_call int int
  | End_usage int
  | End_set nat
  | Send_info int AbstractOffer
  | Refer int string
  | Accept_nit int
  | Reject_nit int
  | Accept_update int
  | Remove_bindings int
  | Reject_request int int
  | Make_registration string profile nat
  | Make_subscription string "profile option" string int int nat
  | Make_invite string "profile option" "AbstractOffer option" nat
  | Set_header string string
  | Add_header string string
  | Send_made

text \<open>
  Outputs: a command, an answer to a request (the request and the answer as sent), a message put on
  a handle.  The delivery of answers is the messaging core's.
\<close>

datatype sip_out =
    Dum dum_cmd
  | Respond iw_message iw_message
  | Notify int iw_message

text \<open>
  A SIP message as the handlers read it: the contents (type, subtype, body), whether there is a
  \<^verbatim>\<open>Content-Type\<close>, the users of the \<^verbatim>\<open>From\<close> and \<^verbatim>\<open>To\<close> headers.
\<close>

record sip_message =
  sp_contents :: "(string \<times> string \<times> string) option"
  sp_has_type :: bool
  sp_from :: string
  sp_to :: string

text \<open>
  What the library answers in one step; validity and refusals may depend on what has been output
  before.  \<open>dv_find\<close> is \<^verbatim>\<open>findInviteSession\<close> on the dialog of a usage, \<open>dv_address\<close> whether a text
  parses as an address.  The last two fields are the log level.
\<close>

record dum_view =
  dv_valid :: "sip_out list \<Rightarrow> int \<Rightarrow> bool"
  dv_set :: "int \<Rightarrow> nat option"
  dv_find :: "int \<Rightarrow> int option"
  dv_connected :: "int \<Rightarrow> bool"
  dv_accepted :: "int \<Rightarrow> bool"
  dv_refuses :: "sip_out list \<Rightarrow> dum_cmd \<Rightarrow> bool"
  dv_address :: "string \<Rightarrow> bool"
  dv_known_header :: "string \<Rightarrow> bool"
  dv_log_debug :: bool
  dv_log_warn :: bool

section \<open>State\<close>

text \<open>
  The context of a dialog.  Contexts are shared by pointer, so they live in a heap; a dialog set of
  the application refers to its context, and so does the map of the process.
\<close>

record dialog_ctx =
  cx_invite :: "int option"
  cx_uas :: "int option"
  cx_uac :: "int option"
  cx_register :: "int option"
  cx_subscription :: "int option"
  cx_handler :: "int option"
  cx_stack_handle :: int
  cx_profile :: "profile option"
  cx_last_reoffer :: "iw_message option"
  cx_last_subscribe :: "iw_message option"

record dialog_set =
  ds_ctx :: "nat option"
  ds_last_subscribe :: "iw_message option"
  ds_last_makecall :: "iw_message option"
  ds_last_options :: "iw_message option"
  ds_last_registration :: "iw_message option"
  ds_make_call_ack :: "iw_message option"

record sip_stack =
  sk_map :: "(int, nat) smap"
  sk_ctxs :: "dialog_ctx list"
  sk_sets :: "dialog_set list"
  sk_events :: "int option"
  sk_next_call :: int
  sk_next_uid :: int
  sk_from :: string
  sk_out :: "sip_out list"

definition new_SipDialogContext :: dialog_ctx where
  "new_SipDialogContext = \<lparr>cx_invite = None, cx_uas = None, cx_uac = None, cx_register = None,
     cx_subscription = None, cx_handler = None, cx_stack_handle = IW_UNDEFINED, cx_profile = None,
     cx_last_reoffer = None, cx_last_subscribe = None\<rparr>"

definition empty_dialog_set :: dialog_set where
  "empty_dialog_set = \<lparr>ds_ctx = None, ds_last_subscribe = None, ds_last_makecall = None,
     ds_last_options = None, ds_last_registration = None, ds_make_call_ack = None\<rparr>"

definition new_ProcResipStack :: "string \<Rightarrow> int \<Rightarrow> int \<Rightarrow> sip_stack" where
  "new_ProcResipStack from calls uids = \<lparr>sk_map = [], sk_ctxs = [], sk_sets = [], sk_events = None,
     sk_next_call = calls, sk_next_uid = uids, sk_from = from, sk_out = []\<rparr>"

section \<open>Steps\<close>

text \<open>
  A step returns a value or a fault, and the state in either case.  An exception of the library and
  any other exception derived from \<^verbatim>\<open>std::exception\<close> can be caught; a crash (a null pointer, a bare
  \<^verbatim>\<open>throw\<close>) cannot.
\<close>

datatype sip_fault = Library_exception | Std_exception | Crash fault

type_synonym 'a step = "sip_stack \<Rightarrow> (sip_fault + 'a) \<times> sip_stack"

definition ret :: "'a \<Rightarrow> 'a step" where
  "ret x s = (Inr x, s)"

definition fail :: "sip_fault \<Rightarrow> 'a step" where
  "fail e s = (Inl e, s)"

definition hbind :: "'a step \<Rightarrow> ('a \<Rightarrow> 'b step) \<Rightarrow> 'b step" where
  "hbind m f s = (case m s of (Inl e, s1) \<Rightarrow> (Inl e, s1) | (Inr x, s1) \<Rightarrow> f x s1)"

fun do_all :: "unit step list \<Rightarrow> unit step" where
  "do_all [] = ret ()"
| "do_all (m # ms) = hbind m (\<lambda>_. do_all ms)"

definition on_library_exception :: "'a step \<Rightarrow> 'a step \<Rightarrow> 'a step" where
  "on_library_exception h m s =
     (case m s of (Inl Library_exception, s1) \<Rightarrow> h s1 | r \<Rightarrow> r)"

definition emit :: "sip_out \<Rightarrow> unit step" where
  "emit x s = (Inr (), s\<lparr>sk_out := sk_out s @ [x]\<rparr>)"

text \<open>A command the library may refuse.\<close>

definition dum :: "dum_view \<Rightarrow> dum_cmd \<Rightarrow> unit step" where
  "dum v c s = (if dv_refuses v (sk_out s) c then fail Library_exception s else emit (Dum c) s)"

text \<open>Dereferencing a handle of the library, which throws when it is not valid; its dialog set.\<close>

definition is_valid :: "dum_view \<Rightarrow> int option \<Rightarrow> sip_stack \<Rightarrow> bool" where
  "is_valid v h s = (case h of None \<Rightarrow> False | Some u \<Rightarrow> dv_valid v (sk_out s) u)"

definition deref :: "dum_view \<Rightarrow> int option \<Rightarrow> int step" where
  "deref v h s = (if is_valid v h s then ret (the h) s else fail Library_exception s)"

definition set_of :: "dum_view \<Rightarrow> int option \<Rightarrow> nat step" where
  "set_of v h = hbind (deref v h) (\<lambda>u s.
     case dv_set v u of
       None \<Rightarrow> fail Library_exception s
     | Some i \<Rightarrow> if i < length (sk_sets s) then ret i s else fail Library_exception s)"

text \<open>
  Objects of the process: reading and updating contexts and dialog sets.  A pointer to no context
  is a null pointer.
\<close>

definition with_ctx :: "nat \<Rightarrow> (dialog_ctx \<Rightarrow> 'a step) \<Rightarrow> 'a step" where
  "with_ctx r f s =
     (if r < length (sk_ctxs s) then f (sk_ctxs s ! r) s else fail (Crash Null_deref) s)"

definition with_set :: "nat \<Rightarrow> (dialog_set \<Rightarrow> 'a step) \<Rightarrow> 'a step" where
  "with_set i f s = f (sk_sets s ! i) s"

definition upd_ctx :: "nat \<Rightarrow> (dialog_ctx \<Rightarrow> dialog_ctx) \<Rightarrow> unit step" where
  "upd_ctx r f s =
     (if r < length (sk_ctxs s) then (Inr (), s\<lparr>sk_ctxs := (sk_ctxs s)[r := f (sk_ctxs s ! r)]\<rparr>)
      else fail (Crash Null_deref) s)"

definition upd_set :: "nat \<Rightarrow> (dialog_set \<Rightarrow> dialog_set) \<Rightarrow> unit step" where
  "upd_set i f s = (Inr (), s\<lparr>sk_sets := (sk_sets s)[i := f (sk_sets s ! i)]\<rparr>)"

definition new_ctx :: "dialog_ctx \<Rightarrow> nat step" where
  "new_ctx c s = (Inr (length (sk_ctxs s)), s\<lparr>sk_ctxs := sk_ctxs s @ [c]\<rparr>)"

definition new_set :: "dialog_set \<Rightarrow> nat step" where
  "new_set d s = (Inr (length (sk_sets s)), s\<lparr>sk_sets := sk_sets s @ [d]\<rparr>)"

text \<open>A null pointer to a context is dereferenced.\<close>

definition the_ctx :: "nat option \<Rightarrow> nat step" where
  "the_ctx p = (case p of None \<Rightarrow> fail (Crash Null_deref) | Some r \<Rightarrow> ret r)"

definition ctx_of :: "dum_view \<Rightarrow> int \<Rightarrow> nat step" where
  "ctx_of v u = hbind (set_of v (Some u)) (\<lambda>i. with_set i (\<lambda>d. the_ctx (ds_ctx d)))"

text \<open>The map of the process: an entry is always made under the handle of the context itself.\<close>

definition map_put :: "nat \<Rightarrow> unit step" where
  "map_put r = with_ctx r (\<lambda>c s. (Inr (), s\<lparr>sk_map := smap_insert (cx_stack_handle c) r (sk_map s)\<rparr>))"

definition map_del :: "int \<Rightarrow> unit step" where
  "map_del k s = (Inr (), s\<lparr>sk_map := smap_erase k (sk_map s)\<rparr>)"

definition lookup :: "int \<Rightarrow> (nat option \<Rightarrow> 'a step) \<Rightarrow> 'a step" where
  "lookup k f s = f (smap_find (sk_map s) k) s"

text \<open>\<^verbatim>\<open>InterlockedIncrement\<close> gives the new value.\<close>

definition next_call_handle :: "int step" where
  "next_call_handle s = (Inr (sk_next_call s + 1), s\<lparr>sk_next_call := sk_next_call s + 1\<rparr>)"

definition next_uid :: "int step" where
  "next_uid s = (Inr (sk_next_uid s), s\<lparr>sk_next_uid := sk_next_uid s + 1\<rparr>)"

section \<open>Messages\<close>

text \<open>The data of a call message: \<open>None\<close> is the failed cast.\<close>

definition call_of :: "iw_message \<Rightarrow> (call_data \<Rightarrow> 'a step) \<Rightarrow> 'a step" where
  "call_of m f = (case payload m of CallPayload c \<Rightarrow> f c | _ \<Rightarrow> fail (Crash Null_deref))"

definition sip_of :: "iw_message \<Rightarrow> (call_data \<Rightarrow> sip_data \<Rightarrow> 'a step) \<Rightarrow> 'a step" where
  "sip_of m f = (case payload m of SipPayload c d \<Rightarrow> f c d | _ \<Rightarrow> fail (Crash Null_deref))"

text \<open>What \<^verbatim>\<open>MsgVoipCallMixin\<close> copies from the request into an answer that has not set it.\<close>

definition copy_call_data :: "call_data \<Rightarrow> call_data \<Rightarrow> call_data" where
  "copy_call_data c req = c\<lparr>
     stack_call_handle := (if stack_call_handle c = IW_UNDEFINED then stack_call_handle req else stack_call_handle c),
     ani := (if ani c = [] then ani req else ani c),
     dnis := (if dnis c = [] then dnis req else dnis c)\<rparr>"

text \<open>An answer to a request that may be gone; the second form copies the data of the call.\<close>

definition respond :: "iw_message option \<Rightarrow> iw_message \<Rightarrow> unit step" where
  "respond req m =
     (case req of
        None \<Rightarrow> fail (Crash Null_deref)
      | Some q \<Rightarrow> emit (Respond q (copy_data_on_response m q)))"

definition respond_call :: "iw_message option \<Rightarrow> iw_message \<Rightarrow> call_data \<Rightarrow> unit step" where
  "respond_call req m c =
     (case req of
        None \<Rightarrow> fail (Crash Null_deref)
      | Some q \<Rightarrow> call_of q (\<lambda>qc. respond req (m\<lparr>payload := CallPayload (copy_call_data c qc)\<rparr>)))"

text \<open>A message put on the handle of a call's handler; a null handle is dereferenced.\<close>

definition notify :: "int option \<Rightarrow> iw_message \<Rightarrow> unit step" where
  "notify h m = (case h of None \<Rightarrow> fail (Crash Null_deref) | Some u \<Rightarrow> emit (Notify u m))"

definition call_message :: "MessageId \<Rightarrow> call_data \<Rightarrow> iw_message" where
  "call_message mid c = (new_IwMessage mid)\<lparr>payload := CallPayload c\<rparr>"

text \<open>The contents of a SIP message as an offer: its text up to the first zero.\<close>

definition c_str :: "string \<Rightarrow> string" where
  "c_str = takeWhile (\<lambda>c. c \<noteq> CHR 0x00)"

definition contents_offer :: "string \<times> string \<times> string \<Rightarrow> AbstractOffer" where
  "contents_offer x = (case x of (t, st, body) \<Rightarrow>
     \<lparr>offer_body = c_str body, offer_type = c_str t @ ''/'' @ c_str st\<rparr>)"

definition remote_offer :: "sip_message \<Rightarrow> call_data \<Rightarrow> call_data" where
  "remote_offer msg c =
     (case sp_contents msg of None \<Rightarrow> c | Some x \<Rightarrow> c\<lparr>remoteOffer := contents_offer x\<rparr>)"

text \<open>
  Writing the state of a handle to the log dereferences it, and so does writing the number of a
  context: only when the level of the message is logged.
\<close>

definition log_handle :: "dum_view \<Rightarrow> bool \<Rightarrow> int option \<Rightarrow> unit step" where
  "log_handle v on h = (if on then hbind (deref v h) (\<lambda>_. ret ()) else ret ())"

definition log_ctx :: "bool \<Rightarrow> nat option \<Rightarrow> unit step" where
  "log_ctx on p = (if on then hbind (the_ctx p) (\<lambda>_. ret ()) else ret ())"

end
