(* ===== verification/Iw_SipUas.thy ===== *)
theory Iw_SipUas
  imports Iw_SipStack
begin

text \<open>
  Incoming calls of the SIP stack (\<^verbatim>\<open>iw_resip/UASDialogUsageManager.cpp\<close>,
  \<^verbatim>\<open>IwAppDialogSet.cpp\<close>): one subscriber is told of an offered call, answers it, and is told when it
  is connected.
\<close>

section \<open>Dialog sets\<close>

text \<open>A set made by the process remembers the request that opens the dialog.\<close>

definition new_IwAppDialogSet :: "nat \<Rightarrow> iw_message \<Rightarrow> nat step" where
  "new_IwAppDialogSet r m =
     (let d = empty_dialog_set\<lparr>ds_ctx := Some r\<rparr>
      in if message_id m = SIP_CALL_SUBSCRIBE_REQ then new_set (d\<lparr>ds_last_subscribe := Some m\<rparr>)
         else if message_id m = MSG_MAKE_CALL_REQ then new_set (d\<lparr>ds_last_makecall := Some m\<rparr>)
         else if message_id m = SIP_CALL_REGISTER_REQ then new_set (d\<lparr>ds_last_registration := Some m\<rparr>)
         else fail Std_exception)"

text \<open>A set made by the library for an incoming dialog is empty.\<close>

definition createAppDialogSet :: "unit step" where
  "createAppDialogSet = hbind (new_set empty_dialog_set) (\<lambda>_. ret ())"

section \<open>Requests of the subscriber\<close>

definition UAS_CleanUpCall :: "nat \<Rightarrow> unit step" where
  "UAS_CleanUpCall r = with_ctx r (\<lambda>c. map_del (cx_stack_handle c))"

definition UAS_HangupCall :: "dum_view \<Rightarrow> nat \<Rightarrow> unit step" where
  "UAS_HangupCall v r = with_ctx r (\<lambda>c. do_all [
     log_handle v (dv_log_debug v) (cx_invite c),
     map_del (cx_stack_handle c),
     hbind (set_of v (cx_uas c)) (\<lambda>i. dum v (End_set i))])"

definition UponCallOfferedNack :: "dum_view \<Rightarrow> iw_message \<Rightarrow> unit step" where
  "UponCallOfferedNack v m = call_of m (\<lambda>nack. lookup (stack_call_handle nack) (\<lambda>p.
     case p of
       None \<Rightarrow> ret ()
     | Some r \<Rightarrow> with_ctx r (\<lambda>c. do_all [
         log_handle v (dv_log_debug v) (cx_invite c),
         UAS_CleanUpCall r,
         hbind (deref v (cx_uas c)) (\<lambda>u. dum v (End_usage u))])))"

text \<open>
  The subscriber accepts.  An answer without a media description hangs the call up, and then goes on
  to answer and accept it all the same.
\<close>

definition UponCallOfferedAck :: "dum_view \<Rightarrow> iw_message \<Rightarrow> unit step" where
  "UponCallOfferedAck v m = call_of m (\<lambda>ack. lookup (stack_call_handle ack) (\<lambda>p.
     case p of
       None \<Rightarrow> ret ()
     | Some r \<Rightarrow> with_ctx r (\<lambda>c. do_all [
         if offer_body (localOffer ack) = []
         then do_all [log_handle v (dv_log_warn v) (cx_invite c), UAS_HangupCall v r]
         else ret (),
         log_handle v (dv_log_debug v) (cx_invite c),
         hbind (set_of v (cx_uas c)) (\<lambda>i. upd_set i (\<lambda>d. d\<lparr>ds_make_call_ack := Some m\<rparr>)),
         hbind (deref v (cx_uas c)) (\<lambda>u. dum v (Provide_answer u (localOffer ack))),
         hbind (deref v (cx_uas c)) (\<lambda>u. dum v (Accept_call u))])))"

text \<open>The events handle; a later subscriber replaces an earlier one.\<close>

definition set_events :: "int option \<Rightarrow> unit step" where
  "set_events h s = (Inr (), s\<lparr>sk_events := h\<rparr>)"

definition UponSubscribeToIncomingReq :: "iw_message \<Rightarrow> unit step" where
  "UponSubscribeToIncomingReq m = call_of m (\<lambda>c. do_all [
     set_events (listener_handle c),
     respond (Some m) (call_message MSG_CALL_SUBSCRIBE_ACK new_call_data)])"

section \<open>Callbacks of the library\<close>

text \<open>The call is known by the number of the library's handle.\<close>

definition UAS_onNewSession :: "dum_view \<Rightarrow> int \<Rightarrow> unit step" where
  "UAS_onNewSession v sis = do_all [
     hbind (deref v (Some sis)) (\<lambda>u. dum v (Provisional u 100)),
     hbind (deref v (Some sis)) (\<lambda>u. dum v (Provisional u 180)),
     hbind (deref v (Some sis)) (\<lambda>u.
       hbind (new_ctx (new_SipDialogContext\<lparr>cx_uas := Some u, cx_stack_handle := u\<rparr>)) (\<lambda>r.
       hbind (set_of v (Some u)) (\<lambda>i. do_all [
         upd_set i (\<lambda>d. d\<lparr>ds_ctx := Some r\<rparr>),
         map_put r,
         log_handle v (dv_log_debug v) (Some u)])))]"

text \<open>Telling the subscriber of one call takes the subscription.\<close>

definition send_offered :: "call_data \<Rightarrow> unit step" where
  "send_offered c s =
     (case sk_events s of
        None \<Rightarrow> (Inr (), s)
      | Some e \<Rightarrow> (Inr (), s\<lparr>sk_out := sk_out s @ [Notify e (call_message MSG_CALL_OFFERED c)],
                             sk_events := None\<rparr>))"

definition no_events :: "unit step \<Rightarrow> unit step \<Rightarrow> unit step" where
  "no_events a b s = (if sk_events s = None then a s else b s)"

text \<open>Without a subscriber any offer, a keep-alive included, ends the dialog set.\<close>

definition UAS_onOffer :: "dum_view \<Rightarrow> int \<Rightarrow> sip_message \<Rightarrow> unit step" where
  "UAS_onOffer v is msg = no_events
     (hbind (set_of v (Some is)) (\<lambda>i. dum v (End_set i)))
     (hbind (ctx_of v is) (\<lambda>r. do_all [
        upd_ctx r (\<lambda>c. c\<lparr>cx_invite := Some is\<rparr>),
        log_handle v (dv_log_debug v) (Some is),
        hbind (deref v (Some is)) (\<lambda>u.
          if dv_accepted v u then dum v (Provide_local_answer u)
          else
            hbind next_uid (\<lambda>inbound. hbind next_uid (\<lambda>outbound.
              if dv_accepted v u then dum v (Reject_call u 488)
              else (case sp_contents msg of
                      None \<Rightarrow> fail (Crash Null_deref)
                    | Some x \<Rightarrow> with_ctx r (\<lambda>c. do_all [
                        send_offered (new_call_data\<lparr>remoteOffer := contents_offer x,
                          stack_call_handle := cx_stack_handle c, call_handler := Some (inbound, outbound),
                          dnis := c_str (sp_to msg), ani := c_str (sp_from msg)\<rparr>),
                        upd_ctx r (\<lambda>c. c\<lparr>cx_handler := Some inbound\<rparr>)])))))]))"

text \<open>The other side has confirmed: the subscriber's acceptance is answered.\<close>

definition UAS_onConnectedConfirmed :: "dum_view \<Rightarrow> int \<Rightarrow> unit step" where
  "UAS_onConnectedConfirmed v is = hbind (ctx_of v is) (\<lambda>r. do_all [
     upd_ctx r (\<lambda>c. c\<lparr>cx_invite := Some is\<rparr>),
     hbind (set_of v (Some is)) (\<lambda>i. with_set i (\<lambda>d.
       respond_call (ds_make_call_ack d) (new_IwMessage MSG_CALL_CONNECTED) new_call_data)),
     log_handle v (dv_log_debug v) (Some is)])"

text \<open>Requests outside a dialog: \<^verbatim>\<open>OPTIONS\<close> is not allowed, the rest is ignored.\<close>

definition UAS_onReceivedRequest :: "dum_view \<Rightarrow> int \<Rightarrow> bool \<Rightarrow> unit step" where
  "UAS_onReceivedRequest v ood is_options =
     (if is_options then hbind (deref v (Some ood)) (\<lambda>u. dum v (Reject_request u 405)) else ret ())"

end
