(* ===== verification/Iw_SipUac.thy ===== *)
theory Iw_SipUac
  imports Iw_SipUas
begin

text \<open>
  Outgoing calls, registrations and subscriptions of the SIP stack
  (\<^verbatim>\<open>iw_resip/UACDialogUsageManager.cpp\<close>), and the requests on established calls.
\<close>

section \<open>Registrations\<close>

definition UAC_reg_onSuccess :: "dum_view \<Rightarrow> int \<Rightarrow> unit step" where
  "UAC_reg_onSuccess v h = hbind (set_of v (Some h)) (\<lambda>i. hbind (ctx_of v h) (\<lambda>r. do_all [
     upd_ctx r (\<lambda>c. c\<lparr>cx_register := Some h\<rparr>),
     with_set i (\<lambda>d.
       if ds_last_registration d = None then ret ()
       else with_ctx r (\<lambda>c. do_all [
         respond (ds_last_registration d) ((new_MsgResponse SIP_CALL_REGISTER_ACK)\<lparr>payload :=
           SipPayload new_call_data (new_sip_data\<lparr>registration_id := cx_stack_handle c\<rparr>)\<rparr>),
         upd_set i (\<lambda>d. d\<lparr>ds_last_registration := None\<rparr>)]))]))"

definition UAC_reg_onFailure :: "dum_view \<Rightarrow> int \<Rightarrow> unit step" where
  "UAC_reg_onFailure v h = hbind (set_of v (Some h)) (\<lambda>i. with_set i (\<lambda>d. do_all [
     respond (ds_last_registration d) ((new_MsgResponse SIP_CALL_REGISTER_NACK)\<lparr>payload :=
       SipPayload new_call_data new_sip_data\<rparr>),
     hbind (the_ctx (ds_ctx d)) (\<lambda>r. with_ctx r (\<lambda>c. map_del (cx_stack_handle c)))]))"

definition UponUnRegisterReq :: "dum_view \<Rightarrow> iw_message \<Rightarrow> unit step" where
  "UponUnRegisterReq v m = sip_of m (\<lambda>_ d. lookup (registration_id d) (\<lambda>p.
     case p of
       None \<Rightarrow> ret ()
     | Some r \<Rightarrow> with_ctx r (\<lambda>c. do_all [
         (\<lambda>s. if is_valid v (cx_register c) s then dum v (Remove_bindings (the (cx_register c))) s else ret () s),
         map_del (cx_stack_handle c)])))"

text \<open>
  The times of a registration are both decided by the first one; without it the default of 180
  overwrites the 1 just set.
\<close>

definition registration_profile :: "string \<Rightarrow> sip_data \<Rightarrow> profile" where
  "registration_profile from d =
     (let up = \<lparr>pf_max_registration = None, pf_retry = None, pf_digest = None, pf_from = from\<rparr>;
          up1 = (if max_registration_time d \<noteq> IW_UNDEFINED
                 then up\<lparr>pf_max_registration := Some (max_registration_time d)\<rparr>
                 else up\<lparr>pf_max_registration := Some 1\<rparr>);
          up2 = (if max_registration_time d \<noteq> IW_UNDEFINED
                 then up1\<lparr>pf_retry := Some (registration_retry_time d)\<rparr>
                 else up1\<lparr>pf_max_registration := Some 180\<rparr>)
      in up2\<lparr>pf_digest := Some (sip_credentials d)\<rparr>)"

text \<open>A text that does not parse as an address is an exception.\<close>

definition name_addr :: "dum_view \<Rightarrow> string \<Rightarrow> unit step" where
  "name_addr v a = (if dv_address v (c_str a) then ret () else fail Library_exception)"

definition default_from :: "(string \<Rightarrow> 'a step) \<Rightarrow> 'a step" where
  "default_from f s = f (sk_from s) s"

definition UponRegisterReq :: "dum_view \<Rightarrow> iw_message \<Rightarrow> unit step" where
  "UponRegisterReq v m = sip_of m (\<lambda>_ d.
     hbind next_call_handle (\<lambda>k.
     hbind (new_ctx (new_SipDialogContext\<lparr>cx_stack_handle := k\<rparr>)) (\<lambda>r.
     hbind (new_IwAppDialogSet r m) (\<lambda>i. do_all [
       upd_set i (\<lambda>s. s\<lparr>ds_last_registration := Some m\<rparr>),
       name_addr v (sip_registrar d),
       default_from (\<lambda>from. do_all [
         upd_ctx r (\<lambda>c. c\<lparr>cx_profile := Some (registration_profile from d)\<rparr>),
         dum v (Make_registration (sip_registrar d) (registration_profile from d) i)]),
       map_put r,
       dum v Send_made]))))"

section \<open>Subscriptions\<close>

definition UAC_CleanUpCall :: "dum_view \<Rightarrow> nat \<Rightarrow> unit step" where
  "UAC_CleanUpCall v r = with_ctx r (\<lambda>c. do_all (
     map_del (cx_stack_handle c) #
     map (\<lambda>h s. if is_valid v h s then hbind (set_of v h) (\<lambda>i. dum v (End_set i)) s else ret () s)
       [cx_uac c, cx_uas c, cx_subscription c]))"

definition UAC_sub_onTerminated :: "dum_view \<Rightarrow> int \<Rightarrow> unit step" where
  "UAC_sub_onTerminated v h = hbind (ctx_of v h) (\<lambda>r. do_all [
     upd_ctx r (\<lambda>c. c\<lparr>cx_subscription := Some h\<rparr>),
     with_ctx r (\<lambda>c. respond (cx_last_subscribe c)
       ((new_MsgResponse SIP_CALL_SUBSCRIBE_NACK)\<lparr>payload := SipPayload new_call_data new_sip_data\<rparr>)),
     UAC_CleanUpCall v r])"

text \<open>The handle of the subscription in the answer is not set by the code.\<close>

definition UAC_onNewSubscription :: "dum_view \<Rightarrow> int \<Rightarrow> unit step" where
  "UAC_onNewSubscription v h = hbind (ctx_of v h) (\<lambda>r. do_all [
     upd_ctx r (\<lambda>c. c\<lparr>cx_subscription := Some h\<rparr>),
     with_ctx r (\<lambda>c. respond (cx_last_subscribe c)
       ((new_MsgResponse SIP_CALL_SUBSCRIBE_ACK)\<lparr>payload := SipPayload new_call_data new_sip_data\<rparr>))])"

definition subscribe_nack :: "iw_message \<Rightarrow> unit step" where
  "subscribe_nack m = respond (Some m)
     ((new_MsgResponse SIP_CALL_SUBSCRIBE_NACK)\<lparr>payload := SipPayload new_call_data new_sip_data\<rparr>)"

text \<open>The subscription proper, once there are a context and a dialog set.\<close>

definition make_subscription :: "dum_view \<Rightarrow> iw_message \<Rightarrow> sip_data \<Rightarrow> nat \<Rightarrow> nat \<Rightarrow> unit step" where
  "make_subscription v m d r i = do_all [
     upd_ctx r (\<lambda>c. c\<lparr>cx_last_subscribe := Some m\<rparr>),
     name_addr v (sip_dest d),
     with_ctx r (\<lambda>c. dum v (Make_subscription (sip_dest d) (cx_profile c) (c_str (events_package d))
       (refresh_interval d) (refresh_interval d) i)),
     dum v Send_made]"

definition UponSubscribeReq :: "dum_view \<Rightarrow> iw_message \<Rightarrow> unit step" where
  "UponSubscribeReq v m = sip_of m (\<lambda>call d.
     if stack_call_handle call = IW_UNDEFINED
     then
       hbind next_call_handle (\<lambda>k.
       hbind (new_ctx (new_SipDialogContext\<lparr>cx_stack_handle := k, cx_handler := sip_handler d\<rparr>)) (\<lambda>r.
       hbind (new_IwAppDialogSet r m) (\<lambda>i. do_all [
         upd_set i (\<lambda>s. s\<lparr>ds_last_registration := Some m\<rparr>),
         name_addr v (sip_dest d),
         if ani call = [] then ret () else name_addr v (ani call),
         default_from (\<lambda>from. upd_ctx r (\<lambda>c. c\<lparr>cx_profile := Some
           \<lparr>pf_max_registration = None, pf_retry = None, pf_digest = Some (sip_credentials d),
            pf_from = (if ani call = [] then from else ani call)\<rparr>\<rparr>)),
         map_put r,
         make_subscription v m d r i])))
     else lookup (stack_call_handle call) (\<lambda>p.
       case p of
         None \<Rightarrow> subscribe_nack m
       | Some r \<Rightarrow> with_ctx r (\<lambda>c.
           if cx_last_subscribe c \<noteq> None then subscribe_nack m
           else hbind (set_of v (cx_invite c)) (make_subscription v m d r))))"

text \<open>The three kinds of update of a subscription are handled alike.\<close>

definition onUpdate :: "dum_view \<Rightarrow> int \<Rightarrow> sip_message \<Rightarrow> unit step" where
  "onUpdate v h msg = do_all [
     hbind (deref v (Some h)) (\<lambda>u. dum v (Accept_update u)),
     hbind (ctx_of v h) (\<lambda>r. with_ctx r (\<lambda>c.
       notify (cx_handler c) (call_message SIP_CALL_NOTIFY_EVT (remote_offer msg new_call_data))))]"

section \<open>INFO\<close>

definition UponInfoReq :: "dum_view \<Rightarrow> iw_message \<Rightarrow> unit step" where
  "UponInfoReq v m = call_of m (\<lambda>req. lookup (stack_call_handle req) (\<lambda>p.
     case p of
       None \<Rightarrow> respond (Some m) ((new_MsgResponse SIP_CALL_INFO_NACK)\<lparr>payload := CallPayload new_call_data\<rparr>)
     | Some r \<Rightarrow> with_ctx r (\<lambda>c. do_all [
         hbind (deref v (cx_invite c)) (\<lambda>u. dum v (Send_info u (localOffer req))),
         hbind (set_of v (cx_invite c)) (\<lambda>i. upd_set i (\<lambda>d. d\<lparr>ds_last_options := Some m\<rparr>))])))"

text \<open>The result of an INFO: \<open>answer\<close> is the message for the request that is waiting, if one is.\<close>

definition info_result :: "dum_view \<Rightarrow> bool \<Rightarrow> int \<Rightarrow> iw_message \<Rightarrow> unit step" where
  "info_result v log is answer = hbind (set_of v (Some is)) (\<lambda>i. with_set i (\<lambda>d. do_all [
     log_ctx log (ds_ctx d),
     if ds_last_options d = None then ret ()
     else do_all [respond (ds_last_options d) answer,
                  upd_set i (\<lambda>d. d\<lparr>ds_last_options := None\<rparr>)]]))"

definition UAC_onInfoSuccess :: "dum_view \<Rightarrow> int \<Rightarrow> sip_message \<Rightarrow> unit step" where
  "UAC_onInfoSuccess v is msg = info_result v (dv_log_debug v) is
     ((new_MsgResponse SIP_CALL_INFO_ACK)\<lparr>payload := CallPayload (remote_offer msg new_call_data)\<rparr>)"

definition UAC_onInfoFailure :: "dum_view \<Rightarrow> int \<Rightarrow> unit step" where
  "UAC_onInfoFailure v is = info_result v (dv_log_warn v) is
     ((new_MsgResponse SIP_CALL_INFO_NACK)\<lparr>payload := CallPayload new_call_data\<rparr>)"

section \<open>Calls\<close>

definition UponHangupReq :: "dum_view \<Rightarrow> iw_message \<Rightarrow> unit step" where
  "UponHangupReq v m = call_of m (\<lambda>req. lookup (stack_call_handle req) (\<lambda>p.
     case p of
       None \<Rightarrow> ret ()
     | Some r \<Rightarrow> with_ctx r (\<lambda>c. do_all (
         map_del (cx_stack_handle c) #
         map (\<lambda>h s. if is_valid v h s then hbind (set_of v h) (\<lambda>i. dum v (End_set i)) s else ret () s)
           [cx_uac c, cx_uas c]))))"

definition UponCallConnected :: "dum_view \<Rightarrow> iw_message \<Rightarrow> unit step" where
  "UponCallConnected v m = call_of m (\<lambda>req. lookup (stack_call_handle req) (\<lambda>p.
     case p of
       None \<Rightarrow> ret ()
     | Some r \<Rightarrow> with_ctx r (\<lambda>c.
         if offer_body (localOffer req) = [] then ret ()
         else hbind (deref v (cx_uac c)) (\<lambda>u. dum v (Provide_answer u (localOffer req))))))"

text \<open>The answer to a re-offer, where one is waiting.\<close>

definition reoffer_answered :: "nat \<Rightarrow> sip_message \<Rightarrow> unit step" where
  "reoffer_answered r msg = with_ctx r (\<lambda>c. do_all [
     respond (cx_last_reoffer c) (call_message MSG_CALL_REOFFER_ACK (remote_offer msg new_call_data)),
     upd_ctx r (\<lambda>c. c\<lparr>cx_last_reoffer := None\<rparr>)])"

definition UAC_onAnswer :: "dum_view \<Rightarrow> int \<Rightarrow> sip_message \<Rightarrow> unit step" where
  "UAC_onAnswer v is msg = hbind (ctx_of v is) (\<lambda>r. with_ctx r (\<lambda>c.
     if cx_last_reoffer c = None then ret () else reoffer_answered r msg))"

text \<open>The call request is kept after its answer.\<close>

definition UAC_onConnected :: "dum_view \<Rightarrow> int \<Rightarrow> sip_message \<Rightarrow> unit step" where
  "UAC_onConnected v is msg = hbind (set_of v (Some is)) (\<lambda>i. hbind (ctx_of v is) (\<lambda>r.
     with_ctx r (\<lambda>c. with_set i (\<lambda>d.
       if cx_last_reoffer c \<noteq> None then reoffer_answered r msg
       else respond_call (ds_last_makecall d) (new_MsgResponse MSG_MAKE_CALL_OK)
              (remote_offer msg (new_call_data\<lparr>stack_call_handle := cx_stack_handle c,
                 ani := c_str (sp_from msg)\<rparr>))))))"

definition UAC_onFailure :: "dum_view \<Rightarrow> int \<Rightarrow> unit step" where
  "UAC_onFailure v is = hbind (set_of v (Some is)) (\<lambda>i. hbind (ctx_of v is) (\<lambda>r. with_set i (\<lambda>d.
     case ds_last_makecall d of
       None \<Rightarrow> fail (Crash Null_deref)
     | Some q \<Rightarrow>
         if message_id q = MSG_MAKE_CALL_REQ
         then do_all [respond_call (Some q) (new_MsgResponse MSG_MAKE_CALL_NACK) new_call_data,
                      UAC_CleanUpCall v r]
         else ret ())))"

text \<open>The context enters the map under the handle it has now.\<close>

definition UAC_onNewSession :: "dum_view \<Rightarrow> int \<Rightarrow> unit step" where
  "UAC_onNewSession v is = hbind (ctx_of v is) (\<lambda>r. do_all [
     upd_ctx r (\<lambda>c. c\<lparr>cx_uac := Some is, cx_invite := dv_find v is\<rparr>),
     map_put r])"

text \<open>A transfer needs a connected call; refusing it writes the state of the handle to the log.\<close>

definition UponBlindXferReq :: "dum_view \<Rightarrow> iw_message \<Rightarrow> unit step" where
  "UponBlindXferReq v m = call_of m (\<lambda>req. lookup (stack_call_handle req) (\<lambda>p.
     case p of
       None \<Rightarrow> respond (Some m) (call_message MSG_CALL_BLIND_XFER_NACK new_call_data)
     | Some r \<Rightarrow> with_ctx r (\<lambda>c s.
         if \<not> is_valid v (cx_invite c) s \<or> \<not> dv_connected v (the (cx_invite c))
         then do_all [log_handle v (dv_log_warn v) (cx_invite c),
                      respond (Some m) (call_message MSG_CALL_BLIND_XFER_NACK new_call_data)] s
         else do_all [log_handle v (dv_log_debug v) (cx_invite c),
                      name_addr v (destination_uri req),
                      hbind (deref v (cx_invite c)) (\<lambda>u. dum v (Refer u (destination_uri req))),
                      respond (Some m) (call_message MSG_CALL_BLIND_XFER_ACK new_call_data),
                      hbind (deref v (cx_invite c)) (\<lambda>u. dum v (End_usage u))] s)))"

section \<open>Making a call\<close>

text \<open>The optional parameters and credentials of the request.\<close>

record call_extra =
  ce_params :: "(string, any) smap"
  ce_credentials :: "string \<times> string \<times> string"

definition any_int :: "any \<Rightarrow> int step" where
  "any_int a = (case a of Any_int w \<Rightarrow> ret (sint w) | _ \<Rightarrow> fail Std_exception)"

definition any_string :: "any \<Rightarrow> string step" where
  "any_string a = (case a of Any_str x \<Rightarrow> ret x | _ \<Rightarrow> fail Std_exception)"

definition credentials_valid :: "string \<times> string \<times> string \<Rightarrow> bool" where
  "credentials_valid x = (case x of (username, password, realm) \<Rightarrow> username \<noteq> [] \<and> realm \<noteq> [])"

text \<open>
  Parameters with \<^verbatim>\<open>H_\<close> anywhere in their name become headers, named by the text after the first two
  characters.
\<close>

fun has_H :: "string \<Rightarrow> bool" where
  "has_H (a # b # cs) \<longleftrightarrow> (a = CHR ''H'' \<and> b = CHR ''_'') \<or> has_H (b # cs)"
| "has_H _ \<longleftrightarrow> False"

definition add_header :: "dum_view \<Rightarrow> string \<times> any \<Rightarrow> unit step" where
  "add_header v p = (case p of (name, a) \<Rightarrow>
     if \<not> has_H name then ret ()
     else hbind (any_string a) (\<lambda>value.
       if dv_known_header v (drop 2 name) then dum v (Set_header (drop 2 name) value)
       else dum v (Add_header (c_str (drop 2 name)) (c_str value))))"

text \<open>
  The user profile: that of the registration named by the parameters, or a new one, which the
  context keeps.  \<open>None\<close>: the registration is not known.
\<close>

definition call_profile :: "call_extra \<Rightarrow> nat \<Rightarrow> profile option option step" where
  "call_profile x r =
     (case smap_find (ce_params x) ''registration_id'' of
        Some a \<Rightarrow> hbind (any_int a) (\<lambda>reg. lookup reg (\<lambda>p.
          case p of
            None \<Rightarrow> ret None
          | Some r' \<Rightarrow> with_ctx r' (\<lambda>c. ret (Some (cx_profile c)))))
      | None \<Rightarrow> default_from (\<lambda>from.
          let up = \<lparr>pf_max_registration = None, pf_retry = None,
                    pf_digest = (if credentials_valid (ce_credentials x) then Some (ce_credentials x) else None),
                    pf_from = from\<rparr>
          in hbind (upd_ctx r (\<lambda>c. c\<lparr>cx_profile := Some up\<rparr>)) (\<lambda>_. ret (Some (Some up)))))"

definition make_call_nack :: "iw_message \<Rightarrow> unit step" where
  "make_call_nack m = respond_call (Some m) (new_MsgResponse MSG_MAKE_CALL_NACK) new_call_data"

text \<open>
  An empty offer makes a second dialog set for the same context.  The context gets its handle
  last, and only exceptions of the library are turned into a refusal.
\<close>

definition UponMakeCallReq :: "dum_view \<Rightarrow> call_extra \<Rightarrow> iw_message \<Rightarrow> unit step" where
  "UponMakeCallReq v x m = on_library_exception (make_call_nack m) (call_of m (\<lambda>req.
     hbind (name_addr v (destination_uri req)) (\<lambda>_.
     hbind (new_ctx new_SipDialogContext) (\<lambda>r.
     hbind (new_IwAppDialogSet r m) (\<lambda>i.
     hbind (call_profile x r) (\<lambda>pr.
       case pr of
         None \<Rightarrow> make_call_nack m
       | Some up \<Rightarrow> do_all [
           if offer_body (localOffer req) \<noteq> []
           then dum v (Make_invite (destination_uri req) up (Some (localOffer req)) i)
           else hbind (new_IwAppDialogSet r m) (\<lambda>i2. dum v (Make_invite (destination_uri req) up None i2)),
           do_all (map (add_header v) (ce_params x)),
           dum v Send_made,
           hbind (if stack_call_handle req = IW_UNDEFINED then next_call_handle else ret (stack_call_handle req))
             (\<lambda>k. upd_ctx r (\<lambda>c. c\<lparr>cx_stack_handle := k, cx_handler := handler_inbound req\<rparr>))]))))))"

end
