(* ===== verification/Iw_SipProc.thy ===== *)
theory Iw_SipProc
  imports Iw_SipUac
begin

text \<open>
  The SIP stack process itself (\<^verbatim>\<open>iw_resip/ProcResipStack.cpp\<close>): callbacks and requests are
  dispatched to the two sides, and when the loop ends, for whatever reason, every call is hung up.
\<close>

section \<open>Starting\<close>

text \<open>
  What the configuration decides of the library's master profile.  \<open>host_addr\<close> is the look-up of a host
  name, \<open>add\<close> whether the stack can open a transport, \<open>uri_ok\<close> whether a text parses.
\<close>

datatype timer_mode =
  PreferCallerRefreshes | PreferCalleeRefreshes | PreferLocalRefreshes | PreferRemoteRefreshes

record master_profile =
  mp_from :: string
  mp_outbound :: "string option"
  mp_registration_time :: int
  mp_timer :: bool
  mp_timer_mode :: "timer_mode option"
  mp_session_time :: "int option"

definition timer_modes :: "(string, timer_mode) smap" where
  "timer_modes = [(''prefer_local'', PreferLocalRefreshes), (''prefer_remote'', PreferRemoteRefreshes),
     (''prefer_uac'', PreferCallerRefreshes), (''prefer_uas'', PreferCalleeRefreshes)]"

text \<open>The session timer: its mode, and the time, which is at least 90 seconds.\<close>

definition session_timer ::
  "(string \<Rightarrow> string option) \<Rightarrow> json \<Rightarrow> config_error + (timer_mode option \<times> int option)" where
  "session_timer env conf =
     bnd (GetString env conf ''resip/sip_refresh_mode'') (\<lambda>mode.
       case smap_find timer_modes mode of
         None \<Rightarrow> Inr (None, None)
       | Some m \<Rightarrow>
           bnd (GetInt conf ''resip/sip_default_session_time'') (\<lambda>t.
             Inr (Some m, Some (if sint t < 90 then 90 else sint t))))"

text \<open>
  An option that is missing is an exception \<^verbatim>\<open>Init\<close> does not catch; a refusal of the library is a
  failure (\<open>None\<close>), after which the process ends.
\<close>

definition Init ::
  "(string \<Rightarrow> string option) \<Rightarrow> json \<Rightarrow> (string \<Rightarrow> 32 word) \<Rightarrow> (string \<Rightarrow> cnx_info \<Rightarrow> bool) \<Rightarrow>
     (string \<Rightarrow> bool) \<Rightarrow> config_error + master_profile option" where
  "Init env conf host_addr add uri_ok =
     bnd (GetString env conf ''resip/sip_host'') (\<lambda>host.
     bnd (GetInt conf ''resip/sip_port'') (\<lambda>port.
       let addr = CnxInfo_addr (host_addr host) (sint port)
       in if \<not> add ''UDP'' addr \<or> \<not> add ''TCP'' addr then Inr None
          else
            bnd (GetString env conf ''resip/from_id'') (\<lambda>user.
              let uri = ''sip:'' @ user @ ''@'' @ ipporttos addr
              in if \<not> uri_ok uri then Inr None
                 else
                   bnd (HasOption conf ''resip/outbound_proxy'') (\<lambda>has.
                   bnd (if has then bnd (GetString env conf ''resip/outbound_proxy'') (\<lambda>p. Inr (Some p))
                        else Inr None) (\<lambda>proxy.
                     if (case proxy of Some p \<Rightarrow> \<not> uri_ok p | None \<Rightarrow> False) then Inr None
                     else
                       bnd (GetBool conf ''resip/sip_session_timer_enabled'') (\<lambda>timer.
                       bnd (if timer then session_timer env conf else Inr (None, None)) (\<lambda>(mode, t).
                         Inr (Some \<lparr>mp_from = uri, mp_outbound = proxy, mp_registration_time = 70,
                           mp_timer = timer, mp_timer_mode = mode, mp_session_time = t\<rparr>))))))))"

text \<open>The process starts with an empty map when its profile has been made.\<close>

definition start_stack ::
  "config_error + master_profile option \<Rightarrow> int \<Rightarrow> int \<Rightarrow> config_error + sip_stack option" where
  "start_stack profile calls uids =
     bnd profile (\<lambda>p. Inr (map_option (\<lambda>mp. new_ProcResipStack (mp_from mp) calls uids) p))"

section \<open>Calls that end\<close>

definition hangup_evt :: iw_message where
  "hangup_evt = call_message MSG_CALL_HANG_UP_EVT new_call_data"

definition FinalizeContext :: "nat \<Rightarrow> unit step" where
  "FinalizeContext r = with_ctx r (\<lambda>c. do_all [
     case cx_handler c of Some h \<Rightarrow> notify (Some h) hangup_evt | None \<Rightarrow> ret (),
     map_del (cx_stack_handle c)])"

definition onTerminated :: "dum_view \<Rightarrow> int \<Rightarrow> unit step" where
  "onTerminated v is = hbind (ctx_of v is) FinalizeContext"

definition onSessionExpired :: "dum_view \<Rightarrow> int \<Rightarrow> unit step" where
  "onSessionExpired v is = hbind (ctx_of v is) FinalizeContext"

section \<open>Offers\<close>

text \<open>An offer in a call the process has made goes to a handler the caller's side does not have.\<close>

definition onOffer :: "dum_view \<Rightarrow> int \<Rightarrow> sip_message \<Rightarrow> unit step" where
  "onOffer v is msg = hbind (ctx_of v is) (\<lambda>r. with_ctx r (\<lambda>c s.
     if is_valid v (cx_uac c) s then ret () s else UAS_onOffer v is msg s))"

definition UponReofferReq :: "dum_view \<Rightarrow> iw_message \<Rightarrow> unit step" where
  "UponReofferReq v m = call_of m (\<lambda>req. lookup (stack_call_handle req) (\<lambda>p.
     case p of
       None \<Rightarrow> respond (Some m) (call_message MSG_CALL_REOFFER_NACK new_call_data)
     | Some r \<Rightarrow> do_all [
         upd_ctx r (\<lambda>c. c\<lparr>cx_last_reoffer := Some m\<rparr>),
         with_ctx r (\<lambda>c. hbind (deref v (cx_invite c)) (\<lambda>u. dum v (Provide_offer u (localOffer req))))]))"

section \<open>INFO from the other side\<close>

text \<open>The characters \<^verbatim>\<open>operator>>\<close> takes for white space, and \<^verbatim>\<open>atoi\<close> on a word without any.\<close>

definition is_space :: "char \<Rightarrow> bool" where
  "is_space c \<longleftrightarrow> c \<in> {CHR '' '', CHR 0x09, CHR 0x0A, CHR 0x0B, CHR 0x0C, CHR 0x0D}"

definition is_digit :: "char \<Rightarrow> bool" where
  "is_digit c \<longleftrightarrow> 48 \<le> (of_char c :: nat) \<and> (of_char c :: nat) \<le> 57"

definition digits_value :: "string \<Rightarrow> int" where
  "digits_value = foldl (\<lambda>n c. 10 * n + (of_char c - 48)) 0"

definition atoi :: "string \<Rightarrow> int" where
  "atoi x =
     (case x of
        [] \<Rightarrow> 0
      | c # cs \<Rightarrow>
          if c = CHR ''-'' then - digits_value (takeWhile is_digit cs)
          else if c = CHR ''+'' then digits_value (takeWhile is_digit cs)
          else digits_value (takeWhile is_digit x))"

text \<open>The word after the first equals sign; there is none when there is no such sign.\<close>

definition signal_word :: "string \<Rightarrow> string" where
  "signal_word body =
     takeWhile (\<lambda>c. \<not> is_space c) (dropWhile is_space (drop 1 (dropWhile (\<lambda>c. c \<noteq> CHR ''='') (c_str body))))"

definition signal_value :: "string \<Rightarrow> int" where
  "signal_value w = (if w = ''*'' then 10 else if w = ''#'' then 11 else atoi w)"

text \<open>The key of a number; other numbers are refused.\<close>

definition signal_key :: "int \<Rightarrow> string option" where
  "signal_key n =
     (if 0 \<le> n \<and> n \<le> 9 then Some (itoa n)
      else if n = 10 then Some ''*'' else if n = 11 then Some ''#'' else None)"

definition dtmf_evt :: "string \<Rightarrow> iw_message" where
  "dtmf_evt k = call_message MSG_CALL_DTMF_EVT (new_call_data\<lparr>signal := k\<rparr>)"

definition handler_of :: "nat option \<Rightarrow> (int option \<Rightarrow> unit step) \<Rightarrow> unit step" where
  "handler_of p f = hbind (the_ctx p) (\<lambda>r. with_ctx r (\<lambda>c. f (cx_handler c)))"

definition onInfo :: "dum_view \<Rightarrow> int \<Rightarrow> sip_message \<Rightarrow> unit step" where
  "onInfo v is msg =
     (if \<not> sp_has_type msg then hbind (deref v (Some is)) (\<lambda>u. dum v (Reject_nit u))
      else hbind (set_of v (Some is)) (\<lambda>i. with_set i (\<lambda>d.
        case sp_contents msg of
          None \<Rightarrow> fail (Crash Null_deref)
        | Some (t, st, body) \<Rightarrow>
            if t = ''application'' \<and> st = ''dtmf-relay''
            then (case signal_key (signal_value (signal_word body)) of
                    None \<Rightarrow> hbind (deref v (Some is)) (\<lambda>u. dum v (Reject_nit u))
                  | Some k \<Rightarrow> do_all [
                      handler_of (ds_ctx d) (\<lambda>h. notify h (dtmf_evt k)),
                      hbind (deref v (Some is)) (\<lambda>u. dum v (Accept_nit u))])
            else do_all [
              handler_of (ds_ctx d) (\<lambda>h. notify h ((new_IwMessage SIP_CALL_INFO_REQ)\<lparr>payload :=
                CallPayload (remote_offer msg new_call_data)\<rparr>)),
              hbind (deref v (Some is)) (\<lambda>u. dum v (Accept_nit u))])))"

section \<open>Dispatch\<close>

text \<open>
  The callbacks of the library.  Those the process does not handle do nothing, the end of a
  registration among them.
\<close>

datatype dum_callback =
    Cb_new_set
  | Cb_new_server_session int
  | Cb_new_client_session int
  | Cb_offer int sip_message
  | Cb_answer int sip_message
  | Cb_connected int sip_message
  | Cb_connected_confirmed int
  | Cb_client_failure int
  | Cb_terminated int
  | Cb_session_expired int
  | Cb_info int sip_message
  | Cb_info_success int sip_message
  | Cb_info_failure int
  | Cb_registered int
  | Cb_registration_failure int
  | Cb_new_subscription int
  | Cb_subscription_terminated int
  | Cb_update int sip_message
  | Cb_request int bool
  | Cb_other

fun callback :: "dum_view \<Rightarrow> dum_callback \<Rightarrow> unit step" where
  "callback v Cb_new_set = createAppDialogSet"
| "callback v (Cb_new_server_session u) = UAS_onNewSession v u"
| "callback v (Cb_new_client_session u) = UAC_onNewSession v u"
| "callback v (Cb_offer u msg) = onOffer v u msg"
| "callback v (Cb_answer u msg) = UAC_onAnswer v u msg"
| "callback v (Cb_connected u msg) = UAC_onConnected v u msg"
| "callback v (Cb_connected_confirmed u) = UAS_onConnectedConfirmed v u"
| "callback v (Cb_client_failure u) = UAC_onFailure v u"
| "callback v (Cb_terminated u) = onTerminated v u"
| "callback v (Cb_session_expired u) = onSessionExpired v u"
| "callback v (Cb_info u msg) = onInfo v u msg"
| "callback v (Cb_info_success u msg) = UAC_onInfoSuccess v u msg"
| "callback v (Cb_info_failure u) = UAC_onInfoFailure v u"
| "callback v (Cb_registered u) = UAC_reg_onSuccess v u"
| "callback v (Cb_registration_failure u) = UAC_reg_onFailure v u"
| "callback v (Cb_new_subscription u) = UAC_onNewSubscription v u"
| "callback v (Cb_subscription_terminated u) = UAC_sub_onTerminated v u"
| "callback v (Cb_update u msg) = onUpdate v u msg"
| "callback v (Cb_request u is_options) = UAS_onReceivedRequest v u is_options"
| "callback v Cb_other = ret ()"

definition done_with :: "bool \<Rightarrow> unit step \<Rightarrow> bool step" where
  "done_with shutdown m = hbind m (\<lambda>_. ret shutdown)"

text \<open>A message of an unknown kind ends in a bare \<^verbatim>\<open>throw\<close>.  The result tells whether to shut down.\<close>

definition ProcessApplicationMessages :: "dum_view \<Rightarrow> call_extra \<Rightarrow> iw_message \<Rightarrow> bool step" where
  "ProcessApplicationMessages v x m =
     (let mid = message_id m in
      if mid = MSG_CALL_SUBSCRIBE_REQ then done_with False (UponSubscribeToIncomingReq m)
      else if mid = MSG_CALL_CONNECTED then done_with False (UponCallConnected v m)
      else if mid = SIP_CALL_INFO_REQ then done_with False (UponInfoReq v m)
      else if mid = MSG_CALL_BLIND_XFER_REQ then done_with False (UponBlindXferReq v m)
      else if mid = MSG_PROC_SHUTDOWN_REQ then done_with True (respond (Some m) (new_MsgResponse MSG_PROC_SHUTDOWN_ACK))
      else if mid = MSG_HANGUP_CALL_REQ then done_with False (UponHangupReq v m)
      else if mid = MSG_CALL_OFFERED_ACK then done_with False (UponCallOfferedAck v m)
      else if mid = MSG_CALL_OFFERED_NACK then done_with False (UponCallOfferedNack v m)
      else if mid = MSG_MAKE_CALL_REQ then done_with False (UponMakeCallReq v x m)
      else if mid = SIP_CALL_REGISTER_REQ then done_with False (UponRegisterReq v m)
      else if mid = SIP_CALL_UNREGISTER_REQ then done_with False (UponUnRegisterReq v m)
      else if mid = MSG_CALL_REOFFER_REQ then done_with False (UponReofferReq v m)
      else if mid = SIP_CALL_SUBSCRIBE_REQ then done_with False (UponSubscribeReq v m)
      else if mid = MSG_PING then done_with False (respond (Some m) (new_MsgResponse MSG_PONG))
      else fail (Crash Terminate))"

section \<open>The loop\<close>

text \<open>
  What a round of the loop finds: an event of the library, with whether the library itself catches
  what a callback throws; a message; or nothing.
\<close>

datatype stack_event =
    Library dum_view bool dum_callback
  | Inbound dum_view call_extra iw_message
  | Keep_alive

fun sip_round :: "stack_event \<Rightarrow> bool step" where
  "sip_round (Library v catches cb) =
     (if catches then on_library_exception (ret False) (done_with False (callback v cb))
      else done_with False (callback v cb))"
| "sip_round (Inbound v x m) = ProcessApplicationMessages v x m"
| "sip_round Keep_alive = ret False"

text \<open>How the loop stands after some rounds: any exception leaves it, a crash ends the program.\<close>

datatype loop_end = Running | Left | Crashed fault

fun sip_loop :: "stack_event list \<Rightarrow> sip_stack \<Rightarrow> loop_end \<times> sip_stack" where
  "sip_loop [] s = (Running, s)"
| "sip_loop (e # es) s =
     (case sip_round e s of
        (Inl (Crash f), s1) \<Rightarrow> (Crashed f, s1)
      | (Inl _, s1) \<Rightarrow> (Left, s1)
      | (Inr shutdown, s1) \<Rightarrow> if shutdown then (Left, s1) else sip_loop es s1)"

text \<open>
  After the loop: the first context of the map is finalized until the map is empty.  \<open>None\<close>: not
  empty after \<open>n\<close> rounds.
\<close>

fun drain :: "nat \<Rightarrow> sip_stack \<Rightarrow> sip_stack option" where
  "drain n s =
     (case sk_map s of
        [] \<Rightarrow> Some s
      | (k, r) # m \<Rightarrow> (case n of 0 \<Rightarrow> None | Suc n' \<Rightarrow> drain n' (snd (FinalizeContext r s))))"

declare drain.simps [simp del]

text \<open>A whole run; the fuel of the last loop is the number of entries of the map.\<close>

definition ProcResipStack_real_run :: "stack_event list \<Rightarrow> sip_stack \<Rightarrow> (loop_end \<times> sip_stack) option" where
  "ProcResipStack_real_run es s =
     (case sip_loop es s of
        (Left, s1) \<Rightarrow> map_option (\<lambda>s2. (Left, s2)) (drain (length (sk_map s1)) s1)
      | other \<Rightarrow> Some other)"

end
