(* ===== verification/Iw_SipFacts.thy ===== *)
theory Iw_SipFacts
  imports Iw_SipProc
begin

text \<open>
  What the steps of the SIP stack preserve.  The locale \<open>stack_frame\<close> is the contract of a relation
  between states that every primitive step respects; every handler, every round and every run then
  respects it.  It is interpreted for the invariant of the map, for the count of offered calls, for
  contexts that have subscribed and for registrations that were answered.
\<close>

section \<open>Relations that steps respect\<close>

definition keeps :: "(sip_stack \<Rightarrow> sip_stack \<Rightarrow> bool) \<Rightarrow> 'a step \<Rightarrow> bool" where
  "keeps R m \<longleftrightarrow> (\<forall>s. R s (snd (m s)))"

definition is_offer :: "sip_out \<Rightarrow> bool" where
  "is_offer x \<longleftrightarrow> (case x of Notify h m \<Rightarrow> message_id m = MSG_CALL_OFFERED | _ \<Rightarrow> False)"

lemma is_offer_simps [simp]:
  "\<not> is_offer (Dum c)" "\<not> is_offer (Respond q m)"
  "is_offer (Notify h m) \<longleftrightarrow> message_id m = MSG_CALL_OFFERED"
  by (simp_all add: is_offer_def)

lemma call_message_id [simp]: "message_id (call_message mid c) = mid"
  by (simp add: call_message_def)

text \<open>Steps that leave the map alone.\<close>

locale step_frame =
  fixes R :: "sip_stack \<Rightarrow> sip_stack \<Rightarrow> bool"
  assumes refl: "R s s"
    and trans: "R s t \<Longrightarrow> R t u \<Longrightarrow> R s u"
    and emit: "\<not> is_offer y \<Longrightarrow> keeps R (emit y)"
    and send_offered: "keeps R (send_offered call)"
    and new_ctx: "keeps R (new_ctx cx)"
    and upd_ctx: "(\<And>c. cx_stack_handle (f c) = cx_stack_handle c) \<Longrightarrow>
         (\<And>c. cx_last_subscribe c \<noteq> None \<Longrightarrow> cx_last_subscribe (f c) \<noteq> None) \<Longrightarrow> keeps R (upd_ctx r f)"
    and new_set: "keeps R (new_set d)"
    and upd_set: "(\<And>d. ds_last_registration d = None \<Longrightarrow> ds_last_registration (g d) = None) \<Longrightarrow>
         keeps R (upd_set i g)"
    and next_call_handle: "keeps R next_call_handle"
    and next_uid: "keeps R next_uid"
begin

lemma keeps_ret: "keeps R (ret x)"
  by (simp add: keeps_def ret_def refl)

lemma keeps_fail: "keeps R (fail e)"
  by (simp add: keeps_def fail_def refl)

lemma keeps_bind: "keeps R m \<Longrightarrow> (\<And>x. keeps R (f x)) \<Longrightarrow> keeps R (hbind m f)"
  unfolding keeps_def hbind_def
  by (metis (no_types, lifting) prod.case_eq_if snd_conv sum.case_eq_if trans)

lemma keeps_all: "(\<And>m. m \<in> set ms \<Longrightarrow> keeps R m) \<Longrightarrow> keeps R (do_all ms)"
  by (induction ms) (simp_all add: keeps_ret keeps_bind)

lemma keeps_state: "(\<And>s. keeps R (f s)) \<Longrightarrow> keeps R (\<lambda>s. f s s)"
  by (simp add: keeps_def)

lemma keeps_if: "keeps R a \<Longrightarrow> keeps R b \<Longrightarrow> keeps R (\<lambda>s. if P s then a s else b s)"
  by (simp add: keeps_def)

lemma keeps_catch: "keeps R h \<Longrightarrow> keeps R m \<Longrightarrow> keeps R (on_library_exception h m)"
  unfolding keeps_def on_library_exception_def
  by (auto split: prod.splits sum.splits sip_fault.splits) (metis snd_conv trans)+

lemma keeps_with_ctx: "(\<And>c. keeps R (f c)) \<Longrightarrow> keeps R (with_ctx r f)"
  by (simp add: keeps_def with_ctx_def fail_def refl)

lemma keeps_with_set: "(\<And>d. keeps R (f d)) \<Longrightarrow> keeps R (with_set i f)"
  by (simp add: keeps_def with_set_def)

lemma keeps_lookup: "(\<And>p. keeps R (f p)) \<Longrightarrow> keeps R (lookup k f)"
  by (simp add: keeps_def lookup_def)

lemma keeps_default_from: "(\<And>x. keeps R (f x)) \<Longrightarrow> keeps R (default_from f)"
  by (simp add: keeps_def default_from_def)

lemma keeps_no_events: "keeps R a \<Longrightarrow> keeps R b \<Longrightarrow> keeps R (no_events a b)"
  by (simp add: keeps_def no_events_def)

lemma keeps_call_of: "(\<And>c. keeps R (f c)) \<Longrightarrow> keeps R (call_of m f)"
  by (simp add: call_of_def keeps_fail split: payload.split)

lemma keeps_sip_of: "(\<And>c d. keeps R (f c d)) \<Longrightarrow> keeps R (sip_of m f)"
  by (simp add: sip_of_def keeps_fail split: payload.split)

lemma keeps_deref: "keeps R (deref v h)"
  by (simp add: keeps_def deref_def ret_def fail_def refl)

lemma keeps_set_of: "keeps R (set_of v h)"
  unfolding set_of_def
  by (rule keeps_bind [OF keeps_deref]) (simp add: keeps_def ret_def fail_def refl split: option.split)

lemma keeps_the_ctx: "keeps R (the_ctx p)"
  by (simp add: the_ctx_def keeps_ret keeps_fail split: option.split)

lemma keeps_dum: "keeps R (dum v c)"
  unfolding dum_def using emit [of "Dum c"] by (simp add: keeps_def fail_def refl)

lemma keeps_respond: "keeps R (respond req m)"
  by (simp add: respond_def keeps_fail emit split: option.split)

lemma keeps_notify: "message_id m \<noteq> MSG_CALL_OFFERED \<Longrightarrow> keeps R (notify h m)"
  by (simp add: notify_def keeps_fail emit split: option.split)

lemmas keeps_steps =
  keeps_ret keeps_fail keeps_bind keeps_all keeps_if keeps_with_ctx keeps_with_set keeps_lookup
  keeps_default_from keeps_no_events keeps_call_of keeps_sip_of keeps_deref keeps_set_of keeps_the_ctx
  keeps_dum keeps_respond keeps_notify send_offered new_ctx new_set next_call_handle next_uid

lemma keeps_new_IwAppDialogSet: "keeps R (new_IwAppDialogSet r m)"
  by (simp add: new_IwAppDialogSet_def Let_def keeps_steps)

lemma keeps_parts:
  "keeps R (ctx_of v u)" "keeps R (log_handle v on h)" "keeps R (log_ctx on p)"
  "keeps R (respond_call req m c)" "keeps R (name_addr v a)" "keeps R (any_int y)"
  "keeps R (any_string y)" "(\<And>h. keeps R (f h)) \<Longrightarrow> keeps R (handler_of p f)"
  by (auto simp: ctx_of_def log_handle_def log_ctx_def respond_call_def name_addr_def any_int_def
      any_string_def handler_of_def intro!: keeps_steps split: option.split any.split)

lemmas keeps_rules = keeps_steps keeps_parts keeps_new_IwAppDialogSet upd_ctx upd_set

lemma keeps_call_profile: "keeps R (call_profile x r)"
  by (auto simp: call_profile_def Let_def intro!: keeps_rules split: option.split)

lemma keeps_add_header: "keeps R (add_header v p)"
  by (auto simp: add_header_def intro!: keeps_rules split: prod.split)

lemma keeps_make_call_nack: "keeps R (make_call_nack m)"
  by (simp add: make_call_nack_def keeps_rules)

end

text \<open>Steps of the handlers; \<open>admitted\<close> are the subscriptions a relation allows.\<close>

locale stack_frame = step_frame +
  fixes admitted :: "iw_message \<Rightarrow> bool"
  assumes fresh_set: "(\<And>i. keeps R (do_all (ms i))) \<Longrightarrow>
         keeps R (hbind (new_IwAppDialogSet r m) (\<lambda>i. do_all (upd_set i g # ms i)))"
    and map_put: "keeps R (map_put r)"
    and map_del: "keeps R (map_del k)"
    and subscribe: "admitted m \<Longrightarrow> keeps R (UponSubscribeToIncomingReq m)"
begin

lemmas handler_rules = keeps_rules map_put map_del

text \<open>Incoming calls.\<close>

lemma keeps_incoming:
  "keeps R createAppDialogSet" "keeps R (UAS_HangupCall v r)" "keeps R (UAS_CleanUpCall r)"
  "keeps R (UAS_onNewSession v u)" "keeps R (UAS_onOffer v u msg)"
  "keeps R (UAS_onConnectedConfirmed v u)" "keeps R (UAS_onReceivedRequest v u b)"
  by (auto simp: createAppDialogSet_def UAS_HangupCall_def UAS_CleanUpCall_def UAS_onNewSession_def
      UAS_onOffer_def UAS_onConnectedConfirmed_def UAS_onReceivedRequest_def
      intro!: handler_rules split: option.split)

lemma keeps_offered_answers:
  "keeps R (UponCallOfferedNack v m)" "keeps R (UponCallOfferedAck v m)"
  by (auto simp: UponCallOfferedNack_def UponCallOfferedAck_def
      intro!: handler_rules keeps_incoming split: option.split)

text \<open>Registrations and subscriptions.\<close>

lemma keeps_registration:
  "keeps R (UAC_reg_onSuccess v u)" "keeps R (UAC_reg_onFailure v u)" "keeps R (UponUnRegisterReq v m)"
  by (auto simp: UAC_reg_onSuccess_def UAC_reg_onFailure_def UponUnRegisterReq_def
      intro!: handler_rules split: option.split)

lemma keeps_UponRegisterReq: "keeps R (UponRegisterReq v m)"
  unfolding UponRegisterReq_def
  by (rule keeps_sip_of keeps_bind [OF next_call_handle] keeps_bind [OF new_ctx] fresh_set)+
    (auto intro!: handler_rules)

lemma keeps_subscription:
  "keeps R (UAC_CleanUpCall v r)" "keeps R (UAC_onNewSubscription v u)" "keeps R (subscribe_nack m)"
  "keeps R (make_subscription v m d r i)" "keeps R (onUpdate v u msg)"
  by (auto simp: UAC_CleanUpCall_def UAC_onNewSubscription_def subscribe_nack_def make_subscription_def
      onUpdate_def intro!: handler_rules)

lemma keeps_UAC_sub_onTerminated: "keeps R (UAC_sub_onTerminated v u)"
  by (auto simp: UAC_sub_onTerminated_def intro!: handler_rules keeps_subscription)

lemma keeps_cond: "(b \<Longrightarrow> keeps R m) \<Longrightarrow> (\<not> b \<Longrightarrow> keeps R n) \<Longrightarrow> keeps R (if b then m else n)"
  by simp

lemma keeps_UponSubscribeReq: "keeps R (UponSubscribeReq v m)"
  unfolding UponSubscribeReq_def
proof (rule keeps_sip_of, rule keeps_cond, goal_cases)
  case 1
  show ?case
    by (rule keeps_bind [OF next_call_handle] keeps_bind [OF new_ctx] fresh_set)+
      (auto intro!: handler_rules keeps_subscription)
next
  case 2
  then show ?case by (auto intro!: handler_rules keeps_subscription split: option.split)
qed

text \<open>Calls.\<close>

lemma keeps_calls:
  "keeps R (UponInfoReq v m)" "keeps R (UAC_onInfoSuccess v u msg)" "keeps R (UAC_onInfoFailure v u)"
  "keeps R (UponHangupReq v m)" "keeps R (UponCallConnected v m)" "keeps R (reoffer_answered r msg)"
  "keeps R (UAC_onNewSession v u)" "keeps R (UponReofferReq v m)" "keeps R (FinalizeContext r)"
  by (auto simp: UponInfoReq_def UAC_onInfoSuccess_def UAC_onInfoFailure_def info_result_def
      UponHangupReq_def UponCallConnected_def reoffer_answered_def UAC_onNewSession_def
      UponReofferReq_def FinalizeContext_def hangup_evt_def intro!: handler_rules split: option.split)

lemma keeps_more_calls:
  "keeps R (UAC_onAnswer v u msg)" "keeps R (UAC_onConnected v u msg)" "keeps R (UAC_onFailure v u)"
  "keeps R (onTerminated v u)" "keeps R (onSessionExpired v u)"
  by (auto simp: UAC_onAnswer_def UAC_onConnected_def UAC_onFailure_def onTerminated_def
      onSessionExpired_def intro!: handler_rules keeps_calls keeps_subscription split: option.split)

lemma keeps_UponBlindXferReq: "keeps R (UponBlindXferReq v m)"
  by (auto simp: UponBlindXferReq_def intro!: handler_rules split: option.split)

lemma keeps_onOffer: "keeps R (onOffer v u msg)"
  by (auto simp: onOffer_def intro!: handler_rules keeps_incoming)

lemma keeps_onInfo: "keeps R (onInfo v u msg)"
  by (auto simp: onInfo_def dtmf_evt_def intro!: handler_rules split: option.split)

lemma keeps_callback: "keeps R (callback v cb)"
  by (cases cb) (auto intro!: handler_rules keeps_incoming keeps_registration keeps_subscription
      keeps_UAC_sub_onTerminated keeps_calls keeps_more_calls keeps_onOffer keeps_onInfo)

lemma keeps_done: "keeps R m \<Longrightarrow> keeps R (done_with b m)"
  by (simp add: done_with_def handler_rules)

lemma keeps_request:
  assumes "message_id m = MSG_CALL_SUBSCRIBE_REQ \<Longrightarrow> admitted m"
    and "message_id m = MSG_MAKE_CALL_REQ \<Longrightarrow> keeps R (UponMakeCallReq v x m)"
  shows "keeps R (ProcessApplicationMessages v x m)"
  unfolding ProcessApplicationMessages_def Let_def
  by (intro keeps_cond keeps_done keeps_fail keeps_respond subscribe assms keeps_calls
      keeps_offered_answers keeps_registration keeps_UponRegisterReq keeps_UponSubscribeReq
      keeps_UponBlindXferReq)

end

text \<open>A relation that making a call respects too holds between the ends of any run.\<close>

definition admits :: "(iw_message \<Rightarrow> bool) \<Rightarrow> stack_event \<Rightarrow> bool" where
  "admits A e \<longleftrightarrow> (case e of Inbound v x m \<Rightarrow> message_id m = MSG_CALL_SUBSCRIBE_REQ \<longrightarrow> A m | _ \<Rightarrow> True)"

locale stack_run = stack_frame +
  assumes make_call: "keeps R (UponMakeCallReq v x m)"
begin

lemma keeps_round: "admits admitted e \<Longrightarrow> keeps R (sip_round e)"
  by (cases e) (auto simp: admits_def intro!: keeps_ret keeps_catch keeps_done keeps_callback
      keeps_request make_call)

lemma round_respects: "admits admitted e \<Longrightarrow> R s (snd (sip_round e s))"
  using keeps_round by (simp add: keeps_def)

lemma run_respects: "\<forall>e \<in> set es. admits admitted e \<Longrightarrow> R s (snd (sip_loop es s))"
proof (induction es arbitrary: s)
  case (Cons e es)
  have "R s (snd (sip_round e s))" using Cons.prems by (simp add: round_respects)
  then show ?case
    using Cons by (auto split: prod.split sum.split sip_fault.split intro: trans)
qed (simp add: refl)

end

text \<open>A relation that does not look at the handles of contexts respects making a call.\<close>

locale stack_free = stack_frame +
  assumes name_ctx: "(\<And>c. cx_last_subscribe (f c) = cx_last_subscribe c) \<Longrightarrow> keeps R (upd_ctx r f)"
begin

lemma keeps_UponMakeCallReq: "keeps R (UponMakeCallReq v x m)"
  unfolding UponMakeCallReq_def
  by (auto intro!: keeps_catch keeps_make_call_nack keeps_call_profile keeps_add_header handler_rules
      name_ctx split: option.split)

end

sublocale stack_free \<subseteq> stack_run
  by unfold_locales (rule keeps_UponMakeCallReq)

section \<open>The primitives in detail\<close>

lemmas prims = keeps_def emit_def send_offered_def new_ctx_def upd_ctx_def new_set_def upd_set_def
  next_call_handle_def next_uid_def map_put_def map_del_def with_ctx_def fail_def

text \<open>A dialog set of the process is appended, or its request is of an unknown kind.\<close>

lemma new_IwAppDialogSet_cases:
  obtains d where "new_IwAppDialogSet r m s = (Inr (length (sk_sets s)), s\<lparr>sk_sets := sk_sets s @ [d]\<rparr>)"
  | "new_IwAppDialogSet r m s = (Inl Std_exception, s)"
proof -
  have "(\<exists>d. new_IwAppDialogSet r m s = (Inr (length (sk_sets s)), s\<lparr>sk_sets := sk_sets s @ [d]\<rparr>)) \<or>
      new_IwAppDialogSet r m s = (Inl Std_exception, s)"
    by (auto simp: new_IwAppDialogSet_def Let_def prims)
  with that show thesis by blast
qed

text \<open>A relation that does not depend on new dialog sets holds for one that is made and set up.\<close>

lemma fresh_setI:
  assumes "\<And>s. R s s" "\<And>s t u. R s t \<Longrightarrow> R t u \<Longrightarrow> R s u" "\<And>s d. R s (s\<lparr>sk_sets := sk_sets s @ [d]\<rparr>)"
    and "\<And>i. keeps R (do_all (ms i))"
  shows "keeps R (hbind (new_IwAppDialogSet r m) (\<lambda>i. do_all (upd_set i g # ms i)))"
  unfolding keeps_def
proof
  fix s
  show "R s (snd (hbind (new_IwAppDialogSet r m) (\<lambda>i. do_all (upd_set i g # ms i)) s))"
  proof (cases rule: new_IwAppDialogSet_cases [of r m s])
    case (1 d)
    let ?t = "s\<lparr>sk_sets := sk_sets s @ [g d]\<rparr>"
    have "R ?t (snd (do_all (ms (length (sk_sets s))) ?t))"
      using assms(4) by (simp add: keeps_def)
    with assms(2) [OF assms(3)] 1 show ?thesis by (simp add: hbind_def upd_set_def)
  qed (simp add: hbind_def assms(1))
qed

section \<open>The map\<close>

text \<open>
  The map is in key order, and an entry leads to a context that has the key as its handle.
\<close>

definition stack_ok :: "sip_stack \<Rightarrow> bool" where
  "stack_ok s \<longleftrightarrow> smap_ok (sk_map s) \<and>
     (\<forall>(k, r) \<in> set (sk_map s). r < length (sk_ctxs s) \<and> cx_stack_handle (sk_ctxs s ! r) = k)"

lemma stack_okD:
  "stack_ok s \<Longrightarrow> smap_find (sk_map s) k = Some r \<Longrightarrow>
     r < length (sk_ctxs s) \<and> cx_stack_handle (sk_ctxs s ! r) = k"
  by (auto simp: stack_ok_def smap_find_Some_iff)

text \<open>A context that is not in the map yet.\<close>

definition unlisted :: "nat \<Rightarrow> sip_stack \<Rightarrow> bool" where
  "unlisted r s \<longleftrightarrow> stack_ok s \<and> r \<notin> snd ` set (sk_map s)"

lemma smap_insert_set: "set (smap_insert k v m) \<subseteq> insert (k, v) (set m)"
  by (induction k v m rule: smap_insert.induct) auto

lemma stack_ok_frame:
  "stack_ok s \<Longrightarrow> sk_map t = sk_map s \<Longrightarrow> sk_ctxs t = sk_ctxs s \<Longrightarrow> stack_ok t"
  by (simp add: stack_ok_def)

lemma upd_nth: "xs[r := x] ! q = (if q = r \<and> r < length xs then x else xs ! q)"
  by (cases "r < length xs") (auto simp: list_update_beyond)

lemma stack_ok_ctxs:
  "stack_ok s \<Longrightarrow> stack_ok (s\<lparr>sk_ctxs := sk_ctxs s @ [c]\<rparr>)"
  "stack_ok s \<Longrightarrow> cx_stack_handle (f (sk_ctxs s ! r)) = cx_stack_handle (sk_ctxs s ! r) \<Longrightarrow>
     stack_ok (s\<lparr>sk_ctxs := (sk_ctxs s)[r := f (sk_ctxs s ! r)]\<rparr>)"
  "unlisted r s \<Longrightarrow> stack_ok (s\<lparr>sk_ctxs := (sk_ctxs s)[r := c]\<rparr>)"
  by (auto simp: stack_ok_def unlisted_def nth_append upd_nth) (force simp: image_iff)

lemma stack_ok_map:
  "stack_ok s \<Longrightarrow> r < length (sk_ctxs s) \<Longrightarrow>
     stack_ok (s\<lparr>sk_map := smap_insert (cx_stack_handle (sk_ctxs s ! r)) r (sk_map s)\<rparr>)"
  "stack_ok s \<Longrightarrow> stack_ok (s\<lparr>sk_map := smap_erase k (sk_map s)\<rparr>)"
  using smap_insert_set [of "cx_stack_handle (sk_ctxs s ! r)" r "sk_map s"] set_smap_erase [of k "sk_map s"]
  by (auto simp: stack_ok_def smap_ok_insert smap_ok_erase)

interpretation unlisted: step_frame "\<lambda>s t. unlisted r s \<longrightarrow> unlisted r t" for r
  by unfold_locales
    (auto simp: prims unlisted_def stack_ok_ctxs split: option.split elim: stack_ok_frame)

interpretation ok: stack_frame "\<lambda>s t. stack_ok s \<longrightarrow> stack_ok t" "\<lambda>_. True"
proof
  fix ms :: "nat \<Rightarrow> unit step list" and r m g
  assume "\<And>i. keeps (\<lambda>s t. stack_ok s \<longrightarrow> stack_ok t) (do_all (ms i))"
  then show "keeps (\<lambda>s t. stack_ok s \<longrightarrow> stack_ok t)
      (hbind (new_IwAppDialogSet r m) (\<lambda>i. do_all (upd_set i g # ms i)))"
    by (rule fresh_setI [rotated 3]) (auto elim: stack_ok_frame)
qed (auto simp: prims stack_ok_ctxs stack_ok_map UponSubscribeToIncomingReq_def call_of_def hbind_def
      set_events_def ret_def respond_def split: option.split payload.split elim: stack_ok_frame)

text \<open>A call that is made names its context last, when the context is not in the map.\<close>

lemma unlisted_name: "keeps (\<lambda>s t. unlisted r s \<longrightarrow> unlisted r t) (upd_ctx r f)"
  by (auto simp: prims unlisted_def stack_ok_ctxs)

lemma unlisted_new: "stack_ok s \<Longrightarrow> unlisted (length (sk_ctxs s)) (s\<lparr>sk_ctxs := sk_ctxs s @ [c]\<rparr>)"
  by (auto simp: unlisted_def stack_ok_ctxs) (auto simp: stack_ok_def)

lemma ok_new_ctx:
  assumes "\<And>r. keeps (\<lambda>s t. unlisted r s \<longrightarrow> unlisted r t) (f r)"
  shows "keeps (\<lambda>s t. stack_ok s \<longrightarrow> stack_ok t) (hbind (new_ctx c) f)"
  unfolding keeps_def
proof (intro allI impI)
  fix s assume "stack_ok s"
  then have "unlisted (length (sk_ctxs s)) (snd (f (length (sk_ctxs s)) (s\<lparr>sk_ctxs := sk_ctxs s @ [c]\<rparr>)))"
    using assms unlisted_new unfolding keeps_def by blast
  then show "stack_ok (snd (hbind (new_ctx c) f s))"
    by (simp add: hbind_def new_ctx_def unlisted_def)
qed

lemma ok_make_call: "keeps (\<lambda>s t. stack_ok s \<longrightarrow> stack_ok t) (UponMakeCallReq v x m)"
  unfolding UponMakeCallReq_def
  by (rule ok.keeps_catch [OF ok.keeps_make_call_nack] ok.keeps_call_of
        ok.keeps_bind [OF ok.keeps_parts(5)] ok_new_ctx)+
    (auto intro!: unlisted.keeps_rules unlisted.keeps_call_profile unlisted.keeps_make_call_nack
      unlisted.keeps_add_header unlisted_name split: option.split)

interpretation ok: stack_run "\<lambda>s t. stack_ok s \<longrightarrow> stack_ok t" "\<lambda>_. True"
  by unfold_locales (rule ok_make_call)

lemma stack_ok_new: "stack_ok (new_ProcResipStack from calls uids)"
  by (simp add: stack_ok_def new_ProcResipStack_def)

lemma admits_all [simp]: "admits (\<lambda>_. True) e"
  by (simp add: admits_def split: stack_event.split)

lemma stack_ok_run: "stack_ok s \<Longrightarrow> stack_ok (snd (sip_loop es s))"
  using ok.run_respects [of es s] by simp

lemma stack_ok_drop: "stack_ok s \<Longrightarrow> stack_ok (snd (FinalizeContext r s))"
  using ok.keeps_calls(9) by (simp add: keeps_def)

section \<open>Offered calls, subscriptions, registrations\<close>

text \<open>How many calls have been offered and how many may still be: one, while there is a subscriber.\<close>

definition offers :: "sip_stack \<Rightarrow> nat" where
  "offers s = length (filter is_offer (sk_out s)) + (if sk_events s = None then 0 else 1)"

interpretation offers: stack_free "\<lambda>s t. offers t \<le> offers s" "\<lambda>_. False"
proof
  fix ms :: "nat \<Rightarrow> unit step list" and r m g
  assume "\<And>i. keeps (\<lambda>s t. offers t \<le> offers s) (do_all (ms i))"
  then show "keeps (\<lambda>s t. offers t \<le> offers s)
      (hbind (new_IwAppDialogSet r m) (\<lambda>i. do_all (upd_set i g # ms i)))"
    by (rule fresh_setI [rotated 3]) (auto simp: offers_def)
qed (auto simp: prims offers_def split: option.split)

text \<open>A context that has subscribed stays so.\<close>

definition subscribed :: "sip_stack \<Rightarrow> nat set" where
  "subscribed s = {r. r < length (sk_ctxs s) \<and> cx_last_subscribe (sk_ctxs s ! r) \<noteq> None}"

interpretation subscribed: stack_free "\<lambda>s t. subscribed s \<subseteq> subscribed t" "\<lambda>_. True"
proof
  fix ms :: "nat \<Rightarrow> unit step list" and r m g
  assume "\<And>i. keeps (\<lambda>s t. subscribed s \<subseteq> subscribed t) (do_all (ms i))"
  then show "keeps (\<lambda>s t. subscribed s \<subseteq> subscribed t)
      (hbind (new_IwAppDialogSet r m) (\<lambda>i. do_all (upd_set i g # ms i)))"
    by (rule fresh_setI [rotated 3]) (auto simp: subscribed_def)
qed (auto simp: prims subscribed_def upd_nth nth_append UponSubscribeToIncomingReq_def call_of_def
      hbind_def set_events_def ret_def respond_def split: option.split payload.split)

text \<open>A dialog set that has no registration to answer gets none.\<close>

definition answered_sets :: "sip_stack \<Rightarrow> nat set" where
  "answered_sets s = {i. i < length (sk_sets s) \<and> ds_last_registration (sk_sets s ! i) = None}"

interpretation answered: stack_free "\<lambda>s t. answered_sets s \<subseteq> answered_sets t" "\<lambda>_. True"
proof
  fix ms :: "nat \<Rightarrow> unit step list" and r m g
  assume "\<And>i. keeps (\<lambda>s t. answered_sets s \<subseteq> answered_sets t) (do_all (ms i))"
  then show "keeps (\<lambda>s t. answered_sets s \<subseteq> answered_sets t)
      (hbind (new_IwAppDialogSet r m) (\<lambda>i. do_all (upd_set i g # ms i)))"
    by (rule fresh_setI [rotated 3]) (auto simp: answered_sets_def nth_append)
qed (auto simp: prims answered_sets_def upd_nth nth_append UponSubscribeToIncomingReq_def call_of_def
      hbind_def set_events_def ret_def respond_def split: option.split payload.split)

end
