(* ===== verification/Iw_Sip_Props.thy ===== *)
theory Iw_Sip_Props
  imports Iw_SipFacts "HOL-Library.Code_Target_Nat"
begin

text \<open>
  Properties of the SIP stack process: how a run ends, how many calls are offered, and what calls,
  subscriptions and registrations can do to each other.
\<close>

section \<open>The start\<close>

lemma session_timer_min:
  "session_timer env conf = Inr (mode, time) \<Longrightarrow> (time = None) = (mode = None) \<and> pred_option ((\<le>) 90) time"
  by (auto simp: session_timer_def split: option.splits if_splits)

text \<open>A profile with a session timer has a mode for it and a time of at least 90 seconds.\<close>

lemma session_time_at_least_90:
  assumes "Init env conf host_addr add uri_ok = Inr (Some mp)"
  shows "(mp_session_time mp = None) = (mp_timer_mode mp = None) \<and> pred_option ((\<le>) 90) (mp_session_time mp)"
  using assms unfolding Init_def Let_def by (auto split: if_split_asm dest: session_timer_min)

section \<open>The end of a run\<close>

text \<open>What the end of the process sends: a hang-up to every handler in the map, in its order.\<close>

definition hangups :: "sip_stack \<Rightarrow> sip_out list" where
  "hangups s = concat (map (\<lambda>(k, r).
     case cx_handler (sk_ctxs s ! r) of None \<Rightarrow> [] | Some h \<Rightarrow> [Notify h hangup_evt]) (sk_map s))"

lemma FinalizeContext_first:
  assumes "stack_ok s" "sk_map s = (k, r) # m"
  shows "snd (FinalizeContext r s) = s\<lparr>sk_map := m, sk_out := sk_out s @
    (case cx_handler (sk_ctxs s ! r) of None \<Rightarrow> [] | Some h \<Rightarrow> [Notify h hangup_evt])\<rparr>"
  using assms by (auto simp: stack_ok_def FinalizeContext_def with_ctx_def hbind_def notify_def emit_def
      map_del_def ret_def split: option.split)

lemma drain_all:
  "stack_ok s \<Longrightarrow> length (sk_map s) \<le> n \<Longrightarrow>
     drain n s = Some (s\<lparr>sk_map := [], sk_out := sk_out s @ hangups s\<rparr>)"
proof (induction n arbitrary: s)
  case 0
  then show ?case by (simp add: drain.simps hangups_def)
next
  case (Suc n)
  show ?case
  proof (cases "sk_map s")
    case Nil
    then show ?thesis by (simp add: drain.simps hangups_def)
  next
    case (Cons p m)
    obtain k r where p: "p = (k, r)" by (cases p)
    let ?s = "snd (FinalizeContext r s)"
    have s: "?s = s\<lparr>sk_map := m, sk_out := sk_out s @
        (case cx_handler (sk_ctxs s ! r) of None \<Rightarrow> [] | Some h \<Rightarrow> [Notify h hangup_evt])\<rparr>"
      using Suc.prems(1) Cons p by (intro FinalizeContext_first) simp_all
    have "drain n ?s = Some (?s\<lparr>sk_map := [], sk_out := sk_out ?s @ hangups ?s\<rparr>)"
      using Suc.prems Cons by (intro Suc.IH stack_ok_drop) (simp_all add: s)
    then show ?thesis
      using Cons p by (subst drain.simps) (simp add: s hangups_def)
  qed
qed

lemma contexts_distinct: "stack_ok s \<Longrightarrow> distinct (map snd (sk_map s))"
proof -
  assume ok: "stack_ok s"
  then have keys: "distinct (map fst (sk_map s))"
    unfolding stack_ok_def smap_ok_def by (simp add: strict_sorted_iff)
  have "inj_on snd (set (sk_map s))"
  proof (rule inj_onI)
    fix p q assume "p \<in> set (sk_map s)" "q \<in> set (sk_map s)" "snd p = snd q"
    moreover have "fst x = cx_stack_handle (sk_ctxs s ! snd x)" if "x \<in> set (sk_map s)" for x
      using ok that by (cases x) (auto simp: stack_ok_def)
    ultimately show "p = q" by (simp add: prod_eq_iff)
  qed
  then show ?thesis using keys by (simp add: distinct_map)
qed

lemma real_run_left:
  assumes "stack_ok s" "sip_loop es s = (Left, s1)"
  shows "ProcResipStack_real_run es s = Some (Left, s1\<lparr>sk_map := [], sk_out := sk_out s1 @ hangups s1\<rparr>)"
proof -
  have "stack_ok s1" using stack_ok_run [OF assms(1), of es] assms(2) by simp
  then show ?thesis using assms(2) by (simp add: ProcResipStack_real_run_def drain_all)
qed

text \<open>C8:
  A run of the SIP stack comes to an end, and no call is forgotten.  Whatever the library and the
  other processes do, the loop after the main loop terminates; when the main loop was left, by a
  shutdown request or by any exception, the map is empty afterwards and every call that was in it
  and has a handler is told of its hang-up, each exactly once and in the order of the handles.
\<close>

theorem stack_hangs_up_every_call:
  "\<exists>e s1 s2. sip_loop es (new_ProcResipStack aor calls uids) = (e, s1) \<and>
     ProcResipStack_real_run es (new_ProcResipStack aor calls uids) = Some (e, s2) \<and>
     (if e = Left
      then sk_map s2 = [] \<and> sk_out s2 = sk_out s1 @ hangups s1 \<and> distinct (map snd (sk_map s1))
      else s2 = s1)"
proof -
  let ?s = "new_ProcResipStack aor calls uids"
  obtain e s1 where run: "sip_loop es ?s = (e, s1)" by (cases "sip_loop es ?s")
  have ok: "stack_ok s1" using stack_ok_run [OF stack_ok_new, of es aor calls uids] run by simp
  show ?thesis
  proof (cases "e = Left")
    case True
    then show ?thesis using run real_run_left [OF stack_ok_new] contexts_distinct [OF ok] by simp
  next
    case False
    then show ?thesis using run by (cases e) (simp_all add: ProcResipStack_real_run_def)
  qed
qed

section \<open>Offered calls\<close>

definition subscribes :: "stack_event \<Rightarrow> bool" where
  "subscribes e \<longleftrightarrow>
     (case e of Inbound v x m \<Rightarrow> message_id m = MSG_CALL_SUBSCRIBE_REQ | _ \<Rightarrow> False)"

lemma offers_round: "offers (snd (sip_round e s)) \<le> offers s + (if subscribes e then 1 else 0)"
proof (cases "subscribes e")
  case True
  then obtain v x m where e: "e = Inbound v x m" "message_id m = MSG_CALL_SUBSCRIBE_REQ"
    by (auto simp: subscribes_def split: stack_event.splits)
  show ?thesis
    using e by (auto simp: subscribes_def ProcessApplicationMessages_def done_with_def
        UponSubscribeToIncomingReq_def call_of_def hbind_def set_events_def respond_def emit_def
        ret_def fail_def offers_def split: payload.split)
next
  case False
  then have "admits (\<lambda>_. False) e"
    by (auto simp: subscribes_def admits_def split: stack_event.splits)
  then show ?thesis using offers.round_respects [of e s] False by simp
qed

lemma offers_run: "offers (snd (sip_loop es s)) \<le> offers s + length (filter subscribes es)"
proof (induction es arbitrary: s)
  case (Cons e es)
  show ?case
    using offers_round [of e s] Cons.IH [of "snd (sip_round e s)"]
    by (auto split: prod.split sum.split sip_fault.split intro: le_trans)
qed simp

text \<open>C9:
  A subscription is good for one call.  Over any run, however many calls come in, the number of
  calls that are offered is at most the number of subscriptions that were asked for: telling the
  subscriber of a call takes the subscription.
\<close>

theorem one_offer_per_subscription:
  "length (filter is_offer (sk_out (snd (sip_loop es (new_ProcResipStack aor calls uids))))) \<le>
     length (filter subscribes es)"
  using offers_run [of es "new_ProcResipStack aor calls uids"]
  by (simp add: offers_def new_ProcResipStack_def)

section \<open>A demonstration\<close>

text \<open>
  A library in which every handle is valid and nothing is refused: usage 21 belongs to the dialog
  set made first, every other one to the second.  The stack makes its own numbers from 10000 on.
\<close>

definition demo_dum :: dum_view where
  "demo_dum = \<lparr>dv_valid = (\<lambda>_ _. True), dv_set = (\<lambda>u. if u = 21 then Some 0 else Some 1), dv_find = Some,
     dv_connected = (\<lambda>_. True), dv_accepted = (\<lambda>_. False), dv_refuses = (\<lambda>_ _. False),
     dv_address = (\<lambda>_. True), dv_known_header = (\<lambda>_. False), dv_log_debug = True, dv_log_warn = True\<rparr>"

definition demo_extra :: call_extra where
  "demo_extra = \<lparr>ce_params = [], ce_credentials = ([], [], [])\<rparr>"

definition demo_stack :: sip_stack where
  "demo_stack = new_ProcResipStack ''sip:ivr@10.0.0.1'' 10000 7000"

definition demo_offer :: sip_message where
  "demo_offer = \<lparr>sp_contents = Some (''application'', ''sdp'', ''v=0''), sp_has_type = True,
     sp_from = ''alice'', sp_to = ''ivr''\<rparr>"

abbreviation request :: "MessageId \<Rightarrow> payload \<Rightarrow> iw_message" where
  "request mid p \<equiv> (new_IwMessage mid)\<lparr>payload := p\<rparr>"

abbreviation inbound :: "MessageId \<Rightarrow> payload \<Rightarrow> stack_event" where
  "inbound mid p \<equiv> Inbound demo_dum demo_extra (request mid p)"

abbreviation happens :: "dum_callback \<Rightarrow> stack_event" where
  "happens \<equiv> Library demo_dum True"

text \<open>A subscriber, a call offered to it, and a registration.\<close>

definition demo_events :: "stack_event list" where
  "demo_events =
     [inbound MSG_CALL_SUBSCRIBE_REQ (CallPayload (new_call_data\<lparr>listener_handle := Some 5\<rparr>)),
      happens Cb_new_set, happens (Cb_new_server_session 21), happens (Cb_offer 21 demo_offer),
      inbound SIP_CALL_REGISTER_REQ (SipPayload new_call_data new_sip_data)]"

definition demo_calls :: sip_stack where
  "demo_calls = snd (sip_loop demo_events demo_stack)"

lemma demo_ok: "stack_ok (snd (sip_loop es demo_stack))"
  by (simp add: stack_ok_run demo_stack_def stack_ok_new)

lemma demo_calls_ok: "stack_ok demo_calls"
  by (simp add: demo_calls_def demo_ok)

lemma demo_calls_map: "sk_map demo_calls = [(21, 0), (10001, 1)]"
  by code_simp

lemma demo_calls_hangups: "hangups demo_calls = [Notify 7000 hangup_evt]"
  by code_simp

section \<open>Calls getting into each other's way\<close>

text \<open>
  A refused transfer ends the service.  Transferring a call whose session is not there (a
  registration, a call that has not been offered yet) is meant to be refused; but with warnings
  logged, the line that logs the refusal dereferences the missing session.  The exception leaves
  the main loop: the stack process ends, whatever comes afterwards, no answer is sent, and every
  call of everybody is hung up.
\<close>

theorem refused_transfer_ends_the_stack:
  assumes "stack_ok s" and "message_id m = MSG_CALL_BLIND_XFER_REQ" and "payload m = CallPayload req"
    and "smap_find (sk_map s) (stack_call_handle req) = Some r"
    and "\<not> is_valid v (cx_invite (sk_ctxs s ! r)) s" and "dv_log_warn v"
  shows "ProcResipStack_real_run (Inbound v x m # es) s =
    Some (Left, s\<lparr>sk_map := [], sk_out := sk_out s @ hangups s\<rparr>)"
proof -
  have "r < length (sk_ctxs s)" using stack_okD [OF assms(1,4)] by simp
  then have "UponBlindXferReq v m s = (Inl Library_exception, s)"
    using assms by (simp add: UponBlindXferReq_def call_of_def lookup_def with_ctx_def log_handle_def
        hbind_def deref_def fail_def)
  then have "sip_loop (Inbound v x m # es) s = (Left, s)"
    using assms(2) by (simp add: ProcessApplicationMessages_def done_with_def hbind_def)
  then show ?thesis by (rule real_run_left [OF assms(1)])
qed

theorem refused_transfer_ends_the_stack_witness:
  "ProcResipStack_real_run
     [inbound MSG_CALL_BLIND_XFER_REQ (CallPayload (new_call_data\<lparr>stack_call_handle := 10001\<rparr>)), Keep_alive]
     demo_calls =
   Some (Left, demo_calls\<lparr>sk_map := [], sk_out := sk_out demo_calls @ [Notify 7000 hangup_evt]\<rparr>)"
proof -
  have "cx_invite (sk_ctxs demo_calls ! 1) = None" by code_simp
  then show ?thesis
    using refused_transfer_ends_the_stack [OF demo_calls_ok,
        of "request MSG_CALL_BLIND_XFER_REQ (CallPayload (new_call_data\<lparr>stack_call_handle := 10001\<rparr>))"
          "new_call_data\<lparr>stack_call_handle := 10001\<rparr>" 1 demo_dum demo_extra "[Keep_alive]"]
    by (simp add: demo_calls_map demo_calls_hangups is_valid_def demo_dum_def)
qed

text \<open>
  Calls made and calls received are numbered from two counters.  A call that comes in gets the
  number of the library's handle; when a call with that number is in the map already, the new one
  takes its place: no number leads to the earlier call any more, so it cannot be hung up, and the
  end of the process does not tell its handler.
\<close>

theorem incoming_call_replaces_another:
  assumes "stack_ok s" and "smap_find (sk_map s) u = Some r"
    and "UAS_onNewSession v u s = (Inr (), s1)"
  shows "smap_find (sk_map s1) u = Some (length (sk_ctxs s)) \<and> (\<forall>k. smap_find (sk_map s1) k \<noteq> Some r)"
proof -
  have m: "sk_map s1 = smap_insert u (length (sk_ctxs s)) (sk_map s)"
    using assms(3) by (auto simp: UAS_onNewSession_def hbind_def deref_def dum_def emit_def ret_def
        fail_def new_ctx_def set_of_def upd_set_def map_put_def with_ctx_def log_handle_def
        new_SipDialogContext_def split: if_splits option.splits)
  have r: "r < length (sk_ctxs s) \<and> cx_stack_handle (sk_ctxs s ! r) = u"
    by (rule stack_okD [OF assms(1,2)])
  have "k = u" if "smap_find (sk_map s) k = Some r" for k
    using stack_okD [OF assms(1) that] r by simp
  with r show ?thesis by (auto simp: m smap_find_insert)
qed

theorem incoming_call_replaces_another_witness:
  "let s = snd (sip_loop [inbound MSG_MAKE_CALL_REQ (CallPayload (new_call_data\<lparr>localOffer :=
         \<lparr>offer_body = ''v=0'', offer_type = ''application/sdp''\<rparr>\<rparr>)),
       happens (Cb_new_client_session 21), happens Cb_new_set] demo_stack);
     s1 = snd (UAS_onNewSession demo_dum 10001 s)
   in smap_find (sk_map s) 10001 = Some 0 \<and> (\<forall>k. smap_find (sk_map s1) k \<noteq> Some 0)"
proof -
  let ?es = "[inbound MSG_MAKE_CALL_REQ (CallPayload (new_call_data\<lparr>localOffer :=
         \<lparr>offer_body = ''v=0'', offer_type = ''application/sdp''\<rparr>\<rparr>)),
       happens (Cb_new_client_session 21), happens Cb_new_set]"
  let ?s = "snd (sip_loop ?es demo_stack)" and ?n = "\<lambda>s. UAS_onNewSession demo_dum 10001 s"
  have find: "smap_find (sk_map ?s) 10001 = Some 0" by code_simp
  have "fst (?n ?s) = Inr ()" by code_simp
  then have "?n ?s = (Inr (), snd (?n ?s))" by (metis prod.collapse)
  from incoming_call_replaces_another [OF demo_ok find this] find show ?thesis
    unfolding Let_def by blast
qed

section \<open>Requests that are remembered too long or not long enough\<close>

text \<open>
  A call subscribes once.  The request of a subscription is remembered in the context of the call
  and never forgotten, not even when it has been answered: after any run, a further request to
  subscribe on the same call is refused, and nothing is sent to the network.
\<close>

theorem second_subscription_is_refused:
  assumes "stack_ok s" and "smap_find (sk_map s) k = Some r" and "cx_last_subscribe (sk_ctxs s ! r) \<noteq> None"
    and "s1 = snd (sip_loop es s)" and "smap_find (sk_map s1) k \<in> {None, Some r}"
    and "payload m = SipPayload c d" and "stack_call_handle c = k" and "k \<noteq> IW_UNDEFINED"
  shows "\<exists>nack. UponSubscribeReq v m s1 = (Inr (), s1\<lparr>sk_out := sk_out s1 @ [Respond m nack]\<rparr>) \<and>
    message_id nack = SIP_CALL_SUBSCRIBE_NACK"
proof -
  have "r \<in> subscribed s" using stack_okD [OF assms(1,2)] assms(3) by (simp add: subscribed_def)
  then have "r \<in> subscribed s1" using subscribed.run_respects [of es s] assms(4) by auto
  then have "UponSubscribeReq v m s1 = subscribe_nack m s1"
    using assms(5-8) by (auto simp: UponSubscribeReq_def sip_of_def lookup_def with_ctx_def subscribed_def)
  then show ?thesis
    by (intro exI [of _ "copy_data_on_response ((new_MsgResponse SIP_CALL_SUBSCRIBE_NACK)
        \<lparr>payload := SipPayload new_call_data new_sip_data\<rparr>) m"])
      (simp add: subscribe_nack_def respond_def emit_def)
qed

theorem second_subscription_is_refused_witness:
  "let sub = (\<lambda>k. request SIP_CALL_SUBSCRIBE_REQ
         (SipPayload (new_call_data\<lparr>stack_call_handle := k\<rparr>) new_sip_data));
       s = snd (sip_loop [Inbound demo_dum demo_extra (sub IW_UNDEFINED)] demo_stack);
       s1 = snd (sip_loop [happens (Cb_new_subscription 21)] s)
   in \<exists>nack. UponSubscribeReq demo_dum (sub 10001) s1 =
       (Inr (), s1\<lparr>sk_out := sk_out s1 @ [Respond (sub 10001) nack]\<rparr>) \<and>
     message_id nack = SIP_CALL_SUBSCRIBE_NACK"
proof -
  let ?p = "\<lambda>k. SipPayload (new_call_data\<lparr>stack_call_handle := k\<rparr>) new_sip_data"
  let ?s = "snd (sip_loop [inbound SIP_CALL_SUBSCRIBE_REQ (?p IW_UNDEFINED)] demo_stack)"
  let ?s1 = "snd (sip_loop [happens (Cb_new_subscription 21)] ?s)"
  have find: "smap_find (sk_map ?s) 10001 = Some 0" by code_simp
  have sub: "cx_last_subscribe (sk_ctxs ?s ! 0) \<noteq> None" by code_simp
  have again: "smap_find (sk_map ?s1) 10001 \<in> {None, Some 0}" by code_simp
  show ?thesis
    unfolding Let_def
    by (rule second_subscription_is_refused [OF demo_ok find sub refl again,
          where c = "new_call_data\<lparr>stack_call_handle := 10001\<rparr>"]) (simp_all add: IW_UNDEFINED_def)
qed

text \<open>
  A registration that cannot be refreshed ends the program.  The first success is answered and the
  request forgotten; when a later refresh fails, whatever has happened in between, the handler of
  the failure answers the forgotten request through a null pointer.
\<close>

theorem failed_refresh_crashes:
  assumes "UAC_reg_onSuccess v u s = (Inr (), s1)" and "dv_set v u = Some i"
    and "s2 = snd (sip_loop es s1)"
    and "dv_valid w (sk_out s2) u" and "dv_set w u = Some i"
  shows "sip_loop (Library w catches (Cb_registration_failure u) # es') s2 = (Crashed Null_deref, s2)"
proof -
  have "i \<in> answered_sets s1"
    using assms(1,2) by (auto simp: UAC_reg_onSuccess_def ctx_of_def set_of_def hbind_def deref_def
        ret_def fail_def with_set_def the_ctx_def upd_ctx_def with_ctx_def respond_def emit_def
        upd_set_def answered_sets_def split: if_splits option.splits)
  then have "i \<in> answered_sets s2" using answered.run_respects [of es s1] assms(3) by auto
  then show ?thesis
    using assms(4,5) by (simp add: UAC_reg_onFailure_def set_of_def hbind_def deref_def is_valid_def
        ret_def fail_def with_set_def respond_def done_with_def on_library_exception_def answered_sets_def)
qed

theorem failed_refresh_crashes_witness:
  "fst (sip_loop [inbound SIP_CALL_REGISTER_REQ (SipPayload new_call_data new_sip_data),
     happens (Cb_registered 21), Keep_alive, happens (Cb_registration_failure 21)] demo_stack) =
   Crashed Null_deref"
proof -
  let ?s = "snd (sip_loop [inbound SIP_CALL_REGISTER_REQ (SipPayload new_call_data new_sip_data)] demo_stack)"
  let ?r = "UAC_reg_onSuccess demo_dum 21 ?s"
  have "fst ?r = Inr ()" by code_simp
  then have ok: "?r = (Inr (), snd ?r)" by (metis prod.collapse)
  have "sip_loop (happens (Cb_registration_failure 21) # []) (snd ?r) = (Crashed Null_deref, snd ?r)"
    by (rule failed_refresh_crashes [OF ok, of 0 _ "[Keep_alive]"])
      (simp_all add: demo_dum_def ret_def)
  moreover have "fst (sip_loop [inbound SIP_CALL_REGISTER_REQ (SipPayload new_call_data new_sip_data),
      happens (Cb_registered 21), Keep_alive, happens (Cb_registration_failure 21)] demo_stack) =
      fst (sip_loop (happens (Cb_registration_failure 21) # []) (snd ?r))"
    by code_simp
  ultimately show ?thesis by simp
qed

section \<open>Keys\<close>

lemma digit_cases: "is_digit c \<Longrightarrow> c \<in> set ''0123456789''"
proof -
  assume "is_digit c"
  then have "(of_char c :: nat) \<in> {48..<58}" by (simp add: is_digit_def)
  also have "{48..<58} = set [48..<58::nat]" by (rule set_upt [symmetric])
  finally have "char_of (of_char c :: nat) \<in> char_of ` set [48..<58::nat]" by (rule imageI)
  also have "char_of ` set [48..<58::nat] = set ''0123456789''" by code_simp
  finally show ?thesis by simp
qed

lemma digit_key: "\<forall>c \<in> set ''0123456789''. is_digit c \<and> signal_key (signal_value [c]) = Some [c]"
  by code_simp

lemma single_key:
  "signal_key (signal_value [c]) = Some (if c \<in> set ''0123456789*#'' then [c] else ''0'')"
proof (cases "is_digit c")
  case True
  then have "c \<in> set ''0123456789''" by (rule digit_cases)
  then show ?thesis using digit_key by auto
next
  case False
  then have "c \<notin> set ''0123456789''" using digit_key by blast
  moreover have "signal_key 0 = Some ''0''" by code_simp
  ultimately show ?thesis
    using False by (auto simp: signal_value_def signal_key_def atoi_def digits_value_def)
qed

text \<open>A key sent by INFO, the way telephones write it.\<close>

definition info_body :: "char \<Rightarrow> string" where
  "info_body c = ''Signal='' @ [c] @ CRLF @ ''Duration=250'' @ CRLF"

lemma info_word:
  "signal_word (info_body c) =
     (if c = CHR 0x00 then [] else if is_space c then ''Duration=250'' else [c])"
  by (auto simp: signal_word_def info_body_def c_str_def CRLF_def is_space_def)

lemma info_key:
  "signal_key (signal_value (signal_word (info_body c))) =
     Some (if c \<in> set ''0123456789*#'' then [c] else ''0'')"
proof -
  have word: "signal_key (signal_value []) = Some ''0''" "signal_key (signal_value ''Duration=250'') = Some ''0''"
    by code_simp+
  have key: "\<forall>c \<in> set ''0123456789*#''. c \<noteq> CHR 0x00 \<and> \<not> is_space c" by code_simp
  consider "c = CHR 0x00" | "c \<noteq> CHR 0x00" "is_space c" | "c \<noteq> CHR 0x00" "\<not> is_space c" by blast
  then show ?thesis
  proof cases
    case 1
    then have "c \<notin> set ''0123456789*#''" using key by blast
    with 1 show ?thesis by (simp only: info_word word if_True if_False refl)
  next
    case 2
    then have "c \<notin> set ''0123456789*#''" using key by blast
    with 2 show ?thesis by (simp only: info_word word if_True if_False refl)
  next
    case 3
    then show ?thesis by (simp only: info_word single_key if_False)
  qed
qed

definition dtmf_info :: "char \<Rightarrow> sip_message" where
  "dtmf_info c = \<lparr>sp_contents = Some (''application'', ''dtmf-relay'',
       info_body c), sp_has_type = True, sp_from = [], sp_to = []\<rparr>"

text \<open>
  Keys sent by INFO.  For a session with a handler, an INFO that carries one of the twelve keys puts
  exactly that key on the handle of the call and is then accepted; but any other character, the
  letters A to D among them, is reported as the key 0, where a number above 11 would be refused.
\<close>

theorem info_reports_a_key:
  assumes "\<And>out. dv_valid v out u" and "dv_set v u = Some i" and "i < length (sk_sets s)"
    and "ds_ctx (sk_sets s ! i) = Some r" and "r < length (sk_ctxs s)"
    and "cx_handler (sk_ctxs s ! r) = Some h" and "\<And>out. \<not> dv_refuses v out (Accept_nit u)"
  shows "onInfo v u (dtmf_info c) s =
    (Inr (), s\<lparr>sk_out := sk_out s @
       [Notify h (dtmf_evt (if c \<in> set ''0123456789*#'' then [c] else ''0'')), Dum (Accept_nit u)]\<rparr>)"
proof -
  show ?thesis
    unfolding onInfo_def dtmf_info_def
    using assms by (simp add: info_key hbind_def set_of_def deref_def is_valid_def ret_def with_set_def handler_of_def
        the_ctx_def with_ctx_def notify_def emit_def dum_def)
qed

theorem info_reports_a_key_witness:
  "onInfo demo_dum 21 (dtmf_info (CHR ''D'')) demo_calls =
    (Inr (), demo_calls\<lparr>sk_out := sk_out demo_calls @ [Notify 7000 (dtmf_evt ''0''), Dum (Accept_nit 21)]\<rparr>)"
proof -
  have "0 < length (sk_sets demo_calls)" "ds_ctx (sk_sets demo_calls ! 0) = Some 0"
    "0 < length (sk_ctxs demo_calls)" "cx_handler (sk_ctxs demo_calls ! 0) = Some 7000"
    by code_simp+
  from info_reports_a_key [OF _ _ this, of demo_dum 21 "CHR ''D''"] show ?thesis
    by (simp add: demo_dum_def)
qed

end
