(* ===== verification/Iw_Clients.thy ===== *)
theory Iw_Clients
  imports Iw_Session
begin

text \<open>
  The client sides of the media services: the sessions of the media proxy
  (\<^verbatim>\<open>RtpProxySession.cpp\<close>), of the streamer (\<^verbatim>\<open>StreamingSession.cpp\<close>), of the RTSP client
  (\<^verbatim>\<open>RtspSession.cpp\<close>) and of the speech server (\<^verbatim>\<open>MrcpSession.cpp\<close>), all in \<^verbatim>\<open>iw_telephony\<close>.  Each
  holds the handle of its resource, asks its service for it in a transaction and gives it
  back with a message that is not answered.
\<close>

section \<open>What the sessions share\<close>

definition on_response :: "iw_message option \<Rightarrow> (iw_message \<Rightarrow> fault + 'a) \<Rightarrow> fault + 'a" where
  "on_response r f = (case r of None \<Rightarrow> Inl Null_deref | Some m \<Rightarrow> f m)"

definition client_request :: "MessageId \<Rightarrow> payload \<Rightarrow> world \<Rightarrow> iw_message \<times> world" where
  "client_request mid p w = (let (m, w1) = new_MsgRequest mid w in (m\<lparr>payload := p\<rparr>, w1))"

text \<open>
  A handle pair declared in a function is gone when the function returns, unless something
  that outlives the call has kept it; the body tells.
\<close>

definition with_pair ::
  "(int \<times> int \<Rightarrow> world \<Rightarrow> fault + ((bool \<times> 'a) \<times> world)) \<Rightarrow> world \<Rightarrow> fault + ('a \<times> world)" where
  "with_pair body w =
     (let (i, w1) = declare_anon w; (j, w2) = declare_anon w1
      in bnd (body (i, j) w2) (\<lambda>((kept, r), w3).
           Inr (r, if kept then w3 else destroy_handle j (destroy_handle i w3))))"

text \<open>
  A synchronous play or prompt waits until the event that it has stopped arrives with the
  correlation id of its acknowledgement; events of earlier plays are dropped.  \<open>cid\<close> reads the id of
  an event, \<open>corr\<close> is that of the acknowledgement, both through casts that are not checked.
  \<open>None\<close>: still waiting after \<open>n\<close> events.
\<close>

fun stopped_loop ::
  "(iw_message \<Rightarrow> int option) \<Rightarrow> nat \<Rightarrow> running_context \<Rightarrow> int \<Rightarrow> int \<Rightarrow> int option \<Rightarrow> iw_message option \<Rightarrow> world \<Rightarrow>
     (fault + (ApiErrorCode \<times> world)) option" where
  "stopped_loop cid 0 ctx stopped hangup corr resp w = None"
| "stopped_loop cid (Suc n) ctx stopped hangup corr resp w =
     (case WaitForTxnResponse_list ctx [stopped, hangup] IW_UNDEFINED resp 3600000 w of
        Inl e \<Rightarrow> Some (Inl e)
      | Inr ((res, index, resp1), w1) \<Rightarrow>
          if index = 1 then Some (Inr (API_HANGUP, w1))
          else if IW_FAILURE res then Some (Inr (res, w1))
          else (case (Option.bind resp1 cid, corr) of
                  (Some c, Some k) \<Rightarrow>
                    if c = k then Some (Inr (API_SUCCESS, w1))
                    else stopped_loop cid n ctx stopped hangup corr resp1 w1
                | _ \<Rightarrow> Some (Inl Null_deref)))"

text \<open>
  Every event the loop drops has been in the channel or comes with the timeline; a ping that
  is answered may put one more there.
\<close>

definition stopped_fuel :: "running_context \<Rightarrow> int \<Rightarrow> world \<Rightarrow> nat" where
  "stopped_fuel ctx stopped w =
     Suc (queued stopped w + inbound_pings (rc_inbound ctx) w + length (w_future w))"

definition wait_stopped ::
  "(iw_message \<Rightarrow> int option) \<Rightarrow> running_context \<Rightarrow> int \<Rightarrow> int \<Rightarrow> int option \<Rightarrow> iw_message option \<Rightarrow> world \<Rightarrow>
     fault + (ApiErrorCode \<times> world)" where
  "wait_stopped cid ctx stopped hangup corr resp w =
     (case stopped_loop cid (stopped_fuel ctx stopped w) ctx stopped hangup corr resp w of
        Some r \<Rightarrow> r
      | None \<Rightarrow> Inl Blocked)"

section \<open>Sessions of the media proxy\<close>

record rtp_session =
  rs_service :: int
  rs_handle :: int
  rs_bridgedHandle :: int
  rs_localOffer :: AbstractOffer
  rs_remoteOffer :: AbstractOffer
  rs_handlerPair :: "int \<times> int"
  rs_dtmfChannel :: int
  rs_dtmfBuffer :: string
  rs_ao :: active_object

definition new_RtpProxySession :: "int \<Rightarrow> world \<Rightarrow> fault + (rtp_session \<times> world)" where
  "new_RtpProxySession service w =
     (let (d, w1) = declare_anon w; (i, w2) = declare_anon w1; (j, w3) = declare_anon w2
      in bnd (StartActiveObjectLwProc (i, j) new_ActiveObject) (\<lambda>ao.
           Inr (\<lparr>rs_service = service, rs_handle = IW_UNDEFINED, rs_bridgedHandle = IW_UNDEFINED,
                 rs_localOffer = empty_offer, rs_remoteOffer = empty_offer, rs_handlerPair = (i, j),
                 rs_dtmfChannel = d, rs_dtmfBuffer = [], rs_ao = ao\<rparr>, w3)))"

text \<open>Events of the proxy, handled by the listener process.\<close>

definition RtpProxySession_UponDtmfEvt ::
  "int \<Rightarrow> iw_message \<Rightarrow> rtp_session \<Rightarrow> world \<Rightarrow> fault + (rtp_session \<times> world)" where
  "RtpProxySession_UponDtmfEvt lpid m s w =
     (case payload m of
        RtpPayload d \<Rightarrow>
          bnd (handle_send lpid (rs_dtmfChannel s) m w)
            (\<lambda>(_, w1). Inr (s\<lparr>rs_dtmfBuffer := rs_dtmfBuffer s @ rtp_signal d\<rparr>, w1))
      | _ \<Rightarrow> Inl Null_deref)"

definition rtp_session_event ::
  "int \<Rightarrow> iw_message \<Rightarrow> rtp_session \<Rightarrow> world \<Rightarrow> fault + (rtp_session \<times> world)" where
  "rtp_session_event lpid m s w =
     bnd (if message_id m = MSG_RTP_PROXY_DTMF_EVT then RtpProxySession_UponDtmfEvt lpid m s w else Inr (s, w))
       (\<lambda>(s1, w1). bnd (UponActiveObjectEvent lpid m (rs_ao s1) w1) (\<lambda>(_, w2). Inr (s1, w2)))"

fun rtp_session_events ::
  "int \<Rightarrow> iw_message list \<Rightarrow> rtp_session \<Rightarrow> world \<Rightarrow> fault + (rtp_session \<times> world)" where
  "rtp_session_events lpid [] s w = Inr (s, w)"
| "rtp_session_events lpid (m # ms) s w =
     bnd (rtp_session_event lpid m s w) (\<lambda>(s1, w1). rtp_session_events lpid ms s1 w1)"

text \<open>A transaction with the proxy while the listener handles \<open>evs\<close>.\<close>

definition rtp_transaction ::
  "running_context \<Rightarrow> iw_message list \<Rightarrow> MessageId \<Rightarrow> rtp_data \<Rightarrow> string \<Rightarrow> rtp_session \<Rightarrow> world \<Rightarrow>
     fault + ((ApiErrorCode \<times> iw_message option) \<times> rtp_session \<times> world)" where
  "rtp_transaction ctx evs mid d nm s w =
     (let (m, w1) = client_request mid (RtpPayload d) w
      in bnd (DoRequestResponseTransaction ctx (rs_service s) m None (rc_transactionTimeout ctx) nm w1)
           (\<lambda>(r, w2). bnd (rtp_session_events (fst (rs_handlerPair s)) evs s w2) (\<lambda>(s1, w3).
              Inr (r, s1, w3))))"

text \<open>The three switches on the answer.\<close>

definition rtp_allocated :: "iw_message \<Rightarrow> rtp_session \<Rightarrow> fault + (ApiErrorCode \<times> rtp_session)" where
  "rtp_allocated r s =
     (if message_id r = MSG_RTP_PROXY_ACK
      then (case payload r of
              RtpPayload ack \<Rightarrow>
                Inr (API_SUCCESS, s\<lparr>rs_handle := rtp_proxy_handle ack, rs_localOffer := rtp_offer ack\<rparr>)
            | _ \<Rightarrow> Inl Null_deref)
      else Inr (API_FAILURE, s))"

definition rtp_modified :: "iw_message \<Rightarrow> rtp_session \<Rightarrow> fault + (ApiErrorCode \<times> rtp_session)" where
  "rtp_modified r s = Inr (if message_id r = MSG_RTP_PROXY_ACK then API_SUCCESS else API_FAILURE, s)"

definition rtp_bridged :: "int \<Rightarrow> iw_message \<Rightarrow> rtp_session \<Rightarrow> fault + (ApiErrorCode \<times> rtp_session)" where
  "rtp_bridged dst r s =
     (if message_id r = MSG_RTP_PROXY_ACK then Inr (API_SUCCESS, s\<lparr>rs_bridgedHandle := dst\<rparr>)
      else Inr (API_FAILURE, s))"

text \<open>The code of a failed transaction is given back; otherwise the answer decides.\<close>

definition rtp_answer ::
  "(iw_message \<Rightarrow> rtp_session \<Rightarrow> fault + (ApiErrorCode \<times> rtp_session)) \<Rightarrow>
     (ApiErrorCode \<times> iw_message option) \<times> rtp_session \<times> world \<Rightarrow>
     fault + (ApiErrorCode \<times> rtp_session \<times> world)" where
  "rtp_answer f = (\<lambda>((res, response), s, w).
     if res \<noteq> API_SUCCESS then Inr (res, s, w)
     else bnd (on_response response (\<lambda>r. f r s)) (\<lambda>(code, s1). Inr (code, s1, w)))"

definition unkept ::
  "fault + (ApiErrorCode \<times> 's \<times> world) \<Rightarrow> fault + ((bool \<times> ApiErrorCode \<times> 's) \<times> world)" where
  "unkept r = bnd r (\<lambda>(code, s, w). Inr ((False, code, s), w))"

text \<open>What the requests for and the return of a connection say.\<close>

definition allocate_request :: "AbstractOffer \<Rightarrow> rtp_session \<Rightarrow> rtp_data" where
  "allocate_request offer s = new_rtp_data\<lparr>rtp_offer := offer, rtp_handler := Some (fst (rs_handlerPair s))\<rparr>"

definition deallocate_request :: "rtp_session \<Rightarrow> rtp_data" where
  "deallocate_request s = new_rtp_data\<lparr>rtp_proxy_handle := rs_handle s\<rparr>"

definition RtpProxySession_Allocate ::
  "running_context \<Rightarrow> iw_message list \<Rightarrow> AbstractOffer \<Rightarrow> rtp_session \<Rightarrow> world \<Rightarrow>
     fault + ((ApiErrorCode \<times> rtp_session) \<times> world)" where
  "RtpProxySession_Allocate ctx evs offer s w =
     (if rs_handle s \<noteq> IW_UNDEFINED then Inr ((API_FAILURE, s), w)
      else with_pair (\<lambda>_ w1. unkept (bnd
             (rtp_transaction ctx evs MSG_RTP_PROXY_ALLOCATE_REQ (allocate_request offer s)
                ''Allocate RTP Connection TXN'' s w1)
             (rtp_answer rtp_allocated))) w)"

definition RtpProxySession_Modify ::
  "running_context \<Rightarrow> iw_message list \<Rightarrow> AbstractOffer \<Rightarrow> rtp_session \<Rightarrow> world \<Rightarrow>
     fault + (ApiErrorCode \<times> rtp_session \<times> world)" where
  "RtpProxySession_Modify ctx evs offer s w =
     (if rs_handle s = IW_UNDEFINED then Inr (API_WRONG_STATE, s, w)
      else bnd (rtp_transaction ctx evs MSG_RTP_PROXY_MODIFY_REQ
                  (new_rtp_data\<lparr>rtp_proxy_handle := rs_handle s, rtp_offer := offer\<rparr>)
                  ''Modify RTP Connection TXN'' s w)
             (rtp_answer rtp_modified))"

definition RtpProxySession_Bridge ::
  "running_context \<Rightarrow> iw_message list \<Rightarrow> rtp_session \<Rightarrow> bool \<Rightarrow> rtp_session \<Rightarrow> world \<Rightarrow>
     fault + ((ApiErrorCode \<times> rtp_session) \<times> world)" where
  "RtpProxySession_Bridge ctx evs dst fullDuplex s w =
     (if rs_handle s = IW_UNDEFINED then Inr ((API_WRONG_STATE, s), w)
      else with_pair (\<lambda>_ w1. unkept (bnd
             (rtp_transaction ctx evs MSG_RTP_PROXY_BRIDGE_REQ
                (new_rtp_data\<lparr>output_conn := rs_handle dst, rtp_proxy_handle := rs_handle s,
                              full_duplex := fullDuplex\<rparr>)
                ''Bridge RTP Connection TXN'' (s\<lparr>rs_bridgedHandle := IW_UNDEFINED\<rparr>) w1)
             (rtp_answer (rtp_bridged (rs_handle dst))))) w)"

definition RtpProxySession_TearDown ::
  "running_context \<Rightarrow> rtp_session \<Rightarrow> world \<Rightarrow> fault + (ApiErrorCode \<times> rtp_session \<times> world)" where
  "RtpProxySession_TearDown ctx s w =
     (if rs_handle s = IW_UNDEFINED then Inr (API_SUCCESS, s, w)
      else
        let (m, w1) = client_request MSG_RTP_PROXY_DEALLOCATE_REQ
              (RtpPayload (deallocate_request s)) w
        in bnd (SendMessage_to ctx (rs_service s) m w1) (\<lambda>(_, w2).
             Inr (API_SUCCESS, s\<lparr>rs_handle := IW_UNDEFINED, rs_bridgedHandle := IW_UNDEFINED\<rparr>, w2)))"

definition RtpProxySession_CleanDtmfBuffer :: "rtp_session \<Rightarrow> world \<Rightarrow> fault + (rtp_session \<times> world)" where
  "RtpProxySession_CleanDtmfBuffer s w =
     bnd (handle_poison (rs_dtmfChannel s) w) (\<lambda>(_, w1).
       let (d, w2) = declare_anon w1
       in Inr (s\<lparr>rs_dtmfBuffer := [], rs_dtmfChannel := d\<rparr>, destroy_handle (rs_dtmfChannel s) w2))"

text \<open>\<open>None\<close> where the output parameter is not assigned.\<close>

definition RtpProxySession_WaitForDtmf ::
  "running_context \<Rightarrow> int \<Rightarrow> rtp_session \<Rightarrow> world \<Rightarrow> fault + ((ApiErrorCode \<times> string option) \<times> world)" where
  "RtpProxySession_WaitForDtmf ctx timeout s w =
     bnd (WaitForTxnResponse_list ctx [rs_dtmfChannel s] IW_UNDEFINED None timeout w)
       (\<lambda>((res, _, response), w1).
          if IW_FAILURE res then Inr ((res, None), w1)
          else on_response response (\<lambda>r. case payload r of
                 RtpPayload d \<Rightarrow> Inr ((API_SUCCESS, Some (rtp_signal d)), w1)
               | _ \<Rightarrow> Inl Null_deref))"

section \<open>Sessions of the streamer\<close>

datatype StreamingSessionState =
    STREAMER_SESSION_STATE_UNKNOWN | STREAMER_SESSION_STATE_NOT_PLAYING | STREAMER_SESSION_STATE_PLAYING

record stream_session =
  ss_service :: int
  ss_handle :: int
  ss_hangupHandle :: int
  ss_playStoppedHandle :: int
  ss_state :: StreamingSessionState
  ss_localOffer :: AbstractOffer
  ss_remoteOffer :: AbstractOffer
  ss_ao :: active_object

definition new_StreamingSession :: "int \<Rightarrow> world \<Rightarrow> stream_session \<times> world" where
  "new_StreamingSession service w =
     (let (h, w1) = declare_anon w; (p, w2) = declare_anon w1
      in (\<lparr>ss_service = service, ss_handle = IW_UNDEFINED, ss_hangupHandle = h,
           ss_playStoppedHandle = p, ss_state = STREAMER_SESSION_STATE_NOT_PLAYING,
           ss_localOffer = empty_offer, ss_remoteOffer = empty_offer, ss_ao = new_ActiveObject\<rparr>, w2))"

text \<open>
  The listener process of the session only forwards events; what it puts into the channel of
  stopped plays while an operation waits is part of the timeline.
\<close>

definition stream_event ::
  "int \<Rightarrow> iw_message \<Rightarrow> stream_session \<Rightarrow> world \<Rightarrow> fault + (unit \<times> world)" where
  "stream_event lpid m s w =
     bnd (if message_id m = MSG_STREAM_PLAY_STOPPED_EVT
          then bnd (handle_send lpid (ss_playStoppedHandle s) m w) (\<lambda>(_, w1). Inr ((), w1))
          else Inr ((), w))
       (\<lambda>(_, w1). UponActiveObjectEvent lpid m (ss_ao s) w1)"

definition stream_request ::
  "running_context \<Rightarrow> MessageId \<Rightarrow> stream_data \<Rightarrow> int \<Rightarrow> string \<Rightarrow> stream_session \<Rightarrow> world \<Rightarrow>
     fault + ((ApiErrorCode \<times> iw_message option) \<times> world)" where
  "stream_request ctx mid d timeout nm s w =
     (let (m, w1) = client_request mid (StreamPayload d) w
      in DoRequestResponseTransaction ctx (ss_service s) m None timeout nm w1)"

text \<open>A message of another kind is left to a bare \<^verbatim>\<open>throw\<close>.\<close>

definition StreamingSession_Allocate ::
  "running_context \<Rightarrow> AbstractOffer \<Rightarrow> nat \<Rightarrow> nat \<Rightarrow> stream_session \<Rightarrow> world \<Rightarrow>
     fault + ((ApiErrorCode \<times> stream_session) \<times> world)" where
  "StreamingSession_Allocate ctx offer rcv snd_dev s w =
     (if ss_handle s \<noteq> IW_UNDEFINED then Inr ((API_FAILURE, s), w)
      else with_pair (\<lambda>pair w1.
        bnd (stream_request ctx MSG_STREAM_ALLOCATE_SESSION_REQ
               (new_stream_data\<lparr>stream_offer := offer, stream_handler := Some pair,
                                rcv_device_type := rcv, snd_device_type := snd_dev\<rparr>)
               (rc_transactionTimeout ctx) ''Allocate Stream Connection TXN'' s w1)
          (\<lambda>((res, response), w2).
             if res \<noteq> API_SUCCESS then Inr ((False, res, s), w2)
             else on_response response (\<lambda>r.
               if message_id r = MSG_STREAM_ALLOCATE_SESSION_ACK
               then (case payload r of
                       StreamPayload ack \<Rightarrow>
                         bnd (StartActiveObjectLwProc pair (ss_ao s)) (\<lambda>ao.
                           Inr ((True, API_SUCCESS, s\<lparr>ss_handle := streamer_handle ack,
                                   ss_localOffer := stream_offer ack, ss_remoteOffer := offer,
                                   ss_ao := ao\<rparr>), w2))
                     | _ \<Rightarrow> Inl Terminate)
               else if message_id r = MSG_STREAM_ALLOCATE_SESSION_NACK
               then Inr ((False, API_SERVER_FAILURE, s), w2)
               else Inl Terminate))) w)"

definition stream_cid :: "iw_message \<Rightarrow> int option" where
  "stream_cid m = (case payload m of StreamPayload d \<Rightarrow> Some (stream_correlation_id d) | _ \<Rightarrow> None)"

definition play_request :: "string \<Rightarrow> bool \<Rightarrow> stream_session \<Rightarrow> stream_data" where
  "play_request file loop s =
     new_stream_data\<lparr>streamer_handle := ss_handle s, file_name := file, loop_play := loop, rcv_device_type := 1\<rparr>"

definition StreamingSession_PlayFile ::
  "running_context \<Rightarrow> string \<Rightarrow> bool \<Rightarrow> bool \<Rightarrow> stream_session \<Rightarrow> world \<Rightarrow>
     fault + (ApiErrorCode \<times> stream_session \<times> world)" where
  "StreamingSession_PlayFile ctx file sync loop s w =
     (if ss_handle s = IW_UNDEFINED then Inr (API_WRONG_STATE, s, w)
      else if sync \<and> loop \<and> file \<noteq> [] then Inr (API_FAILURE, s, w)
      else
        let s1 = s\<lparr>ss_state := STREAMER_SESSION_STATE_UNKNOWN\<rparr>
        in bnd (stream_request ctx MSG_STREAM_PLAY_REQUEST (play_request file loop s)
                  5000 ''Plat TXN'' s1 w) (\<lambda>((res, response), w1).
             if IW_FAILURE res then Inr (res, s1, w1)
             else on_response response (\<lambda>r.
               if message_id r \<noteq> MSG_STREAM_PLAY_ACK then Inr (res, s1, w1)
               else if \<not> sync then Inr (API_SUCCESS, s1, w1)
               else bnd (wait_stopped stream_cid ctx (ss_playStoppedHandle s) (ss_hangupHandle s)
                           (stream_cid r) response w1) (\<lambda>(code, w2).
                      Inr (code, if code = API_SUCCESS
                                 then s1\<lparr>ss_state := STREAMER_SESSION_STATE_NOT_PLAYING\<rparr> else s1,
                           w2)))))"

definition StreamingSession_StopPlay ::
  "running_context \<Rightarrow> stream_session \<Rightarrow> world \<Rightarrow> fault + (ApiErrorCode \<times> stream_session \<times> world)" where
  "StreamingSession_StopPlay ctx s w =
     (if ss_handle s = IW_UNDEFINED then Inr (API_WRONG_STATE, s, w)
      else if ss_state s = STREAMER_SESSION_STATE_NOT_PLAYING then Inr (API_SUCCESS, s, w)
      else
        let (m, w1) = client_request MSG_STREAM_STOP_PLAY_REQ
              (StreamPayload (new_stream_data\<lparr>streamer_handle := ss_handle s\<rparr>)) w
        in bnd (SendMessage_to ctx (ss_service s) m w1) (\<lambda>(res, w2). Inr (res, s, w2)))"

definition StreamingSession_ModifyConnection ::
  "running_context \<Rightarrow> AbstractOffer \<Rightarrow> stream_session \<Rightarrow> world \<Rightarrow>
     fault + ((ApiErrorCode \<times> stream_session) \<times> world)" where
  "StreamingSession_ModifyConnection ctx offer s w =
     (if ss_handle s = IW_UNDEFINED then Inr ((API_FAILURE, s), w)
      else with_pair (\<lambda>_ w1.
        bnd (stream_request ctx MSG_STREAM_MODIFY_REQ
               (new_stream_data\<lparr>stream_offer := offer, streamer_handle := ss_handle s\<rparr>)
               (rc_transactionTimeout ctx) ''Modify Stream Connection TXN'' s w1)
          (\<lambda>((res, response), w2).
             if res \<noteq> API_SUCCESS then Inr ((False, res, s), w2)
             else on_response response (\<lambda>r.
               if message_id r = MSG_STREAM_MODIFY_ACK
               then Inr ((False, API_SUCCESS, s\<lparr>ss_remoteOffer := offer\<rparr>), w2)
               else if message_id r = MSG_STREAM_MODIFY_NACK then Inr ((False, API_FAILURE, s), w2)
               else Inl Terminate))) w)"

definition StreamingSession_TearDown ::
  "running_context \<Rightarrow> stream_session \<Rightarrow> world \<Rightarrow> fault + (stream_session \<times> world)" where
  "StreamingSession_TearDown ctx s w =
     (if ss_handle s = IW_UNDEFINED then Inr (s, w)
      else
        let (m, w1) = client_request MSG_STREAM_TEARDOWN_REQ
              (StreamPayload (new_stream_data\<lparr>streamer_handle := ss_handle s\<rparr>)) w
        in bnd (SendMessage_to ctx (ss_service s) m w1) (\<lambda>(_, w2).
             Inr (s\<lparr>ss_handle := IW_UNDEFINED, ss_state := STREAMER_SESSION_STATE_UNKNOWN\<rparr>, w2)))"

definition StreamingSession_InterruptWithHangup ::
  "running_context \<Rightarrow> stream_session \<Rightarrow> world \<Rightarrow> fault + (unit \<times> world)" where
  "StreamingSession_InterruptWithHangup ctx s w =
     (let (m, w1) = client_request MSG_STREAM_TEARDOWN_REQ (StreamPayload new_stream_data) w
      in bnd (handle_send (rc_processId ctx) (ss_hangupHandle s) m w1) (\<lambda>(_, w2). Inr ((), w2)))"

definition delete_StreamingSession ::
  "running_context \<Rightarrow> stream_session \<Rightarrow> world \<Rightarrow> fault + (unit \<times> world)" where
  "delete_StreamingSession ctx s w =
     bnd (StopActiveObjectLwProc ctx (ss_ao s) w) (\<lambda>(_, w1).
     bnd (StreamingSession_TearDown ctx s w1) (\<lambda>(_, w2).
       handle_poison (ss_hangupHandle s) w2))"

section \<open>Sessions of the RTSP client\<close>

record rtsp_session =
  ts_service :: int
  ts_handle :: int
  ts_localOffer :: AbstractOffer
  ts_remoteOffer :: AbstractOffer

definition new_RtspSession :: "int \<Rightarrow> rtsp_session" where
  "new_RtspSession service =
     \<lparr>ts_service = service, ts_handle = IW_UNDEFINED, ts_localOffer = empty_offer, ts_remoteOffer = empty_offer\<rparr>"

definition rtsp_request ::
  "running_context \<Rightarrow> MessageId \<Rightarrow> rtsp_data \<Rightarrow> int \<Rightarrow> string \<Rightarrow> rtsp_session \<Rightarrow> world \<Rightarrow>
     fault + ((ApiErrorCode \<times> iw_message option) \<times> world)" where
  "rtsp_request ctx mid d timeout nm s w =
     (let (m, w1) = client_request mid (RtspPayload d) w
      in DoRequestResponseTransaction ctx (ts_service s) m None timeout nm w1)"

definition RtspSession_Setup ::
  "running_context \<Rightarrow> string \<Rightarrow> AbstractOffer \<Rightarrow> rtsp_session \<Rightarrow> world \<Rightarrow>
     fault + (ApiErrorCode \<times> rtsp_session \<times> world)" where
  "RtspSession_Setup ctx url offer s w =
     (let s1 = s\<lparr>ts_localOffer := offer\<rparr> in
      bnd (rtsp_request ctx MSG_RTSP_SETUP_SESSION_REQ
             (new_rtsp_data\<lparr>rtsp_offer := offer, request_url := url\<rparr>) 10000 ''RTSP Setup TXN'' s1 w)
        (\<lambda>((res, response), w1).
           if res \<noteq> API_SUCCESS then Inr (res, s1, w1)
           else on_response response (\<lambda>r.
             if message_id r = MSG_RTSP_SETUP_SESSION_ACK
             then (case payload r of
                     RtspPayload ack \<Rightarrow>
                       Inr (API_SUCCESS, s1\<lparr>ts_handle := rtsp_handle ack, ts_remoteOffer := rtsp_offer ack\<rparr>, w1)
                   | _ \<Rightarrow> Inl Terminate)
             else if message_id r = MSG_RTSP_SETUP_SESSION_NACK then Inr (API_SERVER_FAILURE, s1, w1)
             else Inl Terminate)))"

text \<open>The requests below do not carry the handle of the session.\<close>

definition rtsp_switch :: "MessageId \<Rightarrow> MessageId \<Rightarrow> iw_message \<Rightarrow> fault + ApiErrorCode" where
  "rtsp_switch ack nak r =
     (if message_id r = ack then Inr API_SUCCESS
      else if message_id r = nak then Inr API_SERVER_FAILURE
      else Inl Terminate)"

definition rtsp_command ::
  "running_context \<Rightarrow> MessageId \<Rightarrow> rtsp_data \<Rightarrow> string \<Rightarrow> MessageId \<Rightarrow> MessageId \<Rightarrow> rtsp_session \<Rightarrow> world \<Rightarrow>
     fault + (ApiErrorCode \<times> rtsp_session \<times> world)" where
  "rtsp_command ctx mid d nm ack nak s w =
     (if ts_handle s = IW_UNDEFINED then Inr (API_FAILURE, s, w)
      else bnd (rtsp_request ctx mid d (rc_transactionTimeout ctx) nm s w) (\<lambda>((res, response), w1).
             if res \<noteq> API_SUCCESS then Inr (res, s, w1)
             else on_response response (\<lambda>r. bnd (rtsp_switch ack nak r) (\<lambda>code. Inr (code, s, w1)))))"

definition rtsp_play_request :: "64 word \<Rightarrow> 64 word \<Rightarrow> 64 word \<Rightarrow> rtsp_data" where
  "rtsp_play_request start duration scale =
     new_rtsp_data\<lparr>rtsp_start_time := start, rtsp_duration := duration, rtsp_scale := scale\<rparr>"

text \<open>\<open>Play\<close> looks for the negative answer of a set-up.\<close>

definition RtspSession_Play ::
  "running_context \<Rightarrow> 64 word \<Rightarrow> 64 word \<Rightarrow> 64 word \<Rightarrow> rtsp_session \<Rightarrow> world \<Rightarrow>
     fault + (ApiErrorCode \<times> rtsp_session \<times> world)" where
  "RtspSession_Play ctx start duration scale =
     rtsp_command ctx MSG_RTSP_PLAY_REQ (rtsp_play_request start duration scale)
       ''RTSP Play TXN'' MSG_RTSP_PLAY_ACK MSG_RTSP_SETUP_SESSION_NACK"

definition RtspSession_Pause ::
  "running_context \<Rightarrow> rtsp_session \<Rightarrow> world \<Rightarrow> fault + (ApiErrorCode \<times> rtsp_session \<times> world)" where
  "RtspSession_Pause ctx =
     rtsp_command ctx MSG_RTSP_PAUSE_REQ new_rtsp_data ''RTSP Pause TXN'' MSG_RTSP_PAUSE_ACK MSG_RTSP_PAUSE_NACK"

definition RtspSession_TearDown ::
  "running_context \<Rightarrow> rtsp_session \<Rightarrow> world \<Rightarrow> fault + (ApiErrorCode \<times> rtsp_session \<times> world)" where
  "RtspSession_TearDown ctx s w =
     (if ts_handle s = IW_UNDEFINED then Inr (API_FAILURE, s, w)
      else
        let (m, w1) = client_request MSG_RTSP_TEARDOWN_REQ (RtspPayload new_rtsp_data) w
        in bnd (SendMessage_to ctx (ts_service s) m w1) (\<lambda>(_, w2).
             Inr (API_SUCCESS, s\<lparr>ts_handle := IW_UNDEFINED\<rparr>, w2)))"

end
