(* ===== verification/Iw_RtspServer.thy ===== *)
theory Iw_RtspServer
  imports Iw_Media Iw_Clients
begin

text \<open>
  The RTSP service (\<^verbatim>\<open>iw_live555rtsp/ProcLive555Rtsp.cpp\<close>): one client of the streaming library
  and at most one media session, driven by requests.  What the remote server answers (through the
  library's \<^verbatim>\<open>RTSPClient\<close> and \<^verbatim>\<open>MediaSession\<close>) is an argument.
\<close>

section \<open>State\<close>

text \<open>
  A subsession of the description the remote server has given.  Its client port comes from the
  description; 0 is \<open>not set\<close>.
\<close>

record subsession =
  sub_medium :: string
  sub_codec :: "string option"
  sub_payload :: int
  sub_clientPort :: int
  sub_serverPort :: int
  sub_endpoint :: string

text \<open>
  What the network answers: the description of a URL, its parsed subsessions, whether a
  subsession can be set up, whether the session starts playing (with the start, duration and scale
  of the request) and pauses.
\<close>

record rtsp_net =
  net_describe :: "string \<Rightarrow> string option"
  net_session :: "string \<Rightarrow> subsession list option"
  net_setup :: "subsession \<Rightarrow> bool"
  net_play :: "subsession list \<Rightarrow> 64 word \<Rightarrow> 64 word \<Rightarrow> 64 word \<Rightarrow> bool"
  net_pause :: "subsession list \<Rightarrow> bool"

record rtsp_server =
  sv_client :: bool
  sv_session :: "subsession list option"
  sv_handle :: int

text \<open>The handle is drawn once, from a counter that starts at 0.\<close>

definition GenerateNewRtsph :: "int \<Rightarrow> int \<times> int" where
  "GenerateNewRtsph counter = (counter, counter + 1)"

definition new_rtsp_server :: "int \<Rightarrow> rtsp_server \<times> int" where
  "new_rtsp_server counter =
     (let (h, counter') = GenerateNewRtsph counter
      in (\<lparr>sv_client = False, sv_session = None, sv_handle = h\<rparr>, counter'))"

definition server_Teardown :: "rtsp_server \<Rightarrow> rtsp_server" where
  "server_Teardown sv =
     (if sv_client sv then sv\<lparr>sv_session := None, sv_client := False\<rparr> else sv)"

section \<open>Setting a session up\<close>

definition codec_matches :: "MediaFormat \<Rightarrow> subsession \<Rightarrow> bool" where
  "codec_matches f sub =
     (case sub_codec sub of
        Some c \<Rightarrow> if c \<noteq> [] then mf_name f = c else mf_mapping f = sub_payload sub
      | None \<Rightarrow> mf_mapping f = sub_payload sub)"

text \<open>The first audio subsession that fits a format; the formats are tried in their order.\<close>

fun find_subsession :: "MediaFormat \<Rightarrow> subsession list \<Rightarrow> nat option" where
  "find_subsession f [] = None"
| "find_subsession f (sub # subs) =
     (if sub_medium sub \<noteq> ''audio'' then map_option Suc (find_subsession f subs)
      else if codec_matches f sub then Some 0
      else map_option Suc (find_subsession f subs))"

fun choose_subsession :: "MediaFormat list \<Rightarrow> subsession list \<Rightarrow> nat option" where
  "choose_subsession [] subs = None"
| "choose_subsession (f # fs) subs =
     (case find_subsession f subs of Some i \<Rightarrow> Some i | None \<Rightarrow> choose_subsession fs subs)"

text \<open>\<^verbatim>\<open>setupStreams\<close>: every subsession with a port is tried, and one that succeeds is enough.\<close>

definition setupStreams :: "rtsp_net \<Rightarrow> subsession list \<Rightarrow> bool" where
  "setupStreams net subs = list_ex (\<lambda>sub. sub_clientPort sub \<noteq> 0 \<and> net_setup net sub) subs"

definition answer_body :: "int \<Rightarrow> subsession \<Rightarrow> string" where
  "answer_body time sub =
     ''v=0'' @ CRLF @
     ''o=live '' @ itoa time @ '' '' @ itoa time @ '' IN IP4 '' @ sub_endpoint sub @ CRLF @
     ''s=live'' @ CRLF @
     ''c=IN IP4 '' @ sub_endpoint sub @ CRLF @
     ''t=0 0'' @ CRLF @
     ''m=audio '' @ itoa (sub_serverPort sub) @ '' RTP/AVP '' @ itoa (sub_payload sub) @ CRLF @ CRLF"

type_synonym reply = "MessageId \<times> rtsp_data"

abbreviation nack :: "MessageId \<Rightarrow> reply" where
  "nack mid \<equiv> (mid, new_rtsp_data)"

text \<open>
  \<^verbatim>\<open>SetupSession\<close>: the answers it sends, in order, and the state it leaves.  \<open>sdp\<close> gives the audio
  medium of a description and \<open>time\<close> is the tick count.
\<close>

definition SetupSession ::
  "(string \<Rightarrow> medium) \<Rightarrow> rtsp_net \<Rightarrow> int \<Rightarrow> rtsp_data \<Rightarrow> rtsp_server \<Rightarrow> reply list \<times> rtsp_server" where
  "SetupSession sdp net time req sv =
     (let sv1 = (server_Teardown sv)\<lparr>sv_client := True\<rparr>;
          audio = sdp (offer_body (rtsp_offer req));
          refused = ([nack MSG_RTSP_SETUP_SESSION_NACK], sv1)
      in if \<not> (is_ip_valid (med_connection audio) \<and> is_port_valid (med_connection audio)) \<or> med_list audio = []
         then refused
         else (case Option.bind (net_describe net (request_url req)) (net_session net) of
                 None \<Rightarrow> refused
               | Some subs \<Rightarrow>
                   (case choose_subsession (med_list audio) subs of
                      None \<Rightarrow> refused
                    | Some i \<Rightarrow>
                        let subs1 = subs[i := (subs ! i)\<lparr>sub_clientPort := port_ho (med_connection audio)\<rparr>];
                            failed = (if setupStreams net subs1 then []
                                      else [nack MSG_RTSP_SETUP_SESSION_NACK]);
                            ack = new_rtsp_data\<lparr>rtsp_handle := sv_handle sv1,
                                    rtsp_offer := \<lparr>offer_body = answer_body time (subs1 ! i),
                                                   offer_type = ''application/sdp''\<rparr>\<rparr>
                        in (failed @ [(MSG_RTSP_SETUP_SESSION_ACK, ack)], sv1\<lparr>sv_session := Some subs1\<rparr>))))"

section \<open>The other requests\<close>

text \<open>
  The service looks at its own session, not at the handle of the request; the request itself (the
  result of a dynamic cast) is read only when there is a session.
\<close>

definition server_Play :: "rtsp_net \<Rightarrow> rtsp_data option \<Rightarrow> rtsp_server \<Rightarrow> fault + reply list" where
  "server_Play net req sv =
     (case (sv_client sv, sv_session sv) of
        (True, Some subs) \<Rightarrow>
          (case req of
             None \<Rightarrow> Inl Null_deref
           | Some r \<Rightarrow>
               Inr [nack (if net_play net subs (rtsp_start_time r) (rtsp_duration r) (rtsp_scale r)
                          then MSG_RTSP_PLAY_ACK else MSG_RTSP_PLAY_NACK)])
      | _ \<Rightarrow> Inr [nack MSG_RTSP_PLAY_NACK])"

definition server_Pause :: "rtsp_net \<Rightarrow> rtsp_server \<Rightarrow> reply list" where
  "server_Pause net sv =
     (case (sv_client sv, sv_session sv) of
        (True, Some subs) \<Rightarrow> [nack (if net_pause net subs then MSG_RTSP_PAUSE_ACK else MSG_RTSP_PAUSE_NACK)]
      | _ \<Rightarrow> [nack MSG_RTSP_PAUSE_NACK])"

section \<open>The loop\<close>

text \<open>The switch on the message: the answers and the next state; \<open>None\<close> for a message of another kind.\<close>

definition request_data :: "iw_message \<Rightarrow> rtsp_data option" where
  "request_data m = (case payload m of RtspPayload r \<Rightarrow> Some r | _ \<Rightarrow> None)"

definition serve ::
  "(string \<Rightarrow> medium) \<Rightarrow> rtsp_net \<Rightarrow> int \<Rightarrow> iw_message \<Rightarrow> rtsp_server \<Rightarrow>
     (fault + (reply list \<times> rtsp_server)) option" where
  "serve sdp net time m sv =
     (if message_id m = MSG_RTSP_SETUP_SESSION_REQ
      then Some (case request_data m of None \<Rightarrow> Inl Null_deref | Some r \<Rightarrow> Inr (SetupSession sdp net time r sv))
      else if message_id m = MSG_RTSP_PLAY_REQ
      then Some (bnd (server_Play net (request_data m) sv) (\<lambda>rs. Inr (rs, sv)))
      else if message_id m = MSG_RTSP_PAUSE_REQ then Some (Inr (server_Pause net sv, sv))
      else if message_id m = MSG_RTSP_TEARDOWN_REQ then Some (Inr ([], server_Teardown sv))
      else None)"

text \<open>The answers are requests themselves: each draws a transaction id, which the copy replaces.\<close>

fun send_replies ::
  "running_context \<Rightarrow> iw_message \<Rightarrow> reply list \<Rightarrow> world \<Rightarrow> fault + (unit \<times> world)" where
  "send_replies ctx m [] w = Inr ((), w)"
| "send_replies ctx m ((mid, d) # rs) w =
     (let (r, w0) = client_request mid (RtspPayload d) w
      in bnd (SendResponse ctx m r w0) (\<lambda>(_, w1). send_replies ctx m rs w1))"

text \<open>
  One round of \<^verbatim>\<open>real_run\<close> waits three minutes for a message; the result tells whether to shut down.
\<close>

definition rtsp_round ::
  "(string \<Rightarrow> medium) \<Rightarrow> rtsp_net \<Rightarrow> int \<Rightarrow> running_context \<Rightarrow> rtsp_server \<Rightarrow> world \<Rightarrow>
     fault + (bool \<times> rtsp_server \<times> world)" where
  "rtsp_round sdp net time ctx sv w =
     bnd (LpHandle_Wait (rc_fiber ctx) (rc_inbound ctx) 180000 w) (\<lambda>((res, mo), w1).
       if res = API_TIMEOUT then Inr (False, sv, w1)
       else (case mo of
               None \<Rightarrow> Inl Null_deref
             | Some m \<Rightarrow>
                 (case serve sdp net time m sv of
                    Some r \<Rightarrow> bnd r (\<lambda>(replies, sv1).
                      bnd (send_replies ctx m replies w1) (\<lambda>(_, w2). Inr (False, sv1, w2)))
                  | None \<Rightarrow>
                      if message_id m = MSG_PROC_SHUTDOWN_REQ
                      then bnd (SendResponse ctx m (new_MsgResponse MSG_PROC_SHUTDOWN_ACK) w1) (\<lambda>(_, w2).
                             Inr (True, sv, w2))
                      else bnd (HandleOOBMessage ctx (Some m) w1) (\<lambda>(_, w2). Inr (False, sv, w2)))))"

text \<open>The rounds of a run, each with its tick count; \<open>False\<close>: still running after them.\<close>

fun rtsp_loop ::
  "(string \<Rightarrow> medium) \<Rightarrow> rtsp_net \<Rightarrow> int list \<Rightarrow> running_context \<Rightarrow> rtsp_server \<Rightarrow> world \<Rightarrow>
     fault + (bool \<times> rtsp_server \<times> world)" where
  "rtsp_loop sdp net [] ctx sv w = Inr (False, sv, w)"
| "rtsp_loop sdp net (t # ts) ctx sv w =
     bnd (rtsp_round sdp net t ctx sv w) (\<lambda>(shutdown, sv1, w1).
       if shutdown then Inr (True, sv1, w1) else rtsp_loop sdp net ts ctx sv1 w1)"

end
