(* ===== verification/Iw_Mrcp.thy ===== *)
theory Iw_Mrcp
  imports Iw_Clients
begin

text \<open>
  The session of the speech server (\<^verbatim>\<open>iw_telephony/MrcpSession.cpp\<close>): allocation of a resource,
  prompts, grammars and recognition.
\<close>

record mrcp_session =
  ms_service :: int
  ms_handle :: int
  ms_handlerPair :: "int \<times> int"
  ms_hangupHandle :: int
  ms_playStoppedHandle :: int
  ms_recognitionStoppedHandle :: int
  ms_localOffers :: "MrcpResource \<rightharpoonup> AbstractOffer"
  ms_remoteOffers :: "MrcpResource \<rightharpoonup> AbstractOffer"
  ms_ao :: active_object

definition new_MrcpSession :: "int \<Rightarrow> world \<Rightarrow> mrcp_session \<times> world" where
  "new_MrcpSession service w =
     (let (h, w1) = declare_anon w; (p, w2) = declare_anon w1; (r, w3) = declare_anon w2;
          (i, w4) = declare_anon w3; (j, w5) = declare_anon w4
      in (\<lparr>ms_service = service, ms_handle = IW_UNDEFINED, ms_handlerPair = (i, j), ms_hangupHandle = h,
           ms_playStoppedHandle = p, ms_recognitionStoppedHandle = r, ms_localOffers = Map.empty,
           ms_remoteOffers = Map.empty, ms_ao = new_ActiveObject\<rparr>, w5))"

text \<open>What the listener process forwards while an operation waits is part of the timeline.\<close>

definition mrcp_event :: "int \<Rightarrow> iw_message \<Rightarrow> mrcp_session \<Rightarrow> world \<Rightarrow> fault + (unit \<times> world)" where
  "mrcp_event lpid m s w =
     bnd (if message_id m = MSG_MRCP_SPEAK_STOPPED_EVT
          then bnd (handle_send lpid (ms_playStoppedHandle s) m w) (\<lambda>(_, w1). Inr ((), w1))
          else if message_id m = MSG_MRCP_RECOGNITION_COMPLETE_EVT
          then bnd (handle_send lpid (ms_recognitionStoppedHandle s) m w) (\<lambda>(_, w1). Inr ((), w1))
          else Inr ((), w))
       (\<lambda>(_, w1). UponActiveObjectEvent lpid m (ms_ao s) w1)"

definition mrcp_request ::
  "running_context \<Rightarrow> MessageId \<Rightarrow> mrcp_data \<Rightarrow> int \<Rightarrow> string \<Rightarrow> mrcp_session \<Rightarrow> world \<Rightarrow>
     fault + ((ApiErrorCode \<times> iw_message option) \<times> world)" where
  "mrcp_request ctx mid d timeout nm s w =
     (let (m, w1) = client_request mid (MrcpPayload d) w
      in DoRequestResponseTransaction ctx (ms_service s) m None timeout nm w1)"

section \<open>The session\<close>

definition MrcpSession_Allocate ::
  "running_context \<Rightarrow> MrcpResource \<Rightarrow> AbstractOffer \<Rightarrow> int \<Rightarrow> mrcp_session \<Rightarrow> world \<Rightarrow>
     fault + ((ApiErrorCode \<times> mrcp_session) \<times> world)" where
  "MrcpSession_Allocate ctx rsc offer timeout s = with_pair (\<lambda>pair w1.
     let s1 = s\<lparr>ms_localOffers := (ms_localOffers s)(rsc \<mapsto> offer)\<rparr> in
     bnd (mrcp_request ctx MSG_MRCP_ALLOCATE_SESSION_REQ
            (new_mrcp_data\<lparr>mrcp_offer := offer, mrcp_handler := Some pair, mrcp_resource := rsc,
                           mrcp_handle := ms_handle s\<rparr>)
            timeout ''Allocate MRCP Connection TXN'' s1 w1)
       (\<lambda>((res, response), w2).
          if res \<noteq> API_SUCCESS then Inr ((False, res, s1), w2)
          else on_response response (\<lambda>r.
            if message_id r = MSG_MRCP_ALLOCATE_SESSION_ACK
            then (case payload r of
                    MrcpPayload ack \<Rightarrow>
                      bnd (if ms_handle s1 = IW_UNDEFINED
                           then bnd (StartActiveObjectLwProc pair (ms_ao s1)) (\<lambda>ao.
                                  Inr (True, s1\<lparr>ms_ao := ao, ms_handle := mrcp_handle ack\<rparr>))
                           else Inr (False, s1)) (\<lambda>(kept, s2).
                        Inr ((kept, API_SUCCESS,
                              s2\<lparr>ms_remoteOffers := (ms_remoteOffers s2)(rsc \<mapsto> mrcp_offer ack)\<rparr>), w2))
                  | _ \<Rightarrow> Inl Terminate)
            else if message_id r = MSG_MRCP_ALLOCATE_SESSION_NACK
            then Inr ((False, API_SERVER_FAILURE, s1), w2)
            else Inl Terminate)))"

definition MrcpSession_Allocate_default ::
  "running_context \<Rightarrow> MrcpResource \<Rightarrow> mrcp_session \<Rightarrow> world \<Rightarrow>
     fault + ((ApiErrorCode \<times> mrcp_session) \<times> world)" where
  "MrcpSession_Allocate_default ctx rsc = MrcpSession_Allocate ctx rsc empty_offer 15000"

definition MrcpSession_ModifySession ::
  "running_context \<Rightarrow> AbstractOffer \<Rightarrow> mrcp_session \<Rightarrow> world \<Rightarrow>
     fault + ((ApiErrorCode \<times> mrcp_session) \<times> world)" where
  "MrcpSession_ModifySession ctx offer s w =
     (if ms_handle s = IW_UNDEFINED then Inr ((API_FAILURE, s), w)
      else with_pair (\<lambda>_ w1.
        bnd (mrcp_request ctx MSG_MRCP_MODIFY_REQ
               (new_mrcp_data\<lparr>mrcp_offer := offer, mrcp_handle := ms_handle s\<rparr>)
               (rc_transactionTimeout ctx) ''Modify MRCP Connection TXN'' s w1)
          (\<lambda>((res, response), w2).
             if res \<noteq> API_SUCCESS then Inr ((False, res, s), w2)
             else on_response response (\<lambda>r.
               if message_id r = MSG_MRCP_MODIFY_ACK then Inr ((False, API_SUCCESS, s), w2)
               else if message_id r = MSG_MRCP_MODIFY_NACK then Inr ((False, API_FAILURE, s), w2)
               else Inl Terminate))) w)"

definition MrcpSession_TearDown ::
  "running_context \<Rightarrow> mrcp_session \<Rightarrow> world \<Rightarrow> fault + (mrcp_session \<times> world)" where
  "MrcpSession_TearDown ctx s w =
     (if ms_handle s = IW_UNDEFINED then Inr (s, w)
      else
        let (m, w1) = client_request MSG_MRCP_TEARDOWN_REQ
              (MrcpPayload (new_mrcp_data\<lparr>mrcp_handle := ms_handle s\<rparr>)) w
        in bnd (SendMessage_to ctx (ms_service s) m w1) (\<lambda>(_, w2).
             Inr (s\<lparr>ms_handle := IW_UNDEFINED\<rparr>, w2)))"

definition MrcpSession_InterruptWithHangup ::
  "running_context \<Rightarrow> mrcp_session \<Rightarrow> world \<Rightarrow> fault + (unit \<times> world)" where
  "MrcpSession_InterruptWithHangup ctx s w =
     (let (m, w1) = client_request MSG_MRCP_STOP_SPEAK_REQ (MrcpPayload new_mrcp_data) w
      in bnd (handle_send (rc_processId ctx) (ms_hangupHandle s) m w1) (\<lambda>(_, w2). Inr ((), w2)))"

definition delete_MrcpSession ::
  "running_context \<Rightarrow> mrcp_session \<Rightarrow> world \<Rightarrow> fault + (unit \<times> world)" where
  "delete_MrcpSession ctx s w =
     bnd (StopActiveObjectLwProc ctx (ms_ao s) w) (\<lambda>(_, w1).
     bnd (MrcpSession_TearDown ctx s w1) (\<lambda>(_, w2).
       handle_poison (ms_hangupHandle s) w2))"

text \<open>The offers made to and got from each resource; an empty one where there is none.\<close>

definition MrcpSession_LocalOffer :: "MrcpResource \<Rightarrow> mrcp_session \<Rightarrow> AbstractOffer" where
  "MrcpSession_LocalOffer rsc s = (case ms_localOffers s rsc of None \<Rightarrow> empty_offer | Some x \<Rightarrow> x)"

definition MrcpSession_RemoteOffer :: "MrcpResource \<Rightarrow> mrcp_session \<Rightarrow> AbstractOffer" where
  "MrcpSession_RemoteOffer rsc s = (case ms_remoteOffers s rsc of None \<Rightarrow> empty_offer | Some x \<Rightarrow> x)"

section \<open>Prompts\<close>

definition mrcp_cid :: "iw_message \<Rightarrow> int option" where
  "mrcp_cid m = (case payload m of MrcpPayload d \<Rightarrow> Some (mrcp_correlation_id d) | _ \<Rightarrow> None)"

definition MrcpSession_Speak ::
  "running_context \<Rightarrow> (string, string) smap \<Rightarrow> string \<Rightarrow> bool \<Rightarrow> mrcp_session \<Rightarrow> world \<Rightarrow>
     fault + (ApiErrorCode \<times> world)" where
  "MrcpSession_Speak ctx params body sync s w =
     (if ms_handle s = IW_UNDEFINED then Inr (API_FAILURE, w)
      else bnd (mrcp_request ctx MSG_MRCP_SPEAK_REQ
                  (new_mrcp_data\<lparr>mrcp_handle := ms_handle s, mrcp_body := body, mrcp_params := params\<rparr>)
                  5000 ''Speak txn'' s w) (\<lambda>((res, response), w1).
             if IW_FAILURE res then Inr (res, w1)
             else on_response response (\<lambda>r.
               if message_id r \<noteq> MSG_MRCP_SPEAK_ACK then Inr (res, w1)
               else if \<not> sync then Inr (API_SUCCESS, w1)
               else wait_stopped mrcp_cid ctx (ms_playStoppedHandle s) (ms_hangupHandle s)
                      (mrcp_cid r) response w1)))"

definition MrcpSession_StopSpeak ::
  "running_context \<Rightarrow> mrcp_session \<Rightarrow> world \<Rightarrow> fault + (ApiErrorCode \<times> world)" where
  "MrcpSession_StopSpeak ctx s w =
     (if ms_handle s = IW_UNDEFINED then Inr (API_FAILURE, w)
      else bnd (mrcp_request ctx MSG_MRCP_STOP_SPEAK_REQ (new_mrcp_data\<lparr>mrcp_handle := ms_handle s\<rparr>)
                  5000 ''Stop Speak TXN'' s w) (\<lambda>((res, _), w1). Inr (res, w1)))"

section \<open>Grammars and recognition\<close>

definition MrcpSession_DefineGrammar ::
  "running_context \<Rightarrow> (string, string) smap \<Rightarrow> string \<Rightarrow> int \<Rightarrow> mrcp_session \<Rightarrow> world \<Rightarrow>
     fault + (ApiErrorCode \<times> world)" where
  "MrcpSession_DefineGrammar ctx params body timeout s w =
     (if ms_handle s = IW_UNDEFINED then Inr (API_FAILURE, w)
      else bnd (mrcp_request ctx MSG_MRCP_DEFINE_GRAMMAR_REQ
                  (new_mrcp_data\<lparr>mrcp_handle := ms_handle s, mrcp_body := body, mrcp_params := params\<rparr>)
                  timeout ''Define Grammar TXN'' s w) (\<lambda>((res, response), w1).
             if IW_FAILURE res then Inr (API_FAILURE, w1)
             else on_response response (\<lambda>r.
               Inr (if message_id r \<noteq> MSG_MRCP_DEFINE_GRAMMAR_ACK then API_FAILURE else API_SUCCESS, w1))))"

text \<open>\<open>None\<close> where the output parameter is not assigned.\<close>

definition MrcpSession_WaitForRecogResult ::
  "running_context \<Rightarrow> int \<Rightarrow> mrcp_session \<Rightarrow> world \<Rightarrow> fault + ((ApiErrorCode \<times> string option) \<times> world)" where
  "MrcpSession_WaitForRecogResult ctx timeout s w =
     bnd (WaitForTxnResponse_list ctx [ms_recognitionStoppedHandle s, ms_hangupHandle s] IW_UNDEFINED
            None timeout w) (\<lambda>((res, index, response), w1).
       if index = 1 then Inr ((API_HANGUP, None), w1)
       else if IW_FAILURE res then Inr ((res, None), w1)
       else on_response response (\<lambda>r.
         if message_id r = MSG_MRCP_RECOGNITION_COMPLETE_EVT
         then (case payload r of
                 MrcpPayload d \<Rightarrow> Inr ((res, Some (mrcp_body d)), w1)
               | _ \<Rightarrow> Inl Null_deref)
         else Inr ((API_UNKNOWN_RESPONSE, None), w1)))"

definition MrcpSession_Recognize ::
  "running_context \<Rightarrow> (string, string) smap \<Rightarrow> string \<Rightarrow> int \<Rightarrow> bool \<Rightarrow> mrcp_session \<Rightarrow> world \<Rightarrow>
     fault + ((ApiErrorCode \<times> string option) \<times> world)" where
  "MrcpSession_Recognize ctx params body timeout sync s w =
     (if ms_handle s = IW_UNDEFINED then Inr ((API_FAILURE, None), w)
      else with_pair (\<lambda>_ w1.
        bnd (bnd (mrcp_request ctx MSG_MRCP_RECOGNIZE_REQ
                    (new_mrcp_data\<lparr>mrcp_params := params, mrcp_handle := ms_handle s, mrcp_body := body\<rparr>)
                    15000 ''Recognize MRCP TXN'' s w1) (\<lambda>((res, response), w2).
               if IW_FAILURE res then Inr ((res, None), w2)
               else if \<not> sync then Inr ((API_SUCCESS, None), w2)
               else on_response response (\<lambda>r.
                 if message_id r = MSG_MRCP_RECOGNIZE_ACK
                 then (case payload r of
                         MrcpPayload _ \<Rightarrow> MrcpSession_WaitForRecogResult ctx timeout s w2
                       | _ \<Rightarrow> Inl Terminate)
                 else if message_id r = MSG_MRCP_RECOGNIZE_NACK
                 then (case payload r of
                         MrcpPayload _ \<Rightarrow> Inr ((API_SERVER_FAILURE, None), w2)
                       | _ \<Rightarrow> Inl Terminate)
                 else Inl Terminate)))
          (\<lambda>(r, w2). Inr ((False, r), w2))) w)"

end
