(* ===== verification/Iw_Process_Props.thy ===== *)
theory Iw_Process_Props
  imports Iw_Process_Facts
begin

text \<open>
  The properties of the messaging core: queues, waiting, transactions, registration,
  process start and boot.
\<close>

section \<open>A small world for the witnesses\<close>

text \<open>
  Process 6000 (inbound 6000, outbound 6001) in fiber (1, 7) is registered; another
  process is registered with handle 6002.
\<close>

definition demo_ctx :: running_context where
  "demo_ctx = \<lparr>rc_name = ''p'', rc_serviceId = ''svc'', rc_processId = 6000, rc_inbound = 6000,
     rc_outbound = 6001, rc_transactionTimeout = 5000, rc_startSuspended = False,
     rc_fiber = (1, 7), rc_appdata = []\<rparr>"

definition demo_world :: world where
  "demo_world = \<lparr>w_handles = [6000 \<mapsto> new_LpHandle, 6001 \<mapsto> new_LpHandle, 6002 \<mapsto> new_LpHandle],
     w_reg = \<lparr>locProcessesMap = [(6000, 6000), (6002, 6002)], listenersMap = [],
              servicesMap = [(6000, ''svc''), (6002, ''peer'')]\<rparr>,
     w_pidIndex = 6003, w_txn = 0, w_fibers = [(1, 7) \<mapsto> 6000], w_clock = 0, w_future = []\<rparr>"


definition demo_future :: world where
  "demo_future = demo_world\<lparr>w_future := [(5, EvSend 6000 (new_IwMessage MSG_PING)),
     (10, EvSend 6003 (new_IwMessage MSG_PONG))]\<rparr>"




section \<open>Handles\<close>

text \<open>C28: a handle is a first-in first-out queue: as many messages as the queue holds, sent to
  an empty open handle, are read back by its reader in the order they were sent.\<close>

theorem handle_fifo:
  assumes "buffer (hnd_channel h) = []" and "\<not> isPoisoned (hnd_channel h)"
    and "hnd_interruptor h = None" and "hnd_reader h = Some me"
    and "length ms \<le> MAX_MESSAGES_IN_QUEUE"
  shows "\<exists>h1 h2. put_all handle_put ms h = Inr h1 \<and>
           get_n (handle_get me) (length ms) h1 = Inr (ms, h2) \<and> buffer (hnd_channel h2) = []"
  using assms hq.fifo_order [of h me ms] by auto

theorem handle_fifo_witness:
  "\<exists>h1 h2. put_all handle_put [new_IwMessage MSG_PING, new_IwMessage MSG_PONG]
             (new_LpHandle\<lparr>hnd_reader := Some (1, 7)\<rparr>) = Inr h1 \<and>
           get_n (handle_get (1, 7)) 2 h1 =
             Inr ([new_IwMessage MSG_PING, new_IwMessage MSG_PONG], h2) \<and>
           buffer (hnd_channel h2) = []"
  using handle_fifo [of "new_LpHandle\<lparr>hnd_reader := Some (1, 7)\<rparr>" "(1, 7)"
      "[new_IwMessage MSG_PING, new_IwMessage MSG_PONG]"]
  by (simp add: new_LpHandle_def new_channel_def MAX_MESSAGES_IN_QUEUE_def numeral_2_eq_2)

text \<open>Waiting on several handles keeps every handle's bookkeeping right: the size counter of
  a handle that is not poisoned is the length of its queue and no queue exceeds its bound,
  whatever the other processes do meanwhile.\<close>

theorem select_keeps_handles_ok:
  assumes "handles_ok w" and "SelectFromChannels me us t idx resp w = Inr (r, w')"
  shows "handles_ok w'"
proof (cases "length us = 0 \<or> length us > MAX_NUM_OF_CHANNELS_IN_SELECT")
  case False
  with assms(2) obtain found w1 where sc: "scan_pending me 0 us w = Inr (found, w1)"
    by (auto simp: SelectFromChannels_def)
  have ok1: "handles_ok w1" by (rule scan_pending_ok [OF sc assms(1)])
  obtain k w2 where ps: "priSelect us t w1 = (k, w2)" by (cases "priSelect us t w1")
  have ok2: "handles_ok w2" by (rule priSelect_ok' [OF ps ok1])
  from False assms(2) sc ps ok1 ok2 show ?thesis
    by (auto simp: SelectFromChannels_def split: option.splits dest: handle_ops_ok(2))
qed (use assms in \<open>auto simp: SelectFromChannels_def\<close>)

theorem select_keeps_handles_ok_witness:
  "handles_ok demo_future \<and>
   (\<exists>r w'. SelectFromChannels (1, 7) [6000, 6002] 100 0 None demo_future = Inr (r, w') \<and>
      handles_ok w')"
proof -
  have "handles_ok demo_future"
    by (auto simp: handles_ok_def demo_future_def demo_world_def split: if_splits)
  moreover have "case SelectFromChannels (1, 7) [6000, 6002] 100 0 None demo_future of
      Inl _ \<Rightarrow> False | Inr _ \<Rightarrow> True"
    by code_simp
  ultimately show ?thesis
    using select_keeps_handles_ok [of demo_future "(1, 7)" "[6000, 6002]" 100 0 None]
    by (auto split: sum.splits)
qed

text \<open>
  the select is prioritised: when some handle of the list already has a message, the first
  such handle in list order is read, its oldest message is returned and no time passes.\<close>

theorem select_takes_first_pending:
  assumes "SelectFromChannels me us t idx resp w = Inr (r, w')"
    and "i < length us" and "w_handles w (us ! i) = Some h" and "buffer (hnd_channel h) = m # ms"
    and "\<forall>j < i. \<forall>g. w_handles w (us ! j) = Some g \<longrightarrow> \<not> chan_pending (hnd_channel g)"
    and "distinct us" and "length us \<le> MAX_NUM_OF_CHANNELS_IN_SELECT"
  shows "r = (API_SUCCESS, int i, Some m) \<and> w_clock w' = w_clock w"
proof -
  from assms(1,2,7) obtain f w1 where sc: "scan_pending me 0 us w = Inr (f, w1)"
    by (auto simp: SelectFromChannels_def split: if_splits)
  from scan_pending_finds [OF sc assms(2,6,3,4,5)] obtain g' where
    g': "f = Some i" "w_clock w1 = w_clock w" "w_handles w1 (us ! i) = Some g'"
    "buffer (hnd_channel g') = m # ms" by auto
  with assms(1,2,7) sc obtain x where "handle_read me (us ! i) w1 = Inr (x, w')"
    and "r = (API_SUCCESS, int i, x)"
    by (auto simp: SelectFromChannels_def split: if_splits)
  with handle_read_head g' show ?thesis by fastforce
qed

definition two_waiting :: world where
  "two_waiting = demo_world\<lparr>w_handles := [6000 \<mapsto> new_LpHandle,
     6001 \<mapsto> new_LpHandle\<lparr>hnd_channel := \<lparr>buffer = [new_IwMessage MSG_ACK], isPoisoned = False\<rparr>\<rparr>,
     6002 \<mapsto> new_LpHandle\<lparr>hnd_channel := \<lparr>buffer = [new_IwMessage MSG_NACK], isPoisoned = False\<rparr>\<rparr>]\<rparr>"

theorem select_takes_first_pending_witness:
  "\<exists>w'. SelectFromChannels (1, 7) [6000, 6001, 6002] 100 0 None two_waiting =
     Inr ((API_SUCCESS, 1, Some (new_IwMessage MSG_ACK)), w') \<and> w_clock w' = 0"
proof -
  have "case SelectFromChannels (1, 7) [6000, 6001, 6002] 100 0 None two_waiting of
      Inl _ \<Rightarrow> False | Inr _ \<Rightarrow> True"
    by code_simp
  then obtain r w' where
    run: "SelectFromChannels (1, 7) [6000, 6001, 6002] 100 0 None two_waiting = Inr (r, w')"
    by (auto split: sum.splits)
  show ?thesis
    using select_takes_first_pending [OF run, of 1 _ "new_IwMessage MSG_ACK" "[]"] run
    by (auto simp: two_waiting_def demo_world_def new_LpHandle_def new_channel_def
        chan_pending_def MAX_NUM_OF_CHANNELS_IN_SELECT_def)
qed

section \<open>Waiting and transactions\<close>







section \<open>Addressing\<close>

text \<open>C29: a message addressed to a registered process is appended to exactly that process's queue,
  carrying the sender's process id where the message named no source; no other handle changes.\<close>

theorem send_message_delivers:
  assumes "resolve m w = Some u" and "w_handles w u = Some h"
    and "\<not> isPoisoned (hnd_channel h)" and "hnd_interruptor h = None"
    and "length (buffer (hnd_channel h)) < MAX_MESSAGES_IN_QUEUE"
  shows "\<exists>m' h' w'. SendMessage ctx m w = Inr (API_SUCCESS, w') \<and>
    w_handles w' = (w_handles w)(u \<mapsto> h') \<and> w_reg w' = w_reg w \<and>
    buffer (hnd_channel h') = buffer (hnd_channel h) @ [m'] \<and>
    message_id m' = message_id m \<and> payload m' = payload m \<and>
    handle_id (source m') = (if handle_id (source m) = IW_UNDEFINED then rc_processId ctx
                             else handle_id (source m))"
proof -
  obtain m1 w1 where c: "complete_message ctx m w = (m1, w1)"
    by (cases "complete_message ctx m w")
  have src: "handle_id (source m1) = (if handle_id (source m) = IW_UNDEFINED
      then rc_processId ctx else handle_id (source m))"
    using c by (auto simp: complete_message_def Let_def GenerateNewTxnId_def split: if_splits)
  note f = complete_message_frame [OF c]
  from resolve_complete [OF c] assms(1) have r: "resolve m1 w1 = Some u" by simp
  from f assms(2-5) have "handle_send (rc_processId ctx) u m1 w1 = Inr (API_SUCCESS,
      set_handle u (h\<lparr>hnd_channel := (hnd_channel h)\<lparr>buffer := buffer (hnd_channel h) @
        [stamp_source (rc_processId ctx) m1]\<rparr>, hnd_size := hnd_size h + 1\<rparr>) w1)"
    by (simp add: handle_send_def on_handle_def LpHandle_Send_def chan_output_def
        outputWouldSucceed_def signal_in_def)
  moreover have "handle_id (source (stamp_source (rc_processId ctx) m1)) = handle_id (source m1)"
    using src by (auto simp: stamp_source_def)
  ultimately show ?thesis
    using c f r src by (force simp: SendMessage_def same_scene_def)
qed

theorem send_message_delivers_witness:
  "\<exists>m' h' w'. SendMessage_to demo_ctx 6002 (new_IwMessage MSG_ACK) demo_world = Inr (API_SUCCESS, w') \<and>
     w_handles w' 6002 = Some h' \<and> buffer (hnd_channel h') = [m'] \<and>
     handle_id (source m') = 6000"
proof -
  let ?m = "(new_IwMessage MSG_ACK)\<lparr>dest := (dest (new_IwMessage MSG_ACK))\<lparr>handle_id := 6002\<rparr>\<rparr>"
  have r: "resolve ?m demo_world = Some 6002"
    by (simp add: resolve_def GetHandle_def demo_world_def new_IwMessage_def)
  show ?thesis
    using send_message_delivers [OF r, of new_LpHandle demo_ctx]
    by (auto simp: SendMessage_to_def demo_world_def new_LpHandle_def new_channel_def
        MAX_MESSAGES_IN_QUEUE_def demo_ctx_def)
qed

text \<open>Sending to a process whose handle is poisoned reports success although the message is
  dropped: the result of the handle's own send is not looked at.\<close>

theorem send_message_to_poisoned_reports_success:
  assumes "resolve m w = Some u" and "w_handles w u = Some h" and "isPoisoned (hnd_channel h)"
  shows "\<exists>w'. SendMessage ctx m w = Inr (API_SUCCESS, w') \<and> w_handles w' = w_handles w"
proof -
  obtain m1 w1 where c: "complete_message ctx m w = (m1, w1)"
    by (cases "complete_message ctx m w")
  note f = complete_message_frame [OF c]
  from resolve_complete [OF c] f assms have "resolve m1 w1 = Some u"
    and "handle_send (rc_processId ctx) u m1 w1 = Inr (API_FAILURE, set_handle u h w1)"
    by (simp_all add: handle_send_def on_handle_def LpHandle_Send_def chan_output_def)
  with c f assms(2) show ?thesis by (auto simp: SendMessage_def fun_upd_idem)
qed

theorem send_message_to_poisoned_reports_success_witness:
  "\<exists>w'. SendMessage_to demo_ctx 6002 (new_IwMessage MSG_ACK)
     (set_handle 6002 (LpHandle_Poison new_LpHandle) demo_world) = Inr (API_SUCCESS, w')"
proof -
  let ?m = "(new_IwMessage MSG_ACK)\<lparr>dest := (dest (new_IwMessage MSG_ACK))\<lparr>handle_id := 6002\<rparr>\<rparr>"
  let ?w = "set_handle 6002 (LpHandle_Poison new_LpHandle) demo_world"
  have r: "resolve ?m ?w = Some 6002"
    by (simp add: resolve_def GetHandle_def demo_world_def new_IwMessage_def)
  show ?thesis
    using send_message_to_poisoned_reports_success [OF r, of "LpHandle_Poison new_LpHandle" demo_ctx]
    by (auto simp: SendMessage_to_def LpHandle_Poison_def poisonIn_def poisonOut_def)
qed

section \<open>Unregistration\<close>

text \<open>
  unregistering a channel removes it from the registrar for good and tells each of its
  shutdown listeners exactly once, with the number of the channel that went away; the
  entries of the other channels stay.\<close>

theorem unregister_notifies_listeners:
  assumes "reg_ok w" and "hid \<noteq> IW_UNDEFINED"
    and "smap_find (locProcessesMap (w_reg w)) hid \<noteq> None"
    and "smap_find (listenersMap (w_reg w)) hid = Some ls" and "distinct ls"
    and "\<forall>u \<in> set ls. \<exists>h. w_handles w u = Some h \<and> accepts h"
  shows "\<exists>w'. UnregisterChannel lpid hid w = Inr ((), w') \<and>
    (\<forall>k. GetHandle k w' = (if k = hid then None else GetHandle k w)) \<and>
    (\<forall>k. smap_find (listenersMap (w_reg w')) k =
         (if k = hid then None else smap_find (listenersMap (w_reg w)) k)) \<and>
    (\<forall>u h. w_handles w u = Some h \<longrightarrow> (\<exists>h'. w_handles w' u = Some h' \<and>
       buffer (hnd_channel h') = buffer (hnd_channel h) @
         (if u \<in> set ls then [stamp_source lpid (MsgShutdownEvt hid)] else [])))"
proof -
  let ?w1 = "w\<lparr>w_reg := (w_reg w)
      \<lparr>locProcessesMap := smap_erase hid (locProcessesMap (w_reg w)),
       servicesMap := smap_erase hid (servicesMap (w_reg w))\<rparr>\<rparr>"
  from notify_all_delivers [OF assms(5), of ?w1 lpid "MsgShutdownEvt hid"] assms(6) obtain w2 where
    n: "notify_all lpid (MsgShutdownEvt hid) ls ?w1 = Inr ((), w2)"
    and d: "\<And>u h. w_handles w u = Some h \<Longrightarrow> \<exists>h'. w_handles w2 u = Some h' \<and>
        buffer (hnd_channel h') = buffer (hnd_channel h) @
          (if u \<in> set ls then [stamp_source lpid (MsgShutdownEvt hid)] else [])"
    by auto
  from notify_all_same [OF n] have "w_reg w2 = w_reg ?w1" by (simp add: same_but_handles_def)
  with n d assms(1-4) show ?thesis
    by (auto simp: UnregisterChannel_def GetHandle_def reg_ok_def smap_find_erase)
qed

definition observed_world :: world where
  "observed_world = AddShutdownListener 6002 6001 demo_world"

theorem unregister_notifies_listeners_witness:
  "\<exists>w' h'. UnregisterChannel IW_UNDEFINED 6002 observed_world = Inr ((), w') \<and>
     GetHandle 6002 w' = None \<and> GetHandle 6000 w' = Some 6000 \<and>
     w_handles w' 6001 = Some h' \<and> buffer (hnd_channel h') = [MsgShutdownEvt 6002]"
proof -
  have ok: "reg_ok observed_world"
    by (auto simp: reg_ok_def observed_world_def AddShutdownListener_def demo_world_def)
  have h: "w_handles observed_world 6001 = Some new_LpHandle"
    by (simp add: observed_world_def AddShutdownListener_def demo_world_def)
  have a: "accepts new_LpHandle"
    by (simp add: accepts_def new_LpHandle_def new_channel_def MAX_MESSAGES_IN_QUEUE_def)
  have l: "smap_find (listenersMap (w_reg observed_world)) 6002 = Some [6001]"
    by (simp add: observed_world_def AddShutdownListener_def demo_world_def)
  have g: "GetHandle 6000 observed_world = Some 6000"
    "smap_find (locProcessesMap (w_reg observed_world)) 6002 \<noteq> None"
    by (simp_all add: GetHandle_def observed_world_def AddShutdownListener_def demo_world_def)
  show ?thesis
    using unregister_notifies_listeners [OF ok _ g(2) l, of IW_UNDEFINED] a h g(1)
    by (fastforce simp: IW_UNDEFINED_def new_LpHandle_def new_channel_def stamp_source_def)
qed

section \<open>Process start and boot\<close>

text \<open>C34: a process created suspended never resumes: however many resume messages it is sent, its
  run stays in the waiting loop and its body is never entered.\<close>

theorem suspended_process_never_resumes:
  assumes "rc_startSuspended ctx" and "RegisterContext ctx w = Inr ((), w1)"
    and "only_resume (rc_inbound ctx) (rc_fiber ctx) w1"
  shows "LightweightProcess_run n ctx real_run w = None"
  using assms suspended_loop_stuck [of ctx w1 n] by (simp add: LightweightProcess_run_def)

definition suspended_ctx :: running_context where
  "suspended_ctx = demo_ctx\<lparr>rc_startSuspended := True, rc_fiber := (1, 9), rc_inbound := 6001,
     rc_processId := 6001, rc_outbound := 6000\<rparr>"

definition resumed_world :: world where
  "resumed_world = demo_world\<lparr>w_future := [(10, EvSend 6001 (new_IwMessage MSG_PROC_RESUME)),
     (10, EvSend 6001 (new_IwMessage MSG_PROC_RESUME))]\<rparr>"

theorem suspended_process_never_resumes_witness:
  "\<forall>n. LightweightProcess_run n suspended_ctx Inr resumed_world = None"
proof -
  have "case RegisterContext suspended_ctx resumed_world of Inl _ \<Rightarrow> False | Inr _ \<Rightarrow> True"
    by code_simp
  then obtain w1 where r: "RegisterContext suspended_ctx resumed_world = Inr ((), w1)"
    by (auto split: sum.splits)
  then have "w_handles w1 = w_handles demo_world" and "w_future w1 = w_future resumed_world"
    by (auto simp: RegisterContext_def RegisterChannel_def resumed_world_def split: if_splits)
  then have "only_resume (rc_inbound suspended_ctx) (rc_fiber suspended_ctx) w1"
    by (simp add: only_resume_def suspended_ctx_def demo_world_def resumed_world_def new_LpHandle_def
        new_channel_def)
  with suspended_process_never_resumes [OF _ r] show ?thesis by (simp add: suspended_ctx_def)
qed

definition ready_factory :: proc_factory where
  "ready_factory p w = (case handle_send IW_UNDEFINED (snd p) (new_IwMessage MSG_PROC_READY) w of
     Inl _ \<Rightarrow> None | Inr (_, w') \<Rightarrow> Some w')"

definition silent_factory :: proc_factory where
  "silent_factory p w = Some w"

text \<open>When a module does not report ready, the module boot fails and shuts the booted modules
  down, while the older process boot stops and still returns success.\<close>

theorem boot_processes_masks_failure:
  assumes "boot_one ctx t f w = Inr (Boot_failed, w1)"
  shows "BootProcesses ctx t (f # fs) ([], []) w = Inr ((API_SUCCESS, ([], [])), w1) \<and>
    BootModulesSimple ctx t (f # fs) ([], []) w = Inr ((API_FAILURE, ([], [])), w1)"
  using assms by (simp_all add: BootModulesSimple_def ShutdownModules_def)

theorem boot_processes_masks_failure_witness:
  "\<exists>w1. BootProcesses demo_ctx 1 [silent_factory] ([], []) demo_world =
     Inr ((API_SUCCESS, ([], [])), w1)"
proof -
  have "case boot_one demo_ctx 1 silent_factory demo_world of
      Inl _ \<Rightarrow> False | Inr (Boot_failed, _) \<Rightarrow> True | Inr _ \<Rightarrow> False"
    by code_simp
  then obtain w1 where "boot_one demo_ctx 1 silent_factory demo_world = Inr (Boot_failed, w1)"
    by (auto split: sum.splits boot_step.splits)
  from boot_processes_masks_failure [OF this] show ?thesis by blast
qed

text \<open>
  the module boot succeeds exactly when every configured module came up, and it reports as
  many process pairs as shutdown handles, in the order of the configuration.\<close>

theorem boot_modules_all_or_failure:
  assumes "BootModulesSimple ctx t fs ([], []) w = Inr ((code, (ps, shs)), w')"
  shows "length ps = length shs \<and> (code = API_SUCCESS \<longleftrightarrow> length ps = length fs) \<and>
    (code \<noteq> API_SUCCESS \<longrightarrow> code = API_FAILURE \<and> length ps < length fs)"
proof (cases "fs = []")
  case False
  with assms obtain ok w1 where l: "boot_simple_loop ctx t fs ([], []) w = Inr ((ok, (ps, shs)), w1)"
    and c: "code = (if ok then API_SUCCESS else API_FAILURE)"
    by (auto simp: BootModulesSimple_def split: if_splits)
  from boot_simple_loop_length [OF l] c show ?thesis by auto
qed (use assms in \<open>auto simp: BootModulesSimple_def\<close>)

theorem boot_modules_all_or_failure_witness:
  "\<exists>b w'. BootModulesSimple demo_ctx 1 [ready_factory, ready_factory] ([], []) demo_world =
     Inr ((API_SUCCESS, b), w') \<and> length (fst b) = 2"
proof -
  have "case BootModulesSimple demo_ctx 1 [ready_factory, ready_factory] ([], []) demo_world of
      Inl _ \<Rightarrow> False | Inr ((c, _), _) \<Rightarrow> c = API_SUCCESS"
    by code_simp
  then obtain ps shs w' where r: "BootModulesSimple demo_ctx 1 [ready_factory, ready_factory] ([], [])
      demo_world = Inr ((API_SUCCESS, (ps, shs)), w')"
    by (auto split: sum.splits)
  from boot_modules_all_or_failure [OF r] r show ?thesis by simp
qed

end
