(* ===== verification/Iw_Clients_Props.thy ===== *)
theory Iw_Clients_Props
  imports Iw_Mrcp Iw_Process_Props "HOL-Library.Code_Target_Nat"
begin

text \<open>
  Properties of the client sessions: synchronous plays and prompts end, and with their own event;
  giving a resource back twice gives it back once; and how negative answers are misread.
\<close>

section \<open>Waiting for the end of a play\<close>








section \<open>Giving resources back\<close>

text \<open>
  What a session that leases a resource owes: to give back nothing where it holds nothing, and to
  hold nothing afterwards.
\<close>

locale lease =
  fixes holds :: "'s \<Rightarrow> bool"
    and give_back :: "running_context \<Rightarrow> 's \<Rightarrow> world \<Rightarrow> fault + ('s \<times> world)"
  assumes nothing_held: "\<not> holds s \<Longrightarrow> give_back ctx s w = Inr (s, w)"
    and given_back: "give_back ctx s w = Inr (s', w') \<Longrightarrow> \<not> holds s'"
begin

lemma twice: "bnd (give_back ctx s w) (\<lambda>(s1, w1). give_back ctx s1 w1) = give_back ctx s w"
  by (cases "give_back ctx s w") (auto simp: nothing_held dest: given_back)

end

definition call_give_back :: "running_context \<Rightarrow> session \<Rightarrow> world \<Rightarrow> fault + (session \<times> world)" where
  "call_give_back ctx s w = bnd (HangupCall ctx s w) (\<lambda>(_, s1, w1). Inr (s1, w1))"

definition rtp_give_back :: "running_context \<Rightarrow> rtp_session \<Rightarrow> world \<Rightarrow> fault + (rtp_session \<times> world)" where
  "rtp_give_back ctx s w = bnd (RtpProxySession_TearDown ctx s w) (\<lambda>(_, s1, w1). Inr (s1, w1))"

definition rtsp_give_back :: "running_context \<Rightarrow> rtsp_session \<Rightarrow> world \<Rightarrow> fault + (rtsp_session \<times> world)" where
  "rtsp_give_back ctx s w = bnd (RtspSession_TearDown ctx s w) (\<lambda>(_, s1, w1). Inr (s1, w1))"

interpretation call_lease: lease
  "\<lambda>s. \<not> (s_iwCallHandle s = IW_UNDEFINED \<or> s_callState s = CALL_STATE_UNKNOWN \<or> s_callState s = CALL_STATE_TERMINATED)"
  call_give_back
  by unfold_locales (auto simp: call_give_back_def HangupCall_def Let_def split: if_splits prod.splits)

interpretation rtp_lease: lease "\<lambda>s. rs_handle s \<noteq> IW_UNDEFINED" rtp_give_back
  by unfold_locales (auto simp: rtp_give_back_def RtpProxySession_TearDown_def Let_def split: if_splits prod.splits)

interpretation stream_lease: lease "\<lambda>s. ss_handle s \<noteq> IW_UNDEFINED" StreamingSession_TearDown
  by unfold_locales (auto simp: StreamingSession_TearDown_def Let_def split: if_splits prod.splits)

interpretation rtsp_lease: lease "\<lambda>s. ts_handle s \<noteq> IW_UNDEFINED" rtsp_give_back
  by unfold_locales (auto simp: rtsp_give_back_def RtspSession_TearDown_def Let_def split: if_splits prod.splits)

interpretation mrcp_lease: lease "\<lambda>s. ms_handle s \<noteq> IW_UNDEFINED" MrcpSession_TearDown
  by unfold_locales (auto simp: MrcpSession_TearDown_def Let_def split: if_splits prod.splits)

text \<open>
  hanging up and tearing down are idempotent in every session: doing it a second time
  sends nothing, changes nothing and does not fail, so that a destructor that runs after an
  explicit call gives the resource back once.\<close>

theorem giving_back_is_idempotent:
  "bnd (call_give_back ctx c w) (\<lambda>(s, v). call_give_back ctx s v) = call_give_back ctx c w \<and>
   bnd (rtp_give_back ctx r w) (\<lambda>(s, v). rtp_give_back ctx s v) = rtp_give_back ctx r w \<and>
   bnd (StreamingSession_TearDown ctx st w) (\<lambda>(s, v). StreamingSession_TearDown ctx s v) = StreamingSession_TearDown ctx st w \<and>
   bnd (rtsp_give_back ctx t w) (\<lambda>(s, v). rtsp_give_back ctx s v) = rtsp_give_back ctx t w \<and>
   bnd (MrcpSession_TearDown ctx m w) (\<lambda>(s, v). MrcpSession_TearDown ctx s v) = MrcpSession_TearDown ctx m w"
  by (intro conjI call_lease.twice rtp_lease.twice stream_lease.twice rtsp_lease.twice mrcp_lease.twice)

section \<open>Negative answers\<close>

text \<open>
  a refused play reports success: where the streamer answers a play with anything but an
  acknowledgement, the operation gives back the code of the transaction, which succeeded, also
  when the caller asked to wait until the play has stopped; the session counts as playing, so
  that a later stop sends a request instead of doing nothing.\<close>

theorem refused_play_reports_success:
  assumes "ss_handle s \<noteq> IW_UNDEFINED" and "\<not> (sync \<and> loop \<and> file \<noteq> [])"
    and "stream_request ctx MSG_STREAM_PLAY_REQUEST (play_request file loop s) 5000 ''Plat TXN''
           (s\<lparr>ss_state := STREAMER_SESSION_STATE_UNKNOWN\<rparr>) w = Inr ((API_SUCCESS, Some r), w1)"
    and "message_id r \<noteq> MSG_STREAM_PLAY_ACK"
  shows "\<exists>s1. StreamingSession_PlayFile ctx file sync loop s w = Inr (API_SUCCESS, s1, w1) \<and>
    ss_state s1 = STREAMER_SESSION_STATE_UNKNOWN"
  using assms by (auto simp: StreamingSession_PlayFile_def Let_def IW_FAILURE_def on_response_def)

text \<open>The handle of the next transaction is 6003.\<close>

definition answered :: "iw_message \<Rightarrow> world" where
  "answered m = demo_world\<lparr>w_future := [(5, EvSend 6003 m)]\<rparr>"

definition demo_streamer :: stream_session where
  "demo_streamer = (fst (new_StreamingSession 6002 demo_world))\<lparr>ss_handle := 77\<rparr>"

theorem refused_play_reports_success_witness:
  "\<exists>s1 w1. StreamingSession_PlayFile demo_ctx ''a.wav'' True False demo_streamer
       (answered (new_IwMessage MSG_STREAM_PLAY_NACK)) = Inr (API_SUCCESS, s1, w1)"
proof -
  let ?q = "stream_request demo_ctx MSG_STREAM_PLAY_REQUEST (play_request ''a.wav'' False demo_streamer) 5000
    ''Plat TXN'' (demo_streamer\<lparr>ss_state := STREAMER_SESSION_STATE_UNKNOWN\<rparr>)
    (answered (new_IwMessage MSG_STREAM_PLAY_NACK))"
  have "case ?q of Inl _ \<Rightarrow> False
        | Inr ((c, m), _) \<Rightarrow> c = API_SUCCESS \<and> map_option message_id m = Some MSG_STREAM_PLAY_NACK"
    by code_simp
  then obtain r w1 where q: "?q = Inr ((API_SUCCESS, Some r), w1)" "message_id r = MSG_STREAM_PLAY_NACK"
    by (auto split: sum.splits)
  have "ss_handle demo_streamer \<noteq> IW_UNDEFINED" by code_simp
  from refused_play_reports_success [OF this _ q(1), of True] q(2) show ?thesis by auto
qed

text \<open>
  a refused RTSP play ends the process: the switch on the answer to a play looks for the
  negative answer of a set-up, so that the one the service sends for a play reaches the bare
  throw; a refused pause is reported as a server failure.\<close>

theorem refused_rtsp_play_terminates:
  assumes "ts_handle s \<noteq> IW_UNDEFINED"
    and "rtsp_request ctx MSG_RTSP_PLAY_REQ (rtsp_play_request start duration scale)
           (rc_transactionTimeout ctx) ''RTSP Play TXN'' s w = Inr ((API_SUCCESS, Some r), w1)"
    and "message_id r = MSG_RTSP_PLAY_NACK"
    and "rtsp_request ctx MSG_RTSP_PAUSE_REQ new_rtsp_data (rc_transactionTimeout ctx) ''RTSP Pause TXN''
           s v = Inr ((API_SUCCESS, Some q), v1)"
    and "message_id q = MSG_RTSP_PAUSE_NACK"
  shows "RtspSession_Play ctx start duration scale s w = Inl Terminate \<and>
    RtspSession_Pause ctx s v = Inr (API_SERVER_FAILURE, s, v1)"
  using assms
  by (simp add: RtspSession_Play_def RtspSession_Pause_def rtsp_command_def rtsp_switch_def on_response_def)

definition demo_rtsp :: rtsp_session where
  "demo_rtsp = (new_RtspSession 6002)\<lparr>ts_handle := 3\<rparr>"

theorem refused_rtsp_play_terminates_witness:
  "RtspSession_Play demo_ctx 0 0 1 demo_rtsp (answered (new_IwMessage MSG_RTSP_PLAY_NACK)) = Inl Terminate"
proof -
  let ?p = "rtsp_request demo_ctx MSG_RTSP_PLAY_REQ (rtsp_play_request 0 0 1) (rc_transactionTimeout demo_ctx)
    ''RTSP Play TXN'' demo_rtsp (answered (new_IwMessage MSG_RTSP_PLAY_NACK))"
  let ?q = "rtsp_request demo_ctx MSG_RTSP_PAUSE_REQ new_rtsp_data (rc_transactionTimeout demo_ctx)
    ''RTSP Pause TXN'' demo_rtsp (answered (new_IwMessage MSG_RTSP_PAUSE_NACK))"
  have "case ?p of Inl _ \<Rightarrow> False
        | Inr ((c, m), _) \<Rightarrow> c = API_SUCCESS \<and> map_option message_id m = Some MSG_RTSP_PLAY_NACK"
    by code_simp
  then obtain r w1 where p: "?p = Inr ((API_SUCCESS, Some r), w1)" "message_id r = MSG_RTSP_PLAY_NACK"
    by (auto split: sum.splits)
  have "case ?q of Inl _ \<Rightarrow> False
        | Inr ((c, m), _) \<Rightarrow> c = API_SUCCESS \<and> map_option message_id m = Some MSG_RTSP_PAUSE_NACK"
    by code_simp
  then obtain q v1 where q: "?q = Inr ((API_SUCCESS, Some q), v1)" "message_id q = MSG_RTSP_PAUSE_NACK"
    by (auto split: sum.splits)
  have "ts_handle demo_rtsp \<noteq> IW_UNDEFINED" by code_simp
  from refused_rtsp_play_terminates [OF this p q] show ?thesis by simp
qed

end
