(* ===== verification/Iw_RtspServer_Props.thy ===== *)
theory Iw_RtspServer_Props
  imports Iw_RtspServer Iw_Clients_Props
begin

text \<open>
  Properties of the RTSP service: how many answers a set-up gets and what is left behind, and how the
  clients of the one session it has get into each other's way.
\<close>

section \<open>The session\<close>

definition server_ok :: "rtsp_server \<Rightarrow> bool" where
  "server_ok sv \<longleftrightarrow> (sv_session sv \<noteq> None \<longrightarrow> sv_client sv) \<and>
     (case sv_session sv of None \<Rightarrow> True | Some subs \<Rightarrow> \<exists>sub \<in> set subs. sub_medium sub = ''audio'')"

lemma find_subsession_Some:
  "find_subsession f subs = Some i \<Longrightarrow>
     i < length subs \<and> sub_medium (subs ! i) = ''audio'' \<and> codec_matches f (subs ! i)"
  by (induction subs arbitrary: i) (auto split: if_splits)

lemma choose_subsession_Some:
  "choose_subsession fs subs = Some i \<Longrightarrow>
     i < length subs \<and> sub_medium (subs ! i) = ''audio'' \<and> (\<exists>f \<in> set fs. codec_matches f (subs ! i))"
  by (induction fs) (auto split: option.splits dest: find_subsession_Some)

lemma torn_down:
  "server_ok sv \<Longrightarrow> sv_session (server_Teardown sv) = None"
  "sv_handle (server_Teardown sv) = sv_handle sv"
  by (auto simp: server_ok_def server_Teardown_def)

text \<open>The three ways a set-up ends.\<close>

lemma setup_cases:
  assumes "server_ok sv"
  obtains (refused) sv1 where
      "SetupSession sdp net time r sv = ([nack MSG_RTSP_SETUP_SESSION_NACK], sv1)"
      "sv_session sv1 = None" "sv_client sv1" "sv_handle sv1 = sv_handle sv"
  | (chosen) subs ack sv1 where
      "SetupSession sdp net time r sv =
         ((if setupStreams net subs then [] else [nack MSG_RTSP_SETUP_SESSION_NACK]) @
            [(MSG_RTSP_SETUP_SESSION_ACK, ack)], sv1)"
      "sv_session sv1 = Some subs" "sv_client sv1" "sv_handle sv1 = sv_handle sv"
      "\<exists>sub \<in> set subs. sub_medium sub = ''audio''" "rtsp_handle ack = sv_handle sv"
proof -
  let ?med = "sdp (offer_body (rtsp_offer r))"
  let ?sv = "(server_Teardown sv)\<lparr>sv_client := True\<rparr>"
  let ?bad = "\<not> (is_ip_valid (med_connection ?med) \<and> is_port_valid (med_connection ?med)) \<or> med_list ?med = []"
  let ?got = "Option.bind (net_describe net (request_url r)) (net_session net)"
  have refusal: "SetupSession sdp net time r sv = ([nack MSG_RTSP_SETUP_SESSION_NACK], ?sv)"
    if "?bad \<or> ?got = None \<or> choose_subsession (med_list ?med) (the ?got) = None"
    using that unfolding SetupSession_def Let_def by (cases ?got) auto
  consider (no) "SetupSession sdp net time r sv = ([nack MSG_RTSP_SETUP_SESSION_NACK], ?sv)"
    | (yes) subs i where "choose_subsession (med_list ?med) subs = Some i" "\<not> ?bad" "?got = Some subs"
  proof (cases "?bad \<or> ?got = None \<or> choose_subsession (med_list ?med) (the ?got) = None")
    case True
    then show thesis by (rule that(1) [OF refusal])
  next
    case False
    then obtain subs i where "?got = Some subs" "choose_subsession (med_list ?med) subs = Some i"
      by auto
    with False show thesis by (intro that(2)) simp_all
  qed
  then show ?thesis
  proof cases
    case no
    then show ?thesis by (rule refused) (simp_all add: torn_down assms)
  next
    case (yes subs i)
    let ?subs = "subs[i := (subs ! i)\<lparr>sub_clientPort := port_ho (med_connection ?med)\<rparr>]"
    have i: "i < length subs" "sub_medium (subs ! i) = ''audio''"
      using choose_subsession_Some [OF yes(1)] by blast+
    then have audio: "\<exists>sub \<in> set ?subs. sub_medium sub = ''audio''"
      by (intro bexI [OF _ set_update_memI [OF i(1)]]) simp
    have run: "SetupSession sdp net time r sv =
       ((if setupStreams net ?subs then [] else [nack MSG_RTSP_SETUP_SESSION_NACK]) @
          [(MSG_RTSP_SETUP_SESSION_ACK, new_rtsp_data\<lparr>rtsp_handle := sv_handle ?sv,
              rtsp_offer := \<lparr>offer_body = answer_body time (?subs ! i), offer_type = ''application/sdp''\<rparr>\<rparr>)],
        ?sv\<lparr>sv_session := Some ?subs\<rparr>)"
      using yes unfolding SetupSession_def Let_def by simp
    show ?thesis by (rule chosen [OF run]) (simp_all add: torn_down(2) audio)
  qed
qed

lemma server_ok_setup:
  "server_ok sv \<Longrightarrow> SetupSession sdp net time r sv = (rs, sv1) \<Longrightarrow>
     server_ok sv1 \<and> sv_handle sv1 = sv_handle sv"
  by (erule setup_cases [of sv sdp net time r]) (auto simp: server_ok_def)

lemma server_ok_serve:
  "server_ok sv \<Longrightarrow> serve sdp net time m sv = Some (Inr (rs, sv1)) \<Longrightarrow>
     server_ok sv1 \<and> sv_handle sv1 = sv_handle sv"
proof -
  have "server_ok (server_Teardown sv) \<and> sv_handle (server_Teardown sv) = sv_handle sv" if "server_ok sv"
    using that by (auto simp: server_Teardown_def server_ok_def)
  then show "server_ok sv \<Longrightarrow> serve sdp net time m sv = Some (Inr (rs, sv1)) \<Longrightarrow> ?thesis"
    using server_ok_setup [of sv sdp net time _ rs sv1]
    by (auto simp: serve_def split: if_splits option.splits)
qed

lemma server_ok_round:
  assumes "server_ok sv" "rtsp_round sdp net time ctx sv w = Inr (b, sv1, w1)"
  shows "server_ok sv1 \<and> sv_handle sv1 = sv_handle sv"
  using assms server_ok_serve [OF assms(1)] unfolding rtsp_round_def
  by (fastforce split: if_splits option.splits)

text \<open>Over any run the service keeps its one session well formed and gives out one handle.\<close>

lemma server_ok_loop:
  "server_ok sv \<Longrightarrow> rtsp_loop sdp net ts ctx sv w = Inr (b, sv1, w1) \<Longrightarrow>
     server_ok sv1 \<and> sv_handle sv1 = sv_handle sv"
proof (induction ts arbitrary: sv w)
  case (Cons t ts)
  then obtain b' sv' w' where r: "rtsp_round sdp net t ctx sv w = Inr (b', sv', w')"
    by auto
  with Cons.prems show ?case
    using server_ok_round [OF Cons.prems(1) r] Cons.IH [of sv' w'] by (auto split: if_splits)
qed simp






section \<open>Two clients\<close>



end
