(* ===== verification/Iw_Ivr.thy ===== *)
theory Iw_Ivr
  imports Iw_Config Iw_Session
begin

text \<open>
  The process that answers calls with scripts (\<^verbatim>\<open>iw_ivr/ProcIvr.cpp\<close>, \<^verbatim>\<open>ProcScriptRunner.cpp\<close>): it
  subscribes to the telephony services, runs an optional script of its own first, and forks a runner
  for every offered call.  The script engine is a parameter.
\<close>

section \<open>State\<close>

text \<open>Faults of the messaging core and exceptions of the configuration.\<close>

datatype ivr_fault = Iw_fault fault | Config_fault config_error | Bad_cast

definition iw :: "fault + 'a \<Rightarrow> ivr_fault + 'a" where
  "iw r = (case r of Inl e \<Rightarrow> Inl (Iw_fault e) | Inr x \<Rightarrow> Inr x)"

definition cfg :: "config_error + 'a \<Rightarrow> ivr_fault + 'a" where
  "cfg r = (case r of Inl e \<Rightarrow> Inl (Config_fault e) | Inr x \<Rightarrow> Inr x)"

text \<open>
  The engine: whether a virtual machine starts, what running a compiled buffer or a file does to the
  world (an exception of the script is caught), and compiling a file (\<open>None\<close>: it fails).
\<close>

record script_engine =
  se_vm_ok :: bool
  se_run :: "string option \<Rightarrow> string \<Rightarrow> world \<Rightarrow> world"
  se_precompile :: "string \<Rightarrow> string option"

record ivr =
  iv_conf :: json
  iv_env :: "string \<Rightarrow> string option"
  iv_script :: "string option"
  iv_super :: "string option"
  iv_waiting :: bool
  iv_sip :: int
  iv_h323 :: int

definition new_ProcIvr :: "json \<Rightarrow> (string \<Rightarrow> string option) \<Rightarrow> world \<Rightarrow> ivr \<times> world" where
  "new_ProcIvr conf env w =
     (let (s, w1) = declare_anon w; (h, w2) = declare_anon w1
      in (\<lparr>iv_conf = conf, iv_env = env, iv_script = None, iv_super = None, iv_waiting = False,
           iv_sip = s, iv_h323 = h\<rparr>, w2))"

definition conf_string :: "ivr \<Rightarrow> string \<Rightarrow> ivr_fault + string" where
  "conf_string iv name = cfg (GetString (iv_env iv) (iv_conf iv) name)"

definition conf_bool :: "ivr \<Rightarrow> string \<Rightarrow> ivr_fault + bool" where
  "conf_bool iv name = cfg (GetBool (iv_conf iv) name)"

section \<open>Script runners\<close>

text \<open>A runner has the message of the offered call, or none when it runs the process's own script.\<close>

record script_runner =
  sr_name :: string
  sr_buffer :: "string option"
  sr_call :: "iw_message option"
  sr_pair :: "int \<times> int"

text \<open>With a call, \<^verbatim>\<open>real_run\<close> reaches a bare \<^verbatim>\<open>throw\<close> after the machine has started.\<close>

definition ProcScriptRunner_real_run :: "script_engine \<Rightarrow> script_runner \<Rightarrow> world \<Rightarrow> fault + world" where
  "ProcScriptRunner_real_run e r w =
     (if \<not> se_vm_ok e then Inr w
      else case sr_call r of
             Some _ \<Rightarrow> Inl Terminate
           | None \<Rightarrow> Inr (se_run e (sr_buffer r) (sr_name r) w))"

text \<open>A runner as a process of its own, in the fiber \<open>fib\<close>.\<close>

definition run_runner :: "script_engine \<Rightarrow> fiber \<Rightarrow> script_runner \<Rightarrow> world \<Rightarrow> ivr_fault + world" where
  "run_runner e fib r w =
     iw (bnd (new_RunningContext (sr_pair r) ''IvrScript'' False fib w) (\<lambda>(ctx, w1).
       case LightweightProcess_run 0 ctx (ProcScriptRunner_real_run e r) w1 of
         Some x \<Rightarrow> x | None \<Rightarrow> Inl Blocked))"

text \<open>
  Forked runners start when the forking process has to wait, in the order they were forked.
  What a script does after it has started to wait itself is in the timeline of the world.
\<close>

fun start_forked :: "script_engine \<Rightarrow> fiber \<Rightarrow> script_runner list \<Rightarrow> world \<Rightarrow> ivr_fault + world" where
  "start_forked e fib [] w = Inr w"
| "start_forked e fib (r # rs) w = bnd (run_runner e fib r w) (start_forked e fib rs)"

section \<open>Starting\<close>

definition subscribe_service ::
  "(string \<Rightarrow> string \<Rightarrow> bool) \<Rightarrow> running_context \<Rightarrow> ivr \<Rightarrow> string \<Rightarrow> int \<Rightarrow> world \<Rightarrow>
     ivr_fault + (ApiErrorCode \<times> world)" where
  "subscribe_service matches ctx iv uri listener w =
     bnd (cfg (HasOption (iv_conf iv) uri)) (\<lambda>has.
       if \<not> has then Inr (API_FEATURE_DISABLED, w)
       else bnd (conf_string iv uri) (\<lambda>service.
         case GetHandle_service matches service w of
           None \<Rightarrow> Inr (API_FAILURE, w)
         | Some h \<Rightarrow>
             bnd (iw (SubscribeToIncomingCalls ctx h listener w)) (\<lambda>(res, w1).
               Inr (if IW_FAILURE res then API_FAILURE else API_SUCCESS, w1))))"

text \<open>The test for a script of its own is the wrong way round: an empty name is compiled.\<close>

definition precompile_scripts :: "script_engine \<Rightarrow> ivr \<Rightarrow> ivr_fault + (string \<times> ivr)" where
  "precompile_scripts e iv =
     bnd (conf_string iv ''ivr/super_script'') (\<lambda>super.
     bnd (conf_bool iv ''ivr/precompile'') (\<lambda>pre.
       if \<not> pre then Inr (super, iv)
       else bnd (conf_string iv ''ivr/script_file'') (\<lambda>file.
         case se_precompile e file of
           None \<Rightarrow> Inl (Iw_fault Critical_exception)
         | Some b \<Rightarrow>
             let iv1 = iv\<lparr>iv_script := Some b\<rparr>
             in if super = []
                then (case se_precompile e super of
                        None \<Rightarrow> Inl (Iw_fault Critical_exception)
                      | Some b' \<Rightarrow> Inr (super, iv1\<lparr>iv_super := Some b'\<rparr>))
                else Inr (super, iv1))))"

text \<open>
  The script of the process itself: in this thread when its mode is \<open>sync\<close> or no calls are taken,
  forked otherwise.  The result has the runners forked.
\<close>

definition start_super ::
  "script_engine \<Rightarrow> fiber \<Rightarrow> running_context \<Rightarrow> ivr \<Rightarrow> string \<Rightarrow> int \<times> int \<Rightarrow> world \<Rightarrow>
     ivr_fault + (ivr \<times> script_runner list \<times> world)" where
  "start_super e fib ctx iv super pair w =
     (if super = [] then Inr (iv, [], w)
      else
        let w1 = AddShutdownListener (fst pair) (rc_inbound ctx) w;
            r = \<lparr>sr_name = super, sr_buffer = iv_super iv, sr_call = None, sr_pair = pair\<rparr>
        in bnd (conf_string iv ''ivr/super_mode'') (\<lambda>mode.
           bnd (if mode = ''sync'' then Inr True
                else bnd (conf_bool iv ''ivr/ivr_enabled'') (\<lambda>en. Inr (\<not> en))) (\<lambda>sync.
             if sync then bnd (run_runner e fib r w1) (\<lambda>w2. Inr (iv, [], w2))
             else Inr (iv\<lparr>iv_waiting := True\<rparr>, [r], w1))))"

section \<open>Messages\<close>

text \<open>The result tells whether to shut down.\<close>

definition ProcessInboundMessage ::
  "running_context \<Rightarrow> iw_message \<Rightarrow> ivr \<Rightarrow> world \<Rightarrow> ivr_fault + (bool \<times> ivr \<times> world)" where
  "ProcessInboundMessage ctx m iv w =
     (if message_id m = MSG_PROC_SHUTDOWN_EVT then Inr (False, iv\<lparr>iv_waiting := False\<rparr>, w)
      else if message_id m = MSG_PROC_SHUTDOWN_REQ then Inr (True, iv, w)
      else bnd (iw (HandleOOBMessage ctx (Some m) w)) (\<lambda>(_, w1). Inr (False, iv, w1)))"

text \<open>
  A message of a telephony service.  The name of the script is read from the root of the
  configuration.  The result also has the runner that was forked.
\<close>

definition ProcessStackMessage ::
  "running_context \<Rightarrow> iw_message \<Rightarrow> ivr \<Rightarrow> world \<Rightarrow>
     ivr_fault + (bool \<times> script_runner list \<times> world)" where
  "ProcessStackMessage ctx m iv w =
     (if message_id m = MSG_CALL_OFFERED
      then (case payload m of
              CallPayload c \<Rightarrow>
                if iv_waiting iv
                then bnd (iw (SendResponse ctx m ((new_IwMessage MSG_CALL_OFFERED_NACK)
                                \<lparr>payload := CallPayload new_call_data\<rparr>) w)) (\<lambda>(_, w1).
                       Inr (False, [], w1))
                else
                  let (i, w1) = declare_anon w; (j, w2) = declare_anon w1
                  in bnd (conf_string iv ''script_file'') (\<lambda>file.
                       Inr (False, [\<lparr>sr_name = file, sr_buffer = iv_script iv, sr_call = Some m,
                                    sr_pair = (i, j)\<rparr>], w2))
            | _ \<Rightarrow> Inl Bad_cast)
      else Inr (message_id m = MSG_PROC_SHUTDOWN_EVT, [], w))"

section \<open>The loop\<close>

text \<open>
  One round: the runners forked and not started yet start if the process has to wait.  The result
  tells whether to shut down, with the last message and the runners that have not started.
\<close>

definition ivr_round ::
  "script_engine \<Rightarrow> fiber \<Rightarrow> running_context \<Rightarrow> int \<times> int \<Rightarrow> ivr \<Rightarrow> script_runner list \<Rightarrow>
     iw_message option \<Rightarrow> world \<Rightarrow>
     ivr_fault + (bool \<times> ivr \<times> script_runner list \<times> iw_message option \<times> world)" where
  "ivr_round e fib ctx super_pair iv forked event w =
     (let us = [rc_inbound ctx, iv_h323 iv, iv_sip iv];
          waits = (first_ready us w = None)
      in bnd (if waits then start_forked e fib forked w else Inr w) (\<lambda>w1.
         let forked1 = (if waits then [] else forked)
         in bnd (iw (SelectFromChannels (rc_fiber ctx) us 60000 (- 1) event w1)) (\<lambda>((res, index, mo), w2).
           if res = API_TIMEOUT then Inr (False, iv, forked1, mo, w2)
           else if res \<noteq> API_SUCCESS then Inl (Iw_fault Critical_exception)
           else (case mo of
                   None \<Rightarrow> Inl (Iw_fault Null_deref)
                 | Some m \<Rightarrow>
                     if index = 0
                     then bnd (ProcessInboundMessage ctx m iv w2) (\<lambda>(shutdown, iv1, w3).
                            if shutdown
                            then bnd (iw (Shutdown ctx 5000 super_pair w3)) (\<lambda>(_, w4).
                                   Inr (True, iv1, forked1, mo, w4))
                            else Inr (False, iv1, forked1, mo, w3))
                     else bnd (ProcessStackMessage ctx m iv w2) (\<lambda>(shutdown, rs, w3).
                            Inr (shutdown, iv, forked1 @ rs, mo, w3))))))"

text \<open>
  The loop and the end of the forking region, which waits for the runners.  \<open>None\<close>: still running
  after \<open>n\<close> rounds.
\<close>

fun ivr_loop ::
  "nat \<Rightarrow> script_engine \<Rightarrow> fiber \<Rightarrow> running_context \<Rightarrow> int \<times> int \<Rightarrow> ivr \<Rightarrow> script_runner list \<Rightarrow>
     iw_message option \<Rightarrow> world \<Rightarrow> (ivr_fault + (iw_message option \<times> world)) option" where
  "ivr_loop 0 e fib ctx sp iv forked event w = None"
| "ivr_loop (Suc n) e fib ctx sp iv forked event w =
     (case ivr_round e fib ctx sp iv forked event w of
        Inl x \<Rightarrow> Some (Inl x)
      | Inr (shutdown, iv1, forked1, event1, w1) \<Rightarrow>
          if shutdown
          then Some (bnd (start_forked e fib forked1 w1) (\<lambda>w2. Inr (event1, w2)))
          else ivr_loop n e fib ctx sp iv1 forked1 event1 w1)"

definition ProcIvr_real_run ::
  "nat \<Rightarrow> (string \<Rightarrow> string \<Rightarrow> bool) \<Rightarrow> script_engine \<Rightarrow> fiber \<Rightarrow> running_context \<Rightarrow> ivr \<Rightarrow> world \<Rightarrow>
     (ivr_fault + world) option" where
  "ProcIvr_real_run n matches e fib ctx iv w =
     (case bnd (subscribe_service matches ctx iv ''ivr/sip_service'' (iv_sip iv) w) (\<lambda>(r1, w1).
           if IW_FAILURE r1 \<and> r1 \<noteq> API_FEATURE_DISABLED then Inr (None, w1)
           else bnd (subscribe_service matches ctx iv ''ivr/h323_service'' (iv_h323 iv) w1) (\<lambda>(r2, w2).
             if IW_FAILURE r2 \<and> r2 \<noteq> API_FEATURE_DISABLED then Inr (None, w2)
             else bnd (precompile_scripts e iv) (\<lambda>(super, iv1).
               bnd (iw (SendReadyMessage ctx w2)) (\<lambda>(_, w3).
               let (i, w4) = declare_anon w3; (j, w5) = declare_anon w4
               in bnd (start_super e fib ctx iv1 super (i, j) w5) (\<lambda>(iv2, forked, w6).
                  bnd (conf_bool iv2 ''ivr/ivr_enabled'') (\<lambda>en.
                    if \<not> en then bnd (start_forked e fib forked w6) (\<lambda>w7. Inr (None, w7))
                    else Inr (Some (iv2, forked, (i, j)), w6))))))) of
        Inl x \<Rightarrow> Some (Inl x)
      | Inr (None, w1) \<Rightarrow> Some (Inr w1)
      | Inr (Some (iv1, forked, sp), w1) \<Rightarrow>
          map_option (\<lambda>r. bnd r (\<lambda>(event, w2).
            case event of
              Some m \<Rightarrow>
                if message_id m = MSG_PROC_SHUTDOWN_REQ
                then bnd (iw (SendResponse ctx m (new_MsgResponse MSG_PROC_SHUTDOWN_ACK) w2)) (\<lambda>(_, w3). Inr w3)
                else Inr w2
            | None \<Rightarrow> Inr w2))
            (ivr_loop n e fib ctx sp iv1 forked None w1))"

end
