(* ===== verification/Iw_Ivr_Props.thy ===== *)
theory Iw_Ivr_Props
  imports Iw_Ivr Iw_Process_Props
begin

text \<open>
  Properties of the process that answers calls with scripts: what becomes of an offered call, while
  the process's own script runs and afterwards, and a start that needs a script without a name.
\<close>

section \<open>Runners\<close>



lemma isl_iw [simp]: "isl (iw r) = isl r"
  by (cases r) (simp_all add: iw_def)





section \<open>Offered calls\<close>


definition demo_engine :: script_engine where
  "demo_engine = \<lparr>se_vm_ok = True, se_run = (\<lambda>_ _ w. w), se_precompile = (\<lambda>f. if f = [] then None else Some f)\<rparr>"

definition demo_ivr :: ivr where
  "demo_ivr = \<lparr>iv_conf = JObj [(''script_file'', JStr ''ivr.lua''),
       (''ivr'', JObj [(''super_script'', JStr ''''), (''precompile'', JBool True), (''script_file'', JStr ''ivr.lua'')])],
     iv_env = (\<lambda>_. None), iv_script = None, iv_super = None, iv_waiting = False, iv_sip = 6010, iv_h323 = 6011\<rparr>"


section \<open>Starting without a script\<close>

text \<open>
  With compiling in advance turned on and no script of its own named, the process compiles a file
  without a name and stops with an exception before it is ready.
\<close>

lemma precompile_without_super_fails:
  assumes "conf_string iv ''ivr/super_script'' = Inr []" "conf_bool iv ''ivr/precompile'' = Inr True"
    and "conf_string iv ''ivr/script_file'' = Inr file" "se_precompile e [] = None"
  shows "precompile_scripts e iv = Inl (Iw_fault Critical_exception)"
  using assms by (auto simp: precompile_scripts_def split: option.splits)

lemma demo_precompile: "precompile_scripts demo_engine demo_ivr = Inl (Iw_fault Critical_exception)"
  by (rule precompile_without_super_fails [of _ "''ivr.lua''"]) code_simp+

end
