(* ===== verification/Iw_Streamer.thy ===== *)
theory Iw_Streamer
  imports Iw_Media Iw_Config Iw_Message
begin

text \<open>
  The streamer (\<^verbatim>\<open>iw_m2ims/ProcM2Ims.cpp\<close>): sessions that play files to the network through a
  pipeline of filters of the Mediastreamer2 library.  The library is not in the tree: the result of
  every call is an argument that may depend on what was called before, and the calls are output.
\<close>

section \<open>The library\<close>

text \<open>A payload type of the RTP profile; filters are numbered as they are created.\<close>

record payload_type =
  pt_mime :: string
  pt_rate :: int
  pt_bitrate :: int
  pt_send_fmtp :: "string option"
  pt_recv_fmtp :: "string option"

datatype filter_kind =
    Rtp_recv | Rtp_send | Decoder string | Encoder string
  | File_player | File_rec | Card_reader | Card_writer

datatype ms_call =
    Set_remote_addr string int
  | Set_payload_type int
  | Set_jitter | Unregister_queue | Register_queue
  | New_filter filter_kind
  | Get_card
  | Postprocess "nat option"
  | Link "nat option" "nat option"
  | Unlink "nat option" "nat option"
  | Set_session "nat option"
  | Add_fmtp "nat option" string
  | Set_rate "nat option" int
  | Set_bitrate "nat option" int
  | Get_rate "nat option"
  | Set_channels "nat option" int
  | Get_channels "nat option"
  | Set_notify "nat option" int
  | Rec_open "nat option" string
  | Rec_close "nat option"
  | Rec_start "nat option"
  | Player_open "nat option" string
  | Player_start "nat option"
  | Player_stop "nat option"
  | Player_close "nat option"
  | Player_loop "nat option" int
  | Attach "nat option"
  | Detach "nat option"
  | Destroy_session
  | Free_stream

text \<open>
  What the process does: a call, the creation and destruction of a filter, an answer to a
  request, an event for the handler of a session, a message left to the base class.
\<close>

datatype ms_out =
    Call ms_call
  | Created nat
  | Destroyed nat
  | Reply iw_message MessageId stream_data
  | Stopped_evt "int option" stream_data
  | Oob iw_message

text \<open>
  The environment: whether a call succeeds (for a creation, whether a pointer comes back) and the
  value a query gives, the port of a new stream (\<open>None\<close>: there is no stream) and whether it comes
  with a sender, the files found, full paths, the options read, the audio medium of a description,
  the \<open>rtpmap\<close> text of a payload type, the address of a host, the tick count, what uninitialised memory holds.
\<close>

record ms_env =
  me_ok :: "ms_out list \<Rightarrow> ms_call \<Rightarrow> bool"
  me_value :: "ms_out list \<Rightarrow> int"
  me_port :: "ms_out list \<Rightarrow> int option"
  me_sender :: bool
  me_file :: "string \<Rightarrow> bool"
  me_full_path :: "string \<Rightarrow> string option"
  me_option :: "string \<Rightarrow> config_error + string"
  me_medium :: "string \<Rightarrow> medium"
  me_rtpmap :: "payload_type \<Rightarrow> string"
  me_inet :: "string \<Rightarrow> 32 word"
  me_time :: int
  me_garbage :: bool

section \<open>State\<close>

datatype ImsSessionState = IMS_INITIAL | IMS_ALLOCATED | IMS_TICKING | IMS_STOPPED | IMS_TORNDOWN

text \<open>\<^verbatim>\<open>AudioStream\<close> of the library: the filters and whether a ticker is set.\<close>

record audio_stream =
  as_port :: int
  as_ticker :: bool
  as_rtprecv :: "nat option"
  as_decoder :: "nat option"
  as_rtpsend :: "nat option"
  as_encoder :: "nat option"
  as_soundread :: "nat option"
  as_soundwrite :: "nat option"
  as_dtmfgen :: "nat option"
  as_ec :: "nat option"

text \<open>A session.  \<open>loop\<close> is not initialised by the constructor.\<close>

record streaming_ctx =
  st_state :: ImsSessionState
  st_stream :: "audio_stream option"
  st_handler :: "(int \<times> int) option"
  st_correlation :: int
  st_loop :: "bool option"
  st_handle :: int
  st_snd :: nat
  st_rcv :: nat
  st_pt :: "payload_type option"
  st_request :: "iw_message option"

abbreviation SND_DEVICE_TYPE_FILE :: nat where "SND_DEVICE_TYPE_FILE \<equiv> 0"
abbreviation SND_DEVICE_TYPE_SND_CARD_MIC :: nat where "SND_DEVICE_TYPE_SND_CARD_MIC \<equiv> 1"
abbreviation RCV_DEVICE_FILE_REC_ID :: nat where "RCV_DEVICE_FILE_REC_ID \<equiv> 1"
abbreviation RCV_DEVICE_WINSND_WRITE :: nat where "RCV_DEVICE_WINSND_WRITE \<equiv> 2"

definition new_StreamingCtx :: streaming_ctx where
  "new_StreamingCtx = \<lparr>st_state = IMS_INITIAL, st_stream = None, st_handler = None,
     st_correlation = IW_UNDEFINED, st_loop = None, st_handle = IW_UNDEFINED,
     st_snd = SND_DEVICE_TYPE_FILE, st_rcv = RCV_DEVICE_FILE_REC_ID, st_pt = None, st_request = None\<rparr>"

text \<open>The process: its sessions, the counters, the profile, the number of the next filter.\<close>

record ims =
  im_ctxs :: "(int, streaming_ctx) smap"
  im_next_handle :: int
  im_correlation :: int
  im_profile :: "payload_type option list"
  im_local :: cnx_info
  im_next_filter :: nat
  im_out :: "ms_out list"

text \<open>The profile has twelve of its 128 slots filled; \<open>lib\<close> gives the library's payload types.\<close>

definition InitCodecs :: "(nat \<Rightarrow> payload_type) \<Rightarrow> payload_type option list" where
  "InitCodecs lib = map (\<lambda>i. if i \<in> set [0, 1, 3, 7, 4, 8, 10, 11, 18, 31, 32, 34] then Some (lib i) else None) [0..<128]"

definition codecs_list :: "payload_type option list \<Rightarrow> string" where
  "codecs_list profile = concat (map (\<lambda>(i, p). case p of None \<Rightarrow> [] | Some _ \<Rightarrow> '' '' @ itoa (int i))
     (enumerate 0 profile))"

definition rtp_maps :: "(payload_type \<Rightarrow> string) \<Rightarrow> payload_type option list \<Rightarrow> string" where
  "rtp_maps rtpmap profile = concat (map (\<lambda>(i, p). case p of None \<Rightarrow> []
     | Some p \<Rightarrow> ''a=rtpmap:'' @ itoa (int i) @ '' '' @ rtpmap p @ CRLF) (enumerate 0 profile))"

definition new_ProcM2Ims :: "(nat \<Rightarrow> payload_type) \<Rightarrow> cnx_info \<Rightarrow> ims" where
  "new_ProcM2Ims lib addr = \<lparr>im_ctxs = [], im_next_handle = 7000000, im_correlation = 0,
     im_profile = InitCodecs lib, im_local = addr, im_next_filter = 0, im_out = []\<rparr>"

section \<open>Stages\<close>

text \<open>
  The functions of the process jump to an error label when a call fails, so they are lists of
  stages.  A stage works on a session and the process; an exception of the configuration and a
  null pointer leave it too.
\<close>

datatype outcome = Go | Error | Raise config_error | Null_pointer

type_synonym stage = "streaming_ctx \<times> ims \<Rightarrow> outcome \<times> (streaming_ctx \<times> ims)"

fun stages :: "stage list \<Rightarrow> stage" where
  "stages [] s = (Go, s)"
| "stages (m # ms) s = (case m s of (Go, s1) \<Rightarrow> stages ms s1 | (r, s1) \<Rightarrow> (r, s1))"

definition put_out :: "ms_out \<Rightarrow> ims \<Rightarrow> ims" where
  "put_out x m = m\<lparr>im_out := im_out m @ [x]\<rparr>"

definition fails :: stage where
  "fails s = (Error, s)"

text \<open>A call whose result is not looked at, and one whose failure is an error.\<close>

definition call :: "ms_call \<Rightarrow> stage" where
  "call c s = (case s of (ctx, m) \<Rightarrow> (Go, (ctx, put_out (Call c) m)))"

definition attempt :: "ms_env \<Rightarrow> ms_call \<Rightarrow> stage" where
  "attempt e c s = (case s of (ctx, m) \<Rightarrow>
     (if me_ok e (im_out m) c then Go else Error, (ctx, put_out (Call c) m)))"

definition on_ctx :: "(streaming_ctx \<Rightarrow> stage) \<Rightarrow> stage" where
  "on_ctx f s = f (fst s) s"

definition set_ctx :: "(streaming_ctx \<Rightarrow> streaming_ctx) \<Rightarrow> stage" where
  "set_ctx f s = (Go, (f (fst s), snd s))"

definition stage_when :: "bool \<Rightarrow> stage \<Rightarrow> stage" where
  "stage_when b m = (if b then m else stages [])"

text \<open>The caller does not look at the result.\<close>

definition ignoring :: "stage \<Rightarrow> stage" where
  "ignoring m s = (case m s of (Error, s1) \<Rightarrow> (Go, s1) | r \<Rightarrow> r)"

text \<open>The stream of a session; it is dereferenced.\<close>

definition with_stream :: "(audio_stream \<Rightarrow> stage) \<Rightarrow> stage" where
  "with_stream f = on_ctx (\<lambda>ctx. case st_stream ctx of None \<Rightarrow> (\<lambda>s. (Null_pointer, s)) | Some a \<Rightarrow> f a)"

definition set_stream :: "(audio_stream \<Rightarrow> audio_stream) \<Rightarrow> stage" where
  "set_stream f = set_ctx (\<lambda>ctx. ctx\<lparr>st_stream := map_option f (st_stream ctx)\<rparr>)"

text \<open>
  The places for filters the process fills.  A new filter goes to an empty place; \<open>create\<close> takes a
  failure as an error, \<open>create_unchecked\<close> leaves a null pointer.
\<close>

datatype place = Rtprecv | Decod | Rtpsend | Encod | Soundread | Soundwrite

fun filter_at :: "place \<Rightarrow> audio_stream \<Rightarrow> nat option" where
  "filter_at Rtprecv a = as_rtprecv a"
| "filter_at Decod a = as_decoder a"
| "filter_at Rtpsend a = as_rtpsend a"
| "filter_at Encod a = as_encoder a"
| "filter_at Soundread a = as_soundread a"
| "filter_at Soundwrite a = as_soundwrite a"

fun put_filter :: "place \<Rightarrow> nat option \<Rightarrow> audio_stream \<Rightarrow> audio_stream" where
  "put_filter Rtprecv f a = a\<lparr>as_rtprecv := f\<rparr>"
| "put_filter Decod f a = a\<lparr>as_decoder := f\<rparr>"
| "put_filter Rtpsend f a = a\<lparr>as_rtpsend := f\<rparr>"
| "put_filter Encod f a = a\<lparr>as_encoder := f\<rparr>"
| "put_filter Soundread f a = a\<lparr>as_soundread := f\<rparr>"
| "put_filter Soundwrite f a = a\<lparr>as_soundwrite := f\<rparr>"

definition new_filter :: "ims \<Rightarrow> ims" where
  "new_filter m = (put_out (Created (im_next_filter m)) m)\<lparr>im_next_filter := im_next_filter m + 1\<rparr>"

definition create_unchecked :: "ms_env \<Rightarrow> filter_kind \<Rightarrow> place \<Rightarrow> stage" where
  "create_unchecked e k p s = (case s of (ctx, m) \<Rightarrow>
     if me_ok e (im_out m) (New_filter k)
     then set_stream (put_filter p (Some (im_next_filter m))) (ctx, new_filter m)
     else set_stream (put_filter p None) (ctx, put_out (Call (New_filter k)) m))"

definition create :: "ms_env \<Rightarrow> filter_kind \<Rightarrow> place \<Rightarrow> stage" where
  "create e k p = stages [create_unchecked e k p,
     with_stream (\<lambda>a. stage_when (filter_at p a = None) fails)]"

text \<open>A filter in the place is destroyed after the stages that must come first.\<close>

definition release :: "place \<Rightarrow> (audio_stream \<Rightarrow> stage list) \<Rightarrow> stage" where
  "release p first = with_stream (\<lambda>a. case filter_at p a of
     None \<Rightarrow> stages []
   | Some f \<Rightarrow> stages (first a @
       [\<lambda>(ctx, m). set_stream (put_filter p None) (ctx, put_out (Destroyed f) m)]))"

section \<open>Codecs\<close>

text \<open>The first format of the offer that the profile knows, with its lowest number there.\<close>

fun find_payload :: "nat \<Rightarrow> payload_type option list \<Rightarrow> string \<Rightarrow> (payload_type \<times> nat) option" where
  "find_payload i [] name = None"
| "find_payload i (None # ps) name = find_payload (i + 1) ps name"
| "find_payload i (Some p # ps) name =
     (if pt_mime p = name then Some (p, i) else find_payload (i + 1) ps name)"

fun NegotiateCodec :: "payload_type option list \<Rightarrow> MediaFormat list \<Rightarrow> (payload_type \<times> nat) option" where
  "NegotiateCodec profile [] = None"
| "NegotiateCodec profile (f # fs) =
     (case find_payload 0 profile (mf_name f) of
        Some r \<Rightarrow> Some r
      | None \<Rightarrow> NegotiateCodec profile fs)"

section \<open>The ticker\<close>

definition StopTicking :: "ms_env \<Rightarrow> stage" where
  "StopTicking e = on_ctx (\<lambda>ctx. stage_when (st_state ctx = IMS_TICKING) (with_stream (\<lambda>a.
     stage_when (as_ticker a) (stages
       [attempt e (Detach (as_soundread a)),
        attempt e (Detach (as_rtprecv a)),
        set_ctx (\<lambda>ctx. ctx\<lparr>st_state := IMS_STOPPED\<rparr>)]))))"

definition StartTicking :: "ms_env \<Rightarrow> stage" where
  "StartTicking e = on_ctx (\<lambda>ctx. stage_when (st_state ctx \<noteq> IMS_TICKING) (with_stream (\<lambda>a. stages
     [set_stream (\<lambda>a. a\<lparr>as_ticker := True\<rparr>),
      attempt e (Attach (as_soundread a)),
      attempt e (Attach (as_rtprecv a)),
      set_ctx (\<lambda>ctx. ctx\<lparr>st_state := IMS_TICKING\<rparr>)])))"

section \<open>Building the pipeline\<close>

definition with_option :: "ms_env \<Rightarrow> string \<Rightarrow> (string \<Rightarrow> stage) \<Rightarrow> stage" where
  "with_option e name f s = (case me_option e name of Inl x \<Rightarrow> (Raise x, s) | Inr v \<Rightarrow> f v s)"

definition with_payload :: "nat \<Rightarrow> (payload_type \<Rightarrow> stage) \<Rightarrow> stage" where
  "with_payload idx f s =
     (case if idx < length (im_profile (snd s)) then im_profile (snd s) ! idx else None of
        None \<Rightarrow> fails s | Some p \<Rightarrow> f p s)"

text \<open>The value of the last query is passed on.\<close>

definition pass_value :: "ms_env \<Rightarrow> (int \<Rightarrow> stage) \<Rightarrow> stage" where
  "pass_value e f s = f (me_value e (im_out (snd s))) s"

definition add_fmtp :: "ms_env \<Rightarrow> place \<Rightarrow> string option \<Rightarrow> stage" where
  "add_fmtp e p fmtp = (case fmtp of
     None \<Rightarrow> stages []
   | Some v \<Rightarrow> with_stream (\<lambda>a. attempt e (Add_fmtp (filter_at p a) v)))"

definition receiver :: "ms_env \<Rightarrow> stage list" where
  "receiver e =
     [release Rtprecv (\<lambda>a. [attempt e (Unlink (as_rtprecv a) (as_decoder a))]),
      create e Rtp_recv Rtprecv,
      with_stream (\<lambda>a. attempt e (Set_session (as_rtprecv a)))]"

definition old_decoder :: "ms_env \<Rightarrow> stage list" where
  "old_decoder e =
     [release Decod (\<lambda>a. [call (Postprocess (as_decoder a)),
        attempt e (Unlink (as_decoder a) (as_dtmfgen a))])]"

definition new_decoder :: "ms_env \<Rightarrow> payload_type \<Rightarrow> stage list" where
  "new_decoder e pt =
     [create e (Decoder (pt_mime pt)) Decod,
      add_fmtp e Decod (pt_send_fmtp pt),
      add_fmtp e Decod (pt_recv_fmtp pt)]"

definition sender :: "ms_env \<Rightarrow> stage list" where
  "sender e =
     [release Rtpsend (\<lambda>a. []),
      create e Rtp_send Rtpsend,
      with_stream (\<lambda>a. attempt e (Set_session (as_rtpsend a)))]"

definition encoder :: "ms_env \<Rightarrow> payload_type \<Rightarrow> stage list" where
  "encoder e pt =
     [release Encod (\<lambda>a. [attempt e (Unlink (as_encoder a) (as_rtpsend a))]),
      create e (Encoder (pt_mime pt)) Encod,
      with_stream (\<lambda>a. call (Set_rate (as_encoder a) (pt_rate pt))),
      stage_when (pt_bitrate pt > 0) (with_stream (\<lambda>a. call (Set_bitrate (as_encoder a) (pt_bitrate pt)))),
      add_fmtp e Encod (pt_send_fmtp pt)]"

text \<open>
  The source of the sound.  The result of the card's reader is not looked at, nor is that of the
  channels: what is tested again is the result before.
\<close>

definition reader :: "ms_env \<Rightarrow> payload_type \<Rightarrow> stage list" where
  "reader e pt =
     [release Soundread (\<lambda>a. []),
      on_ctx (\<lambda>ctx.
        if st_snd ctx = SND_DEVICE_TYPE_FILE then create e File_player Soundread
        else if st_snd ctx = SND_DEVICE_TYPE_SND_CARD_MIC then stages
          [attempt e Get_card,
           create_unchecked e Card_reader Soundread,
           with_stream (\<lambda>a. attempt e (Set_rate (as_soundread a) (pt_rate pt))),
           with_stream (\<lambda>a. call (Set_channels (as_soundread a) 1))]
        else stages []),
      on_ctx (\<lambda>ctx. with_stream (\<lambda>a.
        if as_soundread a = None then (\<lambda>s. (Null_pointer, s))
        else call (Set_notify (as_soundread a) (st_handle ctx))))]"

definition writer :: "ms_env \<Rightarrow> stage list" where
  "writer e =
     [release Soundwrite (\<lambda>a. []),
      on_ctx (\<lambda>ctx.
        if st_rcv ctx = RCV_DEVICE_WINSND_WRITE then stages
          [attempt e Get_card,
           create_unchecked e Card_writer Soundwrite,
           with_stream (\<lambda>a. call (Get_rate (as_soundread a))),
           pass_value e (\<lambda>v. with_stream (\<lambda>a. call (Set_rate (as_soundwrite a) v))),
           with_stream (\<lambda>a. call (Get_channels (as_soundread a))),
           pass_value e (\<lambda>v. with_stream (\<lambda>a. call (Set_channels (as_soundwrite a) v)))]
        else if st_rcv ctx = RCV_DEVICE_FILE_REC_ID then stages
          [create e File_rec Soundwrite,
           with_stream (\<lambda>a. call (Rec_close (as_soundwrite a))),
           with_option e ''m2ims/record_dir'' (\<lambda>dir. with_stream (\<lambda>a.
             attempt e (Rec_open (as_soundwrite a) (dir @ [CHR 0x5C] @ itoa (st_handle ctx) @ ''.wav'')))),
           with_stream (\<lambda>a. attempt e (Rec_start (as_soundwrite a)))]
        else create e File_rec Soundwrite)]"

definition linking :: "ms_env \<Rightarrow> stage list" where
  "linking e =
     [with_stream (\<lambda>a. attempt e (Link (as_soundread a) (as_encoder a))),
      with_stream (\<lambda>a. attempt e (Link (as_encoder a) (as_rtpsend a))),
      with_stream (\<lambda>a. attempt e (Link (as_rtprecv a) (as_decoder a))),
      with_stream (\<lambda>a. attempt e (Link (as_decoder a) (as_soundwrite a)))]"

text \<open>\<open>rtprecv \<rightarrow> decoder \<rightarrow> soundwrite\<close> and \<open>soundread \<rightarrow> encoder \<rightarrow> rtpsend\<close>.\<close>

definition pipeline :: "ms_env \<Rightarrow> payload_type \<Rightarrow> stage list" where
  "pipeline e pt = new_decoder e pt @ sender e @ encoder e pt @ reader e pt @ writer e @ linking e"

definition RecommutateSession :: "ms_env \<Rightarrow> cnx_info \<Rightarrow> nat \<Rightarrow> stage" where
  "RecommutateSession e remote idx = stages (
     [ignoring (StopTicking e),
      attempt e (Set_remote_addr (iptoa remote) (port_ho remote)),
      attempt e (Set_payload_type (int idx)),
      call Set_jitter, call Unregister_queue, call Register_queue] @
     receiver e @ old_decoder e @
     [with_payload idx (\<lambda>pt. stages (pipeline e pt))])"

end
