(* ===== verification/Iw_StreamerProc.thy ===== *)
theory Iw_StreamerProc
  imports Iw_Streamer
begin

text \<open>
  The requests of the streamer and its loop (\<^verbatim>\<open>iw_m2ims/ProcM2Ims.cpp\<close>).
\<close>

section \<open>Sessions\<close>

definition reply :: "iw_message \<Rightarrow> MessageId \<Rightarrow> stream_data \<Rightarrow> ims \<Rightarrow> ims" where
  "reply req mid d m = put_out (Reply req mid d) m"

text \<open>The filters of a stream in the order of the destructor of \<^verbatim>\<open>StreamingCtx\<close>.\<close>

definition stream_filters :: "audio_stream \<Rightarrow> nat list" where
  "stream_filters a = concat (map (\<lambda>f. case f of None \<Rightarrow> [] | Some n \<Rightarrow> [n])
     [as_rtpsend a, as_rtprecv a, as_soundread a, as_soundwrite a, as_encoder a, as_decoder a,
      as_dtmfgen a, as_ec a])"

definition destroy_StreamingCtx :: "streaming_ctx \<Rightarrow> ims \<Rightarrow> ims" where
  "destroy_StreamingCtx ctx m = (case st_stream ctx of
     None \<Rightarrow> m
   | Some a \<Rightarrow> m\<lparr>im_out := im_out m @ [Call Destroy_session] @ map Destroyed (stream_filters a) @ [Call Free_stream]\<rparr>)"

definition audio_stream_new :: "ms_env \<Rightarrow> streaming_ctx \<times> ims \<Rightarrow> streaming_ctx \<times> ims" where
  "audio_stream_new e s = (case s of (ctx, m) \<Rightarrow> (case me_port e (im_out m) of
     None \<Rightarrow> (ctx, m)
   | Some port \<Rightarrow>
       let a = \<lparr>as_port = port, as_ticker = False, as_rtprecv = None, as_decoder = None,
                as_rtpsend = None, as_encoder = None, as_soundread = None, as_soundwrite = None,
                as_dtmfgen = None, as_ec = None\<rparr>
       in if me_sender e
          then (ctx\<lparr>st_stream := Some (a\<lparr>as_rtpsend := Some (im_next_filter m)\<rparr>)\<rparr>, new_filter m)
          else (ctx\<lparr>st_stream := Some a\<rparr>, m)))"

definition description_head :: "ms_env \<Rightarrow> ims \<Rightarrow> int \<Rightarrow> string" where
  "description_head e m port =
     ''v=0'' @ CRLF @
     ''o=m2streamer '' @ itoa (me_time e) @ '' '' @ itoa (me_time e) @ '' IN IP4 '' @ iptoa (im_local m) @ CRLF @
     ''s=m2session'' @ CRLF @
     ''c=IN IP4 '' @ iptoa (im_local m) @ CRLF @
     ''t=0 0'' @ CRLF @
     ''m=audio '' @ itoa port @ '' RTP/AVP''"

text \<open>All the codecs of the profile, or only the one agreed.\<close>

definition description :: "ms_env \<Rightarrow> ims \<Rightarrow> int \<Rightarrow> (payload_type \<times> nat) option \<Rightarrow> string" where
  "description e m port agreed = (case agreed of
     None \<Rightarrow> description_head e m port @ codecs_list (im_profile m) @ CRLF @
       rtp_maps (me_rtpmap e) (im_profile m) @ CRLF
   | Some (pt, idx) \<Rightarrow> description_head e m port @ '' '' @ itoa (int idx) @ CRLF @
       ''a=rtpmap:'' @ itoa (int idx) @ '' '' @ pt_mime pt @ ''/'' @ itoa (pt_rate pt) @ CRLF)"

definition put_session :: "int \<Rightarrow> streaming_ctx \<Rightarrow> ims \<Rightarrow> ims" where
  "put_session h ctx m = m\<lparr>im_ctxs := smap_insert h ctx (im_ctxs m)\<rparr>"

definition medium_valid :: "medium \<Rightarrow> bool" where
  "medium_valid md \<longleftrightarrow> is_ip_valid (med_connection md) \<and> is_port_valid (med_connection md) \<and> med_list md \<noteq> []"

section \<open>Allocation\<close>

definition allocate_accept ::
  "ms_env \<Rightarrow> iw_message \<Rightarrow> stream_data \<Rightarrow> (payload_type \<times> nat) option \<Rightarrow> streaming_ctx \<times> ims \<Rightarrow> outcome \<times> ims" where
  "allocate_accept e req d agreed s = (case s of (ctx, m) \<Rightarrow>
     (case st_stream ctx of
        None \<Rightarrow> (Null_pointer, m)
      | Some a \<Rightarrow>
          (Go, reply req MSG_STREAM_ALLOCATE_SESSION_ACK
             (new_stream_data\<lparr>streamer_handle := st_handle ctx,
                stream_offer := \<lparr>offer_body = description e m (as_port a) agreed, offer_type = ''application/sdp''\<rparr>\<rparr>)
             (put_session (st_handle ctx)
                (ctx\<lparr>st_handler := stream_handler d, st_state := IMS_ALLOCATED\<rparr>) m))))"

definition allocate_refuse :: "iw_message \<Rightarrow> streaming_ctx \<times> ims \<Rightarrow> outcome \<times> ims" where
  "allocate_refuse req s = (case s of (ctx, m) \<Rightarrow>
     (Go, destroy_StreamingCtx ctx (reply req MSG_STREAM_ALLOCATE_SESSION_NACK new_stream_data m)))"

definition allocate_commutated ::
  "ms_env \<Rightarrow> iw_message \<Rightarrow> stream_data \<Rightarrow> streaming_ctx \<times> ims \<Rightarrow> outcome \<times> ims" where
  "allocate_commutated e req d s =
     (let md = me_medium e (offer_body (stream_offer d))
      in if \<not> medium_valid md then allocate_refuse req s
         else (case NegotiateCodec (im_profile (snd s)) (med_list md) of
                 None \<Rightarrow> allocate_refuse req s
               | Some (pt, idx) \<Rightarrow>
                   (case RecommutateSession e (med_connection md) idx ((fst s)\<lparr>st_pt := Some pt\<rparr>, snd s) of
                      (Go, s1) \<Rightarrow> allocate_accept e req d (Some (pt, idx)) s1
                    | (Error, s1) \<Rightarrow> allocate_refuse req s1
                    | (Raise x, s1) \<Rightarrow> (Raise x, destroy_StreamingCtx (fst s1) (snd s1))
                    | (Null_pointer, s1) \<Rightarrow> (Null_pointer, snd s1))))"

text \<open>The number of a session comes from a counter of the program.\<close>

definition AllocatePlaybackSession ::
  "ms_env \<Rightarrow> iw_message \<Rightarrow> stream_data \<Rightarrow> ims \<Rightarrow> outcome \<times> ims" where
  "AllocatePlaybackSession e req d m =
     (let h = im_next_handle m;
          s = audio_stream_new e (new_StreamingCtx\<lparr>st_handle := h, st_rcv := rcv_device_type d\<rparr>,
                                  m\<lparr>im_next_handle := h + 1\<rparr>)
      in if st_stream (fst s) = None then allocate_refuse req s
         else if offer_body (stream_offer d) \<noteq> [] \<and> offer_type (stream_offer d) = ''application/sdp''
         then allocate_commutated e req d s
         else allocate_accept e req d None s)"

section \<open>Requests on a session\<close>

text \<open>The stages of a request: what is left in the session stays there whatever the outcome.\<close>

definition on_session ::
  "int \<Rightarrow> stage \<Rightarrow> (streaming_ctx \<times> ims \<Rightarrow> streaming_ctx \<times> ims) \<Rightarrow> (ims \<Rightarrow> ims) \<Rightarrow> streaming_ctx \<Rightarrow> ims \<Rightarrow> outcome \<times> ims" where
  "on_session h body ack nack ctx m =
     (case body (ctx, m) of
        (Go, s1) \<Rightarrow> (case ack s1 of (ctx2, m2) \<Rightarrow> (Go, put_session h ctx2 m2))
      | (Error, (ctx1, m1)) \<Rightarrow> (Go, nack (put_session h ctx1 m1))
      | (r, (ctx1, m1)) \<Rightarrow> (r, put_session h ctx1 m1))"

definition modify_stages :: "ms_env \<Rightarrow> cnx_info \<Rightarrow> nat \<Rightarrow> stage" where
  "modify_stages e c idx = stages
     [StopTicking e,
      with_stream (\<lambda>a. attempt e (Set_remote_addr (iptoa c) (port_ho c))),
      RecommutateSession e (CnxInfo_host (me_inet e) (iptoa c) (port_ho c)) idx,
      StartTicking e]"

definition ModifySession :: "ms_env \<Rightarrow> iw_message \<Rightarrow> stream_data \<Rightarrow> ims \<Rightarrow> outcome \<times> ims" where
  "ModifySession e req d m =
     (let nack = reply req MSG_STREAM_MODIFY_NACK new_stream_data;
          ack = (\<lambda>(ctx, m). (ctx, reply req MSG_STREAM_MODIFY_ACK new_stream_data m));
          md = me_medium e (offer_body (stream_offer d))
      in case smap_find (im_ctxs m) (streamer_handle d) of
           None \<Rightarrow> (Go, nack m)
         | Some ctx \<Rightarrow>
             if st_pt ctx \<noteq> None \<or> offer_body (stream_offer d) = [] \<or> \<not> medium_valid md then (Go, nack m)
             else (case NegotiateCodec (im_profile m) (med_list md) of
                     None \<Rightarrow> (Go, nack m)
                   | Some (pt, idx) \<Rightarrow>
                       on_session (streamer_handle d) (modify_stages e (med_connection md) idx) ack nack
                         (ctx\<lparr>st_pt := Some pt\<rparr>) m))"

definition play_opened :: "ms_env \<Rightarrow> bool \<Rightarrow> string \<Rightarrow> stage list" where
  "play_opened e looped full =
     [with_stream (\<lambda>a. attempt e (Player_close (as_soundread a))),
      with_stream (\<lambda>a. attempt e (Player_open (as_soundread a) full)),
      with_stream (\<lambda>a. attempt e (Player_start (as_soundread a))),
      with_stream (\<lambda>a. attempt e (Get_rate (as_soundread a))),
      on_ctx (\<lambda>ctx s. (if st_pt ctx = None then Null_pointer else Go, s)),
      pass_value e (\<lambda>v. with_stream (\<lambda>a. attempt e (Set_rate (as_soundwrite a) v))),
      with_stream (\<lambda>a. attempt e (Player_loop (as_soundread a) (if looped then 0 else -2))),
      set_ctx (\<lambda>ctx. ctx\<lparr>st_loop := Some looped\<rparr>)]"

definition play_full :: "ms_env \<Rightarrow> bool \<Rightarrow> string \<Rightarrow> stage" where
  "play_full e looped name = (case me_full_path e name of
     None \<Rightarrow> fails | Some full \<Rightarrow> stages (play_opened e looped full))"

text \<open>A name that is not found is looked for among the sounds.\<close>

definition play_file :: "ms_env \<Rightarrow> stream_data \<Rightarrow> stage" where
  "play_file e d =
     (if me_file e (file_name d) then play_full e (loop_play d) (file_name d)
      else with_option e ''m2ims/sounds_dir'' (\<lambda>dir.
             let name = dir @ [CHR 0x5C] @ file_name d
             in if me_file e name then play_full e (loop_play d) name else fails))"

definition play_stages :: "ms_env \<Rightarrow> stream_data \<Rightarrow> stage" where
  "play_stages e d = stages
     [ignoring (StopTicking e),
      on_ctx (\<lambda>ctx. stage_when
        (case st_stream ctx of None \<Rightarrow> True | Some a \<Rightarrow> as_soundread a = None) fails),
      on_ctx (\<lambda>ctx. stage_when (st_snd ctx = SND_DEVICE_TYPE_FILE) (play_file e d)),
      StartTicking e]"

definition play_acknowledged :: "iw_message \<Rightarrow> streaming_ctx \<times> ims \<Rightarrow> streaming_ctx \<times> ims" where
  "play_acknowledged req s = (case s of (ctx, m) \<Rightarrow>
     let k = im_correlation m + 1
     in (ctx\<lparr>st_correlation := k, st_request := Some req\<rparr>,
         reply req MSG_STREAM_PLAY_ACK (new_stream_data\<lparr>stream_correlation_id := k\<rparr>) (m\<lparr>im_correlation := k\<rparr>)))"

definition StartPlayback :: "ms_env \<Rightarrow> iw_message \<Rightarrow> stream_data \<Rightarrow> ims \<Rightarrow> outcome \<times> ims" where
  "StartPlayback e req d m =
     (let nack = reply req MSG_STREAM_PLAY_NACK new_stream_data
      in case smap_find (im_ctxs m) (streamer_handle d) of
           None \<Rightarrow> (Go, nack m)
         | Some ctx \<Rightarrow> on_session (streamer_handle d) (play_stages e d) (play_acknowledged req) nack ctx m)"

text \<open>The end of a file.  A looped playback does not stop; nobody has set \<open>loop\<close> before the first play.\<close>

definition UponPlaybackStopped :: "ms_env \<Rightarrow> int \<Rightarrow> ims \<Rightarrow> ims" where
  "UponPlaybackStopped e h m = (case smap_find (im_ctxs m) h of
     None \<Rightarrow> m
   | Some ctx \<Rightarrow>
       if (case st_loop ctx of None \<Rightarrow> me_garbage e | Some b \<Rightarrow> b) then m
       else put_out (Stopped_evt (map_option fst (st_handler ctx))
              (new_stream_data\<lparr>streamer_handle := h, stream_correlation_id := st_correlation ctx\<rparr>)) m)"

text \<open>A stop is not answered.\<close>

definition stop_stages :: stage where
  "stop_stages = with_stream (\<lambda>a. stage_when (as_soundread a \<noteq> None) (call (Player_stop (as_soundread a))))"

definition StopPlayback :: "stream_data \<Rightarrow> ims \<Rightarrow> outcome \<times> ims" where
  "StopPlayback d m = (case smap_find (im_ctxs m) (streamer_handle d) of
     None \<Rightarrow> (Go, m)
   | Some ctx \<Rightarrow> on_session (streamer_handle d) stop_stages id id ctx m)"

section \<open>Tearing down\<close>

definition unlink_all :: "audio_stream \<Rightarrow> stage list" where
  "unlink_all a =
     map call ((if as_ec a \<noteq> None
       then [Unlink (as_soundread a) (as_ec a), Unlink (as_ec a) (as_encoder a),
             Unlink (as_dtmfgen a) (as_ec a), Unlink (as_ec a) (as_soundwrite a)]
       else [Unlink (as_soundread a) (as_encoder a), Unlink (as_dtmfgen a) (as_soundwrite a)]) @
      (if as_rtpsend a \<noteq> None then [Unlink (as_encoder a) (as_rtpsend a)] else []) @
      (if as_decoder a \<noteq> None then [Unlink (as_rtprecv a) (as_decoder a)] else []) @
      (if as_dtmfgen a \<noteq> None then [Unlink (as_decoder a) (as_dtmfgen a)] else []))"

definition teardown_stages :: stage where
  "teardown_stages = with_stream (\<lambda>a. stages (
     (if as_ticker a
      then map call ((if as_soundread a \<noteq> None then [Detach (as_soundread a)] else []) @
                     (if as_rtprecv a \<noteq> None then [Detach (as_rtprecv a)] else [])) @ unlink_all a
      else []) @
     [on_ctx (\<lambda>ctx. stage_when (as_soundread a \<noteq> None \<and> st_snd ctx = SND_DEVICE_TYPE_FILE) (stages
        [call (Player_stop (as_soundread a)), call (Player_close (as_soundread a))]))]))"

definition TearDown :: "stream_data \<Rightarrow> ims \<Rightarrow> outcome \<times> ims" where
  "TearDown d m = (case smap_find (im_ctxs m) (streamer_handle d) of
     None \<Rightarrow> (Go, m)
   | Some ctx \<Rightarrow> (case teardown_stages (ctx, m) of
       (Go, (ctx1, m1)) \<Rightarrow>
         (Go, destroy_StreamingCtx ctx1 (m1\<lparr>im_ctxs := smap_erase (streamer_handle d) (im_ctxs m1)\<rparr>))
     | (r, (ctx1, m1)) \<Rightarrow> (r, m1)))"

fun teardown_each :: "streaming_ctx list \<Rightarrow> ims \<Rightarrow> outcome \<times> ims" where
  "teardown_each [] m = (Go, m)"
| "teardown_each (ctx # cs) m = (case teardown_stages (ctx, m) of
     (Go, (ctx1, m1)) \<Rightarrow> teardown_each cs m1
   | (r, (ctx1, m1)) \<Rightarrow> (r, m1))"

definition TearDownAllSessions :: "ims \<Rightarrow> outcome \<times> ims" where
  "TearDownAllSessions m = (case teardown_each (map snd (im_ctxs m)) m of
     (Go, m1) \<Rightarrow> (Go, fold destroy_StreamingCtx (map snd (im_ctxs m)) (m1\<lparr>im_ctxs := []\<rparr>))
   | r \<Rightarrow> r)"

section \<open>The loop\<close>

text \<open>
  What comes out of the completion port: the end of a file, the signal of the inbound channel (the
  wait that follows may give no message), nothing within a minute.
\<close>

datatype ims_event = Eof int | Inbound "iw_message option" | Keep_alive

datatype ims_status = Serving | Shut_down | Crashed | Escaped config_error

definition streamer_data :: "iw_message \<Rightarrow> stream_data option" where
  "streamer_data msg = (case payload msg of StreamPayload d \<Rightarrow> Some d | _ \<Rightarrow> None)"

text \<open>The request itself is the result of a dynamic cast that every handler dereferences.\<close>

definition dispatch :: "ms_env \<Rightarrow> iw_message \<Rightarrow> ims \<Rightarrow> outcome \<times> ims" where
  "dispatch e msg m =
     (let handle_with = (\<lambda>f. case streamer_data msg of None \<Rightarrow> (Null_pointer, m) | Some d \<Rightarrow> f d m)
      in if message_id msg = MSG_STREAM_ALLOCATE_SESSION_REQ then handle_with (AllocatePlaybackSession e msg)
         else if message_id msg = MSG_STREAM_MODIFY_REQ then handle_with (ModifySession e msg)
         else if message_id msg = MSG_STREAM_PLAY_REQUEST then handle_with (StartPlayback e msg)
         else if message_id msg = MSG_STREAM_STOP_PLAY_REQ then handle_with StopPlayback
         else if message_id msg = MSG_STREAM_TEARDOWN_REQ then handle_with TearDown
         else (Go, put_out (Oob msg) m))"

text \<open>An exception by value is logged and the loop goes on.\<close>

fun settle :: "ims_status \<Rightarrow> outcome \<Rightarrow> ims_status" where
  "settle st Go = st"
| "settle st Error = st"
| "settle st (Raise (Configuration_exception x)) = st"
| "settle st (Raise x) = Escaped x"
| "settle st Null_pointer = Crashed"

definition ims_round :: "ms_env \<Rightarrow> ims_event \<Rightarrow> ims \<Rightarrow> ims_status \<times> ims" where
  "ims_round e ev m = (case ev of
     Keep_alive \<Rightarrow> (Serving, m)
   | Eof h \<Rightarrow> (Serving, UponPlaybackStopped e h m)
   | Inbound None \<Rightarrow> (Crashed, m)
   | Inbound (Some msg) \<Rightarrow>
       if message_id msg = MSG_PROC_SHUTDOWN_REQ
       then (case TearDownAllSessions (reply msg MSG_PROC_SHUTDOWN_ACK new_stream_data m) of
               (r, m1) \<Rightarrow> (settle Shut_down r, m1))
       else (case dispatch e msg m of (r, m1) \<Rightarrow> (settle Serving r, m1)))"

fun ims_run :: "(ms_env \<times> ims_event) list \<Rightarrow> ims \<Rightarrow> ims_status \<times> ims" where
  "ims_run [] m = (Serving, m)"
| "ims_run ((e, ev) # evs) m = (case ims_round e ev m of
     (Serving, m1) \<Rightarrow> ims_run evs m1
   | (st, m1) \<Rightarrow> (st, m1))"

end
