(* ===== verification/Iw_Streamer_Facts.thy ===== *)
theory Iw_Streamer_Facts
  imports Iw_StreamerProc "HOL-Library.Multiset"
begin

text \<open>
  A small program logic for the stages of the streamer: triples that keep an invariant and end in
  no null pointer, the laws an invariant has to satisfy as a locale, and the triples of the
  pipeline proved once inside it.
\<close>

section \<open>Triples\<close>

definition triple ::
  "(streaming_ctx \<times> ims \<Rightarrow> bool) \<Rightarrow> (streaming_ctx \<Rightarrow> bool) \<Rightarrow> stage \<Rightarrow> (streaming_ctx \<Rightarrow> bool) \<Rightarrow> bool" where
  "triple I B f B' \<longleftrightarrow> (\<forall>c m r c1 m1. I (c, m) \<longrightarrow> B c \<longrightarrow> f (c, m) = (r, (c1, m1)) \<longrightarrow>
     I (c1, m1) \<and> r \<noteq> Null_pointer \<and> (r = Go \<longrightarrow> B' c1))"

lemma tripleI:
  "(\<And>c m r c1 m1. I (c, m) \<Longrightarrow> B c \<Longrightarrow> f (c, m) = (r, (c1, m1)) \<Longrightarrow>
    I (c1, m1) \<and> r \<noteq> Null_pointer \<and> (r = Go \<longrightarrow> B' c1)) \<Longrightarrow> triple I B f B'"
  by (simp add: triple_def)

lemma tripleD:
  assumes "triple I B f B'" "f (c, m) = (r, (c1, m1))" "I (c, m)" "B c"
  shows "I (c1, m1)" "r \<noteq> Null_pointer" "r = Go \<Longrightarrow> B' c1"
  using assms by (auto simp: triple_def)

lemma triple_weaken:
  "triple I B f B' \<Longrightarrow> (\<And>c. C c \<Longrightarrow> B c) \<Longrightarrow> (\<And>c. B' c \<Longrightarrow> C' c) \<Longrightarrow> triple I C f C'"
  unfolding triple_def by blast

lemma triple_Nil [simp]: "triple I B (stages []) B"
  by (simp add: triple_def)

lemma triple_Cons: "triple I B f C \<Longrightarrow> triple I C (stages fs) D \<Longrightarrow> triple I B (stages (f # fs)) D"
  by (rule tripleI) (auto dest: tripleD split: prod.splits outcome.splits)

lemma triple_Keep: "triple I B f B \<Longrightarrow> triple I B (stages fs) D \<Longrightarrow> triple I B (stages (f # fs)) D"
  by (rule triple_Cons)

lemma stages_append: "stages (fs @ gs) s = (case stages fs s of (Go, s1) \<Rightarrow> stages gs s1 | (r, s1) \<Rightarrow> (r, s1))"
  by (induction fs arbitrary: s) (auto split: prod.splits outcome.splits)

lemma triple_append:
  "triple I B (stages fs) C \<Longrightarrow> triple I C (stages gs) D \<Longrightarrow> triple I B (stages (fs @ gs)) D"
  by (rule tripleI) (auto simp: stages_append dest: tripleD split: prod.splits outcome.splits)

lemma triple_fails [simp]: "triple I B fails C"
  by (simp add: triple_def fails_def)

lemma triple_when: "(b \<Longrightarrow> triple I B f B) \<Longrightarrow> triple I B (stage_when b f) B"
  by (simp add: stage_when_def)

lemma triple_on_ctx: "(\<And>c. triple I (\<lambda>c1. c1 = c \<and> B c1) (f c) C) \<Longrightarrow> triple I B (on_ctx f) C"
  by (auto simp: triple_def on_ctx_def)

lemma on_ctx_keeps: "(\<And>c. triple I B (f c) C) \<Longrightarrow> triple I B (on_ctx f) C"
  by (auto simp: triple_def on_ctx_def)

lemma triple_pass_value: "(\<And>v. triple I B (f v) C) \<Longrightarrow> triple I B (pass_value e f) C"
  by (auto simp: triple_def pass_value_def)

lemma triple_with_option: "(\<And>v. triple I B (f v) C) \<Longrightarrow> triple I B (with_option e n f) C"
  by (auto simp: triple_def with_option_def split: sum.splits)

lemma triple_with_payload: "(\<And>p. triple I B (f p) C) \<Longrightarrow> triple I B (with_payload i f) C"
  by (rule tripleI) (fastforce simp: with_payload_def fails_def dest: tripleD split: option.splits if_splits)

definition vacant :: "place \<Rightarrow> streaming_ctx \<Rightarrow> bool" where
  "vacant p c \<longleftrightarrow> (\<forall>a. st_stream c = Some a \<longrightarrow> filter_at p a = None)"

definition occupied :: "place \<Rightarrow> streaming_ctx \<Rightarrow> bool" where
  "occupied p c \<longleftrightarrow> (\<forall>a. st_stream c = Some a \<longrightarrow> filter_at p a \<noteq> None)"

definition agreed :: "streaming_ctx \<Rightarrow> bool" where
  "agreed c \<longleftrightarrow> st_pt c \<noteq> None"

lemma agreed_updates [simp]:
  "agreed (c\<lparr>st_state := y\<rparr>) = agreed c" "agreed (c\<lparr>st_stream := z\<rparr>) = agreed c"
  "agreed (c\<lparr>st_loop := l\<rparr>) = agreed c"
  by (simp_all add: agreed_def)

lemma filter_at_put [simp]: "filter_at p (put_filter p f a) = f"
  by (cases p) auto

section \<open>Invariants of the pipeline\<close>

locale pipeline_invariant =
  fixes I :: "streaming_ctx \<times> ims \<Rightarrow> bool"
  assumes logged: "I (c, m) \<Longrightarrow> I (c, put_out (Call x) m)"
    and has_stream: "I (c, m) \<Longrightarrow> st_stream c \<noteq> None"
    and file_source: "I (c, m) \<Longrightarrow> st_snd c = SND_DEVICE_TYPE_FILE"
    and fills: "I (c, m) \<Longrightarrow> agreed c \<Longrightarrow> st_stream c = Some a \<Longrightarrow> filter_at p a = None \<Longrightarrow>
      I (c\<lparr>st_stream := Some (put_filter p (Some (im_next_filter m)) a)\<rparr>, new_filter m)"
    and empties: "I (c, m) \<Longrightarrow> st_stream c = Some a \<Longrightarrow> filter_at p a = Some f \<Longrightarrow>
      I (c\<lparr>st_stream := Some (put_filter p None a)\<rparr>, put_out (Destroyed f) m)"
    and sounding: "I (c, m) \<Longrightarrow> st_stream c = Some a \<Longrightarrow> as_soundread a \<noteq> None \<Longrightarrow> agreed c"
    and ticks: "I (c, m) \<Longrightarrow> st_stream c = Some a \<Longrightarrow> I (c\<lparr>st_stream := Some (a\<lparr>as_ticker := True\<rparr>)\<rparr>, m)"
    and stated: "I (c, m) \<Longrightarrow> I (c\<lparr>st_state := y\<rparr>, m)"
    and looped: "I (c, m) \<Longrightarrow> I (c\<lparr>st_loop := z\<rparr>, m)"
begin

lemma call_ok: "triple I B (call x) B"
  by (rule tripleI) (auto simp: call_def logged)

lemma attempt_ok: "triple I B (attempt e x) B"
  by (rule tripleI) (auto simp: attempt_def logged split: if_splits)

lemma with_stream_ok: "(\<And>a. triple I (\<lambda>c. st_stream c = Some a \<and> B c) (f a) C) \<Longrightarrow> triple I B (with_stream f) C"
  unfolding with_stream_def
  by (rule triple_on_ctx, rule tripleI)
    (fastforce dest: has_stream tripleD split: option.splits)

lemma with_stream_keeps: "(\<And>a. triple I B (f a) C) \<Longrightarrow> triple I B (with_stream f) C"
  by (rule with_stream_ok) (auto intro: triple_weaken)

lemmas step_rules = triple_Keep triple_Nil call_ok attempt_ok with_stream_keeps triple_when
  triple_pass_value triple_with_option triple_fails on_ctx_keeps

lemma calls_ok: "triple I B (stages (map call xs)) B"
  by (induction xs) (auto simp del: stages.simps intro: triple_Cons call_ok)

lemma set_state_ok: "(\<And>c. B (c\<lparr>st_state := x\<rparr>) = B c) \<Longrightarrow> triple I B (set_ctx (\<lambda>c. c\<lparr>st_state := x\<rparr>)) B"
  by (rule tripleI) (auto simp: set_ctx_def stated)

lemma set_loop_ok: "(\<And>c. B (c\<lparr>st_loop := x\<rparr>) = B c) \<Longrightarrow> triple I B (set_ctx (\<lambda>c. c\<lparr>st_loop := x\<rparr>)) B"
  by (rule tripleI) (auto simp: set_ctx_def looped)

lemma create_ok: "triple I (\<lambda>c. agreed c \<and> vacant p c) (create e k p) (\<lambda>c. agreed c \<and> occupied p c)"
proof (rule tripleI)
  fix c m r c1 m1
  assume i: "I (c, m)" and b: "agreed c \<and> vacant p c" and run: "create e k p (c, m) = (r, c1, m1)"
  obtain a where a: "st_stream c = Some a" using has_stream [OF i] by blast
  then have v: "filter_at p a = None" using b by (simp add: vacant_def)
  have put: "put_filter p None a = a" using v by (cases p) auto
  show "I (c1, m1) \<and> r \<noteq> Null_pointer \<and> (r = Go \<longrightarrow> agreed c1 \<and> occupied p c1)"
  proof (cases "me_ok e (im_out m) (New_filter k)")
    case True
    then show ?thesis using run a b fills [OF i _ a v]
      by (auto simp: create_def create_unchecked_def set_stream_def set_ctx_def with_stream_def on_ctx_def
          stage_when_def occupied_def agreed_def)
  next
    case False
    have same: "c\<lparr>st_stream := Some a\<rparr> = c" using a by (cases c) simp
    show ?thesis using run a b False logged [OF i, of "New_filter k"]
      by (auto simp: create_def create_unchecked_def set_stream_def set_ctx_def with_stream_def on_ctx_def
          stage_when_def fails_def put same v)
  qed
qed

lemma release_ok:
  assumes "\<And>a. triple I (\<lambda>c. st_stream c = Some a \<and> agreed c) (stages (first a)) (\<lambda>c. st_stream c = Some a \<and> agreed c)"
  shows "triple I agreed (release p first) (\<lambda>c. agreed c \<and> vacant p c)"
  unfolding release_def
proof (rule with_stream_ok)
  fix a
  show "triple I (\<lambda>c. st_stream c = Some a \<and> agreed c)
     (case filter_at p a of None \<Rightarrow> stages []
      | Some f \<Rightarrow> stages (first a @ [\<lambda>(ctx, m). set_stream (put_filter p None) (ctx, put_out (Destroyed f) m)]))
     (\<lambda>c. agreed c \<and> vacant p c)"
  proof (cases "filter_at p a")
    case None
    then show ?thesis by (auto simp: triple_def vacant_def)
  next
    case (Some f)
    have "triple I (\<lambda>c. st_stream c = Some a \<and> agreed c)
      (stages [\<lambda>(ctx, m). set_stream (put_filter p None) (ctx, put_out (Destroyed f) m)])
      (\<lambda>c. agreed c \<and> vacant p c)"
      by (rule tripleI)
        (auto simp: set_stream_def set_ctx_def vacant_def agreed_def intro: empties [OF _ _ Some])
    from triple_append [OF assms [of a] this] show ?thesis by (simp add: Some)
  qed
qed

lemma create_keeps: "triple I (\<lambda>c. agreed c \<and> vacant p c) (create e k p) agreed"
  by (rule triple_weaken [OF create_ok]) simp_all

lemma renew:
  assumes "\<And>a. triple I (\<lambda>c. st_stream c = Some a \<and> agreed c) (stages (first a)) (\<lambda>c. st_stream c = Some a \<and> agreed c)"
    and "triple I agreed (stages fs) agreed"
  shows "triple I agreed (stages (release p first # create e k p # fs)) agreed"
  by (rule triple_Cons [OF release_ok [OF assms(1)] triple_Cons [OF create_keeps assms(2)]])

lemma StopTicking_ok:
  assumes "\<And>c y. B (c\<lparr>st_state := y\<rparr>) = B c"
  shows "triple I B (StopTicking e) B"
  unfolding StopTicking_def by (intro step_rules set_state_ok assms)

lemma ignore_StopTicking_ok:
  assumes "\<And>c y. B (c\<lparr>st_state := y\<rparr>) = B c"
  shows "triple I B (ignoring (StopTicking e)) B"
proof (rule tripleI)
  fix c m r c1 m1
  assume i: "I (c, m)" and b: "B c" and run: "ignoring (StopTicking e) (c, m) = (r, c1, m1)"
  obtain r2 c2 m2 where s: "StopTicking e (c, m) = (r2, c2, m2)" by (cases "StopTicking e (c, m)") auto
  have "B c2" if "r2 = Error"
    using s b that unfolding StopTicking_def
    by (auto simp: on_ctx_def stage_when_def with_stream_def attempt_def set_ctx_def split: if_splits option.splits)
  with tripleD [OF StopTicking_ok [OF assms] s i b] run s
  show "I (c1, m1) \<and> r \<noteq> Null_pointer \<and> (r = Go \<longrightarrow> B c1)"
    by (cases r2) (auto simp: ignoring_def)
qed

lemma StartTicking_ok:
  assumes "\<And>c y. B (c\<lparr>st_state := y\<rparr>) = B c"
    and "\<And>c f. B (c\<lparr>st_stream := map_option (\<lambda>a. a\<lparr>as_ticker := True\<rparr>) (st_stream c)\<rparr>) = B c"
  shows "triple I B (StartTicking e) B"
proof -
  have "triple I B (set_stream (\<lambda>a. a\<lparr>as_ticker := True\<rparr>)) B"
    by (rule tripleI) (use ticks has_stream in \<open>force simp: set_stream_def set_ctx_def assms(2)\<close>)
  then show ?thesis unfolding StartTicking_def by (intro step_rules set_state_ok assms(1))
qed

lemma add_fmtp_ok: "triple I B (add_fmtp e p f) B"
  by (cases f) (auto simp: add_fmtp_def simp del: stages.simps intro: step_rules)

lemma receiver_ok: "triple I agreed (stages (receiver e)) agreed"
  unfolding receiver_def by (intro renew step_rules)

lemma old_decoder_ok: "triple I agreed (stages (old_decoder e)) (\<lambda>c. agreed c \<and> vacant Decod c)"
  unfolding old_decoder_def
  by (rule triple_Cons [OF release_ok triple_Nil]) (intro step_rules)

lemma new_decoder_ok: "triple I (\<lambda>c. agreed c \<and> vacant Decod c) (stages (new_decoder e p)) agreed"
  unfolding new_decoder_def by (rule triple_Cons [OF create_keeps]) (intro step_rules add_fmtp_ok)

lemma sender_ok: "triple I agreed (stages (sender e)) agreed"
  unfolding sender_def by (intro renew step_rules)

lemma encoder_ok: "triple I agreed (stages (encoder e p)) agreed"
  unfolding encoder_def by (intro renew step_rules add_fmtp_ok)

lemma source_ok:
  "triple I (\<lambda>c. agreed c \<and> vacant Soundread c)
     (on_ctx (\<lambda>c. if st_snd c = SND_DEVICE_TYPE_FILE then create e File_player Soundread else f c))
     (\<lambda>c. agreed c \<and> occupied Soundread c)"
proof (rule tripleI)
  fix c m r c1 m1
  assume i: "I (c, m)" and b: "agreed c \<and> vacant Soundread c"
    and run: "on_ctx (\<lambda>c. if st_snd c = SND_DEVICE_TYPE_FILE then create e File_player Soundread else f c) (c, m)
      = (r, c1, m1)"
  have "create e File_player Soundread (c, m) = (r, c1, m1)"
    using run file_source [OF i] by (simp add: on_ctx_def)
  from tripleD [OF create_ok this i b]
  show "I (c1, m1) \<and> r \<noteq> Null_pointer \<and> (r = Go \<longrightarrow> agreed c1 \<and> occupied Soundread c1)" by simp
qed

lemma notify_ok:
  "triple I (\<lambda>c. agreed c \<and> occupied Soundread c)
     (on_ctx (\<lambda>c. with_stream (\<lambda>a. if as_soundread a = None then (\<lambda>s. (Null_pointer, s)) else call (x c a))))
     agreed"
proof (intro on_ctx_keeps with_stream_ok)
  fix c a
  show "triple I (\<lambda>c. st_stream c = Some a \<and> agreed c \<and> occupied Soundread c)
     (if as_soundread a = None then (\<lambda>s. (Null_pointer, s)) else call (x c a)) agreed"
  proof (cases "as_soundread a")
    case None
    then show ?thesis by (auto simp: triple_def occupied_def)
  next
    case (Some f)
    have "triple I (\<lambda>c. st_stream c = Some a \<and> agreed c \<and> occupied Soundread c) (call (x c a)) agreed"
      by (rule triple_weaken [OF call_ok [of agreed]]) auto
    with Some show ?thesis by simp
  qed
qed

lemma reader_ok: "triple I agreed (stages (reader e p)) agreed"
  unfolding reader_def
  by (rule triple_Cons [OF release_ok triple_Cons [OF source_ok triple_Cons [OF notify_ok triple_Nil]]])
    (intro step_rules)

lemma create_unchecked_ok: "triple I (\<lambda>c. agreed c \<and> vacant p c) (create_unchecked e k p) agreed"
proof (rule tripleI)
  fix c m r c1 m1
  assume i: "I (c, m)" and b: "agreed c \<and> vacant p c" and run: "create_unchecked e k p (c, m) = (r, c1, m1)"
  obtain s where s: "create e k p (c, m) = s" by blast
  have "snd s = (c1, m1)" "fst s \<noteq> Raise x" for x
    using s run has_stream [OF i]
    by (auto simp: create_def with_stream_def on_ctx_def stage_when_def fails_def create_unchecked_def
        set_stream_def set_ctx_def split: if_splits option.splits)
  then obtain r2 where s2: "create e k p (c, m) = (r2, c1, m1)" using s by (cases s) auto
  have "r = Go" using run by (auto simp: create_unchecked_def set_stream_def set_ctx_def split: if_splits)
  moreover have "agreed c1"
    using run b by (auto simp: create_unchecked_def set_stream_def set_ctx_def agreed_def split: if_splits)
  ultimately show "I (c1, m1) \<and> r \<noteq> Null_pointer \<and> (r = Go \<longrightarrow> agreed c1)"
    using tripleD(1) [OF create_ok s2 i b] by simp
qed

lemma writer_ok: "triple I agreed (stages (writer e)) agreed"
proof -
  let ?B = "\<lambda>c. agreed c \<and> vacant Soundwrite c"
  let ?card = "[attempt e Get_card, create_unchecked e Card_writer Soundwrite,
     with_stream (\<lambda>a. call (Get_rate (as_soundread a))),
     pass_value e (\<lambda>v. with_stream (\<lambda>a. call (Set_rate (as_soundwrite a) v))),
     with_stream (\<lambda>a. call (Get_channels (as_soundread a))),
     pass_value e (\<lambda>v. with_stream (\<lambda>a. call (Set_channels (as_soundwrite a) v)))]"
  let ?file = "\<lambda>ctx. [create e File_rec Soundwrite,
     with_stream (\<lambda>a. call (Rec_close (as_soundwrite a))),
     with_option e ''m2ims/record_dir'' (\<lambda>dir. with_stream (\<lambda>a.
       attempt e (Rec_open (as_soundwrite a) (dir @ [CHR 0x5C] @ itoa (st_handle ctx) @ ''.wav'')))),
     with_stream (\<lambda>a. attempt e (Rec_start (as_soundwrite a)))]"
  have card: "triple I ?B (stages ?card) agreed"
    by (rule triple_Cons [OF attempt_ok triple_Cons [OF create_unchecked_ok]]) (intro step_rules)
  have recorded: "triple I ?B (stages (?file ctx)) agreed" for ctx
    by (rule triple_Cons [OF create_keeps]) (intro step_rules)
  show ?thesis unfolding writer_def
    by (rule triple_Cons [OF release_ok triple_Cons [OF on_ctx_keeps triple_Nil]], rule triple_Nil)
      (simp only: split: if_split, intro conjI impI card recorded create_keeps)
qed

lemma linking_ok: "triple I agreed (stages (linking e)) agreed"
  unfolding linking_def by (intro step_rules)

lemma pipeline_ok: "triple I (\<lambda>c. agreed c \<and> vacant Decod c) (stages (pipeline e p)) agreed"
  unfolding pipeline_def
  by (intro triple_append [OF new_decoder_ok] triple_append [OF sender_ok] triple_append [OF encoder_ok]
      triple_append [OF reader_ok] triple_append [OF writer_ok] linking_ok)

lemma RecommutateSession_ok: "triple I agreed (RecommutateSession e remote idx) agreed"
proof -
  have "triple I agreed (stages
     [ignoring (StopTicking e), attempt e (Set_remote_addr (iptoa remote) (port_ho remote)),
      attempt e (Set_payload_type (int idx)), call Set_jitter, call Unregister_queue, call Register_queue]) agreed"
    by (intro step_rules ignore_StopTicking_ok agreed_updates)
  moreover have "triple I (\<lambda>c. agreed c \<and> vacant Decod c) (stages [with_payload idx (\<lambda>pt. stages (pipeline e pt))]) agreed"
    by (rule triple_Cons [OF triple_with_payload [OF pipeline_ok] triple_Nil])
  ultimately show ?thesis unfolding RecommutateSession_def
    by (intro triple_append [OF _ triple_append [OF receiver_ok triple_append [OF old_decoder_ok]]])
qed

lemma modify_stages_ok: "triple I agreed (modify_stages e c idx) agreed"
  unfolding modify_stages_def
  by (auto simp del: stages.simps intro!: step_rules StopTicking_ok StartTicking_ok RecommutateSession_ok)

lemma play_opened_ok: "triple I agreed (stages (play_opened e b full)) agreed"
proof -
  have rated: "triple I agreed (on_ctx (\<lambda>ctx s. (if st_pt ctx = None then Null_pointer else Go, s))) agreed"
    by (auto simp: triple_def on_ctx_def agreed_def)
  show ?thesis unfolding play_opened_def
    by (intro rated triple_Keep triple_Nil attempt_ok with_stream_keeps triple_pass_value set_loop_ok)
      (simp add: agreed_def)
qed

lemma play_full_ok: "triple I agreed (play_full e b name) agreed"
  by (auto simp: play_full_def play_opened_ok split: option.splits)

lemma play_file_ok: "triple I agreed (play_file e d) agreed"
  unfolding play_file_def Let_def
  by (auto intro!: play_full_ok triple_with_option)

lemma play_guard_ok:
  "triple I (\<lambda>_. True) (on_ctx (\<lambda>ctx. stage_when
     (case st_stream ctx of None \<Rightarrow> True | Some a \<Rightarrow> as_soundread a = None) fails)) agreed"
  by (rule tripleI) (auto simp: on_ctx_def stage_when_def fails_def dest: sounding split: if_splits option.splits)

lemma play_stages_ok: "triple I (\<lambda>_. True) (play_stages e d) agreed"
  unfolding play_stages_def
  by (rule triple_Cons [OF ignore_StopTicking_ok triple_Cons [OF play_guard_ok]], rule refl)
    (intro triple_Keep triple_Nil on_ctx_keeps triple_when play_file_ok StartTicking_ok agreed_updates)

text \<open>A playback that has got as far as the ticker is looped as asked.\<close>

lemma play_opened_loop: "triple I agreed (stages (play_opened e b full)) (\<lambda>c. st_loop c = Some b)"
proof -
  have rated: "triple I agreed (on_ctx (\<lambda>ctx s. (if st_pt ctx = None then Null_pointer else Go, s))) agreed"
    by (auto simp: triple_def on_ctx_def agreed_def)
  have set: "triple I agreed (set_ctx (\<lambda>ctx. ctx\<lparr>st_loop := Some b\<rparr>)) (\<lambda>c. st_loop c = Some b)"
    by (rule tripleI) (auto simp: set_ctx_def looped)
  show ?thesis unfolding play_opened_def
    by ((rule triple_Keep, (rule rated | intro attempt_ok with_stream_keeps triple_pass_value))+,
        rule triple_Cons [OF set triple_Nil])
qed

lemma play_file_loop: "triple I agreed (play_file e d) (\<lambda>c. st_loop c = Some (loop_play d))"
proof -
  have full: "triple I agreed (play_full e b name) (\<lambda>c. st_loop c = Some b)" for b name
    by (auto simp: play_full_def play_opened_loop split: option.splits)
  show ?thesis unfolding play_file_def Let_def by (auto intro!: full triple_with_option)
qed

lemma play_stages_loop: "triple I (\<lambda>_. True) (play_stages e d) (\<lambda>c. st_loop c = Some (loop_play d))"
proof -
  have from_file: "triple I agreed (on_ctx (\<lambda>ctx. stage_when (st_snd ctx = SND_DEVICE_TYPE_FILE) (play_file e d)))
      (\<lambda>c. st_loop c = Some (loop_play d))"
  proof (rule tripleI)
    fix c m r c1 m1
    assume i: "I (c, m)" and b: "agreed c"
      and run: "on_ctx (\<lambda>ctx. stage_when (st_snd ctx = SND_DEVICE_TYPE_FILE) (play_file e d)) (c, m) = (r, c1, m1)"
    have "play_file e d (c, m) = (r, c1, m1)"
      using run file_source [OF i] by (simp add: on_ctx_def stage_when_def)
    from tripleD [OF play_file_loop this i b]
    show "I (c1, m1) \<and> r \<noteq> Null_pointer \<and> (r = Go \<longrightarrow> st_loop c1 = Some (loop_play d))" by simp
  qed
  show ?thesis unfolding play_stages_def
    by (rule triple_Cons [OF ignore_StopTicking_ok triple_Cons [OF play_guard_ok triple_Cons [OF from_file]]], rule refl)
      (intro triple_Keep triple_Nil StartTicking_ok, simp_all)
qed

lemma stop_stages_ok: "triple I B stop_stages B"
  unfolding stop_stages_def by (intro step_rules)

lemma teardown_stages_ok: "triple I B teardown_stages B"
proof -
  have links: "triple I B (stages (if b then map call xs @ unlink_all a else [])) B" for b xs a
    by (cases b) (auto simp: unlink_all_def map_append [symmetric] simp del: map_append intro: triple_append calls_ok)
  show ?thesis unfolding teardown_stages_def
    by (intro with_stream_keeps triple_append [OF links]) (intro step_rules)
qed

end

section \<open>What the process keeps\<close>

definition created :: "ms_out list \<Rightarrow> nat list" where
  "created out = concat (map (\<lambda>x. case x of Created n \<Rightarrow> [n] | _ \<Rightarrow> []) out)"

definition destroyed :: "ms_out list \<Rightarrow> nat list" where
  "destroyed out = concat (map (\<lambda>x. case x of Destroyed n \<Rightarrow> [n] | _ \<Rightarrow> []) out)"

definition session_filters :: "streaming_ctx \<Rightarrow> nat list" where
  "session_filters c = (case st_stream c of None \<Rightarrow> [] | Some a \<Rightarrow> stream_filters a)"

text \<open>What is said to other processes.\<close>

definition said :: "ms_out list \<Rightarrow> ms_out list" where
  "said out = filter (\<lambda>x. case x of Reply req mid d \<Rightarrow> True | Stopped_evt h d \<Rightarrow> True | Oob msg \<Rightarrow> True | _ \<Rightarrow> False) out"

lemma logs_append [simp]:
  "created (xs @ ys) = created xs @ created ys"
  "destroyed (xs @ ys) = destroyed xs @ destroyed ys"
  "said (xs @ ys) = said xs @ said ys"
  by (simp_all add: created_def destroyed_def said_def)

lemma logs_Cons [simp]:
  "created [] = []" "destroyed [] = []" "said [] = []"
  "created (x # xs) = (case x of Created n \<Rightarrow> [n] | _ \<Rightarrow> []) @ created xs"
  "destroyed (x # xs) = (case x of Destroyed n \<Rightarrow> [n] | _ \<Rightarrow> []) @ destroyed xs"
  "said (x # xs) = (case x of Reply req mid d \<Rightarrow> [x] | Stopped_evt h d \<Rightarrow> [x] | Oob msg \<Rightarrow> [x] | _ \<Rightarrow> []) @ said xs"
  by (simp_all add: created_def destroyed_def said_def split: ms_out.splits)

lemma put_out_fields [simp]:
  "im_out (put_out x m) = im_out m @ [x]" "im_ctxs (put_out x m) = im_ctxs m"
  "im_next_handle (put_out x m) = im_next_handle m" "im_correlation (put_out x m) = im_correlation m"
  "im_profile (put_out x m) = im_profile m" "im_local (put_out x m) = im_local m"
  "im_next_filter (put_out x m) = im_next_filter m"
  by (simp_all add: put_out_def)

lemma new_filter_fields [simp]:
  "im_out (new_filter m) = im_out m @ [Created (im_next_filter m)]" "im_ctxs (new_filter m) = im_ctxs m"
  "im_next_handle (new_filter m) = im_next_handle m" "im_correlation (new_filter m) = im_correlation m"
  "im_profile (new_filter m) = im_profile m" "im_local (new_filter m) = im_local m"
  "im_next_filter (new_filter m) = Suc (im_next_filter m)"
  by (simp_all add: new_filter_def)

text \<open>A session alone: it can be played only with an agreed codec, and it has no tone generator.\<close>

definition session_ok :: "int \<Rightarrow> streaming_ctx \<Rightarrow> bool" where
  "session_ok h c \<longleftrightarrow> st_handle c = h \<and> st_snd c = SND_DEVICE_TYPE_FILE \<and>
     (\<exists>a. st_stream c = Some a \<and> (as_soundread a \<noteq> None \<longrightarrow> agreed c) \<and> as_dtmfgen a = None \<and> as_ec a = None)"

text \<open>
  A session on which stages run, next to the rest of the process: \<open>R\<close> are the filters of the other
  sessions, \<open>c0\<close> and \<open>m0\<close> the session and the process before.
\<close>

fun running ::
  "nat multiset \<Rightarrow> streaming_ctx \<Rightarrow> ims \<Rightarrow> streaming_ctx \<times> ims \<Rightarrow> bool" where
  "running R c0 m0 (c, m) \<longleftrightarrow>
     session_ok (st_handle c0) c \<and>
     st_pt c = st_pt c0 \<and> st_handler c = st_handler c0 \<and> st_correlation c = st_correlation c0 \<and>
     st_rcv c = st_rcv c0 \<and> st_request c = st_request c0 \<and>
     im_ctxs m = im_ctxs m0 \<and> im_next_handle m = im_next_handle m0 \<and>
     im_correlation m = im_correlation m0 \<and> im_profile m = im_profile m0 \<and> im_local m = im_local m0 \<and>
     said (im_out m) = said (im_out m0) \<and>
     created (im_out m) = [0..<im_next_filter m] \<and>
     mset (created (im_out m)) = mset (destroyed (im_out m)) + mset (session_filters c) + R"

lemma stream_filters_put:
  "filter_at p a = None \<Longrightarrow> mset (stream_filters (put_filter p (Some n) a)) = add_mset n (mset (stream_filters a))"
  "filter_at p a = Some f \<Longrightarrow> mset (stream_filters a) = add_mset f (mset (stream_filters (put_filter p None a)))"
  by (cases p; simp add: stream_filters_def split: option.splits)+

lemma put_filter_others [simp]:
  "as_dtmfgen (put_filter p f a) = as_dtmfgen a" "as_ec (put_filter p f a) = as_ec a"
  by (cases p; simp)+

lemma put_filter_reader: "as_soundread (put_filter p None a) \<noteq> None \<Longrightarrow> as_soundread a \<noteq> None"
  by (cases p) auto

lemma stream_filters_ticker [simp]: "stream_filters (a\<lparr>as_ticker := b\<rparr>) = stream_filters a"
  by (simp add: stream_filters_def)

interpretation pipe: pipeline_invariant "running R c0 m0" for R c0 m0
proof
  fix c m a p f
  assume i: "running R c0 m0 (c, m)" and a: "st_stream c = Some a"
  {
    assume "agreed c" "filter_at p a = None"
    then show "running R c0 m0 (c\<lparr>st_stream := Some (put_filter p (Some (im_next_filter m)) a)\<rparr>, new_filter m)"
      using i a stream_filters_put(1) [of p a "im_next_filter m"]
      by (auto simp: session_ok_def session_filters_def)
  next
    assume "filter_at p a = Some f"
    then show "running R c0 m0 (c\<lparr>st_stream := Some (put_filter p None a)\<rparr>, put_out (Destroyed f) m)"
      using i a stream_filters_put(2) [of p a f] put_filter_reader [of p a]
      by (auto simp: session_ok_def session_filters_def)
  }
qed (auto simp: session_ok_def session_filters_def)

end
