(* ===== verification/Iw_Streamer_Inv.thy ===== *)
theory Iw_Streamer_Inv
  imports Iw_Streamer_Facts
begin

text \<open>
  The invariant of the streamer and its preservation by every request, round and run.
\<close>

section \<open>The invariant\<close>

definition all_filters :: "(int, streaming_ctx) smap \<Rightarrow> nat multiset" where
  "all_filters C = sum_list (map (\<lambda>(h, c). mset (session_filters c)) C)"

definition answers :: "MessageId \<Rightarrow> ms_out list \<Rightarrow> stream_data list" where
  "answers mid out = concat (map (\<lambda>x. case x of Reply req md d \<Rightarrow> if md = mid then [d] else [] | _ \<Rightarrow> []) out)"

lemma answers_simps [simp]:
  "answers mid [] = []" "answers mid (xs @ ys) = answers mid xs @ answers mid ys"
  "answers mid (x # xs) = (case x of Reply req md d \<Rightarrow> if md = mid then [d] else [] | _ \<Rightarrow> []) @ answers mid xs"
  by (simp_all add: answers_def)

lemma answers_said: "answers mid (said out) = answers mid out"
  by (induction out) (auto split: ms_out.splits)

definition ims_inv :: "ims \<Rightarrow> bool" where
  "ims_inv m \<longleftrightarrow> smap_ok (im_ctxs m) \<and>
     (\<forall>(h, c) \<in> set (im_ctxs m). session_ok h c \<and> h < im_next_handle m) \<and>
     created (im_out m) = [0..<im_next_filter m] \<and>
     mset [0..<im_next_filter m] = mset (destroyed (im_out m)) + all_filters (im_ctxs m) \<and>
     map stream_correlation_id (answers MSG_STREAM_PLAY_ACK (im_out m)) = [1..im_correlation m] \<and>
     0 \<le> im_correlation m \<and>
     sorted_wrt (<) (map streamer_handle (answers MSG_STREAM_ALLOCATE_SESSION_ACK (im_out m))) \<and>
     (\<forall>d \<in> set (answers MSG_STREAM_ALLOCATE_SESSION_ACK (im_out m)). streamer_handle d < im_next_handle m)"

lemma all_filters_Cons [simp]:
  "all_filters [] = {#}" "all_filters ((h, c) # C) = mset (session_filters c) + all_filters C"
  by (simp_all add: all_filters_def)

lemma all_filters_replace:
  "smap_ok C \<Longrightarrow> smap_find C h = Some c \<Longrightarrow>
     all_filters (smap_insert h c' C) + mset (session_filters c) = all_filters C + mset (session_filters c')"
proof (induction C)
  case (Cons p C)
  obtain a b where p: "p = (a, b)" by (cases p)
  have "smap_find C h = None" if "h < a"
    using Cons.prems(1) that by (force simp: p smap_find_None_iff)
  then show ?case using Cons by (auto simp: p split: if_splits)
qed simp

lemma all_filters_erase:
  "smap_find C h = Some c \<Longrightarrow> all_filters C = all_filters (smap_erase h C) + mset (session_filters c)"
  by (induction C) (auto split: if_splits)

lemma all_filters_new:
  "smap_find C h = None \<Longrightarrow> all_filters (smap_insert h c C) = all_filters C + mset (session_filters c)"
  by (induction C) (auto split: if_splits)

lemma set_smap_insert: "set (smap_insert k v m) \<subseteq> insert (k, v) (set m)"
  by (induction k v m rule: smap_insert.induct) auto

lemma inv_session: "ims_inv m \<Longrightarrow> smap_find (im_ctxs m) h = Some c \<Longrightarrow> session_ok h c \<and> h < im_next_handle m"
  by (auto simp: ims_inv_def smap_find_Some_iff)

lemma ims_inv_say:
  assumes "ims_inv m" "created [x] = []" "destroyed [x] = []"
    "answers MSG_STREAM_PLAY_ACK [x] = []" "answers MSG_STREAM_ALLOCATE_SESSION_ACK [x] = []"
  shows "ims_inv (put_out x m)"
  using assms by (simp add: ims_inv_def)

text \<open>From a process at rest to stages running on a session of it, and back.\<close>

lemma start_running:
  assumes "ims_inv m" "smap_find (im_ctxs m) h = Some c" "session_ok h c'" "session_filters c' = session_filters c"
  shows "running (all_filters (smap_erase h (im_ctxs m))) c' m (c', m)"
  using assms all_filters_erase [OF assms(2)]
  by (auto simp: ims_inv_def session_ok_def ac_simps)

lemma end_running:
  assumes "ims_inv m" "smap_find (im_ctxs m) h = Some c" "st_handle c' = h"
    "running (all_filters (smap_erase h (im_ctxs m))) c' m (c1, m1)"
  shows "ims_inv (put_session h c1 m1)"
proof -
  have "answers mid (im_out m1) = answers mid (im_out m)" for mid
    using assms(4) answers_said by (metis running.simps)
  moreover have "all_filters (smap_insert h c1 (im_ctxs m)) =
      all_filters (smap_erase h (im_ctxs m)) + mset (session_filters c1)"
    using all_filters_replace [OF _ assms(2), of c1] all_filters_erase [OF assms(2)] assms(1)
    by (auto simp: ims_inv_def)
  ultimately show ?thesis
    using assms inv_session [OF assms(1,2)] set_smap_insert [of h c1 "im_ctxs m"]
    by (auto simp: ims_inv_def put_session_def smap_ok_insert ac_simps)
qed

lemma on_session_inv:
  assumes inv: "ims_inv m" and found: "smap_find (im_ctxs m) h = Some c"
    and c': "session_ok h c'" "session_filters c' = session_filters c"
    and body: "\<And>R. triple (running R c' m) B body B'" and B: "B c'"
    and ack: "\<And>c1 m1. running (all_filters (smap_erase h (im_ctxs m))) c' m (c1, m1) \<Longrightarrow>
      ims_inv (put_session h c1 m1) \<Longrightarrow> (case ack (c1, m1) of (c2, m2) \<Rightarrow> ims_inv (put_session h c2 m2))"
    and nack: "\<And>m1. ims_inv m1 \<Longrightarrow> ims_inv (nack m1)"
    and run: "on_session h body ack nack c' m = (r, m1)"
  shows "ims_inv m1 \<and> r \<noteq> Null_pointer"
proof -
  let ?R = "all_filters (smap_erase h (im_ctxs m))"
  have h: "st_handle c' = h" using c'(1) by (simp add: session_ok_def)
  obtain r1 c1 m2 where b: "body (c', m) = (r1, c1, m2)" by (cases "body (c', m)") auto
  note t = tripleD(1,2) [OF body b start_running [OF inv found c'] B]
  note e = end_running [OF inv found h t(1)]
  show ?thesis
    using run b t(2) e nack [OF e] ack [OF t(1) e]
    by (cases r1) (auto simp: on_session_def split: prod.splits)
qed

text \<open>Answers and events.\<close>

lemma ims_inv_reply:
  "ims_inv m \<Longrightarrow> mid \<noteq> MSG_STREAM_PLAY_ACK \<Longrightarrow> mid \<noteq> MSG_STREAM_ALLOCATE_SESSION_ACK \<Longrightarrow> ims_inv (reply req mid d m)"
  by (simp add: reply_def ims_inv_say)

lemma put_session_out [simp]: "put_session h c (put_out x m) = put_out x (put_session h c m)"
  by (simp add: put_session_def put_out_def)

lemma put_session_reply [simp]: "put_session h c (reply req mid d m) = reply req mid d (put_session h c m)"
  by (simp add: reply_def)

lemma replace_session:
  assumes "ims_inv m" "smap_find (im_ctxs m) h = Some c" "session_ok h c'" "session_filters c' = session_filters c"
  shows "ims_inv (put_session h c' m)"
  using end_running [OF assms(1,2) _ start_running [OF assms]] assms(3) by (simp add: session_ok_def)

lemma ims_inv_play_ack:
  assumes "ims_inv m" "k = im_correlation m + 1" "stream_correlation_id d = k"
  shows "ims_inv (reply req MSG_STREAM_PLAY_ACK d (m\<lparr>im_correlation := k\<rparr>))"
  using assms by (simp add: ims_inv_def reply_def upto_rec2 [of 1 "im_correlation m + 1"])

lemma play_acknowledged_inv:
  assumes inv: "ims_inv (put_session h c m)" and ok: "session_ok h c"
  shows "case play_acknowledged req (c, m) of (c1, m1) \<Rightarrow> ims_inv (put_session h c1 m1)"
proof -
  let ?k = "im_correlation m + 1"
  let ?c = "c\<lparr>st_correlation := ?k, st_request := Some req\<rparr>"
  have found: "smap_find (im_ctxs (put_session h c m)) h = Some c"
    by (simp add: put_session_def smap_find_insert)
  have "session_ok h ?c" "session_filters ?c = session_filters c"
    using ok by (auto simp: session_ok_def session_filters_def agreed_def)
  from ims_inv_play_ack [OF replace_session [OF inv found this], of ?k]
  show ?thesis
    by (cases m) (simp add: play_acknowledged_def Let_def put_session_def smap_insert_twice reply_def put_out_def)
qed

section \<open>The requests keep it\<close>

lemma ModifySession_inv:
  assumes "ims_inv m" "ModifySession e req d m = (r, m1)"
  shows "ims_inv m1 \<and> r \<noteq> Null_pointer"
proof (cases "smap_find (im_ctxs m) (streamer_handle d)")
  case None
  then show ?thesis using assms by (auto simp: ModifySession_def ims_inv_reply)
next
  case (Some c)
  let ?md = "me_medium e (offer_body (stream_offer d))"
  show ?thesis
  proof (cases "st_pt c \<noteq> None \<or> offer_body (stream_offer d) = [] \<or> \<not> medium_valid ?md \<or>
      NegotiateCodec (im_profile m) (med_list ?md) = None")
    case True
    then show ?thesis using assms Some
      by (auto simp: ModifySession_def Let_def ims_inv_reply split: if_splits option.splits)
  next
    case False
    then obtain p i where n: "NegotiateCodec (im_profile m) (med_list ?md) = Some (p, i)" by auto
    let ?c = "c\<lparr>st_pt := Some p\<rparr>"
    have ok: "session_ok (streamer_handle d) ?c" "session_filters ?c = session_filters c"
      using inv_session [OF assms(1) Some] by (auto simp: session_ok_def session_filters_def agreed_def)
    have "agreed ?c" by (simp add: agreed_def)
    show ?thesis
      by (rule on_session_inv [OF assms(1) Some ok pipe.modify_stages_ok \<open>agreed ?c\<close>])
        (use assms(2) Some False n in \<open>auto simp: ModifySession_def Let_def ims_inv_reply
          intro: ims_inv_reply [unfolded reply_def]\<close>)
  qed
qed

lemma StartPlayback_inv:
  assumes "ims_inv m" "StartPlayback e req d m = (r, m1)"
  shows "ims_inv m1 \<and> r \<noteq> Null_pointer"
proof (cases "smap_find (im_ctxs m) (streamer_handle d)")
  case None
  then show ?thesis using assms by (auto simp: StartPlayback_def ims_inv_reply)
next
  case (Some c)
  show ?thesis
  proof (rule on_session_inv [OF assms(1) Some conjunct1 [OF inv_session [OF assms(1) Some]] refl pipe.play_stages_ok TrueI])
    fix c1 m2
    assume "running (all_filters (smap_erase (streamer_handle d) (im_ctxs m))) c m (c1, m2)"
      "ims_inv (put_session (streamer_handle d) c1 m2)"
    then show "case play_acknowledged req (c1, m2) of (c2, m2) \<Rightarrow> ims_inv (put_session (streamer_handle d) c2 m2)"
      using inv_session [OF assms(1) Some] by (intro play_acknowledged_inv) (auto simp: session_ok_def)
  next
    show "ims_inv (reply req MSG_STREAM_PLAY_NACK new_stream_data m1)" if "ims_inv m1" for m1
      using that by (simp add: ims_inv_reply)
    show "on_session (streamer_handle d) (play_stages e d) (play_acknowledged req)
        (reply req MSG_STREAM_PLAY_NACK new_stream_data) c m = (r, m1)"
      using assms(2) Some by (simp add: StartPlayback_def)
  qed
qed

lemma StopPlayback_inv:
  assumes "ims_inv m" "StopPlayback d m = (r, m1)"
  shows "ims_inv m1 \<and> r \<noteq> Null_pointer"
proof (cases "smap_find (im_ctxs m) (streamer_handle d)")
  case (Some c)
  show ?thesis
    by (rule on_session_inv [OF assms(1) Some conjunct1 [OF inv_session [OF assms(1) Some]] refl pipe.stop_stages_ok TrueI])
      (use assms(2) Some in \<open>auto simp: StopPlayback_def\<close>)
qed (use assms in \<open>auto simp: StopPlayback_def\<close>)

lemma UponPlaybackStopped_inv: "ims_inv m \<Longrightarrow> ims_inv (UponPlaybackStopped e h m)"
  by (auto simp: UponPlaybackStopped_def ims_inv_say split: option.splits)

subsection \<open>Tearing down\<close>

lemma stages_calls: "stages (map call xs) (c, m) = (Go, (c, m\<lparr>im_out := im_out m @ map Call xs\<rparr>))"
  by (induction xs arbitrary: m) (auto simp: call_def put_out_def)

definition only_calls :: "stage \<Rightarrow> streaming_ctx \<Rightarrow> bool" where
  "only_calls f c \<longleftrightarrow> (\<forall>m. \<exists>xs. f (c, m) = (Go, (c, m\<lparr>im_out := im_out m @ map Call xs\<rparr>)))"

lemma only_calls_append: "only_calls (stages gs) c \<Longrightarrow> only_calls (stages (map call ys @ gs)) c"
  unfolding only_calls_def
proof (intro allI)
  fix m
  assume "\<forall>m. \<exists>xs. stages gs (c, m) = (Go, (c, m\<lparr>im_out := im_out m @ map Call xs\<rparr>))"
  from spec [OF this, of "m\<lparr>im_out := im_out m @ map Call ys\<rparr>"] obtain xs where
    "stages gs (c, m\<lparr>im_out := im_out m @ map Call ys\<rparr>) =
      (Go, (c, m\<lparr>im_out := im_out m @ map Call (ys @ xs)\<rparr>))" by auto
  then show "\<exists>xs. stages (map call ys @ gs) (c, m) = (Go, (c, m\<lparr>im_out := im_out m @ map Call xs\<rparr>))"
    unfolding stages_append stages_calls by (intro exI [of _ "ys @ xs"]) simp
qed

text \<open>Tearing a session down is a list of calls that cannot fail.\<close>

lemma teardown_calls:
  assumes "session_ok h c"
  shows "\<exists>xs. teardown_stages (c, m) = (Go, (c, m\<lparr>im_out := im_out m @ map Call xs\<rparr>))"
proof -
  obtain a where a: "st_stream c = Some a" using assms by (auto simp: session_ok_def)
  let ?fin = "[on_ctx (\<lambda>ctx. stage_when (as_soundread a \<noteq> None \<and> st_snd ctx = SND_DEVICE_TYPE_FILE) (stages
        [call (Player_stop (as_soundread a)), call (Player_close (as_soundread a))]))]"
  let ?pre = "if as_ticker a
      then map call ((if as_soundread a \<noteq> None then [Detach (as_soundread a)] else []) @
                     (if as_rtprecv a \<noteq> None then [Detach (as_rtprecv a)] else [])) @ unlink_all a
      else []"
  have "stages ?fin (c, m) = (Go, (c, m\<lparr>im_out := im_out m @ map Call
      (if as_soundread a = None then [] else [Player_stop (as_soundread a), Player_close (as_soundread a)])\<rparr>))" for m
    using assms by (simp add: session_ok_def on_ctx_def stage_when_def call_def put_out_def)
  then have "only_calls (stages ?fin) c" unfolding only_calls_def by blast
  moreover have pre: "\<exists>zs. ?pre = map call zs"
  proof (cases "as_ticker a")
    case True
    show ?thesis unfolding unlink_all_def map_append [symmetric] if_P [OF True] by (rule exI) (rule refl)
  next
    case False
    show ?thesis unfolding if_not_P [OF False] by (rule exI [of _ "[]"]) simp
  qed
  moreover obtain zs where zs: "?pre = map call zs" using pre by blast
  ultimately have "only_calls (stages (?pre @ ?fin)) c" unfolding zs by (intro only_calls_append)
  moreover have "teardown_stages (c, m) = stages (?pre @ ?fin) (c, m)"
    unfolding teardown_stages_def with_stream_def on_ctx_def [of "\<lambda>ctx. case st_stream ctx of None \<Rightarrow> _ | Some b \<Rightarrow> _ b"]
    by (simp add: a del: stages.simps)
  ultimately show ?thesis by (simp add: only_calls_def)
qed

lemma calls_are_silent [simp]:
  "created (map Call xs) = []" "destroyed (map Call xs) = []" "answers mid (map Call xs) = []"
  by (induction xs) auto

lemma destructor_is_silent [simp]:
  "created (map Destroyed ns) = []" "destroyed (map Destroyed ns) = ns" "answers mid (map Destroyed ns) = []"
  by (induction ns) auto

lemma ims_inv_calls: "ims_inv m \<Longrightarrow> ims_inv (m\<lparr>im_out := im_out m @ map Call xs\<rparr>)"
  by (simp add: ims_inv_def)

lemma destroy_fields [simp]:
  "im_ctxs (destroy_StreamingCtx c m) = im_ctxs m"
  "im_next_handle (destroy_StreamingCtx c m) = im_next_handle m"
  "im_next_filter (destroy_StreamingCtx c m) = im_next_filter m"
  "im_correlation (destroy_StreamingCtx c m) = im_correlation m"
  "created (im_out (destroy_StreamingCtx c m)) = created (im_out m)"
  "destroyed (im_out (destroy_StreamingCtx c m)) = destroyed (im_out m) @ session_filters c"
  "answers mid (im_out (destroy_StreamingCtx c m)) = answers mid (im_out m)"
  by (auto simp: destroy_StreamingCtx_def session_filters_def split: option.splits)

lemma TearDown_inv:
  assumes "ims_inv m" "TearDown d m = (r, m1)"
  shows "ims_inv m1 \<and> r \<noteq> Null_pointer"
proof (cases "smap_find (im_ctxs m) (streamer_handle d)")
  case (Some c)
  from inv_session [OF assms(1) Some] obtain xs where
    "teardown_stages (c, m) = (Go, (c, m\<lparr>im_out := im_out m @ map Call xs\<rparr>))"
    using teardown_calls by blast
  then have "r = Go" and m1: "m1 = destroy_StreamingCtx c
      ((m\<lparr>im_out := im_out m @ map Call xs\<rparr>)\<lparr>im_ctxs := smap_erase (streamer_handle d) (im_ctxs m)\<rparr>)"
    using assms(2) Some by (simp_all add: TearDown_def)
  moreover have "ims_inv m1"
    using assms(1) all_filters_erase [OF Some] set_smap_erase [of "streamer_handle d" "im_ctxs m"]
    unfolding m1 by (auto simp: ims_inv_def smap_ok_erase)
  ultimately show ?thesis by simp
qed (use assms in \<open>auto simp: TearDown_def\<close>)

lemma teardown_each_calls:
  "\<forall>c \<in> set cs. \<exists>h. session_ok h c \<Longrightarrow> \<exists>xs. teardown_each cs m = (Go, m\<lparr>im_out := im_out m @ map Call xs\<rparr>)"
proof (induction cs arbitrary: m)
  case (Cons c cs)
  then obtain h where "session_ok h c" by auto
  from teardown_calls [OF this] obtain xs where x: "teardown_stages (c, m) = (Go, (c, m\<lparr>im_out := im_out m @ map Call xs\<rparr>))"
    by blast
  from Cons.IH [of "m\<lparr>im_out := im_out m @ map Call xs\<rparr>"] Cons.prems obtain ys where "teardown_each cs (m\<lparr>im_out := im_out m @ map Call xs\<rparr>) =
      (Go, m\<lparr>im_out := (im_out m @ map Call xs) @ map Call ys\<rparr>)" by auto
  with x show ?case by (intro exI [of _ "xs @ ys"]) simp
qed (auto intro: exI [of _ "[]"])

lemma destroy_all:
  "im_ctxs (fold destroy_StreamingCtx cs m) = im_ctxs m"
  "im_next_handle (fold destroy_StreamingCtx cs m) = im_next_handle m"
  "im_next_filter (fold destroy_StreamingCtx cs m) = im_next_filter m"
  "im_correlation (fold destroy_StreamingCtx cs m) = im_correlation m"
  "created (im_out (fold destroy_StreamingCtx cs m)) = created (im_out m)"
  "destroyed (im_out (fold destroy_StreamingCtx cs m)) = destroyed (im_out m) @ concat (map session_filters cs)"
  "answers mid (im_out (fold destroy_StreamingCtx cs m)) = answers mid (im_out m)"
  by (induction cs arbitrary: m) simp_all

lemma TearDownAllSessions_inv:
  assumes "ims_inv m" "TearDownAllSessions m = (r, m1)"
  shows "ims_inv m1 \<and> r = Go \<and> im_ctxs m1 = []"
proof -
  have "\<forall>c \<in> set (map snd (im_ctxs m)). \<exists>h. session_ok h c"
    using assms(1) by (fastforce simp: ims_inv_def)
  from teardown_each_calls [OF this, of m] obtain xs where
    "teardown_each (map snd (im_ctxs m)) m = (Go, m\<lparr>im_out := im_out m @ map Call xs\<rparr>)" by blast
  then have r: "r = Go" and m1: "m1 = fold destroy_StreamingCtx (map snd (im_ctxs m))
      ((m\<lparr>im_out := im_out m @ map Call xs\<rparr>)\<lparr>im_ctxs := []\<rparr>)"
    using assms(2) by (simp_all add: TearDownAllSessions_def)
  have "all_filters C = mset (concat (map session_filters (map snd C)))" for C
    by (induction C) auto
  then have "ims_inv m1" "im_ctxs m1 = []"
    using assms(1) unfolding m1 by (simp_all add: ims_inv_def destroy_all)
  with r show ?thesis by simp
qed

subsection \<open>Allocation\<close>

text \<open>A session being allocated: what the process has become since \<open>m\<close>.\<close>

fun allocating :: "ims \<Rightarrow> streaming_ctx \<times> ims \<Rightarrow> bool" where
  "allocating m (c, m1) \<longleftrightarrow>
     session_ok (im_next_handle m) c \<and> im_ctxs m1 = im_ctxs m \<and>
     im_next_handle m1 = im_next_handle m + 1 \<and> im_correlation m1 = im_correlation m \<and>
     (\<forall>mid \<in> {MSG_STREAM_PLAY_ACK, MSG_STREAM_ALLOCATE_SESSION_ACK}.
        answers mid (im_out m1) = answers mid (im_out m)) \<and>
     created (im_out m1) = [0..<im_next_filter m1] \<and>
     mset [0..<im_next_filter m1] =
       mset (destroyed (im_out m1)) + mset (session_filters c) + all_filters (im_ctxs m)"

lemma new_stream_allocating:
  assumes inv: "ims_inv m"
    and run: "audio_stream_new e (new_StreamingCtx\<lparr>st_handle := im_next_handle m, st_rcv := k\<rparr>,
           m\<lparr>im_next_handle := im_next_handle m + 1\<rparr>) = (c, m1)"
    and st: "st_stream c \<noteq> None"
  shows "allocating m (c\<lparr>st_pt := p\<rparr>, m1)"
proof -
  obtain port where "me_port e (im_out m) = Some port"
    using run st by (cases "me_port e (im_out m)") (auto simp: audio_stream_new_def new_StreamingCtx_def)
  with inv run show ?thesis
    by (cases "me_sender e")
      (auto simp: audio_stream_new_def ims_inv_def new_StreamingCtx_def session_ok_def Let_def
        session_filters_def stream_filters_def atLeast0_lessThan_Suc)
qed

lemma RecommutateSession_allocating:
  assumes al: "allocating m (c, m1)" and ag: "agreed c" and run: "RecommutateSession e remote idx (c, m1) = (r, (c2, m2))"
  shows "allocating m (c2, m2)" "r \<noteq> Null_pointer"
proof -
  have "running (all_filters (im_ctxs m)) c m1 (c, m1)"
    using al by (simp add: session_ok_def)
  note t = tripleD(1,2) [OF pipe.RecommutateSession_ok run this ag]
  show "r \<noteq> Null_pointer" by (rule t(2))
  have "answers mid (im_out m2) = answers mid (im_out m1)" for mid
    using t(1) answers_said by (metis running.simps)
  then show "allocating m (c2, m2)" using t(1) al by (auto simp: session_ok_def)
qed

lemma fresh_handle: "ims_inv m \<Longrightarrow> smap_find (im_ctxs m) (im_next_handle m) = None"
  by (force simp: ims_inv_def smap_find_None_iff)

lemma allocate_accept_inv:
  assumes inv: "ims_inv m" and al: "allocating m (c, m1)" and run: "allocate_accept e req d ag (c, m1) = (r, m2)"
  shows "ims_inv m2 \<and> r \<noteq> Null_pointer"
proof -
  let ?c = "c\<lparr>st_handler := stream_handler d, st_state := IMS_ALLOCATED\<rparr>"
  have c: "session_ok (im_next_handle m) ?c" "session_filters ?c = session_filters c"
    using al by (auto simp: session_ok_def session_filters_def agreed_def)
  obtain a where a: "st_stream c = Some a" and h: "st_handle c = im_next_handle m"
    using al by (auto simp: session_ok_def)
  have m2: "im_ctxs m2 = smap_insert (im_next_handle m) ?c (im_ctxs m)" "im_next_handle m2 = im_next_handle m + 1"
    "im_correlation m2 = im_correlation m" "im_next_filter m2 = im_next_filter m1"
    "created (im_out m2) = created (im_out m1)" "destroyed (im_out m2) = destroyed (im_out m1)"
    "answers MSG_STREAM_PLAY_ACK (im_out m2) = answers MSG_STREAM_PLAY_ACK (im_out m)"
    "\<exists>d. streamer_handle d = im_next_handle m \<and> answers MSG_STREAM_ALLOCATE_SESSION_ACK (im_out m2) =
       answers MSG_STREAM_ALLOCATE_SESSION_ACK (im_out m) @ [d]"
    using run al by (auto simp: allocate_accept_def a h reply_def put_session_def)
  have sessions: "\<forall>(h, c) \<in> set (im_ctxs m2). session_ok h c \<and> h < im_next_handle m2"
    using inv c(1) set_smap_insert [of "im_next_handle m" ?c "im_ctxs m"] by (force simp: m2 ims_inv_def)
  have "mset [0..<im_next_filter m2] = mset (destroyed (im_out m2)) + all_filters (im_ctxs m2)"
    using al c(2) all_filters_new [OF fresh_handle [OF inv], of ?c] by (simp add: m2 ac_simps)
  moreover have "\<forall>d \<in> set (answers MSG_STREAM_ALLOCATE_SESSION_ACK (im_out m)). streamer_handle d \<le> im_next_handle m"
    using inv by (auto simp: ims_inv_def intro: less_imp_le)
  ultimately have "ims_inv m2"
    using inv al m2(8) sessions by (auto simp: ims_inv_def m2(1-7) smap_ok_insert sorted_wrt_append)
  then show ?thesis using run by (auto simp: allocate_accept_def a)
qed

lemma destroy_inv:
  assumes "ims_inv m" "allocating m (c, m1)"
  shows "ims_inv (destroy_StreamingCtx c m1)"
  using assms by (force simp: ims_inv_def)

lemma allocate_refuse_inv:
  assumes "ims_inv m" "allocating m (c, m1)" "allocate_refuse req (c, m1) = (r, m2)"
  shows "ims_inv m2 \<and> r \<noteq> Null_pointer"
proof -
  have "allocating m (c, reply req MSG_STREAM_ALLOCATE_SESSION_NACK new_stream_data m1)"
    using assms(2) by (simp add: reply_def)
  then show ?thesis using assms(3) destroy_inv [OF assms(1)] by (auto simp: allocate_refuse_def)
qed

lemma allocate_commutated_inv:
  assumes inv: "ims_inv m" and al: "\<And>p. allocating m (c\<lparr>st_pt := p\<rparr>, m1)"
    and run: "allocate_commutated e req d (c, m1) = (r, m2)"
  shows "ims_inv m2 \<and> r \<noteq> Null_pointer"
proof -
  have al0: "allocating m (c, m1)" using al [of "st_pt c"] by simp
  let ?md = "me_medium e (offer_body (stream_offer d))"
  show ?thesis
  proof (cases "medium_valid ?md \<and> NegotiateCodec (im_profile m1) (med_list ?md) \<noteq> None")
    case False
    then have "allocate_refuse req (c, m1) = (r, m2)"
      using run by (auto simp: allocate_commutated_def Let_def split: if_splits option.splits)
    then show ?thesis by (rule allocate_refuse_inv [OF inv al0])
  next
    case True
    then obtain p i where n: "NegotiateCodec (im_profile m1) (med_list ?md) = Some (p, i)" by auto
    obtain r2 c2 m3 where rec: "RecommutateSession e (med_connection ?md) i (c\<lparr>st_pt := Some p\<rparr>, m1) = (r2, (c2, m3))"
      by (cases "RecommutateSession e (med_connection ?md) i (c\<lparr>st_pt := Some p\<rparr>, m1)") auto
    have "agreed (c\<lparr>st_pt := Some p\<rparr>)" by (simp add: agreed_def)
    note t = RecommutateSession_allocating [OF al this rec]
    show ?thesis
      using run True n rec t allocate_accept_inv [OF inv t(1)] allocate_refuse_inv [OF inv t(1)] destroy_inv [OF inv t(1)]
      by (cases r2) (auto simp: allocate_commutated_def Let_def)
  qed
qed

lemma AllocatePlaybackSession_inv:
  assumes inv: "ims_inv m" and run: "AllocatePlaybackSession e req d m = (r, m2)"
  shows "ims_inv m2 \<and> r \<noteq> Null_pointer"
proof -
  obtain c m1 where s: "audio_stream_new e (new_StreamingCtx\<lparr>st_handle := im_next_handle m, st_rcv := rcv_device_type d\<rparr>,
      m\<lparr>im_next_handle := im_next_handle m + 1\<rparr>) = (c, m1)" by fastforce
  show ?thesis
  proof (cases "st_stream c")
    case None
    then have "m1 = m\<lparr>im_next_handle := im_next_handle m + 1\<rparr>"
      using s by (auto simp: audio_stream_new_def Let_def split: option.splits if_splits)
    moreover have "r = Go" "m2 = destroy_StreamingCtx c (reply req MSG_STREAM_ALLOCATE_SESSION_NACK new_stream_data m1)"
      using run None by (simp_all add: AllocatePlaybackSession_def Let_def s allocate_refuse_def)
    ultimately show ?thesis using inv None
      by (force simp: destroy_StreamingCtx_def ims_inv_def reply_def)
  next
    case (Some a)
    have al: "allocating m (c\<lparr>st_pt := p\<rparr>, m1)" for p
      using new_stream_allocating [OF inv s] Some by simp
    then have "allocating m (c, m1)" by (metis streaming_ctx.surjective streaming_ctx.update_convs(9))
    then show ?thesis
      using run Some allocate_commutated_inv [OF inv al] allocate_accept_inv [OF inv]
      by (auto simp: AllocatePlaybackSession_def Let_def s split: if_splits)
  qed
qed

section \<open>Rounds and runs\<close>

text \<open>A message whose class is that of its number.\<close>

definition well_formed :: "ims_event \<Rightarrow> bool" where
  "well_formed ev \<longleftrightarrow> (case ev of
     Inbound None \<Rightarrow> False
   | Inbound (Some msg) \<Rightarrow>
       message_id msg \<in> {MSG_STREAM_ALLOCATE_SESSION_REQ, MSG_STREAM_MODIFY_REQ, MSG_STREAM_PLAY_REQUEST,
         MSG_STREAM_STOP_PLAY_REQ, MSG_STREAM_TEARDOWN_REQ} \<longrightarrow> streamer_data msg \<noteq> None
   | _ \<Rightarrow> True)"

lemma dispatch_inv:
  assumes "ims_inv m" "well_formed (Inbound (Some msg))" "dispatch e msg m = (r, m1)"
  shows "ims_inv m1 \<and> r \<noteq> Null_pointer"
proof (cases "streamer_data msg")
  case None
  then have "r = Go" "m1 = put_out (Oob msg) m"
    using assms(2,3) by (auto simp: well_formed_def dispatch_def split: if_splits)
  with assms(1) show ?thesis by (simp add: ims_inv_say)
next
  case (Some d)
  note invs = AllocatePlaybackSession_inv ModifySession_inv StartPlayback_inv StopPlayback_inv TearDown_inv
  have "ims_inv (put_out (Oob msg) m)" using assms(1) by (simp add: ims_inv_say)
  then show ?thesis
    using assms(3) invs [OF assms(1)] by (fastforce simp: dispatch_def Some split: if_splits)
qed

lemma settle_crashed: "settle st r = Crashed \<Longrightarrow> st \<noteq> Crashed \<Longrightarrow> r = Null_pointer"
  by (induction st r rule: settle.induct) auto

lemma settle_serving: "settle Serving r \<noteq> Shut_down"
  by (induction Serving r rule: settle.induct) auto

lemma ims_round_inv:
  assumes inv: "ims_inv m" and wf: "well_formed ev" and run: "ims_round e ev m = (st, m1)"
  shows "ims_inv m1 \<and> st \<noteq> Crashed \<and> (st = Shut_down \<longrightarrow> im_ctxs m1 = [])"
proof (cases ev)
  case (Inbound mo)
  then obtain msg where ev: "ev = Inbound (Some msg)" using wf by (cases mo) (auto simp: well_formed_def)
  show ?thesis
  proof (cases "message_id msg = MSG_PROC_SHUTDOWN_REQ")
    case True
    have "ims_inv (reply msg MSG_PROC_SHUTDOWN_ACK new_stream_data m)" using inv by (simp add: ims_inv_reply)
    from TearDownAllSessions_inv [OF this] show ?thesis
      using run True by (fastforce simp: ims_round_def ev split: prod.splits)
  next
    case False
    obtain r m2 where d: "dispatch e msg m = (r, m2)" by fastforce
    from dispatch_inv [OF inv wf [unfolded ev] d] show ?thesis
      using run False d settle_crashed [of Serving r] settle_serving [of r] by (auto simp: ims_round_def ev)
  qed
qed (use run inv in \<open>auto simp: ims_round_def UponPlaybackStopped_inv\<close>)

lemma ims_run_inv:
  assumes "ims_inv m" "\<forall>(e, ev) \<in> set evs. well_formed ev" "ims_run evs m = (st, m1)"
  shows "ims_inv m1 \<and> st \<noteq> Crashed \<and> (st = Shut_down \<longrightarrow> im_ctxs m1 = [])"
  using assms
proof (induction evs arbitrary: m)
  case (Cons p evs)
  obtain e ev where p: "p = (e, ev)" by (cases p)
  obtain st2 m2 where r: "ims_round e ev m = (st2, m2)" by fastforce
  have wf: "well_formed ev" using Cons.prems(2) by (simp add: p)
  note inv = ims_round_inv [OF Cons.prems(1) wf r]
  show ?case
  proof (cases "st2 = Serving")
    case True
    then show ?thesis using Cons.IH [of m2] Cons.prems inv r by (simp add: p)
  next
    case False
    then have "st = st2" "m1 = m2" using Cons.prems(3) r by (auto simp: p split: ims_status.splits)
    then show ?thesis using inv by simp
  qed
qed simp

lemma new_ProcM2Ims_inv: "ims_inv (new_ProcM2Ims lib addr)"
  by (simp add: ims_inv_def new_ProcM2Ims_def)

subsection \<open>An agreed codec stays\<close>

definition keeps_agreed :: "ims \<Rightarrow> ims \<Rightarrow> bool" where
  "keeps_agreed m m1 \<longleftrightarrow> im_next_handle m \<le> im_next_handle m1 \<and>
     (\<forall>h c1. h < im_next_handle m \<longrightarrow> smap_find (im_ctxs m1) h = Some c1 \<longrightarrow>
        (\<exists>c. smap_find (im_ctxs m) h = Some c \<and> (agreed c \<longrightarrow> agreed c1)))"

lemma keeps_agreed_refl [simp]: "keeps_agreed m m"
  by (simp add: keeps_agreed_def)

lemma keeps_agreed_trans:
  assumes "keeps_agreed m m1" "keeps_agreed m1 m2"
  shows "keeps_agreed m m2"
  using assms unfolding keeps_agreed_def by (meson order_less_le_trans order_trans)

lemma keeps_agreed_same:
  "im_ctxs m1 = im_ctxs m \<Longrightarrow> im_next_handle m \<le> im_next_handle m1 \<Longrightarrow> keeps_agreed m m1"
  by (simp add: keeps_agreed_def)

lemma keeps_agreed_put:
  "im_next_handle m \<le> im_next_handle m1 \<Longrightarrow> im_ctxs m1 = im_ctxs m \<Longrightarrow>
     (h < im_next_handle m \<Longrightarrow> smap_find (im_ctxs m) h = Some c \<and> (agreed c \<longrightarrow> agreed c1)) \<Longrightarrow>
     keeps_agreed m (put_session h c1 m1)"
  by (auto simp: keeps_agreed_def put_session_def smap_find_insert)

lemma on_session_agreed:
  assumes inv: "ims_inv m" and found: "smap_find (im_ctxs m) h = Some c"
    and c': "session_ok h c'" "session_filters c' = session_filters c"
    and body: "\<And>R. triple (running R c' m) B body B'" and B: "B c'"
    and pt: "agreed c \<Longrightarrow> agreed c'"
    and ack: "\<And>c1 m1. im_ctxs (snd (ack (c1, m1))) = im_ctxs m1 \<and>
        im_next_handle (snd (ack (c1, m1))) = im_next_handle m1 \<and> st_pt (fst (ack (c1, m1))) = st_pt c1"
    and nack: "\<And>m1. im_ctxs (nack m1) = im_ctxs m1 \<and> im_next_handle (nack m1) = im_next_handle m1"
    and run: "on_session h body ack nack c' m = (r, m1)"
  shows "keeps_agreed m m1 \<and> (\<exists>c1. smap_find (im_ctxs m1) h = Some c1 \<and> st_pt c1 = st_pt c')"
proof -
  obtain r1 c1 m2 where b: "body (c', m) = (r1, c1, m2)" by (cases "body (c', m)") auto
  from tripleD(1) [OF body b start_running [OF inv found c'] B]
  have t: "st_pt c1 = st_pt c'" "im_ctxs m2 = im_ctxs m" "im_next_handle m2 = im_next_handle m" by auto
  have put: "keeps_agreed m (put_session h c2 m3)"
    if "st_pt c2 = st_pt c'" "im_ctxs m3 = im_ctxs m" "im_next_handle m3 = im_next_handle m" for c2 m3
    using that pt found by (intro keeps_agreed_put) (auto simp: agreed_def)
  have found': "smap_find (im_ctxs (put_session h c2 m3)) h = Some c2" for c2 m3
    by (simp add: put_session_def smap_find_insert)
  obtain c2 m3 where a: "ack (c1, m2) = (c2, m3)" by fastforce
  have c2: "st_pt c2 = st_pt c'" "im_ctxs m3 = im_ctxs m" "im_next_handle m3 = im_next_handle m"
    using ack [of c1 m2] a t by auto
  have n: "keeps_agreed m (nack (put_session h c1 m2))" "smap_find (im_ctxs (nack (put_session h c1 m2))) h = Some c1"
    using put [OF t] nack [of "put_session h c1 m2"] found' [of c1 m2] by (auto simp: keeps_agreed_def)
  show ?thesis
    using run b a put [OF t] put [OF c2] n t(1) c2(1) found' by (cases r1) (auto simp: on_session_def)
qed

end
