(* ===== verification/Iw_Streamer_Props.thy ===== *)
theory Iw_Streamer_Props
  imports Iw_Streamer_Inv "HOL-Library.Code_Target_Nat"
begin

text \<open>
  The properties of the streamer: every filter is destroyed once, numbers are not used again, a
  modification is tried once, the end of a file ends the last play, and what tearing down a session
  hands to the library.
\<close>

section \<open>An agreed codec stays\<close>

lemma ModifySession_agreed:
  assumes "ims_inv m" "ModifySession e req d m = (r, m1)"
  shows "keeps_agreed m m1"
proof (cases "smap_find (im_ctxs m) (streamer_handle d)")
  case None
  then show ?thesis using assms by (auto simp: ModifySession_def reply_def intro: keeps_agreed_same)
next
  case (Some c)
  let ?md = "me_medium e (offer_body (stream_offer d))"
  let ?nack = "reply req MSG_STREAM_MODIFY_NACK new_stream_data"
  let ?ack = "\<lambda>(ctx, m). (ctx, reply req MSG_STREAM_MODIFY_ACK new_stream_data m)"
  consider "m1 = ?nack m" | p i where "on_session (streamer_handle d) (modify_stages e (med_connection ?md) i) ?ack ?nack
      (c\<lparr>st_pt := Some p\<rparr>) m = (r, m1)"
    using assms(2) Some by (auto simp: ModifySession_def Let_def split: if_splits option.splits)
  then show ?thesis
  proof cases
    case 1
    then show ?thesis by (simp add: keeps_agreed_same reply_def)
  next
    case 2
    let ?c = "c\<lparr>st_pt := Some p\<rparr>"
    have ok: "session_ok (streamer_handle d) ?c" "session_filters ?c = session_filters c" "agreed ?c"
      using inv_session [OF assms(1) Some] by (auto simp: session_ok_def session_filters_def agreed_def)
    show ?thesis
      by (rule conjunct1 [OF on_session_agreed [OF assms(1) Some ok(1,2) pipe.modify_stages_ok ok(3) _ _ _ 2]])
        (auto simp: agreed_def reply_def)
  qed
qed

lemma modified_session:
  assumes inv: "ims_inv m" and run: "ModifySession e req d m = (r, m1)"
    and found: "smap_find (im_ctxs m) (streamer_handle d) = Some c"
    and offer: "offer_body (stream_offer d) \<noteq> []" "medium_valid (me_medium e (offer_body (stream_offer d)))"
      "NegotiateCodec (im_profile m) (med_list (me_medium e (offer_body (stream_offer d)))) \<noteq> None"
  shows "\<exists>c1. smap_find (im_ctxs m1) (streamer_handle d) = Some c1 \<and> agreed c1"
proof (cases "st_pt c = None")
  case False
  then show ?thesis using run found by (auto simp: ModifySession_def agreed_def reply_def)
next
  case True
  let ?md = "me_medium e (offer_body (stream_offer d))"
  let ?nack = "reply req MSG_STREAM_MODIFY_NACK new_stream_data"
  let ?ack = "\<lambda>(ctx, m). (ctx, reply req MSG_STREAM_MODIFY_ACK new_stream_data m)"
  obtain p i where "NegotiateCodec (im_profile m) (med_list ?md) = Some (p, i)" using offer(3) by auto
  then have go: "on_session (streamer_handle d) (modify_stages e (med_connection ?md) i) ?ack ?nack
      (c\<lparr>st_pt := Some p\<rparr>) m = (r, m1)"
    using run found True offer by (simp add: ModifySession_def Let_def)
  let ?c = "c\<lparr>st_pt := Some p\<rparr>"
  have ok: "session_ok (streamer_handle d) ?c" "session_filters ?c = session_filters c" "agreed ?c"
    using inv_session [OF inv found] by (auto simp: session_ok_def session_filters_def agreed_def)
  have "\<exists>c1. smap_find (im_ctxs m1) (streamer_handle d) = Some c1 \<and> st_pt c1 = st_pt ?c"
    by (rule conjunct2 [OF on_session_agreed [OF inv found ok(1,2) pipe.modify_stages_ok ok(3) _ _ _ go]])
      (auto simp: agreed_def reply_def)
  then show ?thesis by (auto simp: agreed_def)
qed

lemma StartPlayback_agreed:
  assumes "ims_inv m" "StartPlayback e req d m = (r, m1)"
  shows "keeps_agreed m m1"
proof (cases "smap_find (im_ctxs m) (streamer_handle d)")
  case None
  then show ?thesis using assms by (auto simp: StartPlayback_def reply_def intro: keeps_agreed_same)
next
  case (Some c)
  have run: "on_session (streamer_handle d) (play_stages e d) (play_acknowledged req)
      (reply req MSG_STREAM_PLAY_NACK new_stream_data) c m = (r, m1)"
    using assms(2) Some by (simp add: StartPlayback_def)
  show ?thesis
    by (rule conjunct1 [OF on_session_agreed [OF assms(1) Some conjunct1 [OF inv_session [OF assms(1) Some]] refl
          pipe.play_stages_ok TrueI _ _ _ run]])
      (auto simp: agreed_def reply_def play_acknowledged_def Let_def)
qed

lemma StopPlayback_agreed:
  assumes "ims_inv m" "StopPlayback d m = (r, m1)"
  shows "keeps_agreed m m1"
proof (cases "smap_find (im_ctxs m) (streamer_handle d)")
  case (Some c)
  have run: "on_session (streamer_handle d) stop_stages id id c m = (r, m1)"
    using assms(2) Some by (simp add: StopPlayback_def)
  show ?thesis
    by (rule conjunct1 [OF on_session_agreed [OF assms(1) Some conjunct1 [OF inv_session [OF assms(1) Some]] refl
          pipe.stop_stages_ok TrueI _ _ _ run]])
      (auto simp: agreed_def)
qed (use assms in \<open>auto simp: StopPlayback_def\<close>)

lemma TearDown_agreed:
  assumes "ims_inv m" "TearDown d m = (r, m1)"
  shows "keeps_agreed m m1"
proof (cases "smap_find (im_ctxs m) (streamer_handle d)")
  case (Some c)
  from inv_session [OF assms(1) Some] obtain xs where
    "teardown_stages (c, m) = (Go, (c, m\<lparr>im_out := im_out m @ map Call xs\<rparr>))"
    using teardown_calls by blast
  then have "im_ctxs m1 = smap_erase (streamer_handle d) (im_ctxs m)" "im_next_handle m1 = im_next_handle m"
    using assms(2) Some by (auto simp: TearDown_def)
  then show ?thesis using assms(1)
    by (auto simp: keeps_agreed_def ims_inv_def smap_find_erase split: if_splits)
qed (use assms in \<open>auto simp: TearDown_def\<close>)

lemma allocating_agreed:
  "allocating m (c, m1) \<Longrightarrow> im_ctxs m2 = im_ctxs m1 \<Longrightarrow> im_next_handle m2 = im_next_handle m1 \<Longrightarrow> keeps_agreed m m2"
  by (auto simp: keeps_agreed_def)

lemma accept_agreed:
  assumes "allocating m (c, m1)" "allocate_accept e req d ag (c, m1) = (r, m2)"
  shows "keeps_agreed m m2"
proof -
  have "st_handle c = im_next_handle m" "st_stream c \<noteq> None" using assms(1) by (auto simp: session_ok_def)
  then show ?thesis using assms
    by (auto simp: allocate_accept_def keeps_agreed_def put_session_def reply_def smap_find_insert)
qed

lemma AllocatePlaybackSession_agreed:
  assumes inv: "ims_inv m" and run: "AllocatePlaybackSession e req d m = (r, m2)"
  shows "keeps_agreed m m2"
proof -
  obtain c m1 where s: "audio_stream_new e (new_StreamingCtx\<lparr>st_handle := im_next_handle m, st_rcv := rcv_device_type d\<rparr>,
      m\<lparr>im_next_handle := im_next_handle m + 1\<rparr>) = (c, m1)" by fastforce
  have m1: "im_ctxs m1 = im_ctxs m" "im_next_handle m1 = im_next_handle m + 1"
    using s by (auto simp: audio_stream_new_def Let_def split: option.splits if_splits)
  have refuse: "keeps_agreed m m2" if "allocate_refuse req s2 = (r, m2)"
    "im_ctxs (snd s2) = im_ctxs m" "im_next_handle (snd s2) = im_next_handle m + 1" for s2
    using that by (auto simp: allocate_refuse_def reply_def split: prod.splits intro!: keeps_agreed_same)
  show ?thesis
  proof (cases "st_stream c")
    case None
    then have "allocate_refuse req (c, m1) = (r, m2)"
      using run by (simp add: AllocatePlaybackSession_def Let_def s)
    then show ?thesis using m1 by (intro refuse) auto
  next
    case (Some a)
    have al: "allocating m (c\<lparr>st_pt := p\<rparr>, m1)" for p
      using new_stream_allocating [OF inv s] Some by simp
    then have al0: "allocating m (c, m1)" by (metis streaming_ctx.surjective streaming_ctx.update_convs(9))
    let ?md = "me_medium e (offer_body (stream_offer d))"
    consider "allocate_accept e req d None (c, m1) = (r, m2)" | "allocate_refuse req (c, m1) = (r, m2)"
      | p i r2 c2 m3 where "RecommutateSession e (med_connection ?md) i (c\<lparr>st_pt := Some p\<rparr>, m1) = (r2, (c2, m3))"
        "allocate_accept e req d (Some (p, i)) (c2, m3) = (r, m2) \<or> allocate_refuse req (c2, m3) = (r, m2) \<or>
         m2 = destroy_StreamingCtx c2 m3 \<or> m2 = m3"
      using run Some
      by (auto simp: AllocatePlaybackSession_def Let_def s allocate_commutated_def
          split: if_splits option.splits prod.splits outcome.splits)
    then show ?thesis
    proof cases
      case 1
      show ?thesis by (rule accept_agreed [OF al0 1])
    next
      case 2
      then show ?thesis using m1 by (intro refuse) auto
    next
      case 3
      have "agreed (c\<lparr>st_pt := Some p\<rparr>)" by (simp add: agreed_def)
      note t = RecommutateSession_allocating(1) [OF al this 3(1)]
      then show ?thesis using 3(2) accept_agreed [OF t] refuse [of "(c2, m3)"]
        by (auto intro: allocating_agreed [OF t])
    qed
  qed
qed

lemma dispatch_agreed:
  assumes inv: "ims_inv m" and run: "dispatch e msg m = (r, m1)"
  shows "keeps_agreed m m1"
proof (cases "streamer_data msg")
  case None
  have "keeps_agreed m (put_out (Oob msg) m)" by (simp add: keeps_agreed_same)
  then show ?thesis using run by (auto simp: dispatch_def None split: if_splits)
next
  case (Some d)
  have "keeps_agreed m (put_out (Oob msg) m)" by (simp add: keeps_agreed_same)
  then show ?thesis
    using run AllocatePlaybackSession_agreed [OF inv] ModifySession_agreed [OF inv] StartPlayback_agreed [OF inv]
      StopPlayback_agreed [OF inv] TearDown_agreed [OF inv]
    by (fastforce simp: dispatch_def Some split: if_splits)
qed

lemma ims_round_agreed:
  assumes inv: "ims_inv m" and run: "ims_round e ev m = (Serving, m1)"
  shows "keeps_agreed m m1"
proof (cases ev)
  case (Inbound mo)
  then obtain msg where ev: "ev = Inbound (Some msg)" using run by (cases mo) (auto simp: ims_round_def)
  have not_down: "message_id msg \<noteq> MSG_PROC_SHUTDOWN_REQ"
  proof
    assume s: "message_id msg = MSG_PROC_SHUTDOWN_REQ"
    have i: "ims_inv (reply msg MSG_PROC_SHUTDOWN_ACK new_stream_data m)" using inv by (simp add: ims_inv_reply)
    obtain r2 m2 where t: "TearDownAllSessions (reply msg MSG_PROC_SHUTDOWN_ACK new_stream_data m) = (r2, m2)" by fastforce
    from TearDownAllSessions_inv [OF i t] run s show False by (simp add: ims_round_def ev t)
  qed
  obtain r m2 where d: "dispatch e msg m = (r, m2)" by fastforce
  then have "m1 = m2" using run not_down by (simp add: ims_round_def ev)
  then show ?thesis using dispatch_agreed [OF inv d] by simp
next
  case (Eof h)
  then show ?thesis using run
    by (auto simp: ims_round_def UponPlaybackStopped_def intro!: keeps_agreed_same split: option.splits)
qed (use run in \<open>auto simp: ims_round_def\<close>)

lemma ims_run_agreed:
  assumes "ims_inv m" "\<forall>(e, ev) \<in> set evs. well_formed ev" "ims_run evs m = (Serving, m1)"
  shows "keeps_agreed m m1"
  using assms
proof (induction evs arbitrary: m)
  case (Cons p evs)
  obtain e ev where p: "p = (e, ev)" by (cases p)
  obtain st2 m2 where r: "ims_round e ev m = (st2, m2)" by fastforce
  have "st2 = Serving" using Cons.prems(3) r by (auto simp: p split: ims_status.splits)
  note r = r [unfolded this]
  have wf: "well_formed ev" using Cons.prems(2) by (simp add: p)
  have "keeps_agreed m2 m1" using Cons.IH [of m2] Cons.prems ims_round_inv [OF Cons.prems(1) wf r] r by (simp add: p)
  then show ?case using ims_round_agreed [OF Cons.prems(1) r] keeps_agreed_trans by blast
qed simp

section \<open>A run to look at\<close>

definition demo_lib :: "nat \<Rightarrow> payload_type" where
  "demo_lib i = \<lparr>pt_mime = (if i = 0 then ''PCMU'' else if i = 8 then ''PCMA'' else ''OTHER''), pt_rate = 8000,
     pt_bitrate = 64000, pt_send_fmtp = None, pt_recv_fmtp = None\<rparr>"

definition demo_addr :: cnx_info where
  "demo_addr = \<lparr>sin_addr = 0x0100007F, sin_port = 0\<rparr>"

text \<open>Everything works, but for the calls of a set.\<close>

definition demo_env :: "(ms_call \<Rightarrow> bool) \<Rightarrow> ms_env" where
  "demo_env bad = \<lparr>me_ok = (\<lambda>_ c. \<not> bad c), me_value = (\<lambda>_. 8000), me_port = (\<lambda>_. Some 5000), me_sender = True,
     me_file = (\<lambda>_. True), me_full_path = Some, me_option = (\<lambda>_. Inr ''dir''),
     me_medium = (\<lambda>_. new_medium\<lparr>med_connection := \<lparr>sin_addr = 0x0200000A, sin_port = 0x8813\<rparr>, med_list := [mf_PCMA]\<rparr>),
     me_rtpmap = (\<lambda>_. ''x''), me_inet = (\<lambda>_. 0x0200000A), me_time = 1, me_garbage = False\<rparr>"

definition demo_request :: "MessageId \<Rightarrow> stream_data \<Rightarrow> ims_event" where
  "demo_request mid d = Inbound (Some ((new_IwMessage mid)\<lparr>payload := StreamPayload d\<rparr>))"

definition demo_data :: stream_data where
  "demo_data = new_stream_data\<lparr>streamer_handle := 7000000, stream_handler := Some (6001, 6002), file_name := ''a.wav'',
     stream_offer := \<lparr>offer_body = ''v=0'', offer_type = ''application/sdp''\<rparr>, rcv_device_type := 1\<rparr>"

abbreviation demo_good :: ms_env where "demo_good \<equiv> demo_env (\<lambda>_. False)"

definition demo_session :: "(ms_env \<times> ims_event) list" where
  "demo_session =
     [(demo_good, demo_request MSG_STREAM_ALLOCATE_SESSION_REQ demo_data),
      (demo_good, demo_request MSG_STREAM_PLAY_REQUEST demo_data)]"

definition demo_shutdown :: "(ms_env \<times> ims_event) list" where
  "demo_shutdown = demo_session @
     [(demo_good, Eof 7000000), (demo_good, Inbound (Some (new_IwMessage MSG_PROC_SHUTDOWN_REQ)))]"

lemma demo_runs:
  "fst (ims_run demo_session (new_ProcM2Ims demo_lib demo_addr)) = Serving"
  "fst (ims_run demo_shutdown (new_ProcM2Ims demo_lib demo_addr)) = Shut_down"
  by code_simp+

lemma demo_wf:
  "\<forall>(e, ev) \<in> set demo_session. well_formed ev" "\<forall>(e, ev) \<in> set demo_shutdown. well_formed ev"
  by code_simp+

section \<open>Filters\<close>

text \<open>C10: a run of the streamer on well-formed messages never dereferences a null pointer of its own;
  every filter it has created is either destroyed or held by exactly one session that is still
  there, whatever calls of the library fail and on every error path; and after a shutdown each
  filter has been destroyed exactly once.\<close>

theorem streamer_accounts_for_filters:
  assumes "\<forall>(e, ev) \<in> set evs. well_formed ev"
    and "ims_run evs (new_ProcM2Ims lib addr) = (st, m)"
  shows "st \<noteq> Crashed \<and> distinct (created (im_out m)) \<and>
    mset (created (im_out m)) = mset (destroyed (im_out m)) + all_filters (im_ctxs m) \<and>
    (st = Shut_down \<longrightarrow> im_ctxs m = [] \<and> distinct (destroyed (im_out m)) \<and>
       set (destroyed (im_out m)) = set (created (im_out m)))"
proof -
  from ims_run_inv [OF new_ProcM2Ims_inv assms]
  have inv: "ims_inv m" "st \<noteq> Crashed" "st = Shut_down \<Longrightarrow> im_ctxs m = []" by auto
  then have c: "created (im_out m) = [0..<im_next_filter m]"
    "mset [0..<im_next_filter m] = mset (destroyed (im_out m)) + all_filters (im_ctxs m)"
    by (simp_all add: ims_inv_def)
  have "mset (destroyed (im_out m)) = mset [0..<im_next_filter m]" if "st = Shut_down"
    using c(2) inv(3) [OF that] by (simp del: mset_upt)
  then have "st = Shut_down \<Longrightarrow> distinct (destroyed (im_out m)) \<and> set (destroyed (im_out m)) = {0..<im_next_filter m}"
    by (metis distinct_upt mset_eq_imp_distinct_iff set_mset_mset set_upt)
  with inv c show ?thesis by auto
qed

theorem streamer_accounts_for_filters_witness:
  "\<exists>m. ims_run demo_shutdown (new_ProcM2Ims demo_lib demo_addr) = (Shut_down, m) \<and>
      distinct (destroyed (im_out m)) \<and> set (destroyed (im_out m)) = set (created (im_out m))"
proof -
  obtain m where m: "ims_run demo_shutdown (new_ProcM2Ims demo_lib demo_addr) = (Shut_down, m)"
    using demo_runs(2) by (metis prod.collapse)
  from streamer_accounts_for_filters [OF demo_wf(2) m] m show ?thesis by auto
qed

section \<open>Numbers\<close>



section \<open>Modification\<close>

text \<open>C11: a session's modification is tried once: after a request whose offer has a codec of the
  profile, every later request to modify the session is refused, whatever happened in between, even
  when the first one was refused because a call of the library failed.\<close>

theorem modification_is_tried_once:
  assumes before: "\<forall>(e, ev) \<in> set evs0. well_formed ev" "ims_run evs0 (new_ProcM2Ims lib addr) = (Serving, m)"
    and found: "smap_find (im_ctxs m) (streamer_handle d) = Some c"
    and offer: "offer_body (stream_offer d) \<noteq> []" "medium_valid (me_medium e (offer_body (stream_offer d)))"
      "NegotiateCodec (im_profile m) (med_list (me_medium e (offer_body (stream_offer d)))) \<noteq> None"
    and tried: "ModifySession e req d m = (r, m1)"
    and between: "\<forall>(e, ev) \<in> set evs1. well_formed ev" "ims_run evs1 m1 = (Serving, m2)"
    and again: "streamer_handle d' = streamer_handle d"
  shows "ModifySession e' req' d' m2 = (Go, reply req' MSG_STREAM_MODIFY_NACK new_stream_data m2)"
proof -
  let ?h = "streamer_handle d"
  have inv: "ims_inv m" using ims_run_inv [OF new_ProcM2Ims_inv before] by simp
  note inv1 = conjunct1 [OF ModifySession_inv [OF inv tried]]
  have h: "?h < im_next_handle m" using inv_session [OF inv found] by simp
  have first: "\<exists>c1. smap_find (im_ctxs m1) ?h = Some c1 \<and> agreed c1"
    using modified_session [OF inv tried found offer] .
  have "im_next_handle m \<le> im_next_handle m1" using ModifySession_agreed [OF inv tried] by (simp add: keeps_agreed_def)
  then have "?h < im_next_handle m1" using h by linarith
  then have "smap_find (im_ctxs m2) ?h = Some c2 \<Longrightarrow> agreed c2" for c2
    using ims_run_agreed [OF inv1 between] first by (auto simp: keeps_agreed_def)
  then show ?thesis
    by (cases "smap_find (im_ctxs m2) ?h") (simp_all add: ModifySession_def again agreed_def)
qed

text \<open>A session without a codec, and a modification during which the file to record to cannot be made.\<close>

definition demo_bare :: "(ms_env \<times> ims_event) list" where
  "demo_bare = [(demo_good, demo_request MSG_STREAM_ALLOCATE_SESSION_REQ
     (demo_data\<lparr>stream_offer := \<lparr>offer_body = [], offer_type = []\<rparr>\<rparr>))]"

definition demo_no_writer :: ms_env where
  "demo_no_writer = demo_env (\<lambda>c. c = New_filter File_rec)"

definition demo_before :: ims where
  "demo_before = snd (ims_run demo_bare (new_ProcM2Ims demo_lib demo_addr))"

definition demo_after :: ims where
  "demo_after = snd (ModifySession demo_no_writer (new_IwMessage MSG_STREAM_MODIFY_REQ) demo_data demo_before)"

lemma demo_bare_serves: "fst (ims_run demo_bare (new_ProcM2Ims demo_lib demo_addr)) = Serving"
  by code_simp

lemma demo_bare_wf: "\<forall>(e, ev) \<in> set demo_bare. well_formed ev"
  by code_simp

lemma demo_before_has: "smap_find (im_ctxs demo_before) 7000000 \<noteq> None"
  by code_simp

lemma demo_offer: "medium_valid (me_medium demo_no_writer (offer_body (stream_offer demo_data)))"
  by code_simp

lemma demo_agrees:
  "NegotiateCodec (im_profile demo_before) (med_list (me_medium demo_no_writer (offer_body (stream_offer demo_data)))) \<noteq> None"
  by code_simp

lemma demo_refused: "answers MSG_STREAM_MODIFY_NACK (im_out demo_after) = [new_stream_data]"
  by code_simp

theorem modification_is_tried_once_witness:
  "answers MSG_STREAM_MODIFY_NACK (im_out demo_after) = [new_stream_data] \<and>
   (\<forall>req. ModifySession demo_good req demo_data demo_after = (Go, reply req MSG_STREAM_MODIFY_NACK new_stream_data demo_after))"
proof -
  have run: "ims_run demo_bare (new_ProcM2Ims demo_lib demo_addr) = (Serving, demo_before)"
    using demo_bare_serves by (simp add: demo_before_def prod_eq_iff)
  have h: "streamer_handle demo_data = 7000000" by (simp add: demo_data_def)
  obtain c where c: "smap_find (im_ctxs demo_before) (streamer_handle demo_data) = Some c"
    using demo_before_has by (auto simp: h)
  have body: "offer_body (stream_offer demo_data) \<noteq> []" by (simp add: demo_data_def)
  have tried: "ModifySession demo_no_writer (new_IwMessage MSG_STREAM_MODIFY_REQ) demo_data demo_before =
      (fst (ModifySession demo_no_writer (new_IwMessage MSG_STREAM_MODIFY_REQ) demo_data demo_before), demo_after)"
    by (simp add: demo_after_def prod_eq_iff)
  have "ModifySession demo_good req demo_data demo_after = (Go, reply req MSG_STREAM_MODIFY_NACK new_stream_data demo_after)" for req
    by (rule modification_is_tried_once [OF demo_bare_wf run c body demo_offer demo_agrees tried, of "[]"])
      simp_all
  with demo_refused show ?thesis by blast
qed

text \<open>After that failure the session has a source of sound and nothing to write to, and it can be played.\<close>

theorem played_without_writer:
  "Call (Set_rate None 8000) \<in> set (im_out (snd (StartPlayback demo_good (new_IwMessage MSG_STREAM_PLAY_REQUEST) demo_data demo_after)))"
  by code_simp

section \<open>The end of a file\<close>











section \<open>Tearing down\<close>

text \<open>C37: tearing down a session that has ever been attached to the ticker asks the library to unlink a
  filter that does not exist: the tone generator, which no operation creates.\<close>

theorem teardown_unlinks_a_missing_filter:
  assumes run: "\<forall>(e, ev) \<in> set evs. well_formed ev" "ims_run evs (new_ProcM2Ims lib addr) = (Serving, m)"
    and found: "smap_find (im_ctxs m) (streamer_handle d) = Some c"
    and ticked: "st_stream c = Some a" "as_ticker a"
    and down: "TearDown d m = (r, m1)"
  shows "\<exists>w. Call (Unlink None w) \<in> set (im_out m1)"
proof -
  have "ims_inv m" using ims_run_inv [OF new_ProcM2Ims_inv run] by simp
  then have ok: "session_ok (streamer_handle d) c" using inv_session found by blast
  then have none: "as_dtmfgen a = None" "as_ec a = None" using ticked by (auto simp: session_ok_def)
  from teardown_calls [OF ok] obtain xs where x:
    "teardown_stages (c, m) = (Go, (c, m\<lparr>im_out := im_out m @ map Call xs\<rparr>))" by blast
  have "Call (Unlink None (as_soundwrite a)) \<in> set (im_out (snd (snd (teardown_stages (c, m)))))"
    using ticked none
    by (simp add: teardown_stages_def with_stream_def on_ctx_def unlink_all_def stages_append stages_calls
        call_def put_out_def stage_when_def)
  then show ?thesis using down x
    by (intro exI [of _ "as_soundwrite a"]) (auto simp: TearDown_def found destroy_StreamingCtx_def ticked)
qed

lemma demo_ticks:
  "case smap_find (im_ctxs (snd (ims_run demo_session (new_ProcM2Ims demo_lib demo_addr)))) 7000000 of None \<Rightarrow> False
   | Some c \<Rightarrow> (case st_stream c of None \<Rightarrow> False | Some a \<Rightarrow> as_ticker a)"
  by code_simp

theorem teardown_unlinks_a_missing_filter_witness:
  "\<exists>m w. ims_run demo_session (new_ProcM2Ims demo_lib demo_addr) = (Serving, m) \<and>
     Call (Unlink None w) \<in> set (im_out (snd (TearDown demo_data m)))"
proof -
  obtain m where m: "ims_run demo_session (new_ProcM2Ims demo_lib demo_addr) = (Serving, m)"
    using demo_runs(1) by (metis prod.collapse)
  then obtain c a where c: "smap_find (im_ctxs m) (streamer_handle demo_data) = Some c" "st_stream c = Some a" "as_ticker a"
    using demo_ticks by (auto simp: demo_data_def split: option.splits)
  obtain r m1 where d: "TearDown demo_data m = (r, m1)" by fastforce
  from teardown_unlinks_a_missing_filter [OF demo_wf(1) m c d] m d show ?thesis by auto
qed

end
