(* ===== verification/Iw_SpeechServer.thy ===== *)
theory Iw_SpeechServer
  imports Iw_Media Iw_Config Iw_Message
begin

text \<open>
  The speech service behind the speech session (\<^verbatim>\<open>iw_unimrcp/ProcUniMrcp.cpp\<close>,
  \<^verbatim>\<open>MrcpUtils.cpp\<close>): sessions of a speech server, driven by requests of the platform and by
  callbacks of the UniMRCP client, which come through a completion port.  The client library is not
  in the tree: what its calls return is an argument, and the calls are output.
\<close>

section \<open>The library\<close>

datatype lib_call =
    Session_create string int
  | Session_terminate "nat option"
  | Session_destroy "nat option"
  | Channel_create nat MrcpResource "(cnx_info \<times> MediaFormat option \<times> bool) option"
  | Channel_add nat "nat option"
  | Message_create "nat option" "nat option" string
  | Generic_header nat
  | Resource_header nat
  | Add_header bool string "string option"
  | Set_body string
  | Message_send "nat option" "nat option" nat
  | Apr_initialize | Pool_create | Dir_layout string | Log_create | Log_open string
  | Client_create | Application_create | Application_register | Client_start
  | Client_shutdown | Log_destroy | Pool_destroy | Apr_terminate

datatype mrcp_out =
    Lib lib_call
  | Answer iw_message MessageId mrcp_data
  | Tell int MessageId mrcp_data
  | Base iw_message

text \<open>
  The environment: whether a call succeeds (for a creation, whether a pointer comes back), the id
  the library has given to a message so far, the audio medium of a description, the address of a
  host, the options, equality of codec names; the type of a parameter's value and that of the header
  field it goes to; the tick count; what an uninitialised pointer holds.  The values of parameters
  are opaque.
\<close>

datatype any_type = Any_float | Any_double | Any_int | Any_string | Any_other

datatype field_type = Unsigned_field | Float_field | Text_field | Other_field

record mrcp_env =
  ml_ok :: "mrcp_out list \<Rightarrow> lib_call \<Rightarrow> bool"
  ml_id :: "nat \<Rightarrow> int"
  ml_medium :: "string \<Rightarrow> medium"
  ml_inet :: "string \<Rightarrow> 32 word"
  ml_option :: "string \<Rightarrow> config_error + string"
  ml_same :: "string \<Rightarrow> string \<Rightarrow> bool"
  ml_type :: "string \<Rightarrow> any_type"
  ml_field :: "string \<Rightarrow> field_type"
  ml_fits :: "string \<Rightarrow> string \<Rightarrow> bool"
  ml_time :: int
  ml_garbage :: bool

section \<open>State\<close>

datatype MrcpSessionState = MRCP_INITIAL | MRCP_CONNECTING | MRCP_ALLOCATED

record mrcp_ctx =
  mc_state :: MrcpSessionState
  mc_handler :: "(int \<times> int) option"
  mc_request :: "iw_message option"
  mc_handle :: int
  mc_session :: "nat option"
  mc_synth :: "nat option"
  mc_recog :: "nat option"
  mc_last :: "nat option"
  mc_format :: MediaFormat

definition new_MrcpSessionCtx :: mrcp_ctx where
  "new_MrcpSessionCtx = \<lparr>mc_state = MRCP_INITIAL, mc_handler = None, mc_request = None,
     mc_handle = IW_UNDEFINED, mc_session = None, mc_synth = None, mc_recog = None, mc_last = None,
     mc_format = mf_UNKNOWN\<rparr>"

text \<open>The process: its sessions, the counter of handles, the number of the next object of the library.\<close>

record mrcp_server =
  mv_ctxs :: "(int, mrcp_ctx) smap"
  mv_next_handle :: int
  mv_next :: nat
  mv_client :: bool
  mv_log :: bool
  mv_pool :: bool
  mv_out :: "mrcp_out list"

definition new_ProcUniMrcp :: mrcp_server where
  "new_ProcUniMrcp = \<lparr>mv_ctxs = [], mv_next_handle = 8000000, mv_next = 0, mv_client = False,
     mv_log = False, mv_pool = False, mv_out = []\<rparr>"

datatype mrcp_status = Serving | Ended | Crashed | Escaped config_error | Bad_cast_escaped

definition emit :: "mrcp_out \<Rightarrow> mrcp_server \<Rightarrow> mrcp_server" where
  "emit x s = s\<lparr>mv_out := mv_out s @ [x]\<rparr>"

definition refuse_with :: "iw_message \<Rightarrow> MessageId \<Rightarrow> mrcp_server \<Rightarrow> mrcp_status \<times> mrcp_server" where
  "refuse_with msg mid s = (Serving, emit (Answer msg mid new_mrcp_data) s)"

definition put_ctx :: "mrcp_ctx \<Rightarrow> mrcp_server \<Rightarrow> mrcp_server" where
  "put_ctx c s = s\<lparr>mv_ctxs := smap_insert (mc_handle c) c (mv_ctxs s)\<rparr>"

definition lib :: "mrcp_env \<Rightarrow> lib_call \<Rightarrow> mrcp_server \<Rightarrow> bool \<times> mrcp_server" where
  "lib e c s = (ml_ok e (mv_out s) c, emit (Lib c) s)"

text \<open>A call that creates an object; objects are numbered.\<close>

definition lib_new :: "mrcp_env \<Rightarrow> lib_call \<Rightarrow> mrcp_server \<Rightarrow> nat option \<times> mrcp_server" where
  "lib_new e c s =
     (if ml_ok e (mv_out s) c then (Some (mv_next s), (emit (Lib c) s)\<lparr>mv_next := mv_next s + 1\<rparr>)
      else (None, emit (Lib c) s))"

section \<open>Parameters of a request\<close>

text \<open>
  What a parameter puts into its field: numbers are taken from any numeric type and left out for
  other types; a text must be a string and another field exactly of its type, else the cast throws.
\<close>

definition copy_param :: "mrcp_env \<Rightarrow> string \<Rightarrow> string \<Rightarrow> string option option" where
  "copy_param e key v = (case ml_field e key of
     Unsigned_field \<Rightarrow> Some (if ml_type e v \<in> {Any_float, Any_double, Any_int} then Some v else None)
   | Float_field \<Rightarrow> Some (if ml_type e v \<in> {Any_float, Any_double, Any_int} then Some v else None)
   | Text_field \<Rightarrow> if ml_type e v = Any_string then Some (Some v) else None
   | Other_field \<Rightarrow> if ml_fits e key v then Some (Some v) else None)"

text \<open>The parameters in the order of the code; \<open>False\<close>: the cast threw.\<close>

fun translate ::
  "mrcp_env \<Rightarrow> bool \<Rightarrow> (string \<times> string) list \<Rightarrow> (string, string) smap \<Rightarrow> mrcp_server \<Rightarrow> bool \<times> mrcp_server" where
  "translate e generic [] ps s = (True, s)"
| "translate e generic ((key, header) # rest) ps s =
     (case smap_find ps key of
        None \<Rightarrow> translate e generic rest ps s
      | Some v \<Rightarrow>
          (case copy_param e key v of
             None \<Rightarrow> (False, s)
           | Some assigned \<Rightarrow> translate e generic rest ps (emit (Lib (Add_header generic header assigned)) s)))"

definition generic_fields :: "(string \<times> string) list" where
  "generic_fields =
    [(''proxy_sync_id'', ''PROXY_SYNC_ID''), (''accept_charset'', ''ACCEPT_CHARSET''),
      (''content_type'', ''CONTENT_TYPE''), (''content_id'', ''CONTENT_ID''),
      (''content_base'', ''CONTENT_BASE''), (''content_encoding'', ''CONTENT_ENCODING''),
      (''content_location'', ''CONTENT_LOCATION''), (''cache_control'', ''CACHE_CONTROL''),
      (''logging_tag'', ''LOGGING_TAG''), (''accept'', ''ACCEPT''),
      (''fetch_timeout'', ''FETCH_TIMEOUT''), (''set_cookie'', ''SET_COOKIE''),
      (''set_cookie2'', ''SET_COOKIE2'')]"

definition synth_fields :: "(string \<times> string) list" where
  "synth_fields =
    [(''jump_size'', ''JUMP_SIZE''), (''kill_on_barge_in'', ''KILL_ON_BARGE_IN''),
      (''speaker_profile'', ''SPEAKER_PROFILE''), (''completion_cause'', ''COMPLETION_CAUSE''),
      (''completion_reason'', ''COMPLETION_REASON''), (''voice_param'', ''VOICE_GENDER''),
      (''prosody_param'', ''PROSODY_VOLUME''), (''speech_marker'', ''SPEECH_MARKER''),
      (''speech_language'', ''SPEECH_LANGUAGE''), (''fetch_hint'', ''FETCH_HINT''),
      (''audio_fetch_hint'', ''AUDIO_FETCH_HINT''), (''failed_uri'', ''FAILED_URI''),
      (''failed_uri_cause'', ''FAILED_URI_CAUSE''), (''speak_restart'', ''SPEAK_RESTART''),
      (''speak_length'', ''SPEAK_LENGTH''), (''load_lexicon'', ''LOAD_LEXICON''),
      (''lexicon_search_order'', ''LEXICON_SEARCH_ORDER'')]"

definition recog_fields :: "(string \<times> string) list" where
  "recog_fields =
    [(''confidence_threshold'', ''CONFIDENCE_THRESHOLD''),
      (''sensitivity_level'', ''SENSITIVITY_LEVEL''),
      (''speed_vs_accuracy'', ''SPEED_VS_ACCURACY''),
      (''n_best_list_length'', ''N_BEST_LIST_LENGTH''),
      (''no_input_timeout'', ''NO_INPUT_TIMEOUT''),
      (''recognition_timeout'', ''RECOGNITION_TIMEOUT''), (''waveform_uri'', ''WAVEFORM_URI''),
      (''completion_cause'', ''COMPLETION_CAUSE''),
      (''recognizer_context_block'', ''RECOGNIZER_CONTEXT_BLOCK''),
      (''start_input_timers'', ''START_INPUT_TIMERS''),
      (''speech_complete_timeout'', ''SPEECH_COMPLETE_TIMEOUT''),
      (''speech_incomplete_timeout'', ''SPEECH_INCOMPLETE_TIMEOUT''),
      (''dtmf_interdigit_timeout'', ''DTMF_INTERDIGIT_TIMEOUT''),
      (''dtmf_term_timeout'', ''DTMF_TERM_TIMEOUT''), (''dtmf_term_char'', ''DTMF_TERM_CHAR''),
      (''failed_uri'', ''FAILED_URI''), (''failed_uri_cause'', ''FAILED_URI_CAUSE''),
      (''save_waveform'', ''SAVE_WAVEFORM''), (''new_audio_channel'', ''NEW_AUDIO_CHANNEL''),
      (''speech_language'', ''SPEECH_LANGUAGE''), (''input_type'', ''INPUT_TYPE''),
      (''input_waveform_uri'', ''INPUT_WAVEFORM_URI''),
      (''completion_reason'', ''COMPLETION_CAUSE''), (''media_type'', ''MEDIA_TYPE''),
      (''ver_buffer_utterance'', ''VER_BUFFER_UTTERANCE''),
      (''recognition_mode'', ''RECOGNITION_MODE''), (''cancel_if_queue'', ''CANCEL_IF_QUEUE''),
      (''hotword_max_duration'', ''HOTWORD_MAX_DURATION''),
      (''hotword_min_duration'', ''HOTWORD_MAX_DURATION''),
      (''interpret_text'', ''INTERPRET_TEXT''), (''dtmf_buffer_time'', ''DTMF_BUFFER_TIME''),
      (''clear_dtmf_buffer'', ''CLEAR_DTMF_BUFFER''), (''early_no_match'', ''EARLY_NO_MATCH'')]"

section \<open>Requests that send a message to the server\<close>

datatype prepared = Prepared | Refused | Bad_cast

text \<open>
  A message is made, gets its headers and is sent; the acknowledgement follows when the server
  answers.  From the moment it is to be sent it is the last message of the session.
\<close>

definition message_request ::
  "mrcp_env \<Rightarrow> iw_message \<Rightarrow> MessageId \<Rightarrow> string \<Rightarrow> nat option \<Rightarrow>
     (nat \<Rightarrow> mrcp_server \<Rightarrow> prepared \<times> mrcp_server) \<Rightarrow> mrcp_ctx \<Rightarrow> mrcp_server \<Rightarrow> mrcp_status \<times> mrcp_server" where
  "message_request e msg nack verb chan prepare c s =
     (case lib_new e (Message_create (mc_session c) chan verb) s of
        (None, s1) \<Rightarrow> refuse_with msg nack s1
      | (Some n, s1) \<Rightarrow>
          (case lib e (Generic_header n) s1 of
             (False, s2) \<Rightarrow> refuse_with msg nack s2
           | (True, s2) \<Rightarrow>
               (case prepare n s2 of
                  (Refused, s3) \<Rightarrow> refuse_with msg nack s3
                | (Bad_cast, s3) \<Rightarrow> (Bad_cast_escaped, s3)
                | (Prepared, s3) \<Rightarrow>
                    (case lib e (Message_send (mc_session c) chan n) (put_ctx (c\<lparr>mc_last := Some n\<rparr>) s3) of
                       (True, s4) \<Rightarrow> (Serving, s4)
                     | (False, s4) \<Rightarrow> refuse_with msg nack s4))))"

text \<open>The request of the session is the latest one that named it, refused or not.\<close>

definition on_ctx ::
  "iw_message \<Rightarrow> mrcp_data \<Rightarrow> MessageId \<Rightarrow> (mrcp_ctx \<Rightarrow> mrcp_server \<Rightarrow> mrcp_status \<times> mrcp_server) \<Rightarrow>
     mrcp_server \<Rightarrow> mrcp_status \<times> mrcp_server" where
  "on_ctx msg d nack f s = (case smap_find (mv_ctxs s) (mrcp_handle d) of
     None \<Rightarrow> refuse_with msg nack s
   | Some c \<Rightarrow> (let c1 = c\<lparr>mc_request := Some msg\<rparr> in f c1 (put_ctx c1 s)))"

definition UponStopSpeakReq :: "mrcp_env \<Rightarrow> iw_message \<Rightarrow> mrcp_data \<Rightarrow> mrcp_server \<Rightarrow> mrcp_status \<times> mrcp_server" where
  "UponStopSpeakReq e msg d = on_ctx msg d MSG_MRCP_STOP_SPEAK_NACK (\<lambda>c s.
     if mc_state c \<noteq> MRCP_ALLOCATED then refuse_with msg MSG_MRCP_STOP_SPEAK_NACK s
     else message_request e msg MSG_MRCP_STOP_SPEAK_NACK ''STOP'' (mc_synth c) (\<lambda>n s. (Prepared, s)) c s)"

text \<open>Headers, parameters and body; \<open>table\<close> are those of the resource.\<close>

definition prepare_message ::
  "mrcp_env \<Rightarrow> mrcp_data \<Rightarrow> (string \<times> string) list \<Rightarrow> nat \<Rightarrow> mrcp_server \<Rightarrow> prepared \<times> mrcp_server" where
  "prepare_message e d table n s =
     (case lib e (Resource_header n) s of
        (False, s1) \<Rightarrow> (Refused, s1)
      | (True, s1) \<Rightarrow>
          (case translate e True generic_fields (mrcp_params d) s1 of
             (False, s2) \<Rightarrow> (Bad_cast, s2)
           | (True, s2) \<Rightarrow>
               (case translate e False table (mrcp_params d) s2 of
                  (False, s3) \<Rightarrow> (Bad_cast, s3)
                | (True, s3) \<Rightarrow> (Prepared, emit (Lib (Set_body (mrcp_body d))) s3))))"

text \<open>A cast that throws is caught for a recognition and leaves the process for a speech.\<close>

definition UponSpeakReq :: "mrcp_env \<Rightarrow> iw_message \<Rightarrow> mrcp_data \<Rightarrow> mrcp_server \<Rightarrow> mrcp_status \<times> mrcp_server" where
  "UponSpeakReq e msg d = on_ctx msg d MSG_MRCP_SPEAK_NACK (\<lambda>c s.
     if mc_state c \<noteq> MRCP_ALLOCATED then refuse_with msg MSG_MRCP_SPEAK_NACK s
     else message_request e msg MSG_MRCP_SPEAK_NACK ''SPEAK'' (mc_synth c) (prepare_message e d synth_fields) c s)"

definition UponRecognizeReq :: "mrcp_env \<Rightarrow> iw_message \<Rightarrow> mrcp_data \<Rightarrow> mrcp_server \<Rightarrow> mrcp_status \<times> mrcp_server" where
  "UponRecognizeReq e msg d = on_ctx msg d MSG_MRCP_RECOGNIZE_NACK (\<lambda>c s.
     if mc_state c \<noteq> MRCP_ALLOCATED \<or> mc_recog c = None then refuse_with msg MSG_MRCP_RECOGNIZE_NACK s
     else message_request e msg MSG_MRCP_RECOGNIZE_NACK ''RECOGNIZE'' (mc_recog c)
       (\<lambda>n s. case prepare_message e d recog_fields n s of
          (Bad_cast, s1) \<Rightarrow> (Refused, s1) | r \<Rightarrow> r) c s)"

section \<open>Allocation\<close>

definition FinalizeSessionContext :: "mrcp_ctx \<Rightarrow> mrcp_server \<Rightarrow> mrcp_server" where
  "FinalizeSessionContext c s =
     (let s1 = (case mc_handler c of
                  None \<Rightarrow> s
                | Some h \<Rightarrow> emit (Tell (fst h) MSG_MRCP_TEARDOWN_EVT new_mrcp_data) s)
      in s1\<lparr>mv_ctxs := smap_erase (mc_handle c) (mv_ctxs s1)\<rparr>)"

text \<open>
  An error of an allocation: the request is refused and the session of the library is destroyed if
  the variable of the channel is not null; before the channel is made the variable is uninitialised.
  A session that was there before keeps what has been written to it.
\<close>

definition allocate_error ::
  "iw_message \<Rightarrow> bool \<Rightarrow> nat \<Rightarrow> bool \<Rightarrow> mrcp_ctx \<Rightarrow> mrcp_server \<Rightarrow> mrcp_status \<times> mrcp_server" where
  "allocate_error msg old session channel c s =
     (let s1 = emit (Answer msg MSG_MRCP_ALLOCATE_SESSION_NACK new_mrcp_data) (if old then put_ctx c s else s)
      in (Serving, if channel then emit (Lib (Session_destroy (Some session))) s1 else s1))"

text \<open>
  The channel is for the first format that is not DTMF, but described with the first format, which
  is a codec of the description only when it is one of speech.
\<close>

definition rtp_descriptor_create :: "cnx_info \<Rightarrow> MediaFormat \<Rightarrow> bool \<Rightarrow> cnx_info \<times> MediaFormat option \<times> bool" where
  "rtp_descriptor_create info f send = (info, if mf_type f = MediaType_SPEECH then Some f else None, send)"

definition allocate_channel ::
  "mrcp_env \<Rightarrow> iw_message \<Rightarrow> mrcp_data \<Rightarrow> bool \<Rightarrow> nat \<Rightarrow> mrcp_ctx \<Rightarrow> mrcp_server \<Rightarrow> mrcp_status \<times> mrcp_server" where
  "allocate_channel e msg d old session c s =
     (let md = ml_medium e (offer_body (mrcp_offer d))
      in if \<not> (is_ip_valid (med_connection md) \<and> is_port_valid (med_connection md))
         then allocate_error msg old session (ml_garbage e) c s
         else (case filter (\<lambda>f. mf_type f \<noteq> MediaType_DTMF) (med_list md) of
                 [] \<Rightarrow> allocate_error msg old session (ml_garbage e) c s
               | f # _ \<Rightarrow>
                   (let c1 = c\<lparr>mc_format := f\<rparr>;
                        rtp = (if offer_body (mrcp_offer d) = [] then None
                               else Some (rtp_descriptor_create (med_connection md) (hd (med_list md)) (mrcp_resource d = RECOGNIZER)))
                    in if mrcp_resource d = UKNOWN_MRCP_RESOURCE then allocate_error msg old session False c1 s
                       else (case lib_new e (Channel_create session (mrcp_resource d) rtp) s of (channel, s1) \<Rightarrow>
                         (let c2 = (if mrcp_resource d = RECOGNIZER then c1\<lparr>mc_recog := channel\<rparr>
                                    else c1\<lparr>mc_synth := channel\<rparr>)
                          in case lib e (Channel_add session channel) s1 of
                               (False, s2) \<Rightarrow> allocate_error msg old session (channel \<noteq> None) c2 s2
                             | (True, s2) \<Rightarrow> (Serving, put_ctx c2 s2))))))"

text \<open>
  The session of the library: that of the context or a new one.  A description for a session that
  exists is refused, and the allocation goes on.
\<close>

definition allocate_session ::
  "mrcp_env \<Rightarrow> iw_message \<Rightarrow> mrcp_data \<Rightarrow> bool \<Rightarrow> mrcp_ctx \<Rightarrow> mrcp_server \<Rightarrow> mrcp_status \<times> mrcp_server" where
  "allocate_session e msg d old c0 s0 =
     (let c = c0\<lparr>mc_state := MRCP_CONNECTING, mc_request := Some msg\<rparr>;
          s = (if old then put_ctx c s0 else s0)
      in case mc_session c of
           Some session \<Rightarrow> allocate_channel e msg d old session c
             (if offer_body (mrcp_offer d) \<noteq> []
              then emit (Answer msg MSG_MRCP_ALLOCATE_SESSION_NACK new_mrcp_data) s else s)
         | None \<Rightarrow>
             (case ml_option e ''unimrcp/unimrcp_client_profile'' of
                Inl x \<Rightarrow> (Escaped x, s)
              | Inr profile \<Rightarrow>
                  (case lib_new e (Session_create profile (mc_handle c)) s of
                     (None, s1) \<Rightarrow> refuse_with msg MSG_MRCP_ALLOCATE_SESSION_NACK s1
                   | (Some session, s1) \<Rightarrow>
                       allocate_channel e msg d old session (c\<lparr>mc_session := Some session\<rparr>) s1)))"

definition UponMrcpAllocateSessionReq ::
  "mrcp_env \<Rightarrow> iw_message \<Rightarrow> mrcp_data \<Rightarrow> mrcp_server \<Rightarrow> mrcp_status \<times> mrcp_server" where
  "UponMrcpAllocateSessionReq e msg d s = (case smap_find (mv_ctxs s) (mrcp_handle d) of
     Some c \<Rightarrow>
       if (case mrcp_resource d of RECOGNIZER \<Rightarrow> mc_recog c \<noteq> None | SYNTHESIZER \<Rightarrow> mc_synth c \<noteq> None
           | UKNOWN_MRCP_RESOURCE \<Rightarrow> True)
       then refuse_with msg MSG_MRCP_ALLOCATE_SESSION_NACK s
       else allocate_session e msg d True c s
   | None \<Rightarrow> allocate_session e msg d False
       (new_MrcpSessionCtx\<lparr>mc_handle := mv_next_handle s, mc_handler := mrcp_handler d\<rparr>)
       (s\<lparr>mv_next_handle := mv_next_handle s + 1\<rparr>))"

text \<open>A request for a session that is not there is answered with the refusal of a speech.\<close>

definition UponTearDownReq :: "iw_message \<Rightarrow> mrcp_data \<Rightarrow> mrcp_server \<Rightarrow> mrcp_status \<times> mrcp_server" where
  "UponTearDownReq msg d s = (case smap_find (mv_ctxs s) (mrcp_handle d) of
     None \<Rightarrow> refuse_with msg MSG_MRCP_SPEAK_NACK s
   | Some c \<Rightarrow> (Serving, FinalizeSessionContext c
       (if mc_session c \<noteq> None then emit (Lib (Session_terminate (mc_session c))) s else s)))"

section \<open>Callbacks of the library\<close>

datatype sig_status = Status_success | Status_terminate | Status_cancel | Status_failure | Status_other

record codec_descriptor =
  cd_enabled :: bool
  cd_name :: string
  cd_payload :: int
  cd_rate :: int

record remote_media =
  rm_ip :: string
  rm_port :: int
  rm_codecs :: "codec_descriptor list"

text \<open>
  The enabled descriptors are looked through until the DTMF one and the codec offered are both
  found; the last comparison with the codec decides.
\<close>

fun find_codecs ::
  "mrcp_env \<Rightarrow> string \<Rightarrow> codec_descriptor option \<Rightarrow> bool \<Rightarrow> codec_descriptor list \<Rightarrow> codec_descriptor option \<times> bool" where
  "find_codecs e name dtmf found [] = (dtmf, found)"
| "find_codecs e name dtmf found (d # ds) =
     (if \<not> cd_enabled d then find_codecs e name dtmf found ds
      else (let dtmf1 = (if dtmf = None \<and> ml_same e (cd_name d) ''telephone-event'' then Some d else dtmf);
                found1 = (found \<or> ml_same e (cd_name d) name)
            in if found1 \<and> dtmf1 \<noteq> None then (dtmf1, found1) else find_codecs e name dtmf1 found1 ds))"

definition answer_description :: "mrcp_env \<Rightarrow> MediaFormat \<Rightarrow> cnx_info \<Rightarrow> codec_descriptor option \<Rightarrow> string" where
  "answer_description e f info dtmf =
     (let nl = [CHR 0x0A]; t = itoa (ml_time e) in
     ''v=0'' @ nl @
     ''o=mrcp '' @ t @ '' '' @ t @ '' IN IP4 '' @ iptoa info @ nl @
     ''s=mrcp'' @ nl @
     ''c=IN IP4 '' @ iptoa info @ nl @
     ''t=0 0'' @ nl @
     ''m=audio '' @ itoa (port_ho info) @ '' RTP/AVP '' @ itoa (mf_mapping f) @
     (case dtmf of None \<Rightarrow> [] | Some d \<Rightarrow> '' '' @ itoa (cd_payload d)) @ nl @
     get_sdp_a f @ nl @
     (case dtmf of None \<Rightarrow> []
      | Some d \<Rightarrow> ''a=rtpmap:'' @ itoa (cd_payload d) @ '' telephone-event/'' @ itoa (cd_rate d) @ nl @
          ''a=fmtp:'' @ itoa (cd_payload d) @ '' 0-15'' @ nl))"

definition answer_request ::
  "mrcp_ctx \<Rightarrow> MessageId \<Rightarrow> mrcp_data \<Rightarrow> mrcp_server \<Rightarrow> mrcp_status \<times> mrcp_server" where
  "answer_request c mid d s = (case mc_request c of
     None \<Rightarrow> (Crashed, s) | Some msg \<Rightarrow> (Serving, emit (Answer msg mid d) s))"

text \<open>An event for the handler of the session, whose channel is dereferenced.\<close>

definition tell_handler ::
  "mrcp_ctx \<Rightarrow> MessageId \<Rightarrow> mrcp_data \<Rightarrow> mrcp_server \<Rightarrow> mrcp_status \<times> mrcp_server" where
  "tell_handler c mid d s = (case mc_handler c of
     None \<Rightarrow> (Crashed, s) | Some h \<Rightarrow> (Serving, emit (Tell (fst h) mid d) s))"

text \<open>\<open>rsc\<close> is the resource of the channel that was added; its media are read from the context.\<close>

definition channel_added ::
  "mrcp_env \<Rightarrow> MrcpResource \<Rightarrow> remote_media \<Rightarrow> mrcp_ctx \<Rightarrow> mrcp_server \<Rightarrow> mrcp_status \<times> mrcp_server" where
  "channel_added e rsc remote c0 s0 =
     (let c = c0\<lparr>mc_state := MRCP_ALLOCATED\<rparr>; s = put_ctx c s0;
          channel = (case rsc of RECOGNIZER \<Rightarrow> mc_recog c | SYNTHESIZER \<Rightarrow> mc_synth c | UKNOWN_MRCP_RESOURCE \<Rightarrow> None)
      in if channel = None then (Crashed, s)
         else (case find_codecs e (mf_name (mc_format c)) None False (rm_codecs remote) of (dtmf, found) \<Rightarrow>
           if \<not> found then answer_request c MSG_MRCP_ALLOCATE_SESSION_NACK new_mrcp_data s
           else answer_request c MSG_MRCP_ALLOCATE_SESSION_ACK
             (new_mrcp_data\<lparr>mrcp_handle := mc_handle c, mrcp_offer := \<lparr>offer_body =
                answer_description e (mc_format c) (CnxInfo_host (ml_inet e) (rm_ip remote) (rm_port remote)) dtmf,
                offer_type = ''application/sdp''\<rparr>\<rparr>) s))"

definition onMrcpChannelAddEvt ::
  "mrcp_env \<Rightarrow> int \<Rightarrow> sig_status \<Rightarrow> nat \<Rightarrow> MrcpResource \<Rightarrow> remote_media \<Rightarrow> mrcp_server \<Rightarrow> mrcp_status \<times> mrcp_server" where
  "onMrcpChannelAddEvt e h status session rsc remote s = (case smap_find (mv_ctxs s) h of
     None \<Rightarrow> (Serving, emit (Lib (Session_destroy (Some session))) s)
   | Some c \<Rightarrow> (case status of
       Status_success \<Rightarrow> channel_added e rsc remote c s
     | Status_failure \<Rightarrow> answer_request c MSG_MRCP_ALLOCATE_SESSION_NACK new_mrcp_data s
     | Status_cancel \<Rightarrow> answer_request c MSG_MRCP_ALLOCATE_SESSION_NACK new_mrcp_data s
     | Status_terminate \<Rightarrow> (Serving, emit (Lib (Session_destroy (mc_session c))) (FinalizeSessionContext c s))
     | Status_other \<Rightarrow> (Serving, s)))"

text \<open>A message of the server counts only with the id of the session's last message, which is dereferenced.\<close>

definition onMrcpMessageReceived ::
  "mrcp_env \<Rightarrow> int \<Rightarrow> string \<Rightarrow> int \<Rightarrow> int \<Rightarrow> string \<Rightarrow> mrcp_server \<Rightarrow> mrcp_status \<times> mrcp_server" where
  "onMrcpMessageReceived e h verb rid status body s = (case smap_find (mv_ctxs s) h of
     None \<Rightarrow> (Serving, s)
   | Some c \<Rightarrow> (case mc_last c of
       None \<Rightarrow> (Crashed, s)
     | Some n \<Rightarrow>
         if ml_id e n \<noteq> rid then (Serving, s)
         else if verb = ''SPEAK-COMPLETE''
         then tell_handler c MSG_MRCP_SPEAK_STOPPED_EVT (new_mrcp_data\<lparr>mrcp_correlation_id := rid\<rparr>) s
         else if verb = ''SPEAK''
         then answer_request c MSG_MRCP_SPEAK_ACK (new_mrcp_data\<lparr>mrcp_correlation_id := rid\<rparr>) s
         else if verb = ''STOP'' then answer_request c MSG_MRCP_STOP_SPEAK_ACK new_mrcp_data s
         else if verb = ''RECOGNIZE''
         then answer_request c (if status \<le> 401 then MSG_MRCP_RECOGNIZE_ACK else MSG_MRCP_RECOGNIZE_NACK)
                (new_mrcp_data\<lparr>response_error_code := status\<rparr>) s
         else if verb = ''RECOGNITION-COMPLETE''
         then tell_handler c MSG_MRCP_RECOGNITION_COMPLETE_EVT
                (new_mrcp_data\<lparr>mrcp_correlation_id := rid, mrcp_body := body\<rparr>) s
         else (Serving, s)))"

definition onMrcpSessionTerminatedEvt :: "int \<Rightarrow> mrcp_server \<Rightarrow> mrcp_server" where
  "onMrcpSessionTerminatedEvt h s = (case smap_find (mv_ctxs s) h of
     None \<Rightarrow> s | Some c \<Rightarrow> FinalizeSessionContext c s)"

definition onMrcpSessionTerminatedRsp :: "nat \<Rightarrow> mrcp_server \<Rightarrow> mrcp_server" where
  "onMrcpSessionTerminatedRsp session s = emit (Lib (Session_destroy (Some session))) s"

section \<open>Start and end\<close>

definition server_Destroy :: "mrcp_server \<Rightarrow> mrcp_server" where
  "server_Destroy s =
     s\<lparr>mv_ctxs := [], mv_client := False, mv_log := False, mv_pool := False,
       mv_out := mv_out s @ (if mv_client s then [Lib Client_shutdown] else []) @
         (if mv_log s then [Lib Log_destroy] else []) @
         (if mv_pool s then [Lib Pool_destroy] else []) @ [Lib Apr_terminate]\<rparr>"

text \<open>A step of the start: when the call fails everything made so far is given back.\<close>

datatype init_result = Init_success | Init_failure | Init_raised config_error

definition init_call ::
  "mrcp_env \<Rightarrow> lib_call \<Rightarrow> (mrcp_server \<Rightarrow> mrcp_server) \<Rightarrow>
     (mrcp_server \<Rightarrow> init_result \<times> mrcp_server) \<Rightarrow> mrcp_server \<Rightarrow> init_result \<times> mrcp_server" where
  "init_call e c done_with k s = (case lib e c s of
     (True, s1) \<Rightarrow> k (done_with s1) | (False, s1) \<Rightarrow> (Init_failure, server_Destroy s1))"

definition init_option ::
  "mrcp_env \<Rightarrow> string \<Rightarrow> (string \<Rightarrow> mrcp_server \<Rightarrow> init_result \<times> mrcp_server) \<Rightarrow> mrcp_server \<Rightarrow> init_result \<times> mrcp_server" where
  "init_option e name k s = (case ml_option e name of Inl x \<Rightarrow> (Init_raised x, s) | Inr v \<Rightarrow> k v s)"

definition server_Init :: "mrcp_env \<Rightarrow> mrcp_server \<Rightarrow> init_result \<times> mrcp_server" where
  "server_Init e =
     init_call e Apr_initialize id (
     init_call e Pool_create (\<lambda>s. s\<lparr>mv_pool := True\<rparr>) (
     init_option e ''unimrcp/unimrcp_conf_dir'' (\<lambda>dir.
     init_call e (Dir_layout dir) id (
     init_call e Log_create id (
     init_option e ''unimrcp/unimrcp_log_file'' (\<lambda>file.
     init_call e (Log_open file) (\<lambda>s. s\<lparr>mv_log := True\<rparr>) (
     init_call e Client_create (\<lambda>s. s\<lparr>mv_client := True\<rparr>) (
     init_call e Application_create id (
     init_call e Application_register id (
     init_call e Client_start id (\<lambda>s. (Init_success, s))))))))))))"

section \<open>The loop\<close>

datatype server_event =
    Channel_add_evt int sig_status nat MrcpResource remote_media
  | Message_receive_evt int string int int string
  | Terminate_rsp nat
  | Terminate_evt int
  | Inbound "iw_message option"
  | Keep_alive
  | Port_error
  | Unknown_key

definition speech_request :: "iw_message \<Rightarrow> mrcp_data option" where
  "speech_request msg = (case payload msg of MrcpPayload d \<Rightarrow> Some d | _ \<Rightarrow> None)"

definition mrcp_dispatch :: "mrcp_env \<Rightarrow> iw_message \<Rightarrow> mrcp_server \<Rightarrow> mrcp_status \<times> mrcp_server" where
  "mrcp_dispatch e msg s =
     (let handle_with = (\<lambda>f. case speech_request msg of None \<Rightarrow> (Crashed, s) | Some d \<Rightarrow> f msg d s)
      in if message_id msg = MSG_MRCP_ALLOCATE_SESSION_REQ then handle_with (UponMrcpAllocateSessionReq e)
         else if message_id msg = MSG_MRCP_SPEAK_REQ then handle_with (UponSpeakReq e)
         else if message_id msg = MSG_MRCP_STOP_SPEAK_REQ then handle_with (UponStopSpeakReq e)
         else if message_id msg = MSG_MRCP_TEARDOWN_REQ then handle_with UponTearDownReq
         else if message_id msg = MSG_MRCP_RECOGNIZE_REQ then handle_with (UponRecognizeReq e)
         else if message_id msg = MSG_PROC_SHUTDOWN_REQ
         then (Ended, server_Destroy (emit (Answer msg MSG_PROC_SHUTDOWN_ACK new_mrcp_data) s))
         else (Serving, emit (Base msg) s))"

definition mrcp_round :: "mrcp_env \<Rightarrow> server_event \<Rightarrow> mrcp_server \<Rightarrow> mrcp_status \<times> mrcp_server" where
  "mrcp_round e ev s = (case ev of
     Channel_add_evt h status session rsc remote \<Rightarrow> onMrcpChannelAddEvt e h status session rsc remote s
   | Message_receive_evt h verb rid status body \<Rightarrow> onMrcpMessageReceived e h verb rid status body s
   | Terminate_rsp session \<Rightarrow> (Serving, onMrcpSessionTerminatedRsp session s)
   | Terminate_evt h \<Rightarrow> (Serving, onMrcpSessionTerminatedEvt h s)
   | Inbound None \<Rightarrow> (Crashed, s)
   | Inbound (Some msg) \<Rightarrow> mrcp_dispatch e msg s
   | Keep_alive \<Rightarrow> (Serving, s)
   | Port_error \<Rightarrow> (Ended, server_Destroy s)
   | Unknown_key \<Rightarrow> (Ended, server_Destroy s))"

fun mrcp_run :: "(mrcp_env \<times> server_event) list \<Rightarrow> mrcp_server \<Rightarrow> mrcp_status \<times> mrcp_server" where
  "mrcp_run [] s = (Serving, s)"
| "mrcp_run ((e, ev) # evs) s = (case mrcp_round e ev s of
     (Serving, s1) \<Rightarrow> mrcp_run evs s1
   | (st, s1) \<Rightarrow> (st, s1))"

text \<open>\<^verbatim>\<open>real_run\<close>: nothing is served when the library cannot be started.\<close>

definition ProcUniMrcp_real_run :: "mrcp_env \<Rightarrow> (mrcp_env \<times> server_event) list \<Rightarrow> mrcp_server \<Rightarrow> mrcp_status \<times> mrcp_server" where
  "ProcUniMrcp_real_run e evs s = (case server_Init e s of
     (Init_success, s1) \<Rightarrow> mrcp_run evs s1
   | (Init_failure, s1) \<Rightarrow> (Ended, s1)
   | (Init_raised x, s1) \<Rightarrow> (Escaped x, s1))"

end
