(* ===== verification/Iw_SpeechServer_Props.thy ===== *)
theory Iw_SpeechServer_Props
  imports Iw_SpeechServer "HOL-Library.Code_Target_Nat"
begin

text \<open>
  What the speech service keeps: the contract of a relation that its primitive steps respect, as a
  locale, interpreted for the books on answers and for the contexts of the map; and its properties.
\<close>

section \<open>Frames\<close>

text \<open>
  \<open>P\<close> holds of the process, \<open>K\<close> of the contexts it keeps, \<open>G\<close> of the messages that come in, which
  it may store and answer, \<open>A\<close> of those it may answer.
\<close>

locale server_frame =
  fixes P :: "mrcp_server \<Rightarrow> bool" and K :: "mrcp_ctx \<Rightarrow> bool" and G A :: "iw_message \<Rightarrow> bool"
  assumes emits: "P s \<Longrightarrow> (\<forall>msg mid d. x = Answer msg mid d \<longrightarrow> A msg) \<Longrightarrow> P (emit x s)"
    and kept: "P s \<Longrightarrow> smap_find (mv_ctxs s) h = Some c \<Longrightarrow> K c"
    and requested: "K c \<Longrightarrow> mc_request c = Some msg \<Longrightarrow> A msg"
    and answerable: "G msg \<Longrightarrow> A msg"
    and puts: "P s \<Longrightarrow> K c \<Longrightarrow> P (put_ctx c s)"
    and erases: "P s \<Longrightarrow> P (s\<lparr>mv_ctxs := smap_erase h (mv_ctxs s)\<rparr>)"
    and counts: "P s \<Longrightarrow> P (s\<lparr>mv_next_handle := n\<rparr>)" "P s \<Longrightarrow> P (s\<lparr>mv_next := i\<rparr>)"
    and destroys: "P s \<Longrightarrow> P (server_Destroy s)"
    and taken: "K c \<Longrightarrow> G msg \<Longrightarrow> K (c\<lparr>mc_request := Some msg\<rparr>)"
    and changed: "K c \<Longrightarrow> K (c\<lparr>mc_state := st\<rparr>)" "K c \<Longrightarrow> K (c\<lparr>mc_last := Some l\<rparr>)"
      "K c \<Longrightarrow> K (c\<lparr>mc_format := f\<rparr>)" "K c \<Longrightarrow> K (c\<lparr>mc_recog := ch\<rparr>)" "K c \<Longrightarrow> K (c\<lparr>mc_synth := ch\<rparr>)"
      "K c \<Longrightarrow> K (c\<lparr>mc_session := Some ses\<rparr>)"
    and fresh: "G msg \<Longrightarrow> K (new_MrcpSessionCtx\<lparr>mc_handle := k, mc_handler := hr,
      mc_state := MRCP_CONNECTING, mc_request := Some msg, mc_session := Some ses\<rparr>)"
begin

lemma emit_other: "P s \<Longrightarrow> P (emit (Lib c) s)" "P s \<Longrightarrow> P (emit (Tell h mid d) s)" "P s \<Longrightarrow> P (emit (Base m) s)"
  by (auto intro: emits)

lemma emit_requested: "P s \<Longrightarrow> A msg \<Longrightarrow> P (emit (Answer msg mid d) s)"
  by (auto intro: emits)

lemmas emit_answer = emit_requested [OF _ answerable]

lemma refuse_with_ok: "P s \<Longrightarrow> G msg \<Longrightarrow> P (snd (refuse_with msg mid s))"
  by (simp add: refuse_with_def emit_answer)

lemma lib_ok: "P s \<Longrightarrow> P (snd (lib e c s))"
  by (simp add: lib_def emit_other)

lemma lib_new_ok: "P s \<Longrightarrow> P (snd (lib_new e c s))"
  by (simp add: lib_new_def emit_other counts)

lemma translate_ok: "P s \<Longrightarrow> P (snd (translate e g table ps s))"
  by (induction e g table ps s rule: translate.induct) (auto simp: emit_other split: option.splits)

lemma prepare_ok: "P s \<Longrightarrow> P (snd (prepare_message e d table n s))"
  using lib_ok [of s e "Resource_header n"]
    translate_ok [of "snd (lib e (Resource_header n) s)" e True generic_fields "mrcp_params d"]
    translate_ok [of "snd (translate e True generic_fields (mrcp_params d) (snd (lib e (Resource_header n) s)))" e False table "mrcp_params d"]
  by (auto simp: prepare_message_def emit_other split: prod.splits bool.splits)

lemma message_request_ok:
  assumes "P s" "K c" "G msg" and prep: "\<And>n s. P s \<Longrightarrow> P (snd (prepare n s))"
  shows "P (snd (message_request e msg nack verb chan prepare c s))"
proof -
  obtain r s1 where n: "lib_new e (Message_create (mc_session c) chan verb) s = (r, s1)" by fastforce
  then have s1: "P s1" using lib_new_ok [OF assms(1)] by (metis snd_conv)
  show ?thesis
  proof (cases r)
    case None
    then show ?thesis using s1 assms(3) by (simp add: message_request_def n refuse_with_ok)
  next
    case (Some k)
    obtain b s2 where g: "lib e (Generic_header k) s1 = (b, s2)" by fastforce
    then have s2: "P s2" using lib_ok [OF s1] by (metis snd_conv)
    obtain p s3 where q: "prepare k s2 = (p, s3)" by fastforce
    then have s3: "P s3" using prep [OF s2] by (metis snd_conv)
    have "P (put_ctx (c\<lparr>mc_last := Some k\<rparr>) s3)" by (intro puts s3 changed assms(2))
    moreover obtain b4 s4 where l: "lib e (Message_send (mc_session c) chan k) (put_ctx (c\<lparr>mc_last := Some k\<rparr>) s3) = (b4, s4)"
      by fastforce
    ultimately have "P s4" using lib_ok by (metis snd_conv)
    then show ?thesis using s2 s3 assms(3)
      by (cases b; cases p; cases b4) (simp_all add: message_request_def n Some g q l refuse_with_ok)
  qed
qed

lemma on_ctx_ok:
  assumes "P s" "G msg" and "\<And>c s. P s \<Longrightarrow> K c \<Longrightarrow> P (snd (f c s))"
  shows "P (snd (on_ctx msg d nack f s))"
  using assms kept [OF assms(1)]
  by (auto simp: on_ctx_def Let_def refuse_with_ok intro!: assms(3) puts taken split: option.splits)

lemma requests_ok:
  assumes "P s" "G msg"
  shows "P (snd (UponSpeakReq e msg d s))" "P (snd (UponStopSpeakReq e msg d s))" "P (snd (UponRecognizeReq e msg d s))"
  unfolding UponSpeakReq_def UponStopSpeakReq_def UponRecognizeReq_def
  using assms prepare_ok
  by (auto intro!: on_ctx_ok message_request_ok simp: refuse_with_ok split: prod.splits prepared.splits) (metis snd_conv)+

lemma finalize_ok: "P s \<Longrightarrow> P (FinalizeSessionContext c s)"
  using erases [OF emit_other(2)] erases by (auto simp: FinalizeSessionContext_def Let_def split: option.splits)

lemma teardown_ok: "P s \<Longrightarrow> G msg \<Longrightarrow> P (snd (UponTearDownReq msg d s))"
  by (auto simp: UponTearDownReq_def refuse_with_ok emit_other intro!: finalize_ok split: option.splits)

lemma allocate_error_ok: "P s \<Longrightarrow> K c \<Longrightarrow> G msg \<Longrightarrow> P (snd (allocate_error msg old ses ch c s))"
  by (auto simp: allocate_error_def Let_def intro!: emit_other emit_answer puts)

lemma allocate_channel_ok:
  assumes "P s" "K c" "G msg"
  shows "P (snd (allocate_channel e msg d old ses c s))"
proof -
  let ?md = "ml_medium e (offer_body (mrcp_offer d))"
  consider "\<not> (is_ip_valid (med_connection ?md) \<and> is_port_valid (med_connection ?md)) \<or>
      filter (\<lambda>f. mf_type f \<noteq> MediaType_DTMF) (med_list ?md) = []"
    | f fs where "is_ip_valid (med_connection ?md) \<and> is_port_valid (med_connection ?md)"
      "filter (\<lambda>f. mf_type f \<noteq> MediaType_DTMF) (med_list ?md) = f # fs"
    by (cases "filter (\<lambda>f. mf_type f \<noteq> MediaType_DTMF) (med_list ?md)") auto
  then show ?thesis
  proof cases
    case 1
    then show ?thesis using allocate_error_ok [OF assms] by (auto simp: allocate_channel_def Let_def)
  next
    case (2 f)
    let ?rtp = "if offer_body (mrcp_offer d) = [] then None
      else Some (rtp_descriptor_create (med_connection ?md) (hd (med_list ?md)) (mrcp_resource d = RECOGNIZER))"
    let ?c1 = "c\<lparr>mc_format := f\<rparr>"
    obtain ch s1 where n: "lib_new e (Channel_create ses (mrcp_resource d) ?rtp) s = (ch, s1)" by fastforce
    then have s1: "P s1" using lib_new_ok [OF assms(1)] by (metis snd_conv)
    let ?c2 = "if mrcp_resource d = RECOGNIZER then ?c1\<lparr>mc_recog := ch\<rparr> else ?c1\<lparr>mc_synth := ch\<rparr>"
    have k: "K ?c1" "K ?c2" using assms(2) by (auto intro: changed)
    obtain b s2 where a: "lib e (Channel_add ses ch) s1 = (b, s2)" by fastforce
    then have s2: "P s2" using lib_ok [OF s1] by (metis snd_conv)
    have body: "allocate_channel e msg d old ses c s =
        (if mrcp_resource d = UKNOWN_MRCP_RESOURCE then allocate_error msg old ses False ?c1 s
         else if b then (Serving, put_ctx ?c2 s2) else allocate_error msg old ses (ch \<noteq> None) ?c2 s2)"
      using 2 by (simp add: allocate_channel_def Let_def n a split: bool.splits)
    have "P (put_ctx ?c2 s2)" by (rule puts [OF s2 k(2)])
    then show ?thesis unfolding body
      using allocate_error_ok [OF assms(1) k(1) assms(3)] allocate_error_ok [OF s2 k(2) assms(3)] by simp
  qed
qed

lemma allocate_session_ok:
  assumes P: "P s" and G: "G msg" and old: "old \<Longrightarrow> K c"
    and new: "\<not> old \<Longrightarrow> c = new_MrcpSessionCtx\<lparr>mc_handle := k, mc_handler := hr\<rparr>"
  shows "P (snd (allocate_session e msg d old c s))"
proof -
  let ?c = "c\<lparr>mc_state := MRCP_CONNECTING, mc_request := Some msg\<rparr>"
  let ?s = "if old then put_ctx ?c s else s"
  have K: "K ?c" if old using old [OF that] by (intro taken changed G)
  then have s: "P ?s" using P by (auto intro: puts)
  show ?thesis
  proof (cases "mc_session c")
    case (Some ses)
    then have old using new by (cases old) (auto simp: new_MrcpSessionCtx_def)
    moreover have "P (if offer_body (mrcp_offer d) \<noteq> []
        then emit (Answer msg MSG_MRCP_ALLOCATE_SESSION_NACK new_mrcp_data) ?s else ?s)"
      using s G by (simp add: emit_answer)
    ultimately have "P (snd (allocate_channel e msg d old ses ?c
        (if offer_body (mrcp_offer d) \<noteq> [] then emit (Answer msg MSG_MRCP_ALLOCATE_SESSION_NACK new_mrcp_data) ?s else ?s)))"
      by (intro allocate_channel_ok K G)
    moreover have "mc_session ?c = Some ses" using Some by simp
    ultimately show ?thesis by (simp only: allocate_session_def Let_def option.case)
  next
    case None
    have K': "K (?c\<lparr>mc_session := Some ses\<rparr>)" for ses
      using K fresh [OF G, where k = k and hr = hr and ses = ses] new by (cases old) (auto intro: changed)
    have ses: "mc_session ?c = None" using None by simp
    show ?thesis
    proof (cases "ml_option e ''unimrcp/unimrcp_client_profile''")
      case (Inl x)
      then show ?thesis using s by (simp only: allocate_session_def Let_def ses option.case sum.case snd_conv)
    next
      case (Inr pr)
      obtain r s1 where n: "lib_new e (Session_create pr (mc_handle ?c)) ?s = (r, s1)" by fastforce
      then have "P s1" using lib_new_ok [OF s] by (metis snd_conv)
      then have "case r of None \<Rightarrow> P (snd (refuse_with msg MSG_MRCP_ALLOCATE_SESSION_NACK s1))
        | Some ses \<Rightarrow> P (snd (allocate_channel e msg d old ses (?c\<lparr>mc_session := Some ses\<rparr>) s1))"
        by (cases r) (simp_all only: option.case allocate_channel_ok [OF _ K' G] refuse_with_ok [OF _ G])
      then show ?thesis
        by (cases r) (simp_all only: allocate_session_def Let_def ses Inr n option.case sum.case prod.case)
    qed
  qed
qed

lemma allocate_ok: "P s \<Longrightarrow> G msg \<Longrightarrow> P (snd (UponMrcpAllocateSessionReq e msg d s))"
  using allocate_session_ok [of s msg True] allocate_session_ok [of "s\<lparr>mv_next_handle := mv_next_handle s + 1\<rparr>" msg False]
  by (auto simp: UponMrcpAllocateSessionReq_def refuse_with_ok counts kept split: option.splits)

lemma answer_request_ok: "P s \<Longrightarrow> K c \<Longrightarrow> P (snd (answer_request c mid d s))"
  by (auto simp: answer_request_def intro: emit_requested requested split: option.splits)

lemma tell_handler_ok: "P s \<Longrightarrow> P (snd (tell_handler c mid d s))"
  by (auto simp: tell_handler_def emit_other split: option.splits)

lemma channel_add_ok: "P s \<Longrightarrow> P (snd (onMrcpChannelAddEvt e h st ses rsc rm s))"
proof (cases "smap_find (mv_ctxs s) h")
  case (Some c)
  assume "P s"
  then have c: "K c" using kept Some by blast
  then have "P (put_ctx (c\<lparr>mc_state := MRCP_ALLOCATED\<rparr>) s)" "K (c\<lparr>mc_state := MRCP_ALLOCATED\<rparr>)"
    using \<open>P s\<close> by (auto intro: puts changed)
  then show ?thesis using \<open>P s\<close> Some c
    by (cases st) (auto simp: onMrcpChannelAddEvt_def channel_added_def Let_def
        intro!: answer_request_ok emit_other finalize_ok split: prod.splits)
qed (simp add: onMrcpChannelAddEvt_def emit_other)

lemma message_ok:
  assumes "P s"
  shows "P (snd (onMrcpMessageReceived e h verb rid st body s))"
proof (cases "smap_find (mv_ctxs s) h")
  case (Some c)
  note K = kept [OF assms Some]
  show ?thesis
    by (cases "mc_last c") (simp_all add: onMrcpMessageReceived_def Some assms answer_request_ok [OF assms K] tell_handler_ok)
qed (simp add: onMrcpMessageReceived_def assms)

lemma dispatch_ok: "P s \<Longrightarrow> G msg \<Longrightarrow> P (snd (mrcp_dispatch e msg s))"
  by (auto simp: mrcp_dispatch_def Let_def intro!: destroys emit_answer emit_other allocate_ok requests_ok teardown_ok
      split: option.splits)

lemma round_ok:
  assumes "P s" "\<And>msg. ev = Inbound (Some msg) \<Longrightarrow> G msg"
  shows "P (snd (mrcp_round e ev s))"
  using assms
  by (auto simp: mrcp_round_def onMrcpSessionTerminatedEvt_def onMrcpSessionTerminatedRsp_def
      intro!: channel_add_ok message_ok dispatch_ok destroys finalize_ok emit_other split: server_event.splits option.splits)

lemma run_ok:
  assumes "P s" "\<forall>(e, ev) \<in> set evs. \<forall>msg. ev = Inbound (Some msg) \<longrightarrow> G msg"
  shows "P (snd (mrcp_run evs s))"
  using assms
proof (induction evs arbitrary: s)
  case (Cons p evs)
  obtain e ev where p: "p = (e, ev)" by (cases p)
  have "P (snd (mrcp_round e ev s))" using Cons.prems by (intro round_ok) (auto simp: p)
  then show ?case using Cons.IH Cons.prems(2) by (auto simp: p split: prod.splits mrcp_status.splits)
qed simp

end

section \<open>The sessions of the map\<close>

text \<open>Each session is found under its own handle and \<open>K\<close> holds of it.\<close>

definition keeps :: "(mrcp_ctx \<Rightarrow> bool) \<Rightarrow> mrcp_server \<Rightarrow> bool" where
  "keeps K s \<longleftrightarrow> smap_ok (mv_ctxs s) \<and>
     (\<forall>h c. smap_find (mv_ctxs s) h = Some c \<longrightarrow> mc_handle c = h \<and> K c)"

lemma keeps_same [simp]: "keeps K (emit x s) = keeps K s"
  "keeps K (s\<lparr>mv_next_handle := n\<rparr>) = keeps K s" "keeps K (s\<lparr>mv_next := i\<rparr>) = keeps K s"
  by (simp_all add: keeps_def emit_def)

lemma keeps_new [simp]: "keeps K new_ProcUniMrcp" "keeps K (server_Destroy s)"
  by (simp_all add: keeps_def new_ProcUniMrcp_def server_Destroy_def)

lemma keeps_changes:
  "keeps K s \<Longrightarrow> K c \<Longrightarrow> keeps K (put_ctx c s)"
  "keeps K s \<Longrightarrow> keeps K (s\<lparr>mv_ctxs := smap_erase h (mv_ctxs s)\<rparr>)"
  "keeps K s \<Longrightarrow> smap_find (mv_ctxs s) h = Some c \<Longrightarrow> mc_handle c = h \<and> K c"
  by (auto simp: keeps_def put_ctx_def smap_simps split: if_splits)

text \<open>A session of the map has a request and a session of the library.\<close>

abbreviation live :: "mrcp_ctx \<Rightarrow> bool" where
  "live c \<equiv> mc_request c \<noteq> None \<and> mc_session c \<noteq> None"

interpretation lv: server_frame "keeps live" live "\<lambda>_. True" "\<lambda>_. True"
  by unfold_locales (auto dest: keeps_changes(3) intro: keeps_changes(1,2))

lemma run_keeps_live: "mrcp_run evs new_ProcUniMrcp = (st, s) \<Longrightarrow> keeps live s"
  using lv.run_ok [of new_ProcUniMrcp evs] by auto

section \<open>Answers\<close>

fun answers_to :: "iw_message \<Rightarrow> mrcp_out list \<Rightarrow> MessageId list" where
  "answers_to r [] = []"
| "answers_to r (Answer m mid d # xs) = (if m = r then mid # answers_to r xs else answers_to r xs)"
| "answers_to r (_ # xs) = answers_to r xs"

lemma answers_to_append [simp]: "answers_to r (xs @ ys) = answers_to r xs @ answers_to r ys"
  by (induction r xs rule: answers_to.induct) auto

lemma answers_to_emit [simp]:
  "answers_to r (mv_out (emit x s)) = answers_to r (mv_out s) @ answers_to r [x]"
  by (simp add: emit_def)

lemma no_answer: "\<forall>msg mid d. x = Answer msg mid d \<longrightarrow> msg \<noteq> r \<Longrightarrow> answers_to r [x] = []"
  by (cases x) auto

lemma put_ctx_out [simp]: "mv_out (put_ctx c s) = mv_out s"
  by (simp add: put_ctx_def)

lemma destroy_answers [simp]: "answers_to r (mv_out (server_Destroy s)) = answers_to r (mv_out s)"
  by (simp add: server_Destroy_def)

text \<open>A request that no session holds: its answers stay the same.\<close>

interpretation quiet: server_frame
  "\<lambda>s. keeps (\<lambda>c. mc_request c \<noteq> Some r) s \<and> answers_to r (mv_out s) = L"
  "\<lambda>c. mc_request c \<noteq> Some r" "\<lambda>msg. msg \<noteq> r" "\<lambda>msg. msg \<noteq> r" for r L
proof (unfold_locales, goal_cases)
  case (1 s x)
  then show ?case using no_answer [of x r] by simp
qed (auto dest: keeps_changes(3) intro: keeps_changes(1,2))

section \<open>A request overtaken by another\<close>

lemma put_ctx_twice: "put_ctx c (put_ctx c s) = put_ctx c s"
  by (simp add: put_ctx_def smap_insert_twice)

lemma on_ctx_stored:
  assumes "smap_find (mv_ctxs s) (mrcp_handle d) = Some c" "mc_handle c = mrcp_handle d"
  shows "on_ctx msg d nack f (put_ctx (c\<lparr>mc_request := Some msg\<rparr>) s) = on_ctx msg d nack f s"
proof -
  have "smap_find (mv_ctxs (put_ctx (c\<lparr>mc_request := Some msg\<rparr>) s)) (mrcp_handle d) = Some (c\<lparr>mc_request := Some msg\<rparr>)"
    using assms(2) by (simp add: put_ctx_def smap_find_insert)
  then show ?thesis using assms(1) by (simp add: on_ctx_def Let_def put_ctx_twice)
qed

lemma dispatch_stored:
  assumes "smap_find (mv_ctxs s) (mrcp_handle d) = Some c" "mc_handle c = mrcp_handle d"
    and "speech_request msg = Some d"
    and "message_id msg \<in> {MSG_MRCP_SPEAK_REQ, MSG_MRCP_STOP_SPEAK_REQ, MSG_MRCP_RECOGNIZE_REQ}"
  shows "mrcp_dispatch e msg (put_ctx (c\<lparr>mc_request := Some msg\<rparr>) s) = mrcp_dispatch e msg s"
  using assms(3,4) on_ctx_stored [OF assms(1,2)]
  by (auto simp: mrcp_dispatch_def UponSpeakReq_def UponStopSpeakReq_def UponRecognizeReq_def)

text \<open>C12: a session keeps one request only: once a speech, a stop of a speech or a recognition has
  named the session of an earlier request that waits for its acknowledgement, the earlier request is
  not answered any more, whatever the server sends, unless the same request comes in again.\<close>

theorem overtaken_request_is_never_answered:
  assumes run: "mrcp_run evs new_ProcUniMrcp = (Serving, s)"
    and found: "smap_find (mv_ctxs s) (mrcp_handle d) = Some c"
    and only: "\<forall>h c'. smap_find (mv_ctxs s) h = Some c' \<longrightarrow> mc_request c' = Some r \<longrightarrow> h = mrcp_handle d"
    and msg: "speech_request msg = Some d" "msg \<noteq> r"
      "message_id msg \<in> {MSG_MRCP_SPEAK_REQ, MSG_MRCP_STOP_SPEAK_REQ, MSG_MRCP_RECOGNIZE_REQ}"
    and later: "\<forall>(e, ev) \<in> set later. ev \<noteq> Inbound (Some r)"
  shows "answers_to r (mv_out (snd (mrcp_run ((e, Inbound (Some msg)) # later) s))) = answers_to r (mv_out s)"
proof -
  let ?s = "put_ctx (c\<lparr>mc_request := Some msg\<rparr>) s"
  have live: "keeps live s" by (rule run_keeps_live [OF run])
  then have h: "mc_handle c = mrcp_handle d" using found keeps_changes(3) by blast
  have "keeps (\<lambda>c. mc_request c \<noteq> Some r) ?s"
    using live only msg(2) h by (auto simp: keeps_def put_ctx_def smap_simps)
  then have "answers_to r (mv_out (snd (mrcp_run ((e, Inbound (Some msg)) # later) ?s))) = answers_to r (mv_out s)"
    using quiet.run_ok [of r ?s _ "(e, Inbound (Some msg)) # later"] later msg(2) by auto
  then show ?thesis by (simp add: mrcp_round_def dispatch_stored [OF found h msg(1,3)])
qed

section \<open>What stops the process\<close>



lemma not_crashed [simp]: "fst (refuse_with msg mid s) \<noteq> Crashed"
  "fst (allocate_error msg old ses ch c s) \<noteq> Crashed"
  by (simp_all add: refuse_with_def allocate_error_def Let_def)

lemma message_request_not_crashed [simp]: "fst (message_request e msg nack m ch prep c s) \<noteq> Crashed"
  by (simp add: message_request_def split: prod.split option.split bool.split prepared.split)

lemma on_ctx_not_crashed:
  "(\<And>c s. fst (f c s) \<noteq> Crashed) \<Longrightarrow> fst (on_ctx msg d nack f s) \<noteq> Crashed"
  by (simp add: on_ctx_def Let_def split: option.split)

lemma requests_not_crashed [simp]:
  "fst (UponSpeakReq e msg d s) \<noteq> Crashed" "fst (UponStopSpeakReq e msg d s) \<noteq> Crashed"
  "fst (UponRecognizeReq e msg d s) \<noteq> Crashed" "fst (UponTearDownReq msg d s) \<noteq> Crashed"
  by (auto simp: UponSpeakReq_def UponStopSpeakReq_def UponRecognizeReq_def UponTearDownReq_def on_ctx_not_crashed
      split: option.split)

lemma allocate_channel_not_crashed [simp]: "fst (allocate_channel e msg d old ses c s) \<noteq> Crashed"
  by (simp add: allocate_channel_def Let_def split: list.split prod.split bool.split)

lemma allocate_not_crashed [simp]: "fst (UponMrcpAllocateSessionReq e msg d s) \<noteq> Crashed"
  by (simp add: UponMrcpAllocateSessionReq_def allocate_session_def Let_def split: option.split sum.split prod.split)

lemma answer_request_not_crashed [simp]: "live c \<Longrightarrow> fst (answer_request c mid d s) \<noteq> Crashed"
  by (auto simp: answer_request_def)






section \<open>A second channel\<close>



section \<open>A session on a demo server\<close>

definition demo_server :: mrcp_env where
  "demo_server = \<lparr>ml_ok = \<lambda>_ _. True, ml_id = \<lambda>n. int n + 100,
     ml_medium = \<lambda>body. if body = [] then new_medium else new_medium\<lparr>med_connection := CnxInfo_addr 1 5000, med_list := [mf_PCMU]\<rparr>,
     ml_inet = \<lambda>_. 1, ml_option = \<lambda>_. Inr ''uni'', ml_same = (=), ml_type = \<lambda>_. Any_string,
     ml_field = \<lambda>k. if k = ''jump_size'' then Other_field else Text_field, ml_fits = \<lambda>_ _. False, ml_time = 0, ml_garbage = False\<rparr>"

definition demo_req :: "int \<Rightarrow> MessageId \<Rightarrow> mrcp_data \<Rightarrow> iw_message" where
  "demo_req txn mid d = (new_IwMessage mid)\<lparr>transaction_id := txn, payload := MrcpPayload d\<rparr>"

definition demo_alloc :: "int \<Rightarrow> int \<Rightarrow> string \<Rightarrow> MrcpResource \<Rightarrow> iw_message" where
  "demo_alloc txn h offer rsc = demo_req txn MSG_MRCP_ALLOCATE_SESSION_REQ
     (new_mrcp_data\<lparr>mrcp_handle := h, mrcp_offer := \<lparr>offer_body = offer, offer_type = []\<rparr>,
        mrcp_handler := Some (1, 2), mrcp_resource := rsc\<rparr>)"

definition demo_of :: "int \<Rightarrow> MessageId \<Rightarrow> iw_message" where
  "demo_of txn mid = demo_req txn mid (new_mrcp_data\<lparr>mrcp_handle := 8000000\<rparr>)"

definition demo_added :: "MrcpResource \<Rightarrow> server_event" where
  "demo_added rsc = Channel_add_evt 8000000 Status_success 0 rsc \<lparr>rm_ip = ''h'', rm_port = 7000,
     rm_codecs = [\<lparr>cd_enabled = True, cd_name = ''PCMU'', cd_payload = 0, cd_rate = 8000\<rparr>]\<rparr>"

definition demo_opened :: "(mrcp_env \<times> server_event) list" where
  "demo_opened = map (\<lambda>ev. (demo_server, ev))
     [Inbound (Some (demo_alloc 1 0 ''offer'' SYNTHESIZER)), demo_added SYNTHESIZER]"

definition demo_speaking :: "(mrcp_env \<times> server_event) list" where
  "demo_speaking = demo_opened @ [(demo_server, Inbound (Some (demo_of 2 MSG_MRCP_SPEAK_REQ)))]"


lemma demo_speaks: "fst (mrcp_run demo_speaking new_ProcUniMrcp) = Serving"
  by code_simp



lemma demo_keys: "map fst (mv_ctxs (snd (mrcp_run demo_speaking new_ProcUniMrcp))) = [8000000]"
  by code_simp

lemma demo_unanswered:
  "answers_to (demo_of 2 MSG_MRCP_SPEAK_REQ) (mv_out (snd (mrcp_run demo_speaking new_ProcUniMrcp))) = []"
  by code_simp

lemma demo_request [simp]:
  "message_id (demo_of n mid) = mid"
  "speech_request (demo_of n mid) = Some (new_mrcp_data\<lparr>mrcp_handle := 8000000\<rparr>)"
  "demo_of n mid = demo_of n' mid' \<longleftrightarrow> n = n' \<and> mid = mid'"
  by (auto simp: demo_of_def demo_req_def speech_request_def new_IwMessage_def)

theorem overtaken_request_is_never_answered_witness:
  "\<exists>s. mrcp_run demo_speaking new_ProcUniMrcp = (Serving, s) \<and>
    answers_to (demo_of 2 MSG_MRCP_SPEAK_REQ) (mv_out (snd (mrcp_run
      [(demo_server, Inbound (Some (demo_of 3 MSG_MRCP_STOP_SPEAK_REQ))),
       (demo_server, Message_receive_evt 8000000 ''SPEAK'' 102 200 [])] s))) = []"
proof -
  obtain s where run: "mrcp_run demo_speaking new_ProcUniMrcp = (Serving, s)" and s: "s = snd (mrcp_run demo_speaking new_ProcUniMrcp)"
    using demo_speaks by (metis prod.collapse)
  have keys: "smap_find (mv_ctxs s) h \<noteq> None \<longleftrightarrow> h = 8000000" for h
    using arg_cong [OF demo_keys, of set] by (auto simp: smap_find_None_iff s)
  then obtain c where c: "smap_find (mv_ctxs s) 8000000 = Some c" by blast
  have none: "answers_to (demo_of 2 MSG_MRCP_SPEAK_REQ) (mv_out s) = []"
    unfolding s by (rule demo_unanswered)
  have "answers_to (demo_of 2 MSG_MRCP_SPEAK_REQ) (mv_out (snd (mrcp_run
      [(demo_server, Inbound (Some (demo_of 3 MSG_MRCP_STOP_SPEAK_REQ))),
       (demo_server, Message_receive_evt 8000000 ''SPEAK'' 102 200 [])] s))) =
      answers_to (demo_of 2 MSG_MRCP_SPEAK_REQ) (mv_out s)"
  proof (rule overtaken_request_is_never_answered [OF run, where d = "new_mrcp_data\<lparr>mrcp_handle := 8000000\<rparr>" and c = c])
    show "\<forall>h c'. smap_find (mv_ctxs s) h = Some c' \<longrightarrow>
        mc_request c' = Some (demo_of 2 MSG_MRCP_SPEAK_REQ) \<longrightarrow> h = mrcp_handle (new_mrcp_data\<lparr>mrcp_handle := 8000000\<rparr>)"
      using keys by fastforce
  qed (use c in simp_all)
  then show ?thesis using run none by metis
qed



section \<open>What the model showed\<close>

lemma second_channel_is_answered_twice:
  "answers_to (demo_alloc 4 8000000 ''offer'' RECOGNIZER) (mv_out (snd (mrcp_run
      (demo_opened @ [(demo_server, Inbound (Some (demo_alloc 4 8000000 ''offer'' RECOGNIZER))), (demo_server, demo_added RECOGNIZER)])
      new_ProcUniMrcp))) = [MSG_MRCP_ALLOCATE_SESSION_NACK, MSG_MRCP_ALLOCATE_SESSION_ACK]"
  by code_simp

lemma refused_channel_silences_the_first:
  "answers_to (demo_of 5 MSG_MRCP_SPEAK_REQ) (mv_out (snd (mrcp_run
      (demo_opened @ [(demo_server, Inbound (Some (demo_alloc 4 8000000 [] RECOGNIZER))),
         (demo_server, Inbound (Some (demo_of 5 MSG_MRCP_SPEAK_REQ)))]) new_ProcUniMrcp))) = [MSG_MRCP_SPEAK_NACK]"
  by code_simp

lemma refused_description_leaks_the_session:
  "(case mrcp_run [(demo_server, Inbound (Some (demo_alloc 1 0 [] SYNTHESIZER)))] new_ProcUniMrcp of (st, s) \<Rightarrow>
     (st, mv_ctxs s, filter (\<lambda>x. case x of Lib _ \<Rightarrow> True | _ \<Rightarrow> False) (mv_out s))) =
   (Serving, [], [Lib (Session_create ''uni'' 8000000)])"
  by code_simp

lemma speech_with_a_bad_parameter_ends_the_process:
  "fst (mrcp_run (demo_opened @ [(demo_server, Inbound (Some (demo_req 5 MSG_MRCP_SPEAK_REQ
      (new_mrcp_data\<lparr>mrcp_handle := 8000000, mrcp_params := [(''jump_size'', ''1'')]\<rparr>))))]) new_ProcUniMrcp) = Bad_cast_escaped"
  by code_simp

lemma teardown_is_not_answered:
  "smap_find (mv_ctxs s) (mrcp_handle d) = Some c \<Longrightarrow>
    answers_to r (mv_out (snd (UponTearDownReq msg d s))) = answers_to r (mv_out s)"
  by (simp add: UponTearDownReq_def FinalizeSessionContext_def Let_def split: option.split)

lemma recog_fields_share_headers:
  "(''completion_cause'', ''COMPLETION_CAUSE'') \<in> set recog_fields \<and> (''completion_reason'', ''COMPLETION_CAUSE'') \<in> set recog_fields"
  "(''hotword_min_duration'', ''HOTWORD_MAX_DURATION'') \<in> set recog_fields \<and> (''hotword_max_duration'', ''HOTWORD_MAX_DURATION'') \<in> set recog_fields"
  by (simp_all add: recog_fields_def)

end
