(* ===== verification/Iw_Session_Props.thy ===== *)
theory Iw_Session_Props
  imports Iw_Session Iw_Process_Props
begin

text \<open>
  Properties of active objects and of the offer/answer session: the outcome of every call
  operation on every branch, hanging up, accepting, and the DTMF buffer.
\<close>

section \<open>Frames\<close>

text \<open>Events change the call state and the DTMF buffer only.\<close>

lemma session_event_frame:
  assumes "session_event l m s w = Inr (s', w')"
  shows "s_iwCallHandle s' = s_iwCallHandle s \<and> s_localOffer s' = s_localOffer s \<and>
    s_remoteOffer s' = s_remoteOffer s \<and> s_serviceHandleId s' = s_serviceHandleId s \<and>
    s_uac s' = s_uac s \<and> s_handlerPair s' = s_handlerPair s \<and> s_ao s' = s_ao s \<and>
    s_dtmfChannel s' = s_dtmfChannel s \<and> s_hangupChannel s' = s_hangupChannel s \<and>
    (s_callState s' = s_callState s \<or> s_callState s' = CALL_STATE_TERMINATED)"
  using assms
  by (auto simp: session_event_def UponCallTerminated_def UponDtmfEvt_def
      split: if_splits payload.splits)

lemma session_events_frame:
  "session_events l ms s w = Inr (s', w') \<Longrightarrow>
     s_iwCallHandle s' = s_iwCallHandle s \<and> s_localOffer s' = s_localOffer s \<and>
     s_remoteOffer s' = s_remoteOffer s \<and> s_serviceHandleId s' = s_serviceHandleId s \<and>
     s_uac s' = s_uac s \<and> s_ao s' = s_ao s \<and>
     (s_callState s' = s_callState s \<or> s_callState s' = CALL_STATE_TERMINATED)"
proof (induction ms arbitrary: s w)
  case (Cons m ms)
  then show ?case by (fastforce dest: session_event_frame)
qed simp

lemma session_transaction_frame:
  "session_transaction ctx evs msg t nm s w = Inr (r, s', w') \<Longrightarrow>
     s_iwCallHandle s' = s_iwCallHandle s \<and> s_localOffer s' = s_localOffer s \<and>
     s_remoteOffer s' = s_remoteOffer s \<and> s_serviceHandleId s' = s_serviceHandleId s \<and>
     (s_callState s' = s_callState s \<or> s_callState s' = CALL_STATE_TERMINATED)"
  by (auto simp: session_transaction_def dest: session_events_frame)

lemma HangupCall_state:
  "HangupCall ctx s w = Inr (r, s', w') \<Longrightarrow>
     s_callState s' = s_callState s \<and>
     (s_iwCallHandle s' = IW_UNDEFINED \<or> s_callState s = CALL_STATE_UNKNOWN \<or>
      s_callState s = CALL_STATE_TERMINATED)"
  by (auto simp: HangupCall_def Let_def split: if_splits prod.splits)

section \<open>Example sessions\<close>

text \<open>A session towards the service with handle 6002; the handle of its next transaction is 6007.\<close>

definition demo_session :: session where
  "demo_session = (fst (new_session_idle demo_world))\<lparr>s_serviceHandleId := 6002\<rparr>"

definition demo_sdp :: AbstractOffer where
  "demo_sdp = \<lparr>offer_body = ''v=0'', offer_type = ''sdp''\<rparr>"

definition demo_reply :: "MessageId \<Rightarrow> iw_message" where
  "demo_reply mid = (new_MsgResponse mid)
     \<lparr>payload := CallPayload (new_call_data\<lparr>stack_call_handle := 77, remoteOffer := demo_sdp\<rparr>)\<rparr>"

definition demo_arrivals :: "(nat \<times> env_event) list \<Rightarrow> world" where
  "demo_arrivals fs = (snd (new_session_idle demo_world))\<lparr>w_future := fs\<rparr>"

definition demo_connected :: session where
  "demo_connected = demo_session\<lparr>s_callState := CALL_STATE_CONNECTED, s_iwCallHandle := 77\<rparr>"

lemma demo_session_fields:
  "s_callState demo_session = CALL_STATE_UNKNOWN" "s_iwCallHandle demo_session = IW_UNDEFINED"
  "s_callState demo_connected = CALL_STATE_CONNECTED" "s_iwCallHandle demo_connected = 77"
  "offer_body demo_sdp = ''v=0''"
  by code_simp+

section \<open>Outgoing calls\<close>




text \<open>An outgoing call that times out is never hung up: the session has no stack handle
  before the answer, so the hang-up of the timeout branch sends nothing, and the session
  stays unusable for another call.\<close>

theorem timed_out_call_is_not_hung_up:
  assumes "s_callState s = CALL_STATE_UNKNOWN" and "s_iwCallHandle s = IW_UNDEFINED"
    and "MakeCall ctx evs uri offer t s w = Inr (API_TIMEOUT, s', w')"
  shows "s_iwCallHandle s' = IW_UNDEFINED \<and> HangupCall ctx s' w' = Inr (API_SUCCESS, s', w') \<and>
    (\<forall>evs uri offer t v. MakeCall ctx evs uri offer t s' v = Inr (API_FAILURE, s', v)) \<and>
    (\<exists>msg w1 r s1. session_transaction ctx evs msg t ''GenericOfferAnswerSession::MakeCall TXN'' s1 w1
       = Inr (r, s', w'))"
proof -
  from assms(1,3) obtain msg w1 s1 r s2 w2 where
    tr: "session_transaction ctx evs msg t ''GenericOfferAnswerSession::MakeCall TXN'' s1 w1 = Inr (r, s2, w2)"
    and s1: "s1 = s\<lparr>s_callState := CALL_STATE_OFFERING, s_localOffer := offer\<rparr>"
    and h: "fst r = API_TIMEOUT \<and> (\<exists>x. HangupCall ctx s2 w2 = Inr (x, s', w'))"
    by (auto simp: MakeCall_def Let_def IW_FAILURE_def
        split: prod.splits if_splits option.splits payload.splits)
  from session_transaction_frame [OF tr] s1 assms(2)
  have f: "s_iwCallHandle s2 = IW_UNDEFINED" "s_callState s2 \<noteq> CALL_STATE_UNKNOWN" by auto
  with h have "s' = s2" "w' = w2" by (auto simp: HangupCall_def)
  have "\<exists>msg w1 r s1. session_transaction ctx evs msg t
      ''GenericOfferAnswerSession::MakeCall TXN'' s1 w1 = Inr (r, s', w')"
    using tr \<open>s' = s2\<close> \<open>w' = w2\<close> by blast
  with f \<open>s' = s2\<close> show ?thesis by (simp add: HangupCall_def MakeCall_def)
qed

theorem timed_out_call_is_not_hung_up_witness:
  "\<exists>s' w'. MakeCall demo_ctx [] ''sip:a'' demo_sdp 3 demo_session
       (demo_arrivals [(5, EvSend 6007 (demo_reply MSG_MAKE_CALL_OK))]) = Inr (API_TIMEOUT, s', w') \<and>
     HangupCall demo_ctx s' w' = Inr (API_SUCCESS, s', w')"
proof -
  have "case MakeCall demo_ctx [] ''sip:a'' demo_sdp 3 demo_session
      (demo_arrivals [(5, EvSend 6007 (demo_reply MSG_MAKE_CALL_OK))]) of
      Inl _ \<Rightarrow> False | Inr (res, _, _) \<Rightarrow> res = API_TIMEOUT"
    by code_simp
  then obtain s' w' where r: "MakeCall demo_ctx [] ''sip:a'' demo_sdp 3 demo_session
      (demo_arrivals [(5, EvSend 6007 (demo_reply MSG_MAKE_CALL_OK))]) = Inr (API_TIMEOUT, s', w')"
    by (auto split: sum.splits)
  from timed_out_call_is_not_hung_up [OF _ _ r] r show ?thesis by (simp add: demo_session_fields)
qed

text \<open>Whatever the first hang-up returned, a second one sends nothing, changes nothing and succeeds.\<close>

lemma hangup_idempotent:
  assumes "HangupCall ctx s w = Inr (r, s', w')"
  shows "HangupCall ctx s' v = Inr (API_SUCCESS, s', v)"
  using assms by (auto simp: HangupCall_def Let_def split: if_splits prod.splits)

text \<open>Operations in the wrong state are refused without a trace: the session, the handles and the
  clock are as before.\<close>

theorem wrong_state_has_no_effect:
  "(s_callState s \<noteq> CALL_STATE_UNKNOWN \<longrightarrow> MakeCall ctx evs uri offer t s w = Inr (API_FAILURE, s, w)) \<and>
   (offer_body offer = [] \<longrightarrow> ReOffer ctx evs offer t s w = Inr (API_WRONG_PARAMETER, s, w)) \<and>
   (offer_body offer \<noteq> [] \<and> s_callState s \<noteq> CALL_STATE_CONNECTED \<longrightarrow>
      ReOffer ctx evs offer t s w = Inr (API_WRONG_STATE, s, w)) \<and>
   (s_callState s \<noteq> CALL_STATE_INITIAL_OFFERED \<and> s_callState s \<noteq> CALL_STATE_REMOTE_OFFERED \<longrightarrow>
      Answer ctx evs offer s w = Inr (API_WRONG_STATE, s, w)) \<and>
   (s_iwCallHandle s = IW_UNDEFINED \<longrightarrow> BlindXfer ctx evs uri s w = Inr (API_FAILURE, s, w))"
  by (simp add: MakeCall_def ReOffer_def Answer_def BlindXfer_def)

theorem wrong_state_has_no_effect_witness:
  "MakeCall demo_ctx [] ''sip:a'' demo_sdp 3 demo_connected demo_world =
     Inr (API_FAILURE, demo_connected, demo_world) \<and>
   Answer demo_ctx [] demo_sdp demo_session demo_world =
     Inr (API_WRONG_STATE, demo_session, demo_world)"
  using wrong_state_has_no_effect [of demo_connected demo_ctx "[]" "''sip:a''" demo_sdp 3 demo_world]
    wrong_state_has_no_effect [of demo_session demo_ctx "[]" "''sip:a''" demo_sdp 3 demo_world]
  by (simp add: demo_session_fields)

text \<open>
  a re-offer in a connected call either keeps the call connected or gives it up: it ends
  connected with the new offers on success, connected with the old ones when the service
  refuses, and otherwise hung up with no stack handle left.\<close>

theorem reoffer_outcome:
  assumes "s_callState s = CALL_STATE_CONNECTED" and "offer_body offer \<noteq> []"
    and "ReOffer ctx evs offer t s w = Inr (res, s', w')"
  shows "(res = API_SUCCESS \<and> s_callState s' = CALL_STATE_CONNECTED \<and> s_localOffer s' = offer) \<or>
    (res = API_SERVER_FAILURE \<and> s_callState s' = CALL_STATE_CONNECTED \<and>
       s_localOffer s' = s_localOffer s \<and> s_remoteOffer s' = s_remoteOffer s) \<or>
    (res \<in> {API_TIMEOUT, API_SERVER_FAILURE} \<and>
       (s_iwCallHandle s' = IW_UNDEFINED \<or> s_callState s' = CALL_STATE_TERMINATED))"
  using assms
  by (auto simp: ReOffer_def Let_def IW_FAILURE_def
      split: prod.splits if_splits option.splits payload.splits
      dest!: session_transaction_frame HangupCall_state)

theorem reoffer_outcome_witness:
  "\<exists>s' w'. ReOffer demo_ctx [] demo_sdp 100 demo_connected
       (demo_arrivals [(5, EvSend 6007 (demo_reply MSG_CALL_REOFFER_ACK))]) = Inr (API_SUCCESS, s', w') \<and>
     s_callState s' = CALL_STATE_CONNECTED \<and> s_localOffer s' = demo_sdp"
proof -
  have "case ReOffer demo_ctx [] demo_sdp 100 demo_connected
      (demo_arrivals [(5, EvSend 6007 (demo_reply MSG_CALL_REOFFER_ACK))]) of
      Inl _ \<Rightarrow> False | Inr (res, _, _) \<Rightarrow> res = API_SUCCESS"
    by code_simp
  then obtain s' w' where r: "ReOffer demo_ctx [] demo_sdp 100 demo_connected
      (demo_arrivals [(5, EvSend 6007 (demo_reply MSG_CALL_REOFFER_ACK))]) = Inr (API_SUCCESS, s', w')"
    by (auto split: sum.splits)
  from reoffer_outcome [OF _ _ r] r show ?thesis by (simp add: demo_session_fields)
qed

section \<open>Incoming calls\<close>

lemma event_elsewhere:
  assumes "\<forall>m. e \<noteq> EvSend u m" and "e \<noteq> EvPoison u"
  shows "w_handles (apply_event e w) u = w_handles w u"
  using assms
  by (auto simp: apply_event_def handle_send_def handle_poison_def on_handle_Inr
      split: env_event.splits sum.splits if_splits)

definition untouched :: "int \<Rightarrow> (nat \<times> env_event) list \<Rightarrow> bool" where
  "untouched u fs \<longleftrightarrow> (\<forall>(t, e) \<in> set fs. (\<forall>m. e \<noteq> EvSend u m) \<and> e \<noteq> EvPoison u)"

lemma alt_wait_untouched:
  "untouched u fs \<Longrightarrow> w_handles w u = Some h \<Longrightarrow> \<not> chan_pending (hnd_channel h) \<Longrightarrow>
     \<exists>w'. alt_wait [u] t fs w = (None, w')"
proof (induction fs arbitrary: t w)
  case (Cons p fs)
  obtain dt e where p: "p = (dt, e)" by (cases p)
  from Cons.prems(1) p have e: "\<forall>m. e \<noteq> EvSend u m" "e \<noteq> EvPoison u" and u: "untouched u fs"
    by (auto simp: untouched_def)
  have "w_handles (apply_event e (w\<lparr>w_clock := w_clock w + dt\<rparr>)) u = Some h"
    using event_elsewhere [OF e] Cons.prems(2) by simp
  from Cons.IH [OF u this Cons.prems(3)] Cons.prems(2,3) p show ?case by auto
qed auto

lemma wait_untouched:
  assumes "untouched u (w_future w)" and "w_handles w u = Some new_LpHandle"
  shows "\<exists>w'. LpHandle_Wait me u t w = Inr ((API_TIMEOUT, None), w')"
proof -
  let ?h = "new_LpHandle\<lparr>hnd_reader := Some me\<rparr>"
  have idle: "\<not> chan_pending (hnd_channel ?h)"
    by (simp add: new_LpHandle_def new_channel_def chan_pending_def)
  have ck: "on_handle (\<lambda>h. bnd (CheckReader me h) (\<lambda>h'. Inr ((), h'))) u w = Inr ((), set_handle u ?h w)"
    using assms(2) by (simp add: on_handle_def CheckReader_def new_LpHandle_def)
  obtain w' where "alt_wait [u] t (w_future w) (set_handle u ?h w) = (None, w')"
    using alt_wait_untouched [OF assms(1), of "set_handle u ?h w" ?h t] idle by auto
  with ck idle show ?thesis by (auto simp: LpHandle_Wait_def priSelect_def)
qed

text \<open>A second accept on the same service never sees a call: it waits on the handle it has just
  declared instead of the subscribed one, so it times out however many calls are queued for
  the service.\<close>

theorem second_accept_times_out:
  assumes "smap_find (rc_appdata ctx) accept_key = Some handles"
    and "smap_find handles service = Some subscribed"
    and "untouched (w_pidIndex w) (w_future w)"
  shows "\<exists>ctx' w'. Accept matches ctx service t s w = Inr (API_TIMEOUT, ctx', s, w')"
proof -
  let ?u = "w_pidIndex w"
  have d: "declare_anon w = (?u, set_handle ?u new_LpHandle (w\<lparr>w_pidIndex := ?u + 1\<rparr>))"
    by (simp add: declare_anon_def declare_handle_def GenerateNewUID_def new_LpHandle_def)
  obtain w' where "LpHandle_Wait (rc_fiber ctx) ?u t (set_handle ?u new_LpHandle (w\<lparr>w_pidIndex := ?u + 1\<rparr>))
      = Inr ((API_TIMEOUT, None), w')"
    using wait_untouched [of ?u "set_handle ?u new_LpHandle (w\<lparr>w_pidIndex := ?u + 1\<rparr>)"] assms(3)
    by fastforce
  with assms(1,2) d show ?thesis by (simp add: Accept_def accept_wait_def IW_FAILURE_def)
qed

definition accepting_ctx :: running_context where
  "accepting_ctx = demo_ctx\<lparr>rc_appdata := [(accept_key, [(''sip'', 6002)])]\<rparr>"

definition offered_msg :: iw_message where
  "offered_msg = (new_IwMessage MSG_CALL_OFFERED)
     \<lparr>payload := CallPayload (new_call_data\<lparr>stack_call_handle := 77\<rparr>)\<rparr>"

theorem second_accept_times_out_witness:
  "\<exists>ctx' w'. Accept (=) accepting_ctx ''sip'' 100 (fst (new_session_idle demo_world))
     (demo_world\<lparr>w_future := [(5, EvSend 6002 offered_msg)]\<rparr>) =
     Inr (API_TIMEOUT, ctx', fst (new_session_idle demo_world), w')"
  by (rule second_accept_times_out [where handles = "[(''sip'', 6002)]" and subscribed = 6002])
    (auto simp: accepting_ctx_def untouched_def demo_world_def)

text \<open>
  a call accepted on a session created without a service cannot be hung up: accepting records
  the caller and the offer but not the stack's call handle, so hanging up sends nothing.\<close>

theorem accepted_call_has_no_handle:
  assumes "Accept matches ctx service t s w = Inr (API_SUCCESS, ctx', s', w')"
    and "s_iwCallHandle s = IW_UNDEFINED"
  shows "s_callState s' = CALL_STATE_INITIAL_OFFERED \<and> s_iwCallHandle s' = IW_UNDEFINED \<and>
    HangupCall ctx' s' v = Inr (API_SUCCESS, s', v) \<and> s_uac s' = s_uac s"
proof -
  have aw: "s_callState x' = CALL_STATE_INITIAL_OFFERED \<and> s_iwCallHandle x' = s_iwCallHandle x \<and>
      s_uac x' = s_uac x"
    if "accept_wait c l t x u = Inr (API_SUCCESS, x', u')" for c l x u x' u'
  proof -
    from that obtain cd where "InitFromIncoming cd x = Inr x'"
      by (auto simp: accept_wait_def IW_FAILURE_def split: if_splits option.splits payload.splits)
    then show ?thesis by (auto simp: InitFromIncoming_def)
  qed
  from assms have "s_callState s' = CALL_STATE_INITIAL_OFFERED \<and> s_iwCallHandle s' = s_iwCallHandle s
      \<and> s_uac s' = s_uac s"
    by (auto simp: Accept_def Let_def IW_FAILURE_def split: prod.splits option.splits if_splits
        dest!: aw)
  with assms(2) show ?thesis by (simp add: HangupCall_def)
qed

theorem accepted_call_has_no_handle_witness:
  "\<exists>ctx' s' w'. Accept (=) demo_ctx ''peer'' 100 demo_session
       (demo_arrivals [(5, EvSend 6008 (new_MsgResponse MSG_CALL_SUBSCRIBE_ACK)),
          (5, EvSend 6007 offered_msg)]) = Inr (API_SUCCESS, ctx', s', w') \<and>
     s_iwCallHandle s' = IW_UNDEFINED"
proof -
  let ?w = "demo_arrivals [(5, EvSend 6008 (new_MsgResponse MSG_CALL_SUBSCRIBE_ACK)),
    (5, EvSend 6007 offered_msg)]"
  have "case Accept (=) demo_ctx ''peer'' 100 demo_session ?w of
      Inl _ \<Rightarrow> False | Inr (res, _, _, _) \<Rightarrow> res = API_SUCCESS"
    by code_simp
  then obtain ctx' s' w' where
    r: "Accept (=) demo_ctx ''peer'' 100 demo_session ?w = Inr (API_SUCCESS, ctx', s', w')"
    by (auto split: sum.splits)
  from accepted_call_has_no_handle [OF r] r show ?thesis by (simp add: demo_session_fields)
qed

section \<open>DTMF\<close>

definition dtmf_msg :: "string \<Rightarrow> iw_message" where
  "dtmf_msg x = (new_IwMessage MSG_CALL_DTMF_EVT)
     \<lparr>payload := CallPayload (new_call_data\<lparr>signal := x\<rparr>)\<rparr>"

text \<open>
  the DTMF buffer is the concatenation, in order, of the signals received since it was last
  cleaned, and cleaning it leaves an empty buffer and an empty channel.\<close>

theorem dtmf_buffer_collects_signals:
  assumes "session_events l (map dtmf_msg xs) s w = Inr (s', w')"
  shows "s_dtmfBuffer s' = s_dtmfBuffer s @ concat xs \<and>
    (s_dtmfChannel s' < w_pidIndex w' \<longrightarrow> (\<forall>s'' w''. CleanDtmfBuffer s' w' = Inr (s'', w'') \<longrightarrow>
       s_dtmfBuffer s'' = [] \<and> w_handles w'' (s_dtmfChannel s'') = Some new_LpHandle \<and>
       w_handles w'' (s_dtmfChannel s') = None))"
proof
  show "s_dtmfBuffer s' = s_dtmfBuffer s @ concat xs"
    using assms
  proof (induction xs arbitrary: s w)
    case (Cons x xs)
    from Cons.prems obtain s1 w1 where e: "session_event l (dtmf_msg x) s w = Inr (s1, w1)"
      and r: "session_events l (map dtmf_msg xs) s1 w1 = Inr (s', w')" by auto
    from e have "s_dtmfBuffer s1 = s_dtmfBuffer s @ x"
      by (auto simp: session_event_def UponDtmfEvt_def dtmf_msg_def)
    with Cons.IH [OF r] show ?case by simp
  qed simp
  show "s_dtmfChannel s' < w_pidIndex w' \<longrightarrow> (\<forall>s'' w''. CleanDtmfBuffer s' w' = Inr (s'', w'') \<longrightarrow>
       s_dtmfBuffer s'' = [] \<and> w_handles w'' (s_dtmfChannel s'') = Some new_LpHandle \<and>
       w_handles w'' (s_dtmfChannel s') = None)"
    by (auto simp: handle_poison_def on_handle_def set_handle_def CleanDtmfBuffer_def declare_anon_def
        declare_handle_def GenerateNewUID_def destroy_handle_def new_LpHandle_def Let_def
        split: option.splits)
qed

theorem dtmf_buffer_collects_signals_witness:
  "\<exists>s' w'. session_events 6003 (map dtmf_msg [''1'', ''2'']) demo_session (demo_arrivals []) =
     Inr (s', w') \<and> s_dtmfBuffer s' = ''12''"
proof -
  have "case session_events 6003 (map dtmf_msg [''1'', ''2'']) demo_session (demo_arrivals []) of
      Inl _ \<Rightarrow> False | Inr (s', _) \<Rightarrow> s_dtmfBuffer demo_session = []"
    by code_simp
  then obtain s' w' where
    r: "session_events 6003 (map dtmf_msg [''1'', ''2'']) demo_session (demo_arrivals []) = Inr (s', w')"
    and b: "s_dtmfBuffer demo_session = []"
    by (auto split: sum.splits)
  from dtmf_buffer_collects_signals [OF r] b have "s_dtmfBuffer s' = ''12''" by simp
  with r show ?thesis by blast
qed

section \<open>Event listeners\<close>

text \<open>Listeners stay distinct, so each event is proxied to a listener once: adding one keeps the
  list distinct and makes it the last, removing one takes exactly that one out.\<close>

theorem listeners_stay_distinct:
  assumes "distinct (ao_listeners ao)"
  shows "distinct (ao_listeners (AddEventListener u ao)) \<and>
    set (ao_listeners (AddEventListener u ao)) = insert u (set (ao_listeners ao)) \<and>
    last (ao_listeners (AddEventListener u ao)) = u \<and>
    distinct (ao_listeners (RemoveEventListener (Some u) ao)) \<and>
    set (ao_listeners (RemoveEventListener (Some u) ao)) = set (ao_listeners ao) - {u}"
  using assms by (auto simp: AddEventListener_def RemoveEventListener_def remove_loop_filter Let_def)

theorem listeners_stay_distinct_witness:
  "distinct (ao_listeners (AddEventListener 6001 (new_ActiveObject\<lparr>ao_listeners := [6001, 6002]\<rparr>)))"
  using listeners_stay_distinct [of "new_ActiveObject\<lparr>ao_listeners := [6001, 6002]\<rparr>" 6001] by simp

end
