(* ===== verification/Iw_RtpProxy.thy ===== *)
theory Iw_RtpProxy
  imports Iw_Media Iw_Process
begin

unbundle bit_operations_syntax

text \<open>
  The media proxy process (\<^verbatim>\<open>iw_live555rtpproxy/ProcLive555RtpProxy.cpp\<close>): a pool of transport
  connections that sessions allocate, bridge to each other, modify and give back.  Each
  request handler is a function on the state of the process that may end in a fault and
  gives the reply it sends, if any.
\<close>

section \<open>State\<close>

text \<open>The connection states; the bits of \<^verbatim>\<open>enum CONNECTION_STATE\<close>.\<close>

definition ST_AVAILABLE :: int where "ST_AVAILABLE = 0x00"
definition ST_ALLOCATED :: int where "ST_ALLOCATED = 0x01"
definition ST_INPUT :: int where "ST_INPUT = 0x03"
definition ST_OUTPUT :: int where "ST_OUTPUT = 0x05"
definition ST_FULLDUPLEX :: int where "ST_FULLDUPLEX = 0x07"

text \<open>
  The media objects of the streaming library: a source, whether a reader is waiting for its
  next frame, and what the process has put into it; a sink and the source it plays.  Their
  factories use \<^verbatim>\<open>new\<close> and never give a null pointer.
\<close>

record rtp_source =
  src_payload :: "8 word"
  src_freq :: "32 word"
  src_mime :: string
  src_dtmf :: MediaFormat
  src_cn :: MediaFormat
  src_handler :: "int option"
  src_lastTimestamp :: "32 word"
  src_awaiting :: bool

record rtp_sink =
  snk_mock :: bool
  snk_source :: "nat option"

text \<open>
  A connection: \<^verbatim>\<open>RtpConnection\<close>.  Pointers are addresses of the heaps of the process.  The two
  sockets are reduced to the destinations they have been given.
\<close>

record rtp_connection =
  connection_id :: int
  conn_state :: int
  local_cnx :: cnx_info
  remote_cnx :: cnx_info
  media_format :: MediaFormat
  dtmf_format :: MediaFormat
  cn_format :: MediaFormat
  source_conn :: "nat option"
  conn_source :: "nat option"
  destination_conn :: "nat option"
  conn_sink :: "nat option"
  rtcp_instance :: "nat option"
  conn_handler :: "int option"
  rtp_dest :: "(32 word \<times> int) option"
  rtcp_dest :: "(32 word \<times> int) option"

definition new_RtpConnection :: rtp_connection where
  "new_RtpConnection = \<lparr>connection_id = 0, conn_state = ST_ALLOCATED, local_cnx = new_CnxInfo,
     remote_cnx = new_CnxInfo, media_format = mf_UNKNOWN, dtmf_format = mf_UNKNOWN,
     cn_format = mf_UNKNOWN, source_conn = None, conn_source = None, destination_conn = None,
     conn_sink = None, rtcp_instance = None, conn_handler = None, rtp_dest = None, rtcp_dest = None\<rparr>"

record proxy =
  px_map :: "(int, nat) smap"
  px_conns :: "nat \<Rightarrow> rtp_connection option"
  px_sources :: "nat \<Rightarrow> rtp_source option"
  px_sinks :: "nat \<Rightarrow> rtp_sink option"
  px_rtcps :: "nat \<Rightarrow> bool"
  px_next :: nat

text \<open>
  Faults: an object is used after it has been closed; the library ends the whole process;
  the front of an empty list is taken; a fault of the messaging core.
\<close>

datatype px_fault = Dangling | Process_exit | Front_of_empty | Messaging fault

section \<open>Media objects\<close>

definition stopGettingFrames :: "nat \<Rightarrow> proxy \<Rightarrow> px_fault + proxy" where
  "stopGettingFrames s px =
     (case px_sources px s of
        None \<Rightarrow> Inl Dangling
      | Some x \<Rightarrow> Inr (px\<lparr>px_sources := (px_sources px)(s \<mapsto> x\<lparr>src_awaiting := False\<rparr>)\<rparr>))"

definition stopPlaying :: "nat \<Rightarrow> proxy \<Rightarrow> px_fault + proxy" where
  "stopPlaying k px =
     (case px_sinks px k of
        None \<Rightarrow> Inl Dangling
      | Some x \<Rightarrow>
          bnd (case snk_source x of None \<Rightarrow> Inr px | Some s \<Rightarrow> stopGettingFrames s px) (\<lambda>px1.
            Inr (px1\<lparr>px_sinks := (px_sinks px1)(k \<mapsto> x\<lparr>snk_source := None\<rparr>)\<rparr>)))"

text \<open>
  A sink that plays already refuses.  The first read of a source that somebody else reads
  ends the process.
\<close>

definition startPlaying :: "nat \<Rightarrow> nat \<Rightarrow> proxy \<Rightarrow> px_fault + (bool \<times> proxy)" where
  "startPlaying k s px =
     (case px_sinks px k of
        None \<Rightarrow> Inl Dangling
      | Some x \<Rightarrow>
          if snk_source x \<noteq> None then Inr (False, px)
          else (case px_sources px s of
                  None \<Rightarrow> Inl Dangling
                | Some y \<Rightarrow>
                    if src_awaiting y then Inl Process_exit
                    else Inr (True, px\<lparr>px_sinks := (px_sinks px)(k \<mapsto> x\<lparr>snk_source := Some s\<rparr>),
                                       px_sources := (px_sources px)(s \<mapsto> y\<lparr>src_awaiting := True\<rparr>)\<rparr>)))"

definition close_source :: "nat \<Rightarrow> proxy \<Rightarrow> px_fault + proxy" where
  "close_source s px =
     (if px_sources px s = None then Inl Dangling
      else Inr (px\<lparr>px_sources := (px_sources px)(s := None)\<rparr>))"

text \<open>The destructor of a sink stops it first.\<close>

definition close_sink :: "nat \<Rightarrow> proxy \<Rightarrow> px_fault + proxy" where
  "close_sink k px =
     bnd (stopPlaying k px) (\<lambda>px1. Inr (px1\<lparr>px_sinks := (px_sinks px1)(k := None)\<rparr>))"

definition close_rtcp :: "nat \<Rightarrow> proxy \<Rightarrow> px_fault + proxy" where
  "close_rtcp r px =
     (if \<not> px_rtcps px r then Inl Dangling else Inr (px\<lparr>px_rtcps := (px_rtcps px)(r := False)\<rparr>))"

definition new_source :: "rtp_connection \<Rightarrow> proxy \<Rightarrow> nat \<times> proxy" where
  "new_source c px =
     (let f = media_format c;
          x = \<lparr>src_payload = word_of_int (mf_mapping f), src_freq = word_of_int (mf_rate f),
               src_mime = mf_name f, src_dtmf = dtmf_format c, src_cn = cn_format c,
               src_handler = conn_handler c, src_lastTimestamp = 0, src_awaiting = False\<rparr>
      in (px_next px, px\<lparr>px_sources := (px_sources px)(px_next px \<mapsto> x), px_next := px_next px + 1\<rparr>))"

definition new_sink :: "bool \<Rightarrow> proxy \<Rightarrow> nat \<times> proxy" where
  "new_sink mock px =
     (px_next px, px\<lparr>px_sinks := (px_sinks px)(px_next px \<mapsto> \<lparr>snk_mock = mock, snk_source = None\<rparr>),
                     px_next := px_next px + 1\<rparr>)"

definition new_rtcp :: "proxy \<Rightarrow> nat \<times> proxy" where
  "new_rtcp px =
     (px_next px, px\<lparr>px_rtcps := (px_rtcps px)(px_next px := True), px_next := px_next px + 1\<rparr>)"

definition new_conn :: "rtp_connection \<Rightarrow> proxy \<Rightarrow> nat \<times> proxy" where
  "new_conn c px =
     (px_next px, px\<lparr>px_conns := (px_conns px)(px_next px \<mapsto> c), px_next := px_next px + 1\<rparr>)"

text \<open>Access to a connection through its shared pointer.\<close>

definition with_conn :: "nat \<Rightarrow> proxy \<Rightarrow> (rtp_connection \<Rightarrow> px_fault + 'a) \<Rightarrow> px_fault + 'a" where
  "with_conn a px f = (case px_conns px a of None \<Rightarrow> Inl Dangling | Some c \<Rightarrow> f c)"

definition upd_conn :: "nat \<Rightarrow> (rtp_connection \<Rightarrow> rtp_connection) \<Rightarrow> proxy \<Rightarrow> proxy" where
  "upd_conn a f px = px\<lparr>px_conns := (px_conns px)(a := map_option f (px_conns px a))\<rparr>"

section \<open>Bridging\<close>

text \<open>The logical negation of C.\<close>

definition c_not :: "int \<Rightarrow> int" where
  "c_not x = (if x = 0 then 1 else 0)"

definition unbridge_src :: "nat option \<Rightarrow> proxy \<Rightarrow> px_fault + proxy" where
  "unbridge_src ao px =
     (case ao of
        None \<Rightarrow> Inr px
      | Some a \<Rightarrow> with_conn a px (\<lambda>c.
          case conn_source c of
            None \<Rightarrow> Inr px
          | Some s \<Rightarrow> bnd (stopGettingFrames s px) (\<lambda>px1.
              Inr (upd_conn a (\<lambda>c. c\<lparr>conn_state := conn_state c AND c_not ST_INPUT,
                                     destination_conn := None\<rparr>) px1))))"

definition unbridge_dst :: "nat option \<Rightarrow> proxy \<Rightarrow> px_fault + proxy" where
  "unbridge_dst ao px =
     (case ao of
        None \<Rightarrow> Inr px
      | Some a \<Rightarrow> with_conn a px (\<lambda>c.
          case conn_sink c of
            None \<Rightarrow> Inr px
          | Some k \<Rightarrow> bnd (stopPlaying k px) (\<lambda>px1.
              Inr (upd_conn a (\<lambda>c. c\<lparr>conn_state := conn_state c AND c_not ST_OUTPUT,
                                     source_conn := None\<rparr>) px1))))"

definition DoUnbridge :: "nat option \<Rightarrow> nat option \<Rightarrow> proxy \<Rightarrow> px_fault + proxy" where
  "DoUnbridge src dst px = bnd (unbridge_src src px) (unbridge_dst dst)"

definition Unbridge :: "nat \<Rightarrow> proxy \<Rightarrow> px_fault + proxy" where
  "Unbridge a px = with_conn a px (\<lambda>c.
     if conn_state c = ST_AVAILABLE \<or> conn_state c = ST_ALLOCATED then Inr px
     else if conn_state c = ST_INPUT then DoUnbridge (Some a) (destination_conn c) px
     else if conn_state c = ST_OUTPUT then DoUnbridge (destination_conn c) (Some a) px
     else if conn_state c = ST_FULLDUPLEX
     then bnd (DoUnbridge (Some a) (destination_conn c) px) (\<lambda>px1. with_conn a px1 (\<lambda>c1.
            DoUnbridge (destination_conn c1) (Some a) px1))
     else Inr px)"

text \<open>The pointer, or a new object where it is null.\<close>

definition or_new :: "nat option \<Rightarrow> (proxy \<Rightarrow> nat \<times> proxy) \<Rightarrow> proxy \<Rightarrow> nat \<times> proxy" where
  "or_new p mk px = (case p of Some x \<Rightarrow> (x, px) | None \<Rightarrow> mk px)"

text \<open>
  The error exit: everything is closed, in this order.  The states the connections have got
  stay as they are.
\<close>

definition close_opt :: "(nat \<Rightarrow> proxy \<Rightarrow> px_fault + proxy) \<Rightarrow> nat option \<Rightarrow> proxy \<Rightarrow> px_fault + proxy" where
  "close_opt cl p px = (case p of None \<Rightarrow> Inr px | Some x \<Rightarrow> cl x px)"

definition bridge_error ::
  "nat \<Rightarrow> nat \<Rightarrow> nat \<Rightarrow> nat \<Rightarrow> nat \<Rightarrow> nat option \<Rightarrow> proxy \<Rightarrow> px_fault + (ApiErrorCode \<times> proxy)" where
  "bridge_error a d s r k kr px =
     bnd (close_source s px) (\<lambda>p1. bnd (close_rtcp r p1) (\<lambda>p2.
     bnd (close_sink k p2) (\<lambda>p3. bnd (close_opt close_rtcp kr p3) (\<lambda>p4.
       let p5 = upd_conn a (\<lambda>c. c\<lparr>conn_source := None, destination_conn := None, rtcp_instance := None\<rparr>) p4;
           p6 = upd_conn d (\<lambda>c. c\<lparr>conn_sink := None, source_conn := None, rtcp_instance := None\<rparr>) p5
       in Inr (API_FAILURE, p6)))))"

text \<open>Without a destination the source is read by a sink that drops what it gets.\<close>

definition DoBridge :: "nat \<Rightarrow> nat option \<Rightarrow> proxy \<Rightarrow> px_fault + (ApiErrorCode \<times> proxy)" where
  "DoBridge a dsto px =
     (let (d, p0) = or_new dsto (new_conn new_RtpConnection) px in
      with_conn a p0 (\<lambda>c. with_conn d p0 (\<lambda>dc.
        let (s, p1) = or_new (conn_source c) (new_source c) p0;
            (r, p2) = or_new (rtcp_instance c) new_rtcp p1;
            (k, p3) = (if dsto = None then new_sink True p2
                       else or_new (conn_sink dc) (new_sink False) p2);
            (kr, p4) = (if dsto = None then (None, p3)
                        else let (x, q) = or_new (rtcp_instance dc) new_rtcp p3 in (Some x, q));
            p5 = upd_conn a (\<lambda>c. c\<lparr>conn_state := conn_state c OR ST_INPUT, conn_source := Some s,
                                   destination_conn := Some d, rtcp_instance := Some r\<rparr>) p4;
            p6 = upd_conn d (\<lambda>c. c\<lparr>conn_state := conn_state c OR ST_OUTPUT, conn_sink := Some k,
                                   source_conn := Some a, rtcp_instance := kr\<rparr>) p5
        in bnd (startPlaying k s p6) (\<lambda>(started, p7).
             if started then Inr (API_SUCCESS, p7) else bridge_error a d s r k kr p7))))"

definition Bridge :: "nat \<Rightarrow> nat option \<Rightarrow> bool \<Rightarrow> proxy \<Rightarrow> px_fault + (ApiErrorCode \<times> proxy)" where
  "Bridge a dsto fullDuplex px =
     bnd (Unbridge a px) (\<lambda>p1.
     bnd (case dsto of None \<Rightarrow> Inr p1 | Some d \<Rightarrow> Unbridge d p1) (\<lambda>p2.
     bnd (DoBridge a dsto p2) (\<lambda>(res, p3).
       if IW_FAILURE res then Inr (res, p3)
       else
         bnd (if fullDuplex \<and> dsto \<noteq> None then DoBridge (the dsto) (Some a) p3 else Inr (res, p3))
           (\<lambda>(res2, p4).
              if IW_FAILURE res2 then bnd (Unbridge a p4) (\<lambda>p5. Inr (res2, p5))
              else Inr (res2, p4)))))"

section \<open>Requests\<close>

type_synonym reply = "MessageId \<times> rtp_data"

definition nack :: reply where "nack = (MSG_RTP_PROXY_NACK, new_rtp_data)"

fun find_available :: "proxy \<Rightarrow> (int, nat) smap \<Rightarrow> nat option" where
  "find_available px [] = None"
| "find_available px ((i, a) # m) =
     (case px_conns px a of
        Some c \<Rightarrow> if conn_state c = ST_AVAILABLE then Some a else find_available px m
      | None \<Rightarrow> find_available px m)"

definition sdp_answer :: "nat \<Rightarrow> cnx_info \<Rightarrow> medium \<Rightarrow> string" where
  "sdp_answer time local m =
     ''v=0'' @ CRLF @
     ''o=live555proxy '' @ itoa (int time) @ '' '' @ itoa (int time) @ '' IN IP4 '' @ iptoa local @ CRLF @
     ''s=live555proxy'' @ CRLF @
     ''c=IN IP4 '' @ iptoa local @ CRLF @
     ''t=0 0'' @ CRLF @
     ''m=audio '' @ itoa (port_ho local) @ '' RTP/AVP'' @
     append_codec_list m @ CRLF @ append_rtp_map m @ CRLF @ CRLF"

text \<open>Where both parts of the address are valid, the sockets are given the new destination.\<close>

definition set_destination :: "cnx_info \<Rightarrow> rtp_connection \<Rightarrow> rtp_connection" where
  "set_destination x c =
     (if is_ip_valid x \<and> is_port_valid x
      then c\<lparr>rtp_dest := Some (sin_addr x, port_ho x), rtcp_dest := Some (sin_addr x, port_ho x + 1)\<rparr>
      else c)"

text \<open>\<open>sdp\<close> reads an offer's body; \<open>ticks\<close> is the clock of the machine.\<close>

definition UponAllocateReq ::
  "(string \<Rightarrow> medium) \<Rightarrow> nat \<Rightarrow> rtp_data \<Rightarrow> proxy \<Rightarrow> px_fault + (reply option \<times> proxy)" where
  "UponAllocateReq sdp ticks req px =
     (if offer_body (rtp_offer req) = [] then Inr (Some nack, px)
      else case find_available px (px_map px) of
        None \<Rightarrow> Inr (Some nack, px)
      | Some a \<Rightarrow>
          let p1 = upd_conn a (\<lambda>c. c\<lparr>conn_state := ST_ALLOCATED\<rparr>) px;
              m = sdp (offer_body (rtp_offer req))
          in case med_list m of
               [] \<Rightarrow> Inr (Some nack, p1)
             | f # _ \<Rightarrow>
                 let p2 = upd_conn a (\<lambda>c. set_destination (med_connection m)
                            (c\<lparr>remote_cnx := med_connection m, media_format := f, cn_format := med_cn m,
                               dtmf_format := med_dtmf m, conn_handler := rtp_handler req\<rparr>)) p1
                 in with_conn a p2 (\<lambda>c.
                      let ack = new_rtp_data\<lparr>rtp_proxy_handle := connection_id c,
                                  rtp_offer := \<lparr>offer_body = sdp_answer ticks (local_cnx c) m,
                                                offer_type = ''application/sdp''\<rparr>\<rparr>
                      in bnd (Bridge a None False p2) (\<lambda>(res, p3).
                           Inr (Some (if IW_FAILURE res then nack else (MSG_RTP_PROXY_ACK, ack)), p3))))"

definition UponDeallocateReq :: "rtp_data \<Rightarrow> proxy \<Rightarrow> px_fault + (reply option \<times> proxy)" where
  "UponDeallocateReq req px =
     (case smap_find (px_map px) (rtp_proxy_handle req) of
        None \<Rightarrow> Inr (Some nack, px)
      | Some a \<Rightarrow> with_conn a px (\<lambda>c.
          if conn_state c = ST_AVAILABLE then Inr (Some nack, px)
          else
            bnd (Unbridge a px) (\<lambda>p1. with_conn a p1 (\<lambda>c1.
            bnd (close_opt close_rtcp (rtcp_instance c1) p1) (\<lambda>p2.
            bnd (close_opt close_sink (conn_sink c1) p2) (\<lambda>p3.
            bnd (close_opt close_source (conn_source c1) p3) (\<lambda>p4.
              Inr (None, upd_conn a (\<lambda>c. c\<lparr>rtcp_instance := None, conn_sink := None,
                           conn_source := None, conn_state := ST_AVAILABLE\<rparr>) p4))))))))"

definition UponModifyReq ::
  "(string \<Rightarrow> medium) \<Rightarrow> rtp_data \<Rightarrow> proxy \<Rightarrow> px_fault + (reply option \<times> proxy)" where
  "UponModifyReq sdp req px =
     (case smap_find (px_map px) (rtp_proxy_handle req) of
        None \<Rightarrow> Inr (Some nack, px)
      | Some a \<Rightarrow>
          let m = sdp (offer_body (rtp_offer req))
          in case med_list m of
               [] \<Rightarrow> Inl Front_of_empty
             | f # _ \<Rightarrow>
                 let p1 = (if mf_type f \<noteq> MediaType_UNKNOWN
                           then upd_conn a (\<lambda>c. c\<lparr>media_format := f\<rparr>) px else px);
                     x = med_connection m;
                     p2 = (if is_ip_valid x \<and> is_port_valid x
                           then upd_conn a (\<lambda>c. set_destination x (c\<lparr>remote_cnx := x\<rparr>)) p1 else p1)
                 in Inr (Some (MSG_RTP_PROXY_ACK, new_rtp_data), p2))"

definition UponBridgeReq :: "rtp_data \<Rightarrow> proxy \<Rightarrow> px_fault + (reply option \<times> proxy)" where
  "UponBridgeReq req px =
     (case smap_find (px_map px) (rtp_proxy_handle req) of
        None \<Rightarrow> Inr (Some nack, px)
      | Some a \<Rightarrow>
          (case smap_find (px_map px) (output_conn req) of
             None \<Rightarrow> Inr (Some nack, px)
           | Some d \<Rightarrow> with_conn a px (\<lambda>c. with_conn d px (\<lambda>dc.
               if mf_type (media_format c) = MediaType_UNKNOWN \<or>
                  mf_type (media_format dc) = MediaType_UNKNOWN \<or>
                  \<not> mf_eq (media_format dc) (media_format c)
               then Inr (Some nack, px)
               else bnd (Bridge a (Some d) (full_duplex req) px) (\<lambda>(res, p1).
                      Inr (Some (if IW_FAILURE res then nack else (MSG_RTP_PROXY_ACK, new_rtp_data)), p1))))))"

text \<open>The requests the process understands, and a run of several of them.\<close>

datatype request = Allocate_req rtp_data | Deallocate_req rtp_data | Modify_req rtp_data | Bridge_req rtp_data

fun handle_request ::
  "(string \<Rightarrow> medium) \<Rightarrow> nat \<Rightarrow> request \<Rightarrow> proxy \<Rightarrow> px_fault + (reply option \<times> proxy)" where
  "handle_request sdp ticks (Allocate_req r) px = UponAllocateReq sdp ticks r px"
| "handle_request sdp ticks (Deallocate_req r) px = UponDeallocateReq r px"
| "handle_request sdp ticks (Modify_req r) px = UponModifyReq sdp r px"
| "handle_request sdp ticks (Bridge_req r) px = UponBridgeReq r px"

definition request_of :: "iw_message \<Rightarrow> request option" where
  "request_of m =
     (case payload m of
        RtpPayload r \<Rightarrow>
          if message_id m = MSG_RTP_PROXY_ALLOCATE_REQ then Some (Allocate_req r)
          else if message_id m = MSG_RTP_PROXY_BRIDGE_REQ then Some (Bridge_req r)
          else if message_id m = MSG_RTP_PROXY_MODIFY_REQ then Some (Modify_req r)
          else if message_id m = MSG_RTP_PROXY_DEALLOCATE_REQ then Some (Deallocate_req r)
          else None
      | _ \<Rightarrow> None)"

definition messaging :: "fault + 'a \<Rightarrow> px_fault + 'a" where
  "messaging r = (case r of Inl e \<Rightarrow> Inl (Messaging e) | Inr x \<Rightarrow> Inr x)"

text \<open>
  One run of the polling task: at most one message is taken and answered.  The result tells
  whether the task is scheduled again.
\<close>

definition processIwMessagesTask ::
  "(string \<Rightarrow> medium) \<Rightarrow> nat \<Rightarrow> running_context \<Rightarrow> proxy \<Rightarrow> world \<Rightarrow>
     px_fault + (bool \<times> proxy \<times> world)" where
  "processIwMessagesTask sdp ticks ctx px w =
     bnd (messaging (handle_pending (rc_fiber ctx) (rc_inbound ctx) w)) (\<lambda>(pending, w1).
       if \<not> pending then Inr (True, px, w1)
       else bnd (messaging (LpHandle_Wait (rc_fiber ctx) (rc_inbound ctx) 0 w1)) (\<lambda>((_, mo), w2).
         case mo of
           None \<Rightarrow> Inr (True, px, w2)
         | Some m \<Rightarrow>
             (case request_of m of
                Some rq \<Rightarrow>
                  bnd (handle_request sdp ticks rq px) (\<lambda>(rep, px1).
                    case rep of
                      None \<Rightarrow> Inr (True, px1, w2)
                    | Some (mid, d) \<Rightarrow>
                        bnd (messaging (SendResponse ctx m ((new_IwMessage mid)\<lparr>payload := RtpPayload d\<rparr>) w2))
                          (\<lambda>(_, w3). Inr (True, px1, w3)))
              | None \<Rightarrow>
                  if message_id m = MSG_PROC_SHUTDOWN_REQ
                  then bnd (messaging (SendResponse ctx m (new_MsgResponse MSG_PROC_SHUTDOWN_ACK) w2))
                         (\<lambda>(_, w3). Inr (False, px, w3))
                  else bnd (messaging (HandleOOBMessage ctx (Some m) w2)) (\<lambda>(_, w3). Inr (True, px, w3)))))"

section \<open>The pool of sockets\<close>

text \<open>
  Connections are opened on even ports with their control channel on the next one.
  \<open>sock_ok\<close> tells whether the system gives a socket on a port.
\<close>

definition first_port :: "int \<Rightarrow> int" where
  "first_port base = (if base mod 2 = 0 then base else base + 1)"

function init_loop ::
  "(int \<Rightarrow> bool) \<Rightarrow> 32 word \<Rightarrow> int \<Rightarrow> nat \<Rightarrow> nat \<Rightarrow> int \<Rightarrow> proxy \<Rightarrow> proxy" where
  "init_loop sock_ok ip top_port n i port px =
     (if i < n \<and> port < top_port
      then if \<not> sock_ok port \<or> \<not> sock_ok (port + 1)
           then init_loop sock_ok ip top_port n i (port + 2) px
           else
             let (a, p1) = new_conn (new_RtpConnection\<lparr>connection_id := port,
                             local_cnx := CnxInfo_addr ip port, conn_state := ST_AVAILABLE\<rparr>) px
             in init_loop sock_ok ip top_port n (i + 1) (port + 2)
                  (p1\<lparr>px_map := smap_insert port a (px_map p1)\<rparr>)
      else px)"
  by pat_completeness auto
termination
  by (relation "measure (\<lambda>(sock_ok, ip, top_port, n, i, port, px). nat (top_port - port))") auto

declare init_loop.simps [simp del]

definition empty_proxy :: proxy where
  "empty_proxy = \<lparr>px_map = [], px_conns = Map.empty, px_sources = Map.empty, px_sinks = Map.empty,
     px_rtcps = (\<lambda>_. False), px_next = 0\<rparr>"

definition InitSockets ::
  "(int \<Rightarrow> bool) \<Rightarrow> 32 word \<Rightarrow> int \<Rightarrow> int \<Rightarrow> 32 word \<Rightarrow> ApiErrorCode \<times> proxy" where
  "InitSockets sock_ok ip base_port top_port num_of_conns =
     (if base_port < 0 \<or> top_port < base_port \<or> num_of_conns < 1 \<or> top_port - base_port < 2
      then (API_FAILURE, empty_proxy)
      else
        let px = init_loop sock_ok ip top_port (unat num_of_conns) 0 (first_port base_port) empty_proxy
        in (if length (px_map px) < unat num_of_conns then API_FAILURE else API_SUCCESS, px))"

section \<open>DTMF events\<close>

text \<open>
  A packet of the payload type of DTMF events: the event, the end bit with the volume, the
  duration.  \<^verbatim>\<open>char\<close> is signed.
\<close>

definition dtmf_signal :: "8 word \<Rightarrow> string" where
  "dtmf_signal e =
     (let v = sint e in
      if v = 10 then ''*'' else if v = 11 then ''#'' else if v = 12 then ''A'' else if v = 13 then ''B''
      else if v = 14 then ''C'' else if v = 15 then ''D'' else if v = 16 then ''E''
      else if v = 17 then ''F'' else itoa v)"

text \<open>The signal sent to the handler, if any, and the source afterwards.\<close>

definition processUnknownPayload ::
  "8 word \<Rightarrow> 32 word \<Rightarrow> 8 word \<Rightarrow> 8 word \<Rightarrow> rtp_source \<Rightarrow> string option \<times> rtp_source" where
  "processUnknownPayload ptype tstamp event volume x =
     (if src_handler x = None then (None, x)
      else if uint ptype = mf_mapping (src_dtmf x) \<and> src_lastTimestamp x \<noteq> tstamp \<and>
              volume AND 0x80 \<noteq> 0
      then (Some (dtmf_signal event), x\<lparr>src_lastTimestamp := tstamp\<rparr>)
      else (None, x))"

end
