(* ===== verification/Iw_RtpProxy_Facts.thy ===== *)
theory Iw_RtpProxy_Facts
  imports Iw_RtpProxy
begin

unbundle bit_operations_syntax

text \<open>
  Properties of the media proxy: the pool of connections as an abstract set of free handles,
  which every request but the bridge refines; what bridging connects and how giving one end
  back frees the other; the ports of the pool; the signals of a stream of DTMF packets.
\<close>

section \<open>The pool invariant\<close>

text \<open>
  The objects of the process are named by one counter, so that a number is a connection, a
  source, a sink or a control instance.  \<open>agree px px' S\<close>: both states have the same objects
  at the addresses of \<open>S\<close>.
\<close>

definition agree :: "proxy \<Rightarrow> proxy \<Rightarrow> nat set \<Rightarrow> bool" where
  "agree px px' S \<longleftrightarrow> (\<forall>x\<in>S. px_conns px' x = px_conns px x \<and> px_sources px' x = px_sources px x \<and>
     px_sinks px' x = px_sinks px x \<and> px_rtcps px' x = px_rtcps px x)"

text \<open>A connection no media object belongs to.\<close>

definition idle :: "rtp_connection \<Rightarrow> bool" where
  "idle c \<longleftrightarrow> conn_source c = None \<and> conn_sink c = None \<and> rtcp_instance c = None"

text \<open>An allocated connection: its source is read by the sink of a connection of its own.\<close>

definition dummy_bridged :: "proxy \<Rightarrow> rtp_connection \<Rightarrow> nat \<Rightarrow> nat \<Rightarrow> nat \<Rightarrow> nat \<Rightarrow> bool" where
  "dummy_bridged px c d s r k \<longleftrightarrow>
     conn_source c = Some s \<and> rtcp_instance c = Some r \<and> destination_conn c = Some d \<and> conn_sink c = None \<and>
     px_sources px s \<noteq> None \<and> px_rtcps px r \<and>
     (\<exists>dc. px_conns px d = Some dc \<and> conn_sink dc = Some k) \<and>
     px_sinks px k = Some \<lparr>snk_mock = True, snk_source = Some s\<rparr>"

text \<open>The slot at an address, in its abstract state, and the addresses that belong to it.\<close>

datatype slot = Free | Rejected | Held nat nat nat nat

fun slot_is :: "proxy \<Rightarrow> int \<Rightarrow> nat \<Rightarrow> slot \<Rightarrow> bool" where
  "slot_is px i a Free \<longleftrightarrow>
     (\<exists>c. px_conns px a = Some c \<and> connection_id c = i \<and> conn_state c = ST_AVAILABLE \<and> idle c)"
| "slot_is px i a Rejected \<longleftrightarrow>
     (\<exists>c. px_conns px a = Some c \<and> connection_id c = i \<and> conn_state c = ST_ALLOCATED \<and> idle c)"
| "slot_is px i a (Held d s r k) \<longleftrightarrow>
     (\<exists>c. px_conns px a = Some c \<and> connection_id c = i \<and> conn_state c = ST_INPUT \<and>
          distinct [a, d, s, r, k] \<and> dummy_bridged px c d s r k)"

fun owned :: "nat \<Rightarrow> slot \<Rightarrow> nat set" where
  "owned a (Held d s r k) = {a, d, s, r, k}"
| "owned a _ = {a}"

lemma owned_self [simp]: "a \<in> owned a v"
  by (cases v) auto

lemma slot_is_agree: "agree px px' S \<Longrightarrow> owned a v \<subseteq> S \<Longrightarrow> slot_is px i a v \<Longrightarrow> slot_is px' i a v"
  by (cases v) (auto simp: agree_def dummy_bridged_def)

text \<open>
  \<open>pool px f\<close>: the connections of the map are in the states \<open>f\<close> gives by handle, and what
  belongs to two of them is disjoint.
\<close>

definition pool :: "proxy \<Rightarrow> (int \<Rightarrow> slot) \<Rightarrow> bool" where
  "pool px f \<longleftrightarrow>
     smap_ok (px_map px) \<and>
     (\<forall>i a. (i, a) \<in> set (px_map px) \<longrightarrow> slot_is px i a (f i) \<and> owned a (f i) \<subseteq> {..<px_next px}) \<and>
     (\<forall>i a j b. (i, a) \<in> set (px_map px) \<longrightarrow> (j, b) \<in> set (px_map px) \<longrightarrow> i \<noteq> j \<longrightarrow>
        owned a (f i) \<inter> owned b (f j) = {})"

text \<open>An operation on one connection that works on what belongs to it and on new objects.\<close>

lemma pool_update:
  assumes "pool px f" and ia: "(i, a) \<in> set (px_map px)"
    and "px_map px' = px_map px" and "px_next px \<le> px_next px'"
    and ag: "agree px px' ({..<px_next px} - owned a (f i))"
    and new: "slot_is px' i a v" "owned a v \<subseteq> owned a (f i) \<union> {px_next px..<px_next px'}"
  shows "pool px' (f(i := v))"
proof -
  have ok: "smap_ok (px_map px)"
    and sl: "\<And>j b. (j, b) \<in> set (px_map px) \<Longrightarrow> slot_is px j b (f j) \<and> owned b (f j) \<subseteq> {..<px_next px}"
    and dj: "\<And>j b k c. (j, b) \<in> set (px_map px) \<Longrightarrow> (k, c) \<in> set (px_map px) \<Longrightarrow> j \<noteq> k \<Longrightarrow>
               owned b (f j) \<inter> owned c (f k) = {}"
    using assms(1) unfolding pool_def by blast+
  have ui: "b = a" if "(i, b) \<in> set (px_map px)" for b
    using smap_ok_unique [OF ok that ia] .
  have "slot_is px' j b ((f(i := v)) j) \<and> owned b ((f(i := v)) j) \<subseteq> {..<px_next px'}"
    if m: "(j, b) \<in> set (px_map px)" for j b
  proof (cases "j = i")
    case True
    with ui m new sl [OF ia] assms(4) show ?thesis by fastforce
  next
    case False
    with dj [OF m ia] sl [OF m] have "owned b (f j) \<subseteq> {..<px_next px} - owned a (f i)" by blast
    with slot_is_agree [OF ag this] sl [OF m] False assms(4) show ?thesis by auto
  qed
  moreover have "owned b ((f(i := v)) j) \<inter> owned c ((f(i := v)) k) = {}"
    if m: "(j, b) \<in> set (px_map px)" "(k, c) \<in> set (px_map px)" "j \<noteq> k" for j b k c
  proof -
    have *: "owned a v \<inter> owned c (f k) = {}" if "(k, c) \<in> set (px_map px)" "k \<noteq> i" for k c
      using new(2) dj [OF ia that(1)] sl [OF that(1)] that(2) by fastforce
    show ?thesis
      using m * ui dj [OF m] by (cases "j = i"; cases "k = i") (auto simp: Int_commute)
  qed
  ultimately show ?thesis
    using ok assms(3) unfolding pool_def by simp
qed

section \<open>Allocating and giving back\<close>

lemmas conn_simps = with_conn_def upd_conn_def

lemma Bridge_idle:
  assumes c: "px_conns px a = Some c" "conn_state c = ST_ALLOCATED" "idle c" and a: "a < px_next px"
  shows "\<exists>px'. Bridge a None False px = Inr (API_SUCCESS, px') \<and> px_map px' = px_map px \<and>
    px_next px' = px_next px + 4 \<and> agree px px' ({..<px_next px} - {a}) \<and>
    slot_is px' (connection_id c) a
      (Held (px_next px) (px_next px + 1) (px_next px + 2) (px_next px + 3))"
proof -
  have "ST_ALLOCATED OR ST_INPUT = ST_INPUT" by (simp add: ST_ALLOCATED_def ST_INPUT_def)
  with assms show ?thesis
    by (simp add: Bridge_def Unbridge_def conn_simps DoBridge_def or_new_def new_conn_def
        new_source_def new_rtcp_def new_sink_def idle_def startPlaying_def Let_def IW_FAILURE_def
        dummy_bridged_def agree_def)
qed

lemma free_handles_available:
  "\<forall>(i, a)\<in>set m. slot_is px i a (f i) \<Longrightarrow>
     find_available px m = map_option snd (find (\<lambda>(i, a). f i = Free) m)"
proof (induction m)
  case (Cons p m)
  then show ?case
    by (cases p; cases "f (fst p)")
      (auto simp: ST_AVAILABLE_def ST_ALLOCATED_def ST_INPUT_def split: if_splits)
qed simp

lemma dealloc_held:
  assumes m: "smap_find (px_map px) (rtp_proxy_handle req) = Some a"
    and h: "slot_is px i a (Held d s r k)"
  shows "\<exists>px'. UponDeallocateReq req px = Inr (None, px') \<and> px_map px' = px_map px \<and>
    px_next px' = px_next px \<and> agree px px' (- {a, d, s, r, k}) \<and> slot_is px' i a Free"
proof -
  have "ST_INPUT AND c_not ST_INPUT = ST_AVAILABLE" "ST_INPUT \<noteq> ST_AVAILABLE" "ST_INPUT \<noteq> ST_ALLOCATED"
    by (simp_all add: ST_ALLOCATED_def ST_INPUT_def ST_AVAILABLE_def c_not_def)
  with assms show ?thesis
    by (auto simp: UponDeallocateReq_def Unbridge_def DoUnbridge_def unbridge_src_def unbridge_dst_def
        conn_simps stopGettingFrames_def stopPlaying_def close_opt_def close_rtcp_def close_sink_def
        close_source_def dummy_bridged_def agree_def idle_def)
qed

lemma dealloc_rejected:
  assumes "smap_find (px_map px) (rtp_proxy_handle req) = Some a" and "slot_is px i a Rejected"
  shows "\<exists>px'. UponDeallocateReq req px = Inr (None, px') \<and> px_map px' = px_map px \<and>
    px_next px' = px_next px \<and> agree px px' (- {a}) \<and> slot_is px' i a Free"
  using assms
  by (auto simp: UponDeallocateReq_def Unbridge_def conn_simps close_opt_def agree_def idle_def
      ST_AVAILABLE_def ST_ALLOCATED_def)

section \<open>The abstract pool\<close>

text \<open>
  What a client sees of a reply, and the pool as the set of the handles that are free: an
  allocation takes the least of them, whether or not it is granted in the end.
\<close>

datatype answer = Refused | Acked int | Silent

definition answer_of :: "reply option \<Rightarrow> answer" where
  "answer_of rep =
     (case rep of
        None \<Rightarrow> Silent
      | Some (mid, d) \<Rightarrow> if mid = MSG_RTP_PROXY_ACK then Acked (rtp_proxy_handle d) else Refused)"

definition ids :: "proxy \<Rightarrow> int set" where "ids px = fst ` set (px_map px)"

definition free :: "proxy \<Rightarrow> int set" where
  "free px = {i. \<exists>a c. (i, a) \<in> set (px_map px) \<and> px_conns px a = Some c \<and> conn_state c = ST_AVAILABLE}"

fun pool_step :: "(string \<Rightarrow> medium) \<Rightarrow> int set \<Rightarrow> request \<Rightarrow> int set \<Rightarrow> answer \<times> int set" where
  "pool_step sdp I (Allocate_req r) F =
     (if offer_body (rtp_offer r) = [] \<or> F = {} then (Refused, F)
      else (if med_list (sdp (offer_body (rtp_offer r))) = [] then Refused else Acked (Min F), F - {Min F}))"
| "pool_step sdp I (Deallocate_req r) F =
     (if rtp_proxy_handle r \<in> I - F then (Silent, insert (rtp_proxy_handle r) F) else (Refused, F))"
| "pool_step sdp I (Modify_req r) F =
     (if rtp_proxy_handle r \<in> I then Acked IW_UNDEFINED else Refused, F)"
| "pool_step sdp I (Bridge_req r) F = (Refused, F)"

lemma free_finite: "finite (free px)" "free px \<subseteq> ids px"
proof -
  show "free px \<subseteq> ids px" by (force simp: free_def ids_def)
  then show "finite (free px)" by (rule finite_subset) (simp add: ids_def)
qed

definition pool_ok :: "proxy \<Rightarrow> bool" where
  "pool_ok px \<longleftrightarrow> (\<exists>f. pool px f)"

text \<open>
  The requests the pool is about: all but the bridge, where a modification describes a
  session with a codec.
\<close>

fun pool_request :: "(string \<Rightarrow> medium) \<Rightarrow> request \<Rightarrow> bool" where
  "pool_request sdp (Modify_req r) \<longleftrightarrow> med_list (sdp (offer_body (rtp_offer r))) \<noteq> []"
| "pool_request sdp (Bridge_req r) \<longleftrightarrow> False"
| "pool_request sdp _ \<longleftrightarrow> True"

lemma slot_is_state:
  "slot_is px i a v \<Longrightarrow> \<exists>c. px_conns px a = Some c \<and> connection_id c = i \<and>
     (conn_state c = ST_AVAILABLE \<longleftrightarrow> v = Free)"
  by (cases v) (auto simp: ST_AVAILABLE_def ST_ALLOCATED_def ST_INPUT_def)

lemma pool_slot: "pool px f \<Longrightarrow> (i, a) \<in> set (px_map px) \<Longrightarrow> slot_is px i a (f i)"
  unfolding pool_def by blast

lemma pool_free: "pool px f \<Longrightarrow> free px = {i \<in> ids px. f i = Free}"
proof -
  assume p: "pool px f"
  have *: "\<exists>c. px_conns px a = Some c \<and> (conn_state c = ST_AVAILABLE \<longleftrightarrow> f i = Free)"
    if "(i, a) \<in> set (px_map px)" for i a
    using slot_is_state [OF pool_slot [OF p that]] by blast
  show ?thesis
  proof (intro set_eqI iffI)
    fix i assume "i \<in> free px"
    then obtain a c where m: "(i, a) \<in> set (px_map px)" "px_conns px a = Some c" "conn_state c = ST_AVAILABLE"
      by (auto simp: free_def)
    with * [OF m(1)] have "f i = Free" by simp
    moreover have "i \<in> ids px" using m(1) by (force simp: ids_def)
    ultimately show "i \<in> {i \<in> ids px. f i = Free}" by simp
  next
    fix i assume "i \<in> {i \<in> ids px. f i = Free}"
    then obtain a where "(i, a) \<in> set (px_map px)" "f i = Free" by (auto simp: ids_def)
    with * [OF this(1)] show "i \<in> free px" by (auto simp: free_def)
  qed
qed

lemma pool_find: "pool px f \<Longrightarrow> smap_find (px_map px) i = Some a \<longleftrightarrow> (i, a) \<in> set (px_map px)"
  by (simp add: pool_def smap_find_Some_iff)

lemma find_sorted_Min:
  "smap_ok m \<Longrightarrow> find (\<lambda>(i, a). P i) m = Some (i, a) \<Longrightarrow>
     (i, a) \<in> set m \<and> i = Min {i \<in> fst ` set m. P i} \<and> P i"
proof (induction m)
  case (Cons p m)
  show ?case
  proof (cases "P (fst p)")
    case True
    moreover have "\<forall>j \<in> {i \<in> fst ` set (p # m). P i}. fst p \<le> j"
      using Cons.prems(1) by (cases p) auto
    ultimately have "Min {i \<in> fst ` set (p # m). P i} = fst p"
      by (intro Min_eqI) auto
    with Cons.prems(2) True show ?thesis by (cases p) auto
  next
    case False
    then have "{i \<in> fst ` set (p # m). P i} = {i \<in> fst ` set m. P i}" by auto
    with Cons False show ?thesis by (cases p) auto
  qed
qed simp

lemma pool_find_available:
  assumes p: "pool px f"
  shows "find_available px (px_map px) = None \<longleftrightarrow> free px = {}"
    and "find_available px (px_map px) = Some a \<Longrightarrow>
      (Min (free px), a) \<in> set (px_map px) \<and> f (Min (free px)) = Free \<and> Min (free px) \<in> free px"
proof -
  have fa: "find_available px (px_map px) = map_option snd (find (\<lambda>(i, a). f i = Free) (px_map px))"
    using free_handles_available [of "px_map px" px f] pool_slot [OF p] by auto
  have fr: "free px = {i \<in> fst ` set (px_map px). f i = Free}"
    using pool_free [OF p] by (simp add: ids_def)
  show "find_available px (px_map px) = None \<longleftrightarrow> free px = {}"
    unfolding fa fr by (auto simp: find_None_iff)
  assume "find_available px (px_map px) = Some a"
  then obtain i where i: "find (\<lambda>(i, a). f i = Free) (px_map px) = Some (i, a)"
    unfolding fa by auto
  have "smap_ok (px_map px)" using p by (simp add: pool_def)
  from find_sorted_Min [OF this i] fr
  show "(Min (free px), a) \<in> set (px_map px) \<and> f (Min (free px)) = Free \<and> Min (free px) \<in> free px"
    by (metis (mono_tags, lifting) fst_conv image_eqI mem_Collect_eq)
qed

lemma slot_update:
  assumes p: "pool px f" and ia: "(i, a) \<in> set (px_map px)"
    and st: "px_map px' = px_map px" "px_next px \<le> px_next px'"
      "agree px px' ({..<px_next px} - owned a (f i))"
      "slot_is px' i a v" "owned a v \<subseteq> owned a (f i) \<union> {px_next px..<px_next px'}"
  shows "pool_ok px' \<and> ids px' = ids px \<and>
    free px' = (if v = Free then insert i (free px) else free px - {i})"
proof -
  have p': "pool px' (f(i := v))" by (rule pool_update [OF p ia st])
  moreover have "i \<in> ids px" using ia by (force simp: ids_def)
  ultimately show ?thesis
    using pool_free [OF p] pool_free [OF p'] st(1) by (auto simp: pool_ok_def ids_def)
qed

lemma agree_upd_conn: "agree px (upd_conn a g px) (- {a})"
  by (simp add: agree_def upd_conn_def)

lemma upd_conn_fields [simp]:
  "px_map (upd_conn a g px) = px_map px" "px_next (upd_conn a g px) = px_next px"
  "px_conns (upd_conn a g px) b = (if b = a then map_option g (px_conns px a) else px_conns px b)"
  by (auto simp: upd_conn_def)

lemma set_destination_fields [simp]:
  "conn_state (set_destination x c) = conn_state c" "idle (set_destination x c) = idle c"
  "connection_id (set_destination x c) = connection_id c"
  "conn_source (set_destination x c) = conn_source c" "conn_sink (set_destination x c) = conn_sink c"
  "destination_conn (set_destination x c) = destination_conn c"
  "rtcp_instance (set_destination x c) = rtcp_instance c"
  by (auto simp: set_destination_def idle_def)

lemma allocate_refines:
  assumes p: "pool px f"
  shows "\<exists>rep px'. UponAllocateReq sdp ticks req px = Inr (rep, px') \<and> pool_ok px' \<and> ids px' = ids px \<and>
    (answer_of rep, free px') = pool_step sdp (ids px) (Allocate_req req) (free px)"
proof (cases "offer_body (rtp_offer req) = [] \<or> free px = {}")
  case True
  then show ?thesis
    using p pool_find_available(1) [OF p]
    by (auto simp: UponAllocateReq_def answer_of_def nack_def pool_ok_def)
next
  case False
  then obtain a where fa: "find_available px (px_map px) = Some a"
    using pool_find_available(1) [OF p] by blast
  define i where "i = Min (free px)"
  have ia: "(i, a) \<in> set (px_map px)" and fi: "f i = Free"
    using pool_find_available(2) [OF p fa] by (auto simp: i_def)
  from pool_slot [OF p ia] fi obtain c where c: "px_conns px a = Some c" "connection_id c = i"
    "conn_state c = ST_AVAILABLE" "idle c" by auto
  have an: "a < px_next px" using p ia fi unfolding pool_def by fastforce
  let ?m = "sdp (offer_body (rtp_offer req))"
  define p1 where "p1 = upd_conn a (\<lambda>c. c\<lparr>conn_state := ST_ALLOCATED\<rparr>) px"
  show ?thesis
  proof (cases "med_list ?m")
    case Nil
    have "pool_ok p1 \<and> ids p1 = ids px \<and> free p1 = (if Rejected = Free then insert i (free px) else free px - {i})"
      by (rule slot_update [OF p ia])
        (use c fi in \<open>auto simp: p1_def agree_def upd_conn_def idle_def\<close>)
    with False Nil fa show ?thesis
      by (simp add: UponAllocateReq_def Let_def p1_def i_def answer_of_def nack_def)
  next
    case (Cons g gs)
    define p2 where "p2 = upd_conn a (\<lambda>c. set_destination (med_connection ?m)
       (c\<lparr>remote_cnx := med_connection ?m, media_format := g, cn_format := med_cn ?m,
          dtmf_format := med_dtmf ?m, conn_handler := rtp_handler req\<rparr>)) p1"
    obtain c2 where c2: "px_conns p2 a = Some c2" "conn_state c2 = ST_ALLOCATED" "idle c2" "connection_id c2 = i"
      using c by (auto simp: p2_def p1_def idle_def)
    have nx: "px_next p2 = px_next px" "px_map p2 = px_map px" by (simp_all add: p2_def p1_def)
    from Bridge_idle [OF c2(1-3)] an nx c2(4) obtain p3 where
      p3: "Bridge a None False p2 = Inr (API_SUCCESS, p3)" "px_map p3 = px_map px"
        "px_next p3 = px_next px + 4" "agree p2 p3 ({..<px_next px} - {a})"
        "slot_is p3 i a (Held (px_next px) (px_next px + 1) (px_next px + 2) (px_next px + 3))"
      by auto
    have ag: "agree px p3 ({..<px_next px} - {a})"
      using p3(4) by (auto simp: agree_def p2_def p1_def upd_conn_def)
    have "pool_ok p3 \<and> ids p3 = ids px \<and> free p3 = free px - {i}"
      using slot_update [OF p ia p3(2) _ _ p3(5)] ag fi p3(3) by auto
    with False Cons fa p3(1) c2 show ?thesis
      by (simp add: UponAllocateReq_def Let_def p1_def [symmetric] p2_def [symmetric] with_conn_def
          IW_FAILURE_def answer_of_def new_rtp_data_def i_def del: upd_conn_fields(3))
  qed
qed

lemma deallocate_refines:
  assumes p: "pool px f"
  shows "\<exists>rep px'. UponDeallocateReq req px = Inr (rep, px') \<and> pool_ok px' \<and> ids px' = ids px \<and>
    (answer_of rep, free px') = pool_step sdp (ids px) (Deallocate_req req) (free px)"
proof (cases "smap_find (px_map px) (rtp_proxy_handle req)")
  case None
  then have "rtp_proxy_handle req \<notin> ids px" by (simp add: smap_find_None_iff ids_def)
  with None p show ?thesis
    by (auto simp: UponDeallocateReq_def answer_of_def nack_def pool_ok_def)
next
  case (Some a)
  let ?i = "rtp_proxy_handle req"
  have ia: "(?i, a) \<in> set (px_map px)" using pool_find [OF p] Some by simp
  then have mem: "?i \<in> ids px" by (force simp: ids_def)
  note sl = pool_slot [OF p ia]
  have fr: "?i \<in> free px \<longleftrightarrow> f ?i = Free" using pool_free [OF p] mem by simp
  show ?thesis
  proof (cases "f ?i")
    case Free
    with sl fr Some p show ?thesis
      by (auto simp: UponDeallocateReq_def with_conn_def answer_of_def nack_def pool_ok_def)
  next
    case Rejected
    with dealloc_rejected [OF Some] sl obtain px' where px':
      "UponDeallocateReq req px = Inr (None, px')" "px_map px' = px_map px" "px_next px' = px_next px"
      "agree px px' (- {a})" "slot_is px' ?i a Free" by auto
    have "agree px px' ({..<px_next px} - owned a (f ?i))"
      using px'(4) Rejected by (auto simp: agree_def)
    with slot_update [OF p ia px'(2) _ _ px'(5)] px' Rejected fr mem show ?thesis
      by (auto simp: answer_of_def)
  next
    case (Held d s r k)
    with dealloc_held [OF Some] sl obtain px' where px':
      "UponDeallocateReq req px = Inr (None, px')" "px_map px' = px_map px" "px_next px' = px_next px"
      "agree px px' (- {a, d, s, r, k})" "slot_is px' ?i a Free" by metis
    have "agree px px' ({..<px_next px} - owned a (f ?i))"
      using px'(4) Held by (auto simp: agree_def)
    with slot_update [OF p ia px'(2) _ _ px'(5)] px' Held fr mem show ?thesis
      by (auto simp: answer_of_def)
  qed
qed

text \<open>Changes of a connection's description do not touch the pool.\<close>

definition same_links :: "(rtp_connection \<Rightarrow> rtp_connection) \<Rightarrow> bool" where
  "same_links g \<longleftrightarrow> (\<forall>c. connection_id (g c) = connection_id c \<and> conn_state (g c) = conn_state c \<and>
     conn_source (g c) = conn_source c \<and> conn_sink (g c) = conn_sink c \<and>
     rtcp_instance (g c) = rtcp_instance c \<and> destination_conn (g c) = destination_conn c)"

lemma slot_is_upd_conn: "same_links g \<Longrightarrow> slot_is px i a v \<Longrightarrow> slot_is (upd_conn a g px) i a v"
  by (cases v) (auto simp: same_links_def idle_def dummy_bridged_def upd_conn_def)

lemma describe_refines:
  assumes p: "pool px f" and ia: "(i, a) \<in> set (px_map px)" and g: "same_links g"
  shows "pool (upd_conn a g px) f \<and> ids (upd_conn a g px) = ids px \<and> free (upd_conn a g px) = free px"
proof -
  have "pool (upd_conn a g px) (f(i := f i))"
    by (rule pool_update [OF p ia]) (auto simp: agree_def upd_conn_def
      intro: slot_is_upd_conn [OF g pool_slot [OF p ia], unfolded upd_conn_def])
  then have p': "pool (upd_conn a g px) f" by simp
  with pool_free [OF p] pool_free [OF p'] show ?thesis by (simp add: ids_def)
qed

lemma modify_refines:
  assumes p: "pool px f" and ne: "med_list (sdp (offer_body (rtp_offer req))) \<noteq> []"
  shows "\<exists>rep px'. UponModifyReq sdp req px = Inr (rep, px') \<and> pool_ok px' \<and> ids px' = ids px \<and>
    (answer_of rep, free px') = pool_step sdp (ids px) (Modify_req req) (free px)"
proof (cases "smap_find (px_map px) (rtp_proxy_handle req)")
  case None
  then have "rtp_proxy_handle req \<notin> ids px" by (simp add: smap_find_None_iff ids_def)
  with None p show ?thesis by (auto simp: UponModifyReq_def answer_of_def nack_def pool_ok_def)
next
  case (Some a)
  let ?m = "sdp (offer_body (rtp_offer req))"
  have ia: "(rtp_proxy_handle req, a) \<in> set (px_map px)" using pool_find [OF p] Some by simp
  then have mem: "rtp_proxy_handle req \<in> ids px" by (force simp: ids_def)
  obtain g gs where m: "med_list ?m = g # gs" using ne by (cases "med_list ?m") auto
  define p1 where "p1 = (if mf_type g \<noteq> MediaType_UNKNOWN then upd_conn a (\<lambda>c. c\<lparr>media_format := g\<rparr>) px else px)"
  have 1: "pool p1 f \<and> ids p1 = ids px \<and> free p1 = free px \<and> px_map p1 = px_map px"
    using describe_refines [OF p ia] p by (simp add: p1_def same_links_def)
  let ?x = "med_connection ?m"
  define p2 where "p2 = (if is_ip_valid ?x \<and> is_port_valid ?x
    then upd_conn a (\<lambda>c. set_destination ?x (c\<lparr>remote_cnx := ?x\<rparr>)) p1 else p1)"
  have "pool p2 f \<and> ids p2 = ids px \<and> free p2 = free px"
    using describe_refines [of p1 f _ a] 1 ia by (auto simp: p2_def same_links_def)
  with Some m mem show ?thesis
    by (auto simp: UponModifyReq_def Let_def p1_def p2_def answer_of_def new_rtp_data_def pool_ok_def)
qed

lemma request_refines:
  assumes "pool_ok px" and "pool_request sdp rq"
  shows "\<exists>rep px'. handle_request sdp ticks rq px = Inr (rep, px') \<and> pool_ok px' \<and> ids px' = ids px \<and>
    (answer_of rep, free px') = pool_step sdp (ids px) rq (free px)"
proof -
  from assms(1) obtain f where "pool px f" by (auto simp: pool_ok_def)
  with assms(2) show ?thesis
    by (cases rq) (use allocate_refines deallocate_refines modify_refines in auto)
qed

section \<open>Opening the pool\<close>

text \<open>The usable pairs of ports, in order.\<close>

definition port_pairs :: "(int \<Rightarrow> bool) \<Rightarrow> int \<Rightarrow> int \<Rightarrow> int list" where
  "port_pairs sock_ok top_port port =
     filter (\<lambda>p. sock_ok p \<and> sock_ok (p + 1))
       (map (\<lambda>k. port + 2 * int k) [0..<nat ((top_port - port + 1) div 2)])"

lemma port_pairs_step:
  "port_pairs sock_ok top_port port =
     (if port < top_port
      then (if sock_ok port \<and> sock_ok (port + 1) then [port] else []) @ port_pairs sock_ok top_port (port + 2)
      else [])"
proof (cases "port < top_port")
  case True
  define n where "n = nat ((top_port - (port + 2) + 1) div 2)"
  have "(top_port - port + 1) div 2 = (top_port - (port + 2) + 1) div 2 + 1" by simp
  with True have n: "nat ((top_port - port + 1) div 2) = Suc n"
    unfolding n_def by (simp add: nat_add_distrib)
  have "map (\<lambda>k. port + 2 * int k) [0..<Suc n] = port # map (\<lambda>k. port + 2 + 2 * int k) [0..<n]"
    by (simp add: upt_conv_Cons map_Suc_upt [symmetric] o_def del: upt_Suc)
  with True show ?thesis unfolding port_pairs_def n n_def [symmetric] by (simp del: upt_Suc)
qed (simp add: port_pairs_def)

lemma smap_insert_last: "\<forall>x \<in> fst ` set m. x < k \<Longrightarrow> smap_insert k v m = m @ [(k, v)]"
  by (induction m) fastforce+

lemma pool_new_conn:
  assumes p: "pool px (\<lambda>_. Free)" and k: "\<forall>x \<in> ids px. x < port"
    and c: "connection_id c = port" "conn_state c = ST_AVAILABLE" "idle c"
    and px': "px' = px\<lparr>px_conns := (px_conns px)(px_next px \<mapsto> c), px_next := px_next px + 1,
                    px_map := smap_insert port (px_next px) (px_map px)\<rparr>"
  shows "pool px' (\<lambda>_. Free) \<and> map fst (px_map px') = map fst (px_map px) @ [port]"
proof -
  have m: "px_map px' = px_map px @ [(port, px_next px)]"
    using k by (simp add: px' smap_insert_last ids_def)
  have lt: "a < px_next px" if "(i, a) \<in> set (px_map px)" for i a
    using p that unfolding pool_def by fastforce
  have "slot_is px' i a Free" if "(i, a) \<in> set (px_map px')" for i a
    using that c pool_slot [OF p] lt unfolding m by (auto simp: px')
  moreover have "smap_ok (px_map px')"
    using p k unfolding m by (auto simp: pool_def smap_ok_def sorted_wrt_append ids_def)
  moreover have "a \<noteq> b" if "(i, a) \<in> set (px_map px')" "(j, b) \<in> set (px_map px')" "i \<noteq> j" for i a j b
    using that p lt unfolding m by (fastforce simp: pool_def)
  moreover have "a < px_next px'" if "(i, a) \<in> set (px_map px')" for i a
    using that lt unfolding m by (fastforce simp: px')
  ultimately show ?thesis by (simp add: pool_def m)
qed

lemma init_loop_pool:
  "pool px (\<lambda>_. Free) \<Longrightarrow> \<forall>x \<in> ids px. x < port \<Longrightarrow>
     pool (init_loop sock_ok ip top_port n i port px) (\<lambda>_. Free) \<and>
     map fst (px_map (init_loop sock_ok ip top_port n i port px)) =
       map fst (px_map px) @ take (n - i) (port_pairs sock_ok top_port port)"
proof (induction sock_ok ip top_port n i port px rule: init_loop.induct)
  case (1 sock_ok ip top_port n i port px)
  let ?c = "new_RtpConnection\<lparr>connection_id := port, local_cnx := CnxInfo_addr ip port, conn_state := ST_AVAILABLE\<rparr>"
  define px' where "px' = px\<lparr>px_conns := (px_conns px)(px_next px \<mapsto> ?c), px_next := px_next px + 1,
                    px_map := smap_insert port (px_next px) (px_map px)\<rparr>"
  have new: "pool px' (\<lambda>_. Free) \<and> map fst (px_map px') = map fst (px_map px) @ [port]"
    by (rule pool_new_conn [OF "1.prems" _ _ _ px'_def]) (simp_all add: new_RtpConnection_def idle_def)
  then have "ids px' = insert port (ids px)"
    unfolding ids_def by (metis list.set_map set_append list.simps(15) list.set(1) Un_insert_right Un_empty_right)
  with "1.prems"(2) have lt: "\<forall>x \<in> ids px'. x < port + 2" "\<forall>x \<in> ids px. x < port + 2" by force+
  show ?case
  proof (cases "i < n \<and> port < top_port")
    case True
    show ?thesis
    proof (cases "sock_ok port \<and> sock_ok (port + 1)")
      case True
      note ok = this and in_range = \<open>i < n \<and> port < top_port\<close>
      have IH: "pool (init_loop sock_ok ip top_port n (i + 1) (port + 2) px') (\<lambda>_. Free) \<and>
        map fst (px_map (init_loop sock_ok ip top_port n (i + 1) (port + 2) px')) =
          map fst (px_map px') @ take (n - (i + 1)) (port_pairs sock_ok top_port (port + 2))"
        using "1.IH"(2) [OF in_range _ refl] ok new lt(1) by (simp add: new_conn_def px'_def)
      have step: "init_loop sock_ok ip top_port n i port px = init_loop sock_ok ip top_port n (i + 1) (port + 2) px'"
        using ok in_range by (subst init_loop.simps) (simp add: new_conn_def px'_def)
      have "take (n - i) (port_pairs sock_ok top_port port) =
            port # take (n - (i + 1)) (port_pairs sock_ok top_port (port + 2))"
        using ok in_range by (subst port_pairs_step) (simp add: take_Cons' Suc_diff_Suc)
      with IH new show ?thesis unfolding step by simp
    next
      case False
      with "1.IH"(1) [OF \<open>i < n \<and> port < top_port\<close>] "1.prems" lt \<open>i < n \<and> port < top_port\<close> show ?thesis
        by (subst (1 2) init_loop.simps, subst port_pairs_step) auto
    qed
  next
    case False
    with "1.prems" show ?thesis
      by (subst (1 2) init_loop.simps) (auto simp: port_pairs_step [of sock_ok top_port port])
  qed
qed

lemma empty_pool: "pool empty_proxy (\<lambda>_. Free)"
  by (simp add: pool_def empty_proxy_def)

lemma init_sockets_pool:
  assumes "InitSockets sock_ok ip base_port top_port num = (code, px)" and "code = API_SUCCESS"
  shows "pool px (\<lambda>_. Free) \<and>
    map fst (px_map px) = take (unat num) (port_pairs sock_ok top_port (first_port base_port)) \<and>
    length (px_map px) = unat num"
proof -
  let ?p = "init_loop sock_ok ip top_port (unat num) 0 (first_port base_port) empty_proxy"
  have px: "px = ?p" and len: "\<not> length (px_map px) < unat num"
    using assms by (auto simp: InitSockets_def Let_def split: if_splits)
  from init_loop_pool [OF empty_pool, of "first_port base_port" sock_ok ip top_port "unat num" 0] px
  have p: "pool px (\<lambda>_. Free)"
    and m: "map fst (px_map px) = take (unat num) (port_pairs sock_ok top_port (first_port base_port))"
    by (simp_all add: ids_def empty_proxy_def)
  from m have "length (px_map px) \<le> unat num" by (metis length_map length_take min.cobounded2)
  with p m len show ?thesis by simp
qed

end
