(* ===== verification/Iw_RtpProxy_Props.thy ===== *)
theory Iw_RtpProxy_Props
  imports Iw_RtpProxy_Facts
begin

unbundle bit_operations_syntax

text \<open>The properties of the media proxy.\<close>

section \<open>Runs of requests\<close>

text \<open>The answers to a list of requests, in order.\<close>

fun run_requests ::
  "(string \<Rightarrow> medium) \<Rightarrow> nat \<Rightarrow> request list \<Rightarrow> proxy \<Rightarrow> px_fault + (answer list \<times> proxy)" where
  "run_requests sdp ticks [] px = Inr ([], px)"
| "run_requests sdp ticks (rq # rqs) px =
     bnd (handle_request sdp ticks rq px) (\<lambda>(rep, px1).
     bnd (run_requests sdp ticks rqs px1) (\<lambda>(ans, px2). Inr (answer_of rep # ans, px2)))"

text \<open>A description with one codec at a fixed address, and requests about it.\<close>

definition demo_sdp :: "string \<Rightarrow> medium" where
  "demo_sdp body = (if body = ''none'' then new_medium
     else new_medium\<lparr>med_connection := CnxInfo_addr 0x0100007F 5004, med_list := [mf_PCMU]\<rparr>)"

definition alloc :: request where
  "alloc = Allocate_req (new_rtp_data\<lparr>rtp_offer := \<lparr>offer_body = ''v=0'', offer_type = []\<rparr>\<rparr>)"

definition dealloc :: "int \<Rightarrow> request" where
  "dealloc i = Deallocate_req (new_rtp_data\<lparr>rtp_proxy_handle := i\<rparr>)"

definition bridge :: "int \<Rightarrow> int \<Rightarrow> request" where
  "bridge i j = Bridge_req (new_rtp_data\<lparr>rtp_proxy_handle := i, output_conn := j\<rparr>)"

definition demo_proxy :: "32 word \<Rightarrow> proxy" where
  "demo_proxy n = snd (InitSockets (\<lambda>_. True) 0x0100007F 5000 5100 n)"

lemma demo_proxy_pool: "pool (demo_proxy 2) (\<lambda>_. Free) \<and> ids (demo_proxy 2) = {5000, 5002}"
proof -
  obtain code px where i: "InitSockets (\<lambda>_. True) 0x0100007F 5000 5100 2 = (code, px)" by fastforce
  have "fst (InitSockets (\<lambda>_. True) 0x0100007F 5000 5100 2) = API_SUCCESS" by code_simp
  with i init_sockets_pool [OF i] have *: "pool px (\<lambda>_. Free)"
    "map fst (px_map px) = take 2 (port_pairs (\<lambda>_. True) 5100 5000)"
    by (simp_all add: first_port_def)
  have "take 2 (port_pairs (\<lambda>_. True) 5100 5000) = [5000, 5002]"
    by (subst port_pairs_step, subst port_pairs_step) simp
  with * i show ?thesis
    by (simp add: demo_proxy_def ids_def flip: set_map)
qed

section \<open>Properties\<close>



lemma allocate_answer:
  assumes "pool_ok px" and "handle_request sdp ticks (Allocate_req r) px = Inr (rep, px')"
    and "answer_of rep = Acked h"
  shows "h \<in> free px \<and> h \<notin> free px'"
proof -
  obtain rep' p1 where "handle_request sdp ticks (Allocate_req r) px = Inr (rep', p1)"
    "(answer_of rep', free p1) = pool_step sdp (ids px) (Allocate_req r) (free px)"
    using request_refines [of px sdp "Allocate_req r" ticks] assms(1) by auto
  with assms(2,3) Min_in [OF free_finite(1), of px] show ?thesis by (auto split: if_splits)
qed

lemma held_stays_held:
  assumes "pool_ok px" and "pool_request sdp rq" and "h \<notin> free px"
    and "handle_request sdp ticks rq px = Inr (rep, px')"
    and "\<forall>r. rq = Deallocate_req r \<longrightarrow> rtp_proxy_handle r \<noteq> h"
  shows "pool_ok px' \<and> h \<notin> free px'"
  using request_refines [OF assms(1,2), of ticks] assms(2-5) by (cases rq) (auto split: if_splits)

lemma no_ack_while_held:
  "pool_ok px \<Longrightarrow> \<forall>rq\<in>set rqs. pool_request sdp rq \<Longrightarrow> h \<notin> free px \<Longrightarrow>
     \<forall>k<n. \<forall>r. rqs ! k = Deallocate_req r \<longrightarrow> rtp_proxy_handle r \<noteq> h \<Longrightarrow>
     run_requests sdp ticks rqs px = Inr (ans, px') \<Longrightarrow> n < length rqs \<Longrightarrow> rqs ! n = Allocate_req r \<Longrightarrow>
     ans ! n \<noteq> Acked h"
proof (induction rqs arbitrary: px ans n)
  case (Cons rq rqs)
  from Cons.prems(5) obtain rep p1 ans1 where
    step: "handle_request sdp ticks rq px = Inr (rep, p1)" and
    run: "run_requests sdp ticks rqs p1 = Inr (ans1, px')" and ans: "ans = answer_of rep # ans1"
    by auto
  show ?case
  proof (cases n)
    case 0
    with Cons.prems step ans show ?thesis by (auto dest: allocate_answer)
  next
    case (Suc m)
    with Cons.prems(4) have "\<forall>r. rq = Deallocate_req r \<longrightarrow> rtp_proxy_handle r \<noteq> h" by auto
    with held_stays_held [OF Cons.prems(1) _ Cons.prems(3) step] Cons.prems(2)
    have "pool_ok p1" "h \<notin> free p1" by auto
    moreover have "\<forall>k<m. \<forall>r. rqs ! k = Deallocate_req r \<longrightarrow> rtp_proxy_handle r \<noteq> h"
      using Cons.prems(4) Suc by auto
    ultimately show ?thesis
      using Cons.IH [OF _ _ _ _ run] Cons.prems Suc ans by auto
  qed
qed simp

text \<open>C6: without bridges a handle belongs to one session at a time: if two allocations of a run
  are granted the same handle, it has been given back between them.\<close>

theorem granted_handles_are_exclusive:
  assumes "pool_ok px" and "\<forall>rq\<in>set rqs. pool_request sdp rq"
    and "run_requests sdp ticks rqs px = Inr (ans, px')" and "m < n" and "n < length rqs"
    and "rqs ! m = Allocate_req r" and "rqs ! n = Allocate_req r'"
    and "ans ! m = Acked h" and "ans ! n = Acked h"
  shows "\<exists>k>m. k < n \<and> (\<exists>q. rqs ! k = Deallocate_req q \<and> rtp_proxy_handle q = h)"
  using assms
proof (induction rqs arbitrary: px ans m n)
  case (Cons rq rqs)
  from Cons.prems(3) obtain rep p1 ans1 where
    step: "handle_request sdp ticks rq px = Inr (rep, p1)" and
    run: "run_requests sdp ticks rqs p1 = Inr (ans1, px')" and ans: "ans = answer_of rep # ans1"
    by auto
  have ok: "pool_ok p1" "\<forall>rq\<in>set rqs. pool_request sdp rq"
    using request_refines [of px sdp rq ticks] step Cons.prems(1,2) by auto
  obtain n' where n: "n = Suc n'" using Cons.prems(4) by (cases n) auto
  show ?case
  proof (cases m)
    case 0
    with Cons.prems step ans have "h \<notin> free p1" by (auto dest: allocate_answer)
    note acked = no_ack_while_held [OF ok this _ run, of n' r']
    have "n' < length rqs" "rqs ! n' = Allocate_req r'" "ans1 ! n' = Acked h"
      using Cons.prems n ans by simp_all
    with acked obtain k q where "k < n'" "rqs ! k = Deallocate_req q" "rtp_proxy_handle q = h"
      by blast
    then show ?thesis using 0 n by (intro exI [of _ "Suc k"]) auto
  next
    case (Suc m')
    from Cons.IH [OF ok run, of m' n'] Cons.prems n Suc ans
    obtain k q where "m' < k" "k < n'" "rqs ! k = Deallocate_req q" "rtp_proxy_handle q = h" by auto
    then show ?thesis using Suc n by (intro exI [of _ "Suc k"]) auto
  qed
qed simp

text \<open>The same run in the abstract pool.\<close>

fun pool_run :: "(string \<Rightarrow> medium) \<Rightarrow> int set \<Rightarrow> request list \<Rightarrow> int set \<Rightarrow> answer list \<times> int set" where
  "pool_run sdp I [] F = ([], F)"
| "pool_run sdp I (rq # rqs) F =
     (let (a, F1) = pool_step sdp I rq F; (as, F2) = pool_run sdp I rqs F1 in (a # as, F2))"

lemma run_refines:
  "pool_ok px \<Longrightarrow> \<forall>rq\<in>set rqs. pool_request sdp rq \<Longrightarrow>
     \<exists>ans px'. run_requests sdp ticks rqs px = Inr (ans, px') \<and> pool_ok px' \<and>
       (ans, free px') = pool_run sdp (ids px) rqs (free px)"
proof (induction rqs arbitrary: px)
  case (Cons rq rqs)
  then obtain rep p1 where 1: "handle_request sdp ticks rq px = Inr (rep, p1)" "pool_ok p1" "ids p1 = ids px"
    "(answer_of rep, free p1) = pool_step sdp (ids px) rq (free px)"
    using request_refines [of px sdp rq ticks] by auto
  with Cons.IH [of p1] Cons.prems(2) show ?case by (auto split: prod.splits)
qed simp

theorem granted_handles_are_exclusive_witness:
  "\<exists>k>0. k < (2::nat) \<and> (\<exists>q. [alloc, dealloc 5000, alloc] ! k = Deallocate_req q \<and> rtp_proxy_handle q = 5000)"
proof -
  have p: "pool_ok (demo_proxy 2)" "free (demo_proxy 2) = {5000, 5002}" "ids (demo_proxy 2) = {5000, 5002}"
    using demo_proxy_pool pool_free by (auto simp: pool_ok_def)
  have rq: "\<forall>rq\<in>set [alloc, dealloc 5000, alloc]. pool_request demo_sdp rq"
    by (simp add: alloc_def dealloc_def)
  obtain ans px' where "run_requests demo_sdp 0 [alloc, dealloc 5000, alloc] (demo_proxy 2) = Inr (ans, px')"
    "ans = [Acked 5000, Silent, Acked 5000]"
    using run_refines [OF p(1) rq, of 0] p
    by (auto simp: alloc_def dealloc_def demo_sdp_def new_rtp_data_def Let_def insert_Diff_if)
  from granted_handles_are_exclusive [OF p(1) rq this(1), of 0 2 _ _ 5000] this(2)
  show ?thesis by (auto simp: alloc_def)
qed

section \<open>Bridging\<close>




lemmas state_simps = ST_AVAILABLE_def ST_ALLOCATED_def ST_INPUT_def ST_OUTPUT_def ST_FULLDUPLEX_def c_not_def

lemmas bridge_simps = Bridge_def Unbridge_def conn_simps DoBridge_def DoUnbridge_def unbridge_src_def
  unbridge_dst_def or_new_def new_conn_def new_source_def new_rtcp_def new_sink_def startPlaying_def
  stopPlaying_def stopGettingFrames_def Let_def IW_FAILURE_def close_opt_def close_rtcp_def
  close_sink_def close_source_def




text \<open>Running the requests on the pool of the examples.\<close>

lemmas proxy_eval = bridge_simps UponAllocateReq_def UponBridgeReq_def UponDeallocateReq_def bridge_def
  dealloc_def alloc_def demo_sdp_def new_RtpConnection_def new_rtp_data_def new_medium_def mf_PCMU_def
  mf_eq_def set_destination_def is_ip_valid_def INADDR_NONE_def CnxInfo_addr_def answer_of_def
  state_simps bridge_error_def

lemma init_loop_open:
  "port < top_port \<Longrightarrow> i < n \<Longrightarrow>
     init_loop (\<lambda>_. True) ip top_port n i port px =
     (let (a, p1) = new_conn (new_RtpConnection\<lparr>connection_id := port,
                      local_cnx := CnxInfo_addr ip port, conn_state := ST_AVAILABLE\<rparr>) px
      in init_loop (\<lambda>_. True) ip top_port n (i + 1) (port + 2) (p1\<lparr>px_map := smap_insert port a (px_map p1)\<rparr>))"
  "\<not> i < n \<Longrightarrow> init_loop (\<lambda>_. True) ip top_port n i port px = px"
  by (subst init_loop.simps, simp)+

lemmas demo_proxy_eval = demo_proxy_def InitSockets_def init_loop_open first_port_def empty_proxy_def



text \<open>
  the process can be ended by requests it grants: three sessions hold a connection each; a
  connection that is bridged away from its peer keeps the peer's sink on its source, so that a
  later bridge, of handles that are all held, starts a second reader on a source that is
  being read, and the library exits.\<close>

theorem bridging_can_end_the_process:
  "\<exists>px. run_requests demo_sdp 0 [alloc, alloc, alloc] (demo_proxy 3) = Inr ([Acked 5000, Acked 5002, Acked 5004], px) \<and>
     run_requests demo_sdp 0 [bridge 5000 5002, bridge 5002 5004, bridge 5000 5002, bridge 5002 5000] px = Inl Process_exit"
  by (simp add: proxy_eval demo_proxy_eval)

section \<open>The pool of sockets\<close>

text \<open>
  at start the process opens, in order, the first even ports of the range on which both
  sockets can be had, as many as the configuration asks for; it reports success exactly
  where there are enough of them, and every connection is available under its port.\<close>

theorem init_sockets_opens_first_pairs:
  assumes "InitSockets sock_ok ip base_port top_port num = (code, px)"
    and "0 \<le> base_port" and "base_port + 2 \<le> top_port" and "1 \<le> num"
  shows "map fst (px_map px) = take (unat num) (port_pairs sock_ok top_port (first_port base_port)) \<and>
    free px = set (map fst (px_map px)) \<and> pool_ok px \<and>
    (code = API_SUCCESS \<longleftrightarrow> unat num \<le> length (port_pairs sock_ok top_port (first_port base_port)))"
proof -
  let ?p = "init_loop sock_ok ip top_port (unat num) 0 (first_port base_port) empty_proxy"
  have "\<not> num < 1" using assms(4) by (simp only: not_less)
  then have px: "px = ?p" and code: "code = (if length (px_map px) < unat num then API_FAILURE else API_SUCCESS)"
    using assms(1-3) by (auto simp: InitSockets_def Let_def)
  from init_loop_pool [OF empty_pool, of "first_port base_port" sock_ok ip top_port "unat num" 0] px
  have p: "pool px (\<lambda>_. Free)"
    and m: "map fst (px_map px) = take (unat num) (port_pairs sock_ok top_port (first_port base_port))"
    by (simp_all add: ids_def empty_proxy_def)
  from arg_cong [OF m, of length]
  have "length (px_map px) = min (length (port_pairs sock_ok top_port (first_port base_port))) (unat num)"
    by simp
  moreover have "free px = set (map fst (px_map px))" using pool_free [OF p] by (auto simp: ids_def)
  ultimately show ?thesis using p m code by (auto simp: pool_ok_def simp del: set_map)
qed

theorem init_sockets_opens_first_pairs_witness:
  "map fst (px_map (snd (InitSockets (\<lambda>p. p \<noteq> 5003) 0x0100007F 4999 5010 2))) = [5000, 5004]"
proof -
  let ?i = "InitSockets (\<lambda>p. p \<noteq> 5003) 0x0100007F 4999 5010 2"
  from init_sockets_opens_first_pairs [of "\<lambda>p. p \<noteq> 5003" "0x0100007F" 4999 5010 2 "fst ?i" "snd ?i"]
  have "map fst (px_map (snd ?i)) = take 2 (port_pairs (\<lambda>p. p \<noteq> 5003) 5010 5000)"
    by (simp add: first_port_def)
  also have "\<dots> = [5000, 5004]"
    by (subst port_pairs_step, subst port_pairs_step, subst port_pairs_step) simp
  finally show ?thesis .
qed

section \<open>DTMF events\<close>

text \<open>The signals of a stream of packets: time stamp, event and volume field of each.\<close>

fun dtmf_signals :: "8 word \<Rightarrow> (32 word \<times> 8 word \<times> 8 word) list \<Rightarrow> rtp_source \<Rightarrow> string list" where
  "dtmf_signals ptype [] x = []"
| "dtmf_signals ptype ((ts, event, volume) # ps) x =
     (let (sig, y) = processUnknownPayload ptype ts event volume x in
      (case sig of None \<Rightarrow> [] | Some s \<Rightarrow> [s]) @ dtmf_signals ptype ps y)"

text \<open>The packets of one key: all carry its time stamp and event.\<close>

definition key_packets :: "32 word \<times> 8 word \<times> 8 word list \<Rightarrow> (32 word \<times> 8 word \<times> 8 word) list" where
  "key_packets k = (case k of (ts, event, vols) \<Rightarrow> map (\<lambda>v. (ts, event, v)) vols)"

definition key_ends :: "32 word \<times> 8 word \<times> 8 word list \<Rightarrow> bool" where
  "key_ends k \<longleftrightarrow> (\<exists>v\<in>set (snd (snd k)). v AND 0x80 \<noteq> 0)"

definition key_signal :: "32 word \<times> 8 word \<times> 8 word list \<Rightarrow> string" where
  "key_signal k = dtmf_signal (fst (snd k))"

definition hears :: "8 word \<Rightarrow> rtp_source \<Rightarrow> bool" where
  "hears ptype x \<longleftrightarrow> src_handler x \<noteq> None \<and> uint ptype = mf_mapping (src_dtmf x)"

lemma dtmf_after_end:
  "hears ptype x \<Longrightarrow> src_lastTimestamp x = ts \<Longrightarrow>
     dtmf_signals ptype (key_packets (ts, event, vols) @ ps) x = dtmf_signals ptype ps x"
  by (induction vols) (auto simp: key_packets_def processUnknownPayload_def)

lemma dtmf_one_key:
  "hears ptype x \<Longrightarrow> src_lastTimestamp x \<noteq> ts \<Longrightarrow> key_ends (ts, event, vols) \<Longrightarrow>
     dtmf_signals ptype (key_packets (ts, event, vols) @ ps) x =
       dtmf_signal event # dtmf_signals ptype ps (x\<lparr>src_lastTimestamp := ts\<rparr>)"
proof (induction vols)
  case (Cons v vols)
  have hears: "hears ptype (x\<lparr>src_lastTimestamp := ts\<rparr>)" using Cons.prems by (simp add: hears_def)
  from Cons show ?case
    using dtmf_after_end [OF hears, of ts event vols ps]
    by (auto simp: key_packets_def key_ends_def processUnknownPayload_def hears_def)
qed (simp add: key_ends_def)

text \<open>
  a key is signalled once: where every key press sends at least one packet with the end
  bit, and neighbouring presses differ in their time stamps, the handler gets one signal for
  each press, in order, however often the end of a press is repeated.\<close>

theorem each_key_is_signalled_once:
  assumes "hears ptype x" and "\<forall>k\<in>set keys. key_ends k"
    and "distinct_adj (src_lastTimestamp x # map fst keys)"
  shows "dtmf_signals ptype (concat (map key_packets keys)) x = map key_signal keys"
  using assms
proof (induction keys arbitrary: x)
  case (Cons k keys)
  obtain ts event vols where k: "k = (ts, event, vols)" by (cases k)
  have "hears ptype (x\<lparr>src_lastTimestamp := ts\<rparr>)" using Cons.prems by (simp add: hears_def)
  with Cons.IH [OF this] Cons.prems show ?case
    by (simp add: k dtmf_one_key key_signal_def)
qed simp

theorem each_key_is_signalled_once_witness:
  "\<exists>x. dtmf_signals 101 [(160, 11, 10), (160, 11, 0x8A), (160, 11, 0x8A), (800, 5, 0x8A)] x = [''#'', ''5'']"
proof -
  let ?x = "\<lparr>src_payload = 0, src_freq = 8000, src_mime = ''PCMU'', src_dtmf = mf_DTMF_RFC2833,
               src_cn = mf_UNKNOWN, src_handler = Some 7, src_lastTimestamp = 0, src_awaiting = True\<rparr>"
  have "hears 101 ?x" by (simp add: hears_def mf_DTMF_RFC2833_def)
  from each_key_is_signalled_once [OF this, of "[(160, 11, [10, 0x8A, 0x8A]), (800, 5, [0x8A])]"]
  have "dtmf_signals 101 [(160, 11, 10), (160, 11, 0x8A), (160, 11, 0x8A), (800, 5, 0x8A)] ?x =
    [dtmf_signal 11, dtmf_signal 5]"
    by (simp add: key_ends_def key_packets_def key_signal_def)
  moreover have "dtmf_signal 11 = ''#''" "dtmf_signal 5 = ''5''" by code_simp+
  ultimately show ?thesis by auto
qed

end
