(* ===== verification/Iw_Lease.thy ===== *)
theory Iw_Lease
  imports Iw_Clients_Props Iw_RtpProxy_Props
begin

text \<open>The client session of the media proxy and the proxy together.\<close>

section \<open>The lease of a media connection\<close>

text \<open>C7: a lease, client and proxy together: when the proxy grants the request of an allocation, the
  session gets the handle of a connection that was free and is no longer; the request its
  tear-down sends is accepted by the proxy in the state it is then in and makes the pool
  what it was before.\<close>

theorem lease_restores_the_pool:
  assumes "pool_ok px" and "message_id m = MSG_RTP_PROXY_ALLOCATE_REQ"
    and "payload m = RtpPayload (allocate_request offer s)" and "request_of m = Some rq"
    and "handle_request sdp ticks rq px = Inr (Some (mid, d), px1)"
    and "rtp_allocated ((new_IwMessage mid)\<lparr>payload := RtpPayload d\<rparr>) s = Inr (API_SUCCESS, s1)"
    and "message_id m' = MSG_RTP_PROXY_DEALLOCATE_REQ" and "payload m' = RtpPayload (deallocate_request s1)"
  shows "rs_handle s1 \<in> free px \<and> free px1 = free px - {rs_handle s1} \<and>
    (\<exists>rq' px2. request_of m' = Some rq' \<and> handle_request sdp ticks' rq' px1 = Inr (None, px2) \<and>
       pool_ok px2 \<and> free px2 = free px)"
proof -
  have rq: "rq = Allocate_req (allocate_request offer s)" using assms(2-4) by (simp add: request_of_def)
  obtain p1 where ok: "pool_ok px1" "ids px1 = ids px" and
    step: "(answer_of (Some (mid, d)), free px1) = pool_step sdp (ids px) rq (free px)"
    using request_refines [OF assms(1), of sdp rq ticks] assms(5) rq by auto
  have h: "mid = MSG_RTP_PROXY_ACK" "rs_handle s1 = rtp_proxy_handle d"
    using assms(6) by (auto simp: rtp_allocated_def split: if_splits)
  with step rq have min: "free px \<noteq> {}" "rs_handle s1 = Min (free px)" "free px1 = free px - {Min (free px)}"
    by (auto simp: answer_of_def split: if_splits)
  have fin: "finite (free px)" "free px \<subseteq> ids px"
    by (rule free_finite)+
  with min have mem: "rs_handle s1 \<in> free px" by simp
  let ?rq = "Deallocate_req (deallocate_request s1)"
  obtain rep px2 where 2: "handle_request sdp ticks' ?rq px1 = Inr (rep, px2)" "pool_ok px2"
    "(answer_of rep, free px2) = pool_step sdp (ids px1) ?rq (free px1)"
    using request_refines [OF ok(1), of sdp ?rq ticks'] by auto
  have "rs_handle s1 \<in> ids px1 - free px1" using mem fin(2) ok(2) min(2,3) by blast
  with 2(3) have "rep = None" "free px2 = insert (rs_handle s1) (free px1)"
    by (auto simp: deallocate_request_def answer_of_def split: option.splits prod.splits if_splits)
  with 2 mem min assms(7,8) show ?thesis by (auto simp: request_of_def insert_absorb)
qed

text \<open>A session as it is after construction.\<close>

definition demo_rtp :: rtp_session where
  "demo_rtp = \<lparr>rs_service = 6002, rs_handle = IW_UNDEFINED, rs_bridgedHandle = IW_UNDEFINED,
     rs_localOffer = empty_offer, rs_remoteOffer = empty_offer, rs_handlerPair = (6004, 6005),
     rs_dtmfChannel = 6003, rs_dtmfBuffer = [], rs_ao = new_ActiveObject\<rparr>"

theorem lease_restores_the_pool_witness:
  "\<exists>s1 px1 px2. rs_handle s1 = 5000 \<and> free px1 = {5002} \<and>
     UponDeallocateReq (deallocate_request s1) px1 = Inr (None, px2) \<and> free px2 = {5000, 5002}"
proof -
  have p: "pool_ok (demo_proxy 2)" "free (demo_proxy 2) = {5000, 5002}" "ids (demo_proxy 2) = {5000, 5002}"
    using demo_proxy_pool pool_free by (auto simp: pool_ok_def)
  let ?o = "\<lparr>offer_body = ''v=0'', offer_type = []\<rparr>"
  let ?m = "(new_IwMessage MSG_RTP_PROXY_ALLOCATE_REQ)\<lparr>payload := RtpPayload (allocate_request ?o demo_rtp)\<rparr>"
  let ?rq = "Allocate_req (allocate_request ?o demo_rtp)"
  obtain rep px1 where 1: "handle_request Iw_RtpProxy_Props.demo_sdp 0 ?rq (demo_proxy 2) = Inr (rep, px1)"
    "answer_of rep = Acked 5000"
    using request_refines [OF p(1), of Iw_RtpProxy_Props.demo_sdp ?rq 0] p
    by (auto simp: allocate_request_def Iw_RtpProxy_Props.demo_sdp_def new_rtp_data_def)
  then obtain d where d: "rep = Some (MSG_RTP_PROXY_ACK, d)" "rtp_proxy_handle d = 5000"
    by (auto simp: answer_of_def split: option.splits if_splits)
  let ?s1 = "demo_rtp\<lparr>rs_handle := 5000, rs_localOffer := rtp_offer d\<rparr>"
  let ?m' = "(new_IwMessage MSG_RTP_PROXY_DEALLOCATE_REQ)\<lparr>payload := RtpPayload (deallocate_request ?s1)\<rparr>"
  have "request_of ?m = Some ?rq" by (simp add: request_of_def)
  moreover have "rtp_allocated ((new_IwMessage MSG_RTP_PROXY_ACK)\<lparr>payload := RtpPayload d\<rparr>) demo_rtp = Inr (API_SUCCESS, ?s1)"
    using d by (simp add: rtp_allocated_def)
  ultimately obtain px2 where "free px1 = {5002}"
    "UponDeallocateReq (deallocate_request ?s1) px1 = Inr (None, px2)" "free px2 = {5000, 5002}"
    using lease_restores_the_pool [OF p(1), of ?m ?o demo_rtp ?rq Iw_RtpProxy_Props.demo_sdp 0
        MSG_RTP_PROXY_ACK d px1 ?s1 ?m' 0] 1 d p(2)
    by (auto simp: request_of_def)
  then show ?thesis by (intro exI [of _ ?s1] exI [of _ px1] exI [of _ px2]) simp
qed

end
