(* ===== verification/Iw_SipCall.thy ===== *)
theory Iw_SipCall
  imports Iw_Clients
begin

text \<open>
  The SIP call (\<^verbatim>\<open>iw_telephony/SipCall.cpp\<close>): an offer/answer session with registration,
  subscriptions, notifications and INFO requests.
\<close>

text \<open>The two channels are null pointers in the call of an offered message.\<close>

record sip_call =
  sc_session :: session
  sc_infosChannel :: "int option"
  sc_notifyChannel :: "int option"
  sc_registration :: int
  sc_subscribe :: int

definition sip_fields :: "session \<Rightarrow> int option \<Rightarrow> int option \<Rightarrow> sip_call" where
  "sip_fields s infos notify = \<lparr>sc_session = s, sc_infosChannel = infos, sc_notifyChannel = notify,
     sc_registration = IW_UNDEFINED, sc_subscribe = IW_UNDEFINED\<rparr>"

definition new_SipMediaCall_idle :: "world \<Rightarrow> sip_call \<times> world" where
  "new_SipMediaCall_idle w =
     (let (s, w1) = new_session_idle w; (i, w2) = declare_anon w1; (n, w3) = declare_anon w2
      in (sip_fields s (Some i) (Some n), w3))"

definition new_SipMediaCall_uac :: "int \<Rightarrow> world \<Rightarrow> fault + (sip_call \<times> world)" where
  "new_SipMediaCall_uac service w =
     bnd (new_session_uac service w) (\<lambda>(s, w1).
       let (i, w2) = declare_anon w1; (n, w3) = declare_anon w2
       in Inr (sip_fields s (Some i) (Some n), w3))"

definition new_SipMediaCall_uas :: "iw_message \<Rightarrow> world \<Rightarrow> fault + (sip_call \<times> world)" where
  "new_SipMediaCall_uas m w =
     (case payload m of
        CallPayload offered \<Rightarrow>
          bnd (new_session_uas (handle_id (source m)) offered w) (\<lambda>(s, w1).
            Inr (sip_fields s None None, w1))
      | _ \<Rightarrow> Inl Null_deref)"

section \<open>Events\<close>

definition forward_to :: "int \<Rightarrow> int option \<Rightarrow> iw_message \<Rightarrow> world \<Rightarrow> fault + (unit \<times> world)" where
  "forward_to lpid chan m w =
     (case chan of
        None \<Rightarrow> Inr ((), w)
      | Some u \<Rightarrow> bnd (handle_send lpid u m w) (\<lambda>(_, w1). Inr ((), w1)))"

text \<open>INFO requests and notifications do not reach the handlers of the base class.\<close>

definition sip_event :: "int \<Rightarrow> iw_message \<Rightarrow> sip_call \<Rightarrow> world \<Rightarrow> fault + (sip_call \<times> world)" where
  "sip_event lpid m s w =
     (if message_id m = SIP_CALL_INFO_REQ
      then bnd (forward_to lpid (sc_infosChannel s) m w) (\<lambda>(_, w1). Inr (s, w1))
      else if message_id m = SIP_CALL_NOTIFY_EVT
      then bnd (forward_to lpid (sc_notifyChannel s) m w) (\<lambda>(_, w1). Inr (s, w1))
      else bnd (session_event lpid m (sc_session s) w) (\<lambda>(b, w1). Inr (s\<lparr>sc_session := b\<rparr>, w1)))"

fun sip_events ::
  "int \<Rightarrow> iw_message list \<Rightarrow> sip_call \<Rightarrow> world \<Rightarrow> fault + (sip_call \<times> world)" where
  "sip_events lpid [] s w = Inr (s, w)"
| "sip_events lpid (m # ms) s w = bnd (sip_event lpid m s w) (\<lambda>(s1, w1). sip_events lpid ms s1 w1)"

text \<open>
  A wait for an event of one of the two channels or for the end of the call.  A null pointer in
  the list of handles is dereferenced.
\<close>

definition wait_for_offer ::
  "int option \<Rightarrow> running_context \<Rightarrow> sip_call \<Rightarrow> world \<Rightarrow>
     fault + ((ApiErrorCode \<times> AbstractOffer option) \<times> world)" where
  "wait_for_offer chan ctx s w =
     (case chan of
        None \<Rightarrow> Inl Null_deref
      | Some u \<Rightarrow>
          bnd (WaitForTxnResponse_list ctx [u, s_hangupChannel (sc_session s)] IW_UNDEFINED None 60000 w)
            (\<lambda>((res, index, response), w1).
               if IW_FAILURE res then Inr ((res, None), w1)
               else if index = 1 then Inr ((API_HANGUP, None), w1)
               else on_response response (\<lambda>r. case payload r of
                      CallPayload d \<Rightarrow> Inr ((API_SUCCESS, Some (remoteOffer d)), w1)
                    | _ \<Rightarrow> Inl Null_deref)))"

definition WaitForNotify ::
  "running_context \<Rightarrow> sip_call \<Rightarrow> world \<Rightarrow> fault + ((ApiErrorCode \<times> AbstractOffer option) \<times> world)" where
  "WaitForNotify ctx s = wait_for_offer (sc_notifyChannel s) ctx s"

definition WaitForInfo ::
  "running_context \<Rightarrow> sip_call \<Rightarrow> world \<Rightarrow> fault + ((ApiErrorCode \<times> AbstractOffer option) \<times> world)" where
  "WaitForInfo ctx s = wait_for_offer (sc_infosChannel s) ctx s"

text \<open>The channel is poisoned and replaced by a new one.\<close>

definition renew_channel :: "int option \<Rightarrow> world \<Rightarrow> fault + (int \<times> world)" where
  "renew_channel chan w =
     (case chan of
        None \<Rightarrow> Inl Null_deref
      | Some u \<Rightarrow> bnd (handle_poison u w) (\<lambda>(_, w1).
          let (v, w2) = declare_anon w1 in Inr (v, destroy_handle u w2)))"

definition CleanNotifyBuffer :: "sip_call \<Rightarrow> world \<Rightarrow> fault + (sip_call \<times> world)" where
  "CleanNotifyBuffer s w =
     bnd (renew_channel (sc_notifyChannel s) w) (\<lambda>(v, w1). Inr (s\<lparr>sc_notifyChannel := Some v\<rparr>, w1))"

definition CleanInfoBuffer :: "sip_call \<Rightarrow> world \<Rightarrow> fault + (sip_call \<times> world)" where
  "CleanInfoBuffer s w =
     bnd (renew_channel (sc_infosChannel s) w) (\<lambda>(v, w1). Inr (s\<lparr>sc_infosChannel := Some v\<rparr>, w1))"

section \<open>Requests\<close>

text \<open>A transaction with the stack while the listener handles \<open>evs\<close>.\<close>

definition sip_transaction ::
  "running_context \<Rightarrow> iw_message list \<Rightarrow> iw_message \<Rightarrow> int \<Rightarrow> string \<Rightarrow> sip_call \<Rightarrow> world \<Rightarrow>
     fault + ((ApiErrorCode \<times> iw_message option) \<times> sip_call \<times> world)" where
  "sip_transaction ctx evs msg timeout nm s w =
     bnd (DoRequestResponseTransaction ctx (s_serviceHandleId (sc_session s)) msg None timeout nm w)
       (\<lambda>(r, w1). bnd (sip_events (fst (s_handlerPair (sc_session s))) evs s w1) (\<lambda>(s1, w2). Inr (r, s1, w2)))"

text \<open>
  The map given to the stack gets the registration where there is one; the events the listener
  hands to the base class while the call is made are \<open>evs\<close>.
\<close>

definition SipMediaCall_MakeCall ::
  "running_context \<Rightarrow> iw_message list \<Rightarrow> string \<Rightarrow> AbstractOffer \<Rightarrow> (string, int) smap \<Rightarrow> int \<Rightarrow> sip_call \<Rightarrow> world \<Rightarrow>
     fault + (ApiErrorCode \<times> (string, int) smap \<times> sip_call \<times> world)" where
  "SipMediaCall_MakeCall ctx evs uri offer kv ring_timeout s w =
     (let kv1 = (if sc_registration s \<noteq> IW_UNDEFINED then smap_insert ''registration_id'' (sc_registration s) kv else kv)
      in bnd (MakeCall ctx evs uri offer ring_timeout (sc_session s) w) (\<lambda>(res, b, w1).
           Inr (res, kv1, s\<lparr>sc_session := b\<rparr>, w1)))"

definition StartRegistration ::
  "running_context \<Rightarrow> iw_message list \<Rightarrow> string list \<Rightarrow> string \<Rightarrow> string \<times> string \<times> string \<Rightarrow> int \<Rightarrow> sip_call \<Rightarrow> world \<Rightarrow>
     fault + (ApiErrorCode \<times> sip_call \<times> world)" where
  "StartRegistration ctx evs contacts registrar cred timeout s w =
     (if sc_registration s \<noteq> IW_UNDEFINED then Inr (API_WRONG_STATE, s, w)
      else
        let (m, w1) = client_request SIP_CALL_REGISTER_REQ (SipPayload new_call_data
              (new_sip_data\<lparr>sip_contacts := contacts, sip_registrar := registrar, sip_credentials := cred\<rparr>)) w
        in bnd (sip_transaction ctx evs m timeout ''SIP Register TXN'' s w1) (\<lambda>((res, response), s1, w2).
             if res \<noteq> API_SUCCESS then Inr (res, s1, w2)
             else on_response response (\<lambda>r.
               if message_id r = SIP_CALL_REGISTER_ACK
               then (case payload r of
                       SipPayload _ ack \<Rightarrow> Inr (API_SUCCESS, s1\<lparr>sc_registration := registration_id ack\<rparr>, w2)
                     | _ \<Rightarrow> Inl Null_deref)
               else Inr (API_SERVER_FAILURE, s1, w2))))"

definition StopRegistration ::
  "running_context \<Rightarrow> sip_call \<Rightarrow> world \<Rightarrow> fault + (ApiErrorCode \<times> sip_call \<times> world)" where
  "StopRegistration ctx s w =
     (if sc_registration s = IW_UNDEFINED then Inr (API_WRONG_STATE, s, w)
      else
        let (m, w1) = client_request SIP_CALL_UNREGISTER_REQ (SipPayload new_call_data
              (new_sip_data\<lparr>registration_id := sc_registration s\<rparr>)) w
        in bnd (SendMessage_to ctx (s_serviceHandleId (sc_session s)) m w1) (\<lambda>(res, w2).
             Inr (res, s\<lparr>sc_registration := IW_UNDEFINED\<rparr>, w2)))"

text \<open>Where the call has no service yet, the \<^emph>\<open>call\<close> handle of the answer is stored as the service.\<close>

definition Subscribe ::
  "running_context \<Rightarrow> iw_message list \<Rightarrow> sip_data \<Rightarrow> int \<Rightarrow> sip_call \<Rightarrow> world \<Rightarrow>
     fault + (ApiErrorCode \<times> sip_call \<times> world)" where
  "Subscribe ctx evs d timeout s w =
     (if sc_subscribe s \<noteq> IW_UNDEFINED then Inr (API_WRONG_STATE, s, w)
      else
        let b = sc_session s;
            (m, w1) = client_request SIP_CALL_SUBSCRIBE_REQ (SipPayload
              (new_call_data\<lparr>stack_call_handle := s_iwCallHandle b\<rparr>)
              (d\<lparr>sip_handler := Some (fst (s_handlerPair b))\<rparr>)) w
        in bnd (sip_transaction ctx evs m timeout ''SIP Subscribe TXN'' s w1) (\<lambda>((res, response), s1, w2).
             if res \<noteq> API_SUCCESS then Inr (res, s1, w2)
             else on_response response (\<lambda>r.
               if message_id r = SIP_CALL_SUBSCRIBE_ACK
               then (case payload r of
                       SipPayload c ack \<Rightarrow>
                         let b1 = sc_session s1;
                             b2 = (if s_serviceHandleId b1 = IW_UNDEFINED
                                   then b1\<lparr>s_serviceHandleId := stack_call_handle c\<rparr> else b1)
                         in Inr (API_SUCCESS, s1\<lparr>sc_session := b2, sc_subscribe := subscription_handle ack\<rparr>, w2)
                     | _ \<Rightarrow> Inl Null_deref)
               else Inr (API_SERVER_FAILURE, s1, w2))))"

text \<open>
  The request of an INFO.  With \<open>async\<close> the answer is waited for and dropped; without it the
  request is only sent, and the answer that was never asked for is read.
\<close>

definition info_request :: "AbstractOffer \<Rightarrow> sip_call \<Rightarrow> world \<Rightarrow> iw_message \<times> world" where
  "info_request offer s = client_request SIP_CALL_INFO_REQ
     (CallPayload (new_call_data\<lparr>stack_call_handle := s_iwCallHandle (sc_session s), localOffer := offer\<rparr>))"

definition SendInfo ::
  "running_context \<Rightarrow> iw_message list \<Rightarrow> AbstractOffer \<Rightarrow> bool \<Rightarrow> sip_call \<Rightarrow> world \<Rightarrow>
     fault + ((ApiErrorCode \<times> AbstractOffer option) \<times> sip_call \<times> world)" where
  "SendInfo ctx evs offer async s w =
     (let (m, w1) = info_request offer s w in
      bnd (if async then sip_transaction ctx evs m 10000 ''SIP SendInfo TXN'' s w1
           else bnd (SendMessage_to ctx (s_serviceHandleId (sc_session s)) m w1)
                  (\<lambda>(res, w2). Inr ((res, None), s, w2)))
        (\<lambda>((res, response), s1, w2).
           if res \<noteq> API_SUCCESS then Inr ((res, None), s1, w2)
           else if async then Inr ((res, None), s1, w2)
           else on_response response (\<lambda>r.
             if message_id r = SIP_CALL_INFO_ACK
             then (case payload r of
                     CallPayload d \<Rightarrow> Inr ((API_SUCCESS, Some (remoteOffer d)), s1, w2)
                   | _ \<Rightarrow> Inl Null_deref)
             else if message_id r = SIP_CALL_INFO_NACK then Inr ((API_SERVER_FAILURE, None), s1, w2)
             else Inl Terminate)))"

end
