(* ===== verification/Iw_SipCall_Props.thy ===== *)
theory Iw_SipCall_Props
  imports Iw_SipCall Iw_Clients_Props
begin

text \<open>Properties of the SIP call: INFO requests, calls made from an offer, registration.\<close>

section \<open>INFO requests\<close>

text \<open>
  the answer to an INFO is never given back: a synchronous send, which should wait for it,
  never succeeds, and once the request has been handed over it dereferences a null
  response; an asynchronous one waits for the answer and drops it.\<close>

theorem info_answer_is_never_returned:
  "SendInfo ctx evs offer False s w \<noteq> Inr ((API_SUCCESS, r), s', w') \<and>
   SendInfo ctx evs offer True s w \<noteq> Inr ((code, Some x), s', w') \<and>
   (case SendMessage_to ctx (s_serviceHandleId (sc_session s)) (fst (info_request offer s w)) (snd (info_request offer s w)) of
      Inl e \<Rightarrow> SendInfo ctx evs offer False s w = Inl e
    | Inr (c, v) \<Rightarrow> SendInfo ctx evs offer False s w = (if c = API_SUCCESS then Inl Null_deref else Inr ((c, None), s, v)))"
  by (auto simp: SendInfo_def on_response_def Let_def split: prod.splits sum.splits)

section \<open>Calls made from an offer\<close>

text \<open>The channels of the call are as they were whatever it is told.\<close>

lemma sip_event_channels:
  "sip_event lpid m s w = Inr (s', w') \<Longrightarrow>
     sc_infosChannel s' = sc_infosChannel s \<and> sc_notifyChannel s' = sc_notifyChannel s \<and>
     sc_registration s' = sc_registration s \<and> sc_subscribe s' = sc_subscribe s"
  by (auto simp: sip_event_def split: if_splits)

lemma sip_events_channels:
  "sip_events lpid ms s w = Inr (s', w') \<Longrightarrow>
     sc_infosChannel s' = sc_infosChannel s \<and> sc_notifyChannel s' = sc_notifyChannel s \<and>
     sc_registration s' = sc_registration s \<and> sc_subscribe s' = sc_subscribe s"
  by (induction ms arbitrary: s w) (auto dest!: sip_event_channels)

text \<open>
  a call made from an offered message cannot wait for an INFO or a notification: its
  constructor leaves both channels null, the events that arrive for them are dropped, and
  whatever it has been told, waiting for one or cleaning its buffer dereferences null.\<close>

theorem offered_calls_cannot_wait:
  assumes "new_SipMediaCall_uas m w = Inr (s, w1)" and "sip_events lpid ms s v = Inr (s', v')"
  shows "WaitForInfo ctx s' u = Inl Null_deref \<and> WaitForNotify ctx s' u = Inl Null_deref \<and>
    CleanInfoBuffer s' u = Inl Null_deref \<and> CleanNotifyBuffer s' u = Inl Null_deref \<and>
    (message_id m' \<in> {SIP_CALL_INFO_REQ, SIP_CALL_NOTIFY_EVT} \<longrightarrow> sip_event lpid m' s' u = Inr (s', u))"
proof -
  have "sc_infosChannel s = None" "sc_notifyChannel s = None"
    using assms(1) by (auto simp: new_SipMediaCall_uas_def sip_fields_def split: payload.splits)
  with sip_events_channels [OF assms(2)] show ?thesis
    by (simp add: WaitForInfo_def WaitForNotify_def wait_for_offer_def CleanInfoBuffer_def CleanNotifyBuffer_def
        renew_channel_def sip_event_def forward_to_def)
qed

definition demo_offered :: iw_message where
  "demo_offered = (new_IwMessage MSG_CALL_OFFERED)
     \<lparr>source := \<lparr>handle_id = 6002, queue_path = []\<rparr>,
      payload := CallPayload (new_call_data\<lparr>stack_call_handle := 77, call_handler := Some (6000, 6001)\<rparr>)\<rparr>"

theorem offered_calls_cannot_wait_witness:
  "\<exists>s w1. new_SipMediaCall_uas demo_offered demo_world = Inr (s, w1) \<and>
     s_iwCallHandle (sc_session s) = 77 \<and> WaitForInfo demo_ctx s w1 = Inl Null_deref \<and>
     sip_event 6000 (new_IwMessage SIP_CALL_INFO_REQ) s w1 = Inr (s, w1)"
proof -
  have "case new_SipMediaCall_uas demo_offered demo_world of
      Inl _ \<Rightarrow> False | Inr (s, _) \<Rightarrow> s_iwCallHandle (sc_session s) = 77" by code_simp
  then obtain s w1 where s: "new_SipMediaCall_uas demo_offered demo_world = Inr (s, w1)"
    "s_iwCallHandle (sc_session s) = 77"
    by (auto split: sum.splits)
  from offered_calls_cannot_wait [OF s(1), of 6000 "[]" w1 s w1 demo_ctx w1 "new_IwMessage SIP_CALL_INFO_REQ"] s
  show ?thesis by simp
qed

section \<open>Registration\<close>

definition registration_give_back :: "running_context \<Rightarrow> sip_call \<Rightarrow> world \<Rightarrow> fault + (sip_call \<times> world)" where
  "registration_give_back ctx s w = bnd (StopRegistration ctx s w) (\<lambda>(_, s1, w1). Inr (s1, w1))"

interpretation registration_lease: lease "\<lambda>s. sc_registration s \<noteq> IW_UNDEFINED" registration_give_back
  by unfold_locales (auto simp: registration_give_back_def StopRegistration_def Let_def split: if_splits prod.splits)

lemma registration_twice:
  "bnd (registration_give_back ctx s w) (\<lambda>(s1, w1). registration_give_back ctx s1 w1) = registration_give_back ctx s w"
  by (rule registration_lease.twice)

end
