(* ===== verification/Iw_Waiter.thy ===== *)
theory Iw_Waiter
  imports Iw_Clients
begin

text \<open>
  The process that waits for operating system handles on behalf of others
  (\<^verbatim>\<open>iw_core/ProcHandleWaiter.cpp\<close>): a list of slots, each with the handle to wait for and a
  timer; the arrays given to the system call; one round of the loop; and the session that
  submits a request.  What the system returns in a round is an argument.
\<close>

section \<open>State\<close>

text \<open>
  A slot; \<open>None\<close> is the null timer handle that marks an obsolete one.  The slots are kept in a linked
  list, so that a pointer to one stays good while others come and go: \<open>ws_id\<close> is its address.
\<close>

record waiter_slot =
  ws_id :: nat
  ws_handle :: int
  ws_timer :: "int option"
  ws_request :: iw_message
  ws_index :: int
  ws_timeout :: "32 word"

definition IW_MAX_NUMBER_OF_SLOTS :: nat where "IW_MAX_NUMBER_OF_SLOTS = 100"

text \<open>The two arrays, by index; the first pair belongs to the process.\<close>

record waiter =
  wt_slots :: "waiter_slot list"
  wt_next :: nat
  wt_waitHandles :: "nat \<Rightarrow> int option"
  wt_quick :: "nat \<Rightarrow> nat option"

text \<open>Faults: a write behind the end of the arrays; a fault of the messaging core.\<close>

datatype wt_fault = Array_overflow | Core fault

definition core :: "fault + 'a \<Rightarrow> wt_fault + 'a" where
  "core r = (case r of Inl e \<Rightarrow> Inl (Core e) | Inr x \<Rightarrow> Inr x)"

section \<open>The arrays\<close>

text \<open>
  The loop over the slots.  Where an obsolete slot is erased, the iterator is at the next one
  and the loop header advances past it.
\<close>

fun init_slots ::
  "waiter_slot list \<Rightarrow> nat \<Rightarrow> (nat \<Rightarrow> int option) \<times> (nat \<Rightarrow> nat option) \<Rightarrow>
     wt_fault + (waiter_slot list \<times> nat \<times> (nat \<Rightarrow> int option) \<times> (nat \<Rightarrow> nat option))" where
  "init_slots [] p (hs, q) = Inr ([], p, hs, q)"
| "init_slots (s # rest) p (hs, q) =
     (case ws_timer s of
        None \<Rightarrow>
          (case rest of
             [] \<Rightarrow> Inr ([], p, hs, q)
           | y # ys \<Rightarrow> bnd (init_slots ys p (hs, q)) (\<lambda>(zs, r). Inr (y # zs, r)))
      | Some t \<Rightarrow>
          if 2 * p + 1 \<ge> 2 * IW_MAX_NUMBER_OF_SLOTS then Inl Array_overflow
          else bnd (init_slots rest (p + 1)
                      (hs(2 * p := Some (ws_handle s), 2 * p + 1 := Some t),
                       q(2 * p := Some (ws_id s), 2 * p + 1 := Some (ws_id s))))
                 (\<lambda>(zs, r). Inr (s\<lparr>ws_index := int p\<rparr> # zs, r)))"

definition InitHandlesArray :: "waiter \<Rightarrow> wt_fault + (nat \<times> waiter)" where
  "InitHandlesArray wt =
     bnd (init_slots (wt_slots wt) 1 (wt_waitHandles wt, wt_quick wt)) (\<lambda>(ss, p, hs, q).
       Inr (p * 2, wt\<lparr>wt_slots := ss, wt_waitHandles := hs, wt_quick := q\<rparr>))"

section \<open>A round\<close>

text \<open>
  The values of the system: the result of the wait, the timer that is created (\<open>None\<close> where that
  fails), whether setting a timer and closing a handle succeed.
\<close>

record os_round =
  os_wait :: int
  os_timer :: "int option"
  os_set :: bool
  os_close :: bool

definition WAIT_OBJECT_0 :: int where "WAIT_OBJECT_0 = 0"
definition WAIT_ABANDONED_0 :: int where "WAIT_ABANDONED_0 = 0x80"
definition WAIT_TIMEOUT :: int where "WAIT_TIMEOUT = 258"
definition WAIT_FAILED :: int where "WAIT_FAILED = 0xFFFFFFFF"
definition INFINITE :: "32 word" where "INFINITE = 0xFFFFFFFF"
definition LONG_MAX :: int where "LONG_MAX = 0x7FFFFFFF"

text \<open>A message of the process; the result tells whether it ends.\<close>

definition submit_slot :: "os_round \<Rightarrow> iw_message \<Rightarrow> waiter_data \<Rightarrow> waiter \<Rightarrow> wt_fault + waiter" where
  "submit_slot os m d wt =
     (if \<not> os_set os then Inl (Core Terminate)
      else Inr (wt\<lparr>wt_slots := wt_slots wt @ [\<lparr>ws_id = wt_next wt, ws_handle = handle_to_wait d,
                     ws_timer = os_timer os, ws_request = m, ws_index = IW_UNDEFINED,
                     ws_timeout = wait_timeout d\<rparr>],
                   wt_next := wt_next wt + 1\<rparr>))"

definition ProcessIwMessage ::
  "running_context \<Rightarrow> os_round \<Rightarrow> waiter \<Rightarrow> world \<Rightarrow> wt_fault + (bool \<times> waiter \<times> world)" where
  "ProcessIwMessage ctx os wt w =
     bnd (core (handle_pending (rc_fiber ctx) (rc_inbound ctx) w)) (\<lambda>(pending, w1).
       if \<not> pending then Inr (False, wt, w1)
       else bnd (core (LpHandle_Wait (rc_fiber ctx) (rc_inbound ctx) 0 w1)) (\<lambda>((code, mo), w2).
         if IW_FAILURE code then Inr (False, wt, w2)
         else (case mo of
           None \<Rightarrow> Inl (Core Null_deref)
         | Some m \<Rightarrow>
             if message_id m = MSG_PROC_SHUTDOWN_EVT then Inr (True, wt, w2)
             else if message_id m = MSG_WAITER_SUBMIT
             then (case payload m of
                     WaiterPayload d \<Rightarrow> bnd (submit_slot os m d wt) (\<lambda>wt1. Inr (False, wt1, w2))
                   | _ \<Rightarrow> Inl (Core Null_deref))
             else bnd (core (HandleOOBMessage ctx (Some m) w2)) (\<lambda>(handled, w3).
                    if handled then Inr (False, wt, w3) else Inl (Core Terminate)))))"

definition find_slot :: "nat \<Rightarrow> waiter_slot list \<Rightarrow> waiter_slot option" where
  "find_slot i ss = find (\<lambda>s. ws_id s = i) ss"

definition mark_obsolete :: "nat \<Rightarrow> waiter_slot list \<Rightarrow> waiter_slot list" where
  "mark_obsolete i ss = map (\<lambda>s. if ws_id s = i then s\<lparr>ws_timer := None\<rparr> else s) ss"

definition wait_ack :: "int \<Rightarrow> iw_message" where
  "wait_ack code = (new_MsgResponse MSG_WAIT_ACK)
     \<lparr>payload := WaiterPayload \<lparr>handle_to_wait = 0, wait_timeout = 0, wait_error_code = word_of_int code\<rparr>\<rparr>"

text \<open>
  The default branch: a handle of the arrays has been signalled or abandoned.  A pointer
  that is null or no longer in the list is a null dereference.
\<close>

definition signalled ::
  "running_context \<Rightarrow> os_round \<Rightarrow> nat \<Rightarrow> waiter \<Rightarrow> world \<Rightarrow> wt_fault + (waiter \<times> world)" where
  "signalled ctx os nCount wt w =
     (let abandoned = \<not> (WAIT_OBJECT_0 \<le> os_wait os \<and> os_wait os \<le> WAIT_OBJECT_0 + int nCount - 1);
          i = nat (if abandoned then os_wait os - WAIT_ABANDONED_0 else os_wait os - WAIT_OBJECT_0)
      in case Option.bind (wt_quick wt i) (\<lambda>a. find_slot a (wt_slots wt)) of
           None \<Rightarrow> Inl (Core Null_deref)
         | Some s \<Rightarrow>
             if i mod 2 \<noteq> 0 \<and> abandoned then Inl (Core Terminate)
             else
               let code = (if i mod 2 = 0 then (if abandoned then WAIT_ABANDONED_0 else WAIT_OBJECT_0)
                           else WAIT_TIMEOUT);
                   q = (wt_quick wt)(i := None, i + 1 := None)
               in bnd (core (SendResponse ctx (ws_request s) (wait_ack code) w)) (\<lambda>(_, w1).
                    if \<not> os_close os then Inl (Core Terminate)
                    else Inr (wt\<lparr>wt_quick := q, wt_slots := mark_obsolete (ws_id s) (wt_slots wt)\<rparr>, w1)))"

definition waiter_round ::
  "running_context \<Rightarrow> os_round \<Rightarrow> waiter \<Rightarrow> world \<Rightarrow> wt_fault + (bool \<times> waiter \<times> world)" where
  "waiter_round ctx os wt w =
     bnd (InitHandlesArray wt) (\<lambda>(nCount, wt1).
       if os_wait os = WAIT_TIMEOUT \<or> os_wait os = WAIT_FAILED then Inl (Core Terminate)
       else if os_wait os = WAIT_OBJECT_0 then ProcessIwMessage ctx os wt1 w
       else if os_wait os = WAIT_OBJECT_0 + 1
       then (if os_set os then Inr (False, wt1, w) else Inl (Core Terminate))
       else bnd (signalled ctx os nCount wt1 w) (\<lambda>(wt2, w1). Inr (False, wt2, w1)))"

text \<open>The loop over what the system returns; \<open>True\<close>: the process has been told to end.\<close>

fun waiter_loop ::
  "running_context \<Rightarrow> os_round list \<Rightarrow> waiter \<Rightarrow> world \<Rightarrow> wt_fault + (bool \<times> waiter \<times> world)" where
  "waiter_loop ctx [] wt w = Inr (False, wt, w)"
| "waiter_loop ctx (os # oss) wt w =
     bnd (waiter_round ctx os wt w) (\<lambda>(shutdown, wt1, w1).
       if shutdown then Inr (True, wt1, w1) else waiter_loop ctx oss wt1 w1)"

definition new_waiter :: "int \<Rightarrow> int \<Rightarrow> waiter" where
  "new_waiter interruptor timer =
     \<lparr>wt_slots = [], wt_next = 0, wt_waitHandles = (\<lambda>_. None)(0 := Some interruptor, 1 := Some timer),
      wt_quick = (\<lambda>_. None)\<rparr>"

section \<open>The session of a caller\<close>

text \<open>
  Retried while the timeout is infinite; \<open>None\<close>: still waiting after \<open>n\<close> rounds.
\<close>

fun waiter_wait ::
  "nat \<Rightarrow> running_context \<Rightarrow> int \<Rightarrow> bool \<Rightarrow> int \<Rightarrow> iw_message option \<Rightarrow> world \<Rightarrow>
     (fault + ((ApiErrorCode \<times> iw_message option) \<times> world)) option" where
  "waiter_wait 0 ctx u forever t resp w = None"
| "waiter_wait (Suc n) ctx u forever t resp w =
     (case WaitForTxnResponse ctx u resp t w of
        Inl e \<Rightarrow> Some (Inl e)
      | Inr ((res, resp1), w1) \<Rightarrow>
          if forever \<and> res = API_TIMEOUT then waiter_wait n ctx u forever t resp1 w1
          else Some (Inr ((res, resp1), w1)))"

text \<open>The result is the code and the value of the output parameter, where it is assigned.\<close>

definition WaitForSingleObject ::
  "nat \<Rightarrow> (string \<Rightarrow> string \<Rightarrow> bool) \<Rightarrow> running_context \<Rightarrow> int \<Rightarrow> 32 word \<Rightarrow> world \<Rightarrow>
     (fault + ((ApiErrorCode \<times> int option) \<times> world)) option" where
  "WaitForSingleObject n matches ctx h timeout w =
     (if uint timeout > LONG_MAX \<and> timeout \<noteq> INFINITE then Some (Inr ((API_FAILURE, None), w))
      else
        let (u, w1) = declare_handle ''Wait for handle TXN'' MSG_DIRECTION_INBOUND w
        in case RegisterChannel u u [] w1 of
             Inl e \<Rightarrow> Some (Inl e)
           | Inr (_, w2) \<Rightarrow>
               let (m, w3) = client_request MSG_WAITER_SUBMIT (WaiterPayload
                     \<lparr>handle_to_wait = h, wait_timeout = timeout, wait_error_code = 0\<rparr>) w2;
                   msg = m\<lparr>source := (source m)\<lparr>handle_id := u\<rparr>\<rparr>;
                   leave = (\<lambda>r v. bnd (UnregisterChannel (rc_processId ctx) u v) (\<lambda>(_, v1).
                              Inr (r, destroy_handle u v1)))
               in (case GetHandle_service matches ''__waiter__'' w3 of
                     None \<Rightarrow> Some (Inl Null_deref)
                   | Some dst \<Rightarrow>
                       (case SendMessage_to ctx dst msg w3 of
                          Inl e \<Rightarrow> Some (Inl e)
                        | Inr (code, w4) \<Rightarrow>
                            if IW_FAILURE code then Some (leave (code, Some WAIT_FAILED) w4)
                            else
                              (case waiter_wait n ctx u (timeout = INFINITE)
                                      (if timeout = INFINITE then LONG_MAX else uint timeout) None w4 of
                                 None \<Rightarrow> None
                               | Some (Inl e) \<Rightarrow> Some (Inl e)
                               | Some (Inr ((res, resp), w5)) \<Rightarrow>
                                   if IW_FAILURE res then Some (leave (res, Some WAIT_FAILED) w5)
                                   else (case resp of
                                           None \<Rightarrow> Some (Inl Null_deref)
                                         | Some r \<Rightarrow> (case payload r of
                                             WaiterPayload d \<Rightarrow> Some (leave (res, Some (uint (wait_error_code d))) w5)
                                           | _ \<Rightarrow> Some (Inl Null_deref)))))))"

end
