(* ===== verification/Iw_Waiter_Props.thy ===== *)
theory Iw_Waiter_Props
  imports Iw_Waiter Iw_Process_Props "HOL-Library.Code_Target_Nat"
begin

text \<open>
  Properties of the waiting process: the invariant of its slots, what the arrays of a round hold, who
  gets the answer, and the slot that is left out.
\<close>

text \<open>What holds of a result, if there is one.\<close>

definition holds :: "('a \<Rightarrow> bool) \<Rightarrow> 'e + 'a \<Rightarrow> bool" where
  "holds P r \<longleftrightarrow> (\<forall>x. r = Inr x \<longrightarrow> P x)"

lemma holds_simps [simp]:
  "holds P (Inr x) \<longleftrightarrow> P x" "holds P (Inl e)" "holds P (bnd m f) \<longleftrightarrow> holds (\<lambda>x. holds P (f x)) m"
  by (auto simp: holds_def)

lemma holds_core: "(\<And>x. P x) \<Longrightarrow> holds P (core r)"
  by (simp add: holds_def)

section \<open>The arrays of a round\<close>

text \<open>The slots that stay in the list, and those whose handles are put into the arrays.\<close>

fun survivors :: "waiter_slot list \<Rightarrow> waiter_slot list" where
  "survivors [] = []"
| "survivors (s # rest) =
     (if ws_timer s = None then (case rest of [] \<Rightarrow> [] | y # ys \<Rightarrow> y # survivors ys) else s # survivors rest)"

fun waited :: "waiter_slot list \<Rightarrow> waiter_slot list" where
  "waited [] = []"
| "waited (s # rest) =
     (if ws_timer s = None then (case rest of [] \<Rightarrow> [] | y # ys \<Rightarrow> waited ys) else s # waited rest)"

text \<open>A slot without its place in the arrays.\<close>

definition bare :: "waiter_slot \<Rightarrow> waiter_slot" where
  "bare s = s\<lparr>ws_index := IW_UNDEFINED\<rparr>"

lemma bare_fields [simp]:
  "ws_id (bare s) = ws_id s" "ws_timer (bare s) = ws_timer s" "ws_handle (bare s) = ws_handle s"
  "ws_request (bare s) = ws_request s" "bare (s\<lparr>ws_index := i\<rparr>) = bare s"
  by (simp_all add: bare_def)

lemma map_bare_mem:
  assumes "map bare zs = map bare ss" and "x \<in> set ss"
  shows "bare x \<in> bare ` set zs"
proof -
  have "set (map bare zs) = set (map bare ss)" using assms(1) by (rule arg_cong)
  then show ?thesis using assms(2) by simp
qed

lemma init_slots_result:
  "init_slots ss p (hs, q) = Inr (zs, p', hs', q') \<Longrightarrow>
     map bare zs = map bare (survivors ss) \<and> p' = p + length (waited ss) \<and>
     (\<forall>k < length (waited ss).
        hs' (2 * (p + k)) = Some (ws_handle (waited ss ! k)) \<and> hs' (2 * (p + k) + 1) = ws_timer (waited ss ! k) \<and>
        q' (2 * (p + k)) = Some (ws_id (waited ss ! k)) \<and> q' (2 * (p + k) + 1) = Some (ws_id (waited ss ! k))) \<and>
     (\<forall>i < 2 * p. hs' i = hs i \<and> q' i = q i)"
proof (induction ss p "(hs, q)" arbitrary: hs q zs rule: init_slots.induct)
  case (2 s rest p hs q)
  show ?case
  proof (cases "ws_timer s")
    case None
    with 2 show ?thesis by (cases rest) auto
  next
    case (Some t)
    with 2(3) obtain zs1 where 1: "2 * p + 1 < 2 * IW_MAX_NUMBER_OF_SLOTS"
      "init_slots rest (p + 1)
         (hs(2 * p := Some (ws_handle s), 2 * p + 1 := Some t),
          q(2 * p := Some (ws_id s), 2 * p + 1 := Some (ws_id s))) = Inr (zs1, p', hs', q')"
      "zs = s\<lparr>ws_index := int p\<rparr> # zs1"
      by (auto split: if_splits)
    note IH = 2(2) [OF Some _ 1(2)]
    have IH': "map bare zs1 = map bare (survivors rest)" "p' = p + 1 + length (waited rest)"
      "\<forall>k < length (waited rest).
        hs' (2 * (p + 1 + k)) = Some (ws_handle (waited rest ! k)) \<and> hs' (2 * (p + 1 + k) + 1) = ws_timer (waited rest ! k) \<and>
        q' (2 * (p + 1 + k)) = Some (ws_id (waited rest ! k)) \<and> q' (2 * (p + 1 + k) + 1) = Some (ws_id (waited rest ! k))"
      "\<forall>i < 2 * (p + 1). hs' i = (hs(2 * p := Some (ws_handle s), 2 * p + 1 := Some t)) i \<and>
         q' i = (q(2 * p := Some (ws_id s), 2 * p + 1 := Some (ws_id s))) i"
      using IH 1(1) by auto
    have "hs' (2 * (p + k)) = Some (ws_handle (waited (s # rest) ! k)) \<and> hs' (2 * (p + k) + 1) = ws_timer (waited (s # rest) ! k) \<and>
        q' (2 * (p + k)) = Some (ws_id (waited (s # rest) ! k)) \<and> q' (2 * (p + k) + 1) = Some (ws_id (waited (s # rest) ! k))"
      if "k < length (waited (s # rest))" for k
    proof (cases k)
      case 0
      with IH'(4) Some show ?thesis by simp
    next
      case (Suc j)
      with IH'(3) that Some show ?thesis by simp
    qed
    with IH'(1,2,4) Some 1(3) show ?thesis by auto
  qed
qed simp

lemma waited_survivors: "set (waited ss) \<subseteq> set (survivors ss)"
  by (induction ss rule: waited.induct) (auto split: list.splits)

section \<open>The invariant\<close>

text \<open>Addresses are distinct and used up to the next one; at most one slot is obsolete.\<close>

definition obsolete :: "waiter_slot \<Rightarrow> bool" where "obsolete s \<longleftrightarrow> ws_timer s = None"

definition slots_ok :: "waiter \<Rightarrow> bool" where
  "slots_ok wt \<longleftrightarrow> distinct (map ws_id (wt_slots wt)) \<and> (\<forall>s \<in> set (wt_slots wt). ws_id s < wt_next wt) \<and>
     length (filter obsolete (wt_slots wt)) \<le> 1"

lemma survivors_none: "filter obsolete ss = [] \<Longrightarrow> survivors ss = ss \<and> waited ss = ss"
  by (induction ss) (auto simp: obsolete_def split: if_splits)

lemma survivors_one:
  "length (filter obsolete ss) \<le> 1 \<Longrightarrow> survivors ss = filter (\<lambda>s. \<not> obsolete s) ss"
proof (induction ss)
  case (Cons s ss)
  show ?case
  proof (cases "obsolete s")
    case True
    with Cons.prems have none: "filter obsolete ss = []" by simp
    then have keep: "filter (\<lambda>s. \<not> obsolete s) ss = ss" by (simp add: filter_empty_conv)
    show ?thesis
    proof (cases ss)
      case (Cons y ys)
      with none have "filter obsolete ys = []" by (simp split: if_splits)
      with Cons True keep survivors_none show ?thesis by (auto simp: obsolete_def)
    qed (use True in \<open>simp add: obsolete_def\<close>)
  next
    case False
    then obtain t where "ws_timer s = Some t" by (auto simp: obsolete_def)
    with Cons False show ?thesis by simp
  qed
qed simp

lemma map_bare_filter: "map bare zs = map bare ss \<Longrightarrow> map ws_id zs = map ws_id ss \<and> map ws_timer zs = map ws_timer ss"
  by (metis (no_types, lifting) bare_fields(1,2) comp_apply map_eq_conv map_map)

lemma InitHandlesArray_ok:
  assumes "slots_ok wt" and "InitHandlesArray wt = Inr (n, wt1)"
  shows "slots_ok wt1 \<and> filter obsolete (wt_slots wt1) = [] \<and> n = 2 + 2 * length (waited (wt_slots wt)) \<and>
    map bare (wt_slots wt1) = map bare (filter (\<lambda>s. \<not> obsolete s) (wt_slots wt)) \<and>
    (\<forall>k < length (waited (wt_slots wt)).
        wt_waitHandles wt1 (2 + 2 * k) = Some (ws_handle (waited (wt_slots wt) ! k)) \<and>
        wt_waitHandles wt1 (3 + 2 * k) = ws_timer (waited (wt_slots wt) ! k) \<and>
        wt_quick wt1 (2 + 2 * k) = Some (ws_id (waited (wt_slots wt) ! k)) \<and>
        wt_quick wt1 (3 + 2 * k) = Some (ws_id (waited (wt_slots wt) ! k)))"
proof -
  let ?ss = "wt_slots wt"
  from assms(2) obtain zs p hs q where
    i: "init_slots ?ss 1 (wt_waitHandles wt, wt_quick wt) = Inr (zs, p, hs, q)"
    and n: "n = p * 2" and wt1: "wt1 = wt\<lparr>wt_slots := zs, wt_waitHandles := hs, wt_quick := q\<rparr>"
    by (auto simp: InitHandlesArray_def)
  note r = init_slots_result [OF i]
  have sv: "survivors ?ss = filter (\<lambda>s. \<not> obsolete s) ?ss"
    using assms(1) by (auto simp: slots_ok_def intro: survivors_one)
  with r have bare: "map bare zs = map bare (filter (\<lambda>s. \<not> obsolete s) ?ss)" by simp
  note ids = map_bare_filter [OF bare]
  have "set (map ws_id zs) \<subseteq> ws_id ` set ?ss" using ids by auto
  then have less: "\<forall>s \<in> set zs. ws_id s < wt_next wt" using assms(1) by (fastforce simp: slots_ok_def)
  have "distinct (map ws_id zs)" using ids assms(1) by (simp add: slots_ok_def distinct_map_filter)
  moreover have none: "filter obsolete zs = []"
  proof -
    have "None \<notin> set (map ws_timer zs)" using ids by (auto simp: obsolete_def)
    then show ?thesis by (force simp: filter_empty_conv obsolete_def)
  qed
  ultimately show ?thesis using r n bare less by (simp add: wt1 slots_ok_def eval_nat_numeral algebra_simps)
qed

lemma find_slot_Some: "distinct (map ws_id ss) \<Longrightarrow> s \<in> set ss \<Longrightarrow> find_slot (ws_id s) ss = Some s"
  by (induction ss) (auto simp: find_slot_def image_iff)

lemma mark_obsolete_ids [simp]: "map ws_id (mark_obsolete i ss) = map ws_id ss"
  by (induction ss) (auto simp: mark_obsolete_def)

lemma mark_obsolete_one:
  "distinct (map ws_id ss) \<Longrightarrow> filter obsolete ss = [] \<Longrightarrow> length (filter obsolete (mark_obsolete i ss)) \<le> 1"
proof (induction ss)
  case (Cons s ss)
  have "mark_obsolete i ss = ss" if "i \<notin> ws_id ` set ss"
    using that by (induction ss) (auto simp: mark_obsolete_def)
  with Cons show ?case
    by (cases "ws_id s = i") (auto simp: mark_obsolete_def split: if_splits)
qed (simp add: mark_obsolete_def)

lemma slots_ok_signalled:
  assumes "slots_ok wt" and "filter obsolete (wt_slots wt) = []"
    and "signalled ctx os n wt w = Inr (wt', w')"
  shows "slots_ok wt'"
proof -
  from assms(3) obtain i where "wt_slots wt' = mark_obsolete i (wt_slots wt)" "wt_next wt' = wt_next wt"
    by (auto simp: signalled_def Let_def split: option.splits if_splits)
  moreover from this(1) have "ws_id ` set (wt_slots wt') = ws_id ` set (wt_slots wt)"
    by (metis mark_obsolete_ids list.set_map)
  then have "\<forall>s \<in> set (wt_slots wt'). ws_id s < wt_next wt" using assms(1) by (force simp: slots_ok_def)
  ultimately show ?thesis using assms(1,2) mark_obsolete_one by (simp add: slots_ok_def)
qed

lemma slots_ok_message:
  assumes "slots_ok wt" and "filter obsolete (wt_slots wt) = []"
    and "ProcessIwMessage ctx os wt w = Inr (b, wt', w')"
  shows "slots_ok wt'"
proof -
  have [simp]: "holds slots_ok (submit_slot os m d wt)" for m d
    using assms(1,2) by (force simp: holds_def submit_slot_def slots_ok_def less_Suc_eq split: if_splits)
  have "holds (\<lambda>(b, v, w'). slots_ok v) (ProcessIwMessage ctx os wt w)"
    unfolding ProcessIwMessage_def using assms(1)
    by (auto intro!: holds_core split: option.split payload.split)
  with assms(3) show ?thesis by (simp add: holds_def)
qed

lemma slots_ok_round:
  assumes "slots_ok wt" and "waiter_round ctx os wt w = Inr (b, wt', w')"
  shows "slots_ok wt'"
proof -
  from assms(2) obtain n wt1 where i: "InitHandlesArray wt = Inr (n, wt1)" by (auto simp: waiter_round_def)
  from InitHandlesArray_ok [OF assms(1) i] have "slots_ok wt1" "filter obsolete (wt_slots wt1) = []" by auto
  note ok1 = this
  with slots_ok_message [OF ok1] slots_ok_signalled [OF ok1]
  have "holds (\<lambda>(b, v, w'). slots_ok v) (waiter_round ctx os wt w)"
    unfolding waiter_round_def i by (simp add: holds_def) blast
  with assms(2) show ?thesis by (simp add: holds_def)
qed

section \<open>An example\<close>

text \<open>Two requests of the process with handle 6002, for the handles 70 and 71, are in the queue.\<close>

definition demo_submit :: "int \<Rightarrow> iw_message" where
  "demo_submit h = (new_IwMessage MSG_WAITER_SUBMIT)
     \<lparr>source := \<lparr>handle_id = 6002, queue_path = []\<rparr>, transaction_id := h,
      payload := WaiterPayload \<lparr>handle_to_wait = h, wait_timeout = 1000, wait_error_code = 0\<rparr>\<rparr>"

definition demo_waiting :: world where
  "demo_waiting = demo_world\<lparr>w_handles := (w_handles demo_world)(6000 \<mapsto>
     new_LpHandle\<lparr>hnd_channel := (hnd_channel new_LpHandle)\<lparr>buffer := [demo_submit 70, demo_submit 71]\<rparr>\<rparr>)\<rparr>"

definition demo_os :: "int \<Rightarrow> os_round" where
  "demo_os k = \<lparr>os_wait = k, os_timer = Some (500 + k), os_set = True, os_close = True\<rparr>"

definition demo_waiter :: "int list \<Rightarrow> wt_fault + (bool \<times> waiter \<times> world)" where
  "demo_waiter ks = waiter_loop demo_ctx (map demo_os ks) (new_waiter 1 2) demo_waiting"

section \<open>Properties\<close>

text \<open>C14: the slots of the waiting process stay in order, whatever messages come and whatever the
  system reports, in every run: their addresses are distinct, at most one of them is obsolete, and
  filling the arrays removes it.\<close>

theorem waiter_slots_stay_ok:
  assumes "waiter_loop ctx oss (new_waiter e t) w = Inr (b, wt, w')"
  shows "slots_ok wt \<and> (\<forall>n wt1. InitHandlesArray wt = Inr (n, wt1) \<longrightarrow>
    map bare (wt_slots wt1) = map bare (filter (\<lambda>s. \<not> obsolete s) (wt_slots wt)))"
proof -
  have "waiter_loop ctx oss wt0 w = Inr (b, wt, w') \<Longrightarrow> slots_ok wt0 \<Longrightarrow> slots_ok wt" for wt0
  proof (induction oss arbitrary: wt0 w)
    case (Cons os oss)
    then show ?case by (auto split: if_splits dest: slots_ok_round)
  qed simp
  moreover have "slots_ok (new_waiter e t)" by (simp add: slots_ok_def new_waiter_def)
  ultimately have "slots_ok wt" using assms by blast
  with InitHandlesArray_ok show ?thesis by blast
qed

theorem waiter_slots_stay_ok_witness:
  "\<exists>b wt w'. demo_waiter [0, 0, 2] = Inr (b, wt, w') \<and> slots_ok wt \<and> map obsolete (wt_slots wt) = [True, False]"
proof -
  have "case demo_waiter [0, 0, 2] of Inl _ \<Rightarrow> False
        | Inr (_, wt, _) \<Rightarrow> map (\<lambda>s. ws_timer s = None) (wt_slots wt) = [True, False]"
    by code_simp
  then obtain b wt w' where r: "demo_waiter [0, 0, 2] = Inr (b, wt, w')"
    "map (\<lambda>s. ws_timer s = None) (wt_slots wt) = [True, False]"
    by (auto split: sum.splits)
  from waiter_slots_stay_ok [OF r(1) [unfolded demo_waiter_def]] r show ?thesis
    by (simp add: obsolete_def [abs_def])
qed

text \<open>C15: an answer goes to the one who asked: when the system reports that the handle or the timer
  at some place of the arrays has been signalled, the request of the slot put there is
  answered, with success for the handle and a timeout for the timer, and that slot alone
  becomes obsolete.\<close>

theorem answer_goes_to_the_signalled_slot:
  assumes "slots_ok wt" and "InitHandlesArray wt = Inr (n, wt1)"
    and "os_wait os = int i" and "2 \<le> i" and "i < n"
    and "signalled ctx os n wt1 w = Inr (wt2, w2)"
  shows "\<exists>s r. s \<in> set (wt_slots wt1) \<and>
    wt_waitHandles wt1 i = (if even i then Some (ws_handle s) else ws_timer s) \<and>
    SendResponse ctx (ws_request s) (wait_ack (if even i then WAIT_OBJECT_0 else WAIT_TIMEOUT)) w = Inr (r, w2) \<and>
    wt_slots wt2 = mark_obsolete (ws_id s) (wt_slots wt1)"
proof -
  note I = InitHandlesArray_ok [OF assms(1,2)]
  define k where "k = (i - 2) div 2"
  have i: "i = (if even i then 2 + 2 * k else 3 + 2 * k)" using assms(4) unfolding k_def by presburger
  have k: "k < length (waited (wt_slots wt))" using I assms(5) i by (auto split: if_splits)
  let ?s = "waited (wt_slots wt) ! k"
  have q: "wt_quick wt1 i = Some (ws_id ?s)"
    and h: "wt_waitHandles wt1 i = (if even i then Some (ws_handle ?s) else ws_timer ?s)"
  proof -
    have "wt_quick wt1 i = Some (ws_id ?s) \<and>
        wt_waitHandles wt1 i = (if even i then Some (ws_handle ?s) else ws_timer ?s)"
    proof (cases "even i")
      case True
      with i have "i = 2 + 2 * k" by simp
      with I k True show ?thesis by simp
    next
      case False
      with i have "i = 3 + 2 * k" by simp
      with I k False show ?thesis by simp
    qed
    then show "wt_quick wt1 i = Some (ws_id ?s)"
      "wt_waitHandles wt1 i = (if even i then Some (ws_handle ?s) else ws_timer ?s)" by simp_all
  qed
  have "?s \<in> set (survivors (wt_slots wt))" using k waited_survivors nth_mem by blast
  then have "?s \<in> set (filter (\<lambda>s. \<not> obsolete s) (wt_slots wt))"
    using survivors_one assms(1) by (simp add: slots_ok_def)
  then have "bare ?s \<in> bare ` set (wt_slots wt1)" by (rule map_bare_mem [rotated]) (use I in simp)
  then obtain s where s: "s \<in> set (wt_slots wt1)" "bare s = bare ?s" by auto
  then have same: "ws_id s = ws_id ?s" "ws_handle s = ws_handle ?s" "ws_timer s = ws_timer ?s"
    by (metis bare_fields(1), metis bare_fields(3), metis bare_fields(2))
  have dist: "distinct (map ws_id (wt_slots wt1))" using I by (simp add: slots_ok_def)
  have "find_slot (ws_id s) (wt_slots wt1) = Some s" by (rule find_slot_Some [OF dist s(1)])
  then have "Option.bind (wt_quick wt1 i) (\<lambda>a. find_slot a (wt_slots wt1)) = Some s" using q same by simp
  with assms(3-6) h s(1) same show ?thesis
    by (intro exI [of _ s])
      (auto simp: signalled_def Let_def WAIT_OBJECT_0_def core_def even_iff_mod_2_eq_zero split: sum.splits if_splits)
qed

definition demo_answers :: "waiter \<Rightarrow> world \<Rightarrow> bool" where
  "demo_answers wt w =
     (case InitHandlesArray wt of
        Inl _ \<Rightarrow> False
      | Inr (n, wt1) \<Rightarrow> n = 6 \<and>
          (case signalled demo_ctx (demo_os 4) n wt1 w of Inl _ \<Rightarrow> False | Inr _ \<Rightarrow> True))"

theorem answer_goes_to_the_signalled_slot_witness:
  "\<exists>wt w wt1 s r w2. demo_waiter [0, 0] = Inr (False, wt, w) \<and> InitHandlesArray wt = Inr (6, wt1) \<and>
     s \<in> set (wt_slots wt1) \<and> wt_waitHandles wt1 4 = Some (ws_handle s) \<and>
     SendResponse demo_ctx (ws_request s) (wait_ack WAIT_OBJECT_0) w = Inr (r, w2)"
proof -
  have "case demo_waiter [0, 0] of Inl _ \<Rightarrow> False
    | Inr (b, wt, w) \<Rightarrow> \<not> b \<and> distinct (map ws_id (wt_slots wt)) \<and> list_all (\<lambda>s. ws_id s < wt_next wt) (wt_slots wt) \<and>
        filter (\<lambda>s. ws_timer s = None) (wt_slots wt) = [] \<and> demo_answers wt w"
    by code_simp
  then obtain wt w where r: "demo_waiter [0, 0] = Inr (False, wt, w)"
    "distinct (map ws_id (wt_slots wt))" "list_all (\<lambda>s. ws_id s < wt_next wt) (wt_slots wt)"
    "filter (\<lambda>s. ws_timer s = None) (wt_slots wt) = []" and "demo_answers wt w"
    by (auto split: sum.splits)
  obtain n wt1 where i: "InitHandlesArray wt = Inr (n, wt1)"
    using \<open>demo_answers wt w\<close> by (cases "InitHandlesArray wt") (auto simp: demo_answers_def)
  with \<open>demo_answers wt w\<close> have n: "n = 6" by (simp add: demo_answers_def)
  obtain wt2 w2 where g: "signalled demo_ctx (demo_os 4) 6 wt1 w = Inr (wt2, w2)"
    using \<open>demo_answers wt w\<close> i n
    by (cases "signalled demo_ctx (demo_os 4) 6 wt1 w") (auto simp: demo_answers_def)
  note i = i [unfolded n]
  have "slots_ok wt" using r(2-4) by (simp add: slots_ok_def list_all_iff obsolete_def [abs_def])
  from answer_goes_to_the_signalled_slot [OF this i _ _ _ g, of 4] r(1) i show ?thesis
    by (auto simp: demo_os_def)
qed

text \<open>C16: the slot behind an answered one is not waited on: after a slot has become obsolete, the next
  round erases it and skips the one that follows, which stays in the list but in none of
  the arrays: its handle may be signalled and its time may run out, and nobody notices until
  something else wakes the process.\<close>

theorem slot_behind_an_answered_one_is_not_waited_on:
  assumes "slots_ok wt" and "wt_slots wt = xs @ gone # next # ys" and "obsolete gone"
    and "InitHandlesArray wt = Inr (n, wt1)"
  shows "bare next \<in> bare ` set (wt_slots wt1) \<and> n = 2 * length (wt_slots wt) - 2 \<and>
    (\<forall>i. 2 \<le> i \<and> i < n \<longrightarrow> wt_quick wt1 i \<noteq> Some (ws_id next))"
proof -
  note I = InitHandlesArray_ok [OF assms(1,4)]
  have none: "filter obsolete xs = []" "\<not> obsolete next" "filter obsolete ys = []"
    using assms(1-3) by (auto simp: slots_ok_def split: if_splits)
  have "waited (xs @ gone # next # ys) = xs @ ys"
    using none(1,2) assms(3) survivors_none [OF none(3)]
    by (induction xs) (auto simp: obsolete_def split: if_splits)
  then have w: "waited (wt_slots wt) = xs @ ys" using assms(2) by simp
  have "ws_id next \<notin> ws_id ` set (xs @ ys)" using assms(1,2) by (auto simp: slots_ok_def)
  then have absent: "ws_id ((xs @ ys) ! k) \<noteq> ws_id next" if "k < length (xs @ ys)" for k
    using that nth_mem by (metis image_eqI)
  have "wt_quick wt1 i \<noteq> Some (ws_id next)" if i: "2 \<le> i" "i < n" for i
  proof -
    define k where "k = (i - 2) div 2"
    have ik: "i = 2 + 2 * k \<or> i = 3 + 2 * k" using i(1) unfolding k_def by presburger
    with I w i(2) have "k < length (xs @ ys)" by auto
    moreover from this I w have "wt_quick wt1 (2 + 2 * k) = Some (ws_id ((xs @ ys) ! k))"
      "wt_quick wt1 (3 + 2 * k) = Some (ws_id ((xs @ ys) ! k))" by simp_all
    ultimately show ?thesis using ik absent [of k] by auto
  qed
  moreover have "n = 2 * length (wt_slots wt) - 2" using I w assms(2) by simp
  moreover have "next \<in> set (filter (\<lambda>s. \<not> obsolete s) (wt_slots wt))" using none assms(2) by simp
  then have "bare next \<in> bare ` set (wt_slots wt1)" by (rule map_bare_mem [rotated]) (use I in simp)
  ultimately show ?thesis by blast
qed

theorem slot_behind_an_answered_one_is_not_waited_on_witness:
  "\<exists>wt w gone next wt1. demo_waiter [0, 0, 2] = Inr (False, wt, w) \<and> wt_slots wt = [gone, next] \<and>
     InitHandlesArray wt = Inr (2, wt1) \<and> bare next \<in> bare ` set (wt_slots wt1)"
proof -
  have "case demo_waiter [0, 0, 2] of Inl _ \<Rightarrow> False
    | Inr (b, wt, w) \<Rightarrow> \<not> b \<and> distinct (map ws_id (wt_slots wt)) \<and> list_all (\<lambda>s. ws_id s < wt_next wt) (wt_slots wt) \<and>
        map (\<lambda>s. ws_timer s = None) (wt_slots wt) = [True, False] \<and>
        (case InitHandlesArray wt of Inl _ \<Rightarrow> False | Inr _ \<Rightarrow> True)"
    by code_simp
  then obtain wt w n wt1 where r: "demo_waiter [0, 0, 2] = Inr (False, wt, w)"
    "distinct (map ws_id (wt_slots wt))" "list_all (\<lambda>s. ws_id s < wt_next wt) (wt_slots wt)"
    "map (\<lambda>s. ws_timer s = None) (wt_slots wt) = [True, False]" "InitHandlesArray wt = Inr (n, wt1)"
    by (auto split: sum.splits)
  from r(4) obtain gone "next" where s: "wt_slots wt = [gone, next]" "ws_timer gone = None" "ws_timer next \<noteq> None"
    by (auto simp: map_eq_Cons_conv)
  have "slots_ok wt" using r(2,3) s by (simp add: slots_ok_def obsolete_def)
  from slot_behind_an_answered_one_is_not_waited_on [OF this, of "[]" gone "next" "[]", OF _ _ r(5)] s r(1,5)
  show ?thesis by (auto simp: obsolete_def)
qed

text \<open>A shutdown request, which is what the registrar sends to every process, ends it with a bare throw.\<close>

lemma waiter_throws_on_shutdown_request:
  assumes "handle_pending (rc_fiber ctx) (rc_inbound ctx) w = Inr (True, w1)"
    and "LpHandle_Wait (rc_fiber ctx) (rc_inbound ctx) 0 w1 = Inr ((API_SUCCESS, Some m), w2)"
    and "message_id m = MSG_PROC_SHUTDOWN_REQ"
  shows "ProcessIwMessage ctx os wt w = Inl (Core Terminate)"
  using assms by (simp add: ProcessIwMessage_def core_def HandleOOBMessage_def IW_FAILURE_def)

end
