(* ===== verification/Lua_Opcodes.thy ===== *)
theory Lua_Opcodes
  imports Prelude "HOL-Library.Word"
begin

unbundle bit_operations_syntax

text \<open>
  Instructions of the virtual machine of the scripting language
  (\<^verbatim>\<open>lua5.1/src/lopcodes.h\<close>, \<^verbatim>\<open>lopcodes.c\<close>): 32-bit words with an opcode and the argument
  fields A, B, C, Bx and sBx; the macros that read, set and create them; the table of
  instruction modes.
\<close>

type_synonym instruction = "32 word"

section \<open>Fields\<close>

definition SIZE_C :: nat where "SIZE_C = 9"
definition SIZE_B :: nat where "SIZE_B = 9"
definition SIZE_Bx :: nat where "SIZE_Bx = SIZE_C + SIZE_B"
definition SIZE_A :: nat where "SIZE_A = 8"
definition SIZE_OP :: nat where "SIZE_OP = 6"

definition POS_OP :: nat where "POS_OP = 0"
definition POS_A :: nat where "POS_A = POS_OP + SIZE_OP"
definition POS_C :: nat where "POS_C = POS_A + SIZE_A"
definition POS_B :: nat where "POS_B = POS_C + SIZE_C"
definition POS_Bx :: nat where "POS_Bx = POS_C"

definition MAXARG_Bx :: int where "MAXARG_Bx = 2 ^ SIZE_Bx - 1"
definition MAXARG_sBx :: int where "MAXARG_sBx = drop_bit 1 MAXARG_Bx"
definition MAXARG_A :: int where "MAXARG_A = 2 ^ SIZE_A - 1"
definition MAXARG_B :: int where "MAXARG_B = 2 ^ SIZE_B - 1"
definition MAXARG_C :: int where "MAXARG_C = 2 ^ SIZE_C - 1"

lemmas field_defs = SIZE_C_def SIZE_B_def SIZE_Bx_def SIZE_A_def SIZE_OP_def POS_OP_def
  POS_A_def POS_C_def POS_B_def POS_Bx_def

text \<open>A mask with \<open>n\<close> 1 bits at position \<open>p\<close>, and its complement.\<close>

definition MASK1 :: "nat \<Rightarrow> nat \<Rightarrow> instruction" where
  "MASK1 n p = push_bit p (NOT (push_bit n (NOT 0)))"

definition MASK0 :: "nat \<Rightarrow> nat \<Rightarrow> instruction" where
  "MASK0 n p = NOT (MASK1 n p)"

text \<open>The common shape of the accessor macros.\<close>

definition get_field :: "nat \<Rightarrow> nat \<Rightarrow> instruction \<Rightarrow> int" where
  "get_field n pos i = uint (drop_bit pos i AND MASK1 n 0)"

definition set_field :: "nat \<Rightarrow> nat \<Rightarrow> int \<Rightarrow> instruction \<Rightarrow> instruction" where
  "set_field n pos u i =
     (i AND MASK0 n pos) OR (push_bit pos (word_of_int u) AND MASK1 n pos)"

section \<open>Opcodes\<close>

datatype OpCode =
    OP_MOVE | OP_LOADK | OP_LOADBOOL | OP_LOADNIL | OP_GETUPVAL
  | OP_GETGLOBAL | OP_GETTABLE | OP_SETGLOBAL | OP_SETUPVAL | OP_SETTABLE
  | OP_NEWTABLE | OP_SELF
  | OP_ADD | OP_SUB | OP_MUL | OP_DIV | OP_MOD | OP_POW | OP_UNM | OP_NOT | OP_LEN
  | OP_CONCAT | OP_JMP | OP_EQ | OP_LT | OP_LE | OP_TEST | OP_TESTSET
  | OP_CALL | OP_TAILCALL | OP_RETURN | OP_FORLOOP | OP_FORPREP | OP_TFORLOOP
  | OP_SETLIST | OP_CLOSE | OP_CLOSURE | OP_VARARG

definition all_opcodes :: "OpCode list" where
  "all_opcodes =
     [OP_MOVE, OP_LOADK, OP_LOADBOOL, OP_LOADNIL, OP_GETUPVAL,
      OP_GETGLOBAL, OP_GETTABLE, OP_SETGLOBAL, OP_SETUPVAL, OP_SETTABLE,
      OP_NEWTABLE, OP_SELF,
      OP_ADD, OP_SUB, OP_MUL, OP_DIV, OP_MOD, OP_POW, OP_UNM, OP_NOT, OP_LEN,
      OP_CONCAT, OP_JMP, OP_EQ, OP_LT, OP_LE, OP_TEST, OP_TESTSET,
      OP_CALL, OP_TAILCALL, OP_RETURN, OP_FORLOOP, OP_FORPREP, OP_TFORLOOP,
      OP_SETLIST, OP_CLOSE, OP_CLOSURE, OP_VARARG]"

fun index_in :: "'a list \<Rightarrow> 'a \<Rightarrow> nat" where
  "index_in [] x = 0"
| "index_in (y # ys) x = (if y = x then 0 else Suc (index_in ys x))"

text \<open>The number of an opcode is its place in the enumeration.\<close>

definition op_num :: "OpCode \<Rightarrow> nat" where
  "op_num oc = index_in all_opcodes oc"

text \<open>The cast of a number to the enumeration; \<open>None\<close> where no opcode has it.\<close>

definition op_of_num :: "int \<Rightarrow> OpCode option" where
  "op_of_num n = (if 0 \<le> n \<and> n < 38 then Some (all_opcodes ! nat n) else None)"

definition NUM_OPCODES :: nat where "NUM_OPCODES = op_num OP_VARARG + 1"

section \<open>The accessors\<close>

definition GET_OPCODE :: "instruction \<Rightarrow> int" where
  "GET_OPCODE = get_field SIZE_OP POS_OP"
definition SET_OPCODE :: "OpCode \<Rightarrow> instruction \<Rightarrow> instruction" where
  "SET_OPCODE oc = set_field SIZE_OP POS_OP (int (op_num oc))"
definition GETARG_A :: "instruction \<Rightarrow> int" where
  "GETARG_A = get_field SIZE_A POS_A"
definition SETARG_A :: "int \<Rightarrow> instruction \<Rightarrow> instruction" where
  "SETARG_A = set_field SIZE_A POS_A"
definition GETARG_B :: "instruction \<Rightarrow> int" where
  "GETARG_B = get_field SIZE_B POS_B"
definition SETARG_B :: "int \<Rightarrow> instruction \<Rightarrow> instruction" where
  "SETARG_B = set_field SIZE_B POS_B"
definition GETARG_C :: "instruction \<Rightarrow> int" where
  "GETARG_C = get_field SIZE_C POS_C"
definition SETARG_C :: "int \<Rightarrow> instruction \<Rightarrow> instruction" where
  "SETARG_C = set_field SIZE_C POS_C"
definition GETARG_Bx :: "instruction \<Rightarrow> int" where
  "GETARG_Bx = get_field SIZE_Bx POS_Bx"
definition SETARG_Bx :: "int \<Rightarrow> instruction \<Rightarrow> instruction" where
  "SETARG_Bx = set_field SIZE_Bx POS_Bx"
definition GETARG_sBx :: "instruction \<Rightarrow> int" where
  "GETARG_sBx i = GETARG_Bx i - MAXARG_sBx"
definition SETARG_sBx :: "int \<Rightarrow> instruction \<Rightarrow> instruction" where
  "SETARG_sBx b = SETARG_Bx (b + MAXARG_sBx)"

definition CREATE_ABC :: "OpCode \<Rightarrow> int \<Rightarrow> int \<Rightarrow> int \<Rightarrow> instruction" where
  "CREATE_ABC oc a b c =
     push_bit POS_OP (word_of_int (int (op_num oc))) OR push_bit POS_A (word_of_int a) OR
     push_bit POS_B (word_of_int b) OR push_bit POS_C (word_of_int c)"

definition CREATE_ABx :: "OpCode \<Rightarrow> int \<Rightarrow> int \<Rightarrow> instruction" where
  "CREATE_ABx oc a bc =
     push_bit POS_OP (word_of_int (int (op_num oc))) OR push_bit POS_A (word_of_int a) OR
     push_bit POS_Bx (word_of_int bc)"

text \<open>Register or constant operands: bit 8 set means constant.\<close>

definition BITRK :: int where "BITRK = 2 ^ (SIZE_B - 1)"
definition ISK :: "int \<Rightarrow> bool" where "ISK x \<longleftrightarrow> x AND BITRK \<noteq> 0"
definition INDEXK :: "int \<Rightarrow> int" where "INDEXK r = r AND NOT BITRK"
definition MAXINDEXRK :: int where "MAXINDEXRK = BITRK - 1"
definition RKASK :: "int \<Rightarrow> int" where "RKASK x = x OR BITRK"
definition NO_REG :: int where "NO_REG = MAXARG_A"
definition LFIELDS_PER_FLUSH :: int where "LFIELDS_PER_FLUSH = 50"

section \<open>Instruction modes\<close>

datatype OpMode = iABC | iABx | iAsBx
datatype OpArgMask = OpArgN | OpArgU | OpArgR | OpArgK

fun opmode_num :: "OpMode \<Rightarrow> nat" where
  "opmode_num iABC = 0" | "opmode_num iABx = 1" | "opmode_num iAsBx = 2"

fun argmask_num :: "OpArgMask \<Rightarrow> nat" where
  "argmask_num OpArgN = 0" | "argmask_num OpArgU = 1" | "argmask_num OpArgR = 2"
| "argmask_num OpArgK = 3"

definition opmode :: "nat \<Rightarrow> nat \<Rightarrow> OpArgMask \<Rightarrow> OpArgMask \<Rightarrow> OpMode \<Rightarrow> 8 word" where
  "opmode t a b c m =
     push_bit 7 (word_of_nat t) OR push_bit 6 (word_of_nat a) OR
     push_bit 4 (word_of_nat (argmask_num b)) OR push_bit 2 (word_of_nat (argmask_num c)) OR
     word_of_nat (opmode_num m)"

definition luaP_opmodes :: "8 word list" where
  "luaP_opmodes =
     [opmode 0 1 OpArgR OpArgN iABC, opmode 0 1 OpArgK OpArgN iABx,
      opmode 0 1 OpArgU OpArgU iABC, opmode 0 1 OpArgR OpArgN iABC,
      opmode 0 1 OpArgU OpArgN iABC, opmode 0 1 OpArgK OpArgN iABx,
      opmode 0 1 OpArgR OpArgK iABC, opmode 0 0 OpArgK OpArgN iABx,
      opmode 0 0 OpArgU OpArgN iABC, opmode 0 0 OpArgK OpArgK iABC,
      opmode 0 1 OpArgU OpArgU iABC, opmode 0 1 OpArgR OpArgK iABC,
      opmode 0 1 OpArgK OpArgK iABC, opmode 0 1 OpArgK OpArgK iABC,
      opmode 0 1 OpArgK OpArgK iABC, opmode 0 1 OpArgK OpArgK iABC,
      opmode 0 1 OpArgK OpArgK iABC, opmode 0 1 OpArgK OpArgK iABC,
      opmode 0 1 OpArgR OpArgN iABC, opmode 0 1 OpArgR OpArgN iABC,
      opmode 0 1 OpArgR OpArgN iABC, opmode 0 1 OpArgR OpArgR iABC,
      opmode 0 0 OpArgR OpArgN iAsBx, opmode 1 0 OpArgK OpArgK iABC,
      opmode 1 0 OpArgK OpArgK iABC, opmode 1 0 OpArgK OpArgK iABC,
      opmode 1 1 OpArgR OpArgU iABC, opmode 1 1 OpArgR OpArgU iABC,
      opmode 0 1 OpArgU OpArgU iABC, opmode 0 1 OpArgU OpArgU iABC,
      opmode 0 0 OpArgU OpArgN iABC, opmode 0 1 OpArgR OpArgN iAsBx,
      opmode 0 1 OpArgR OpArgN iAsBx, opmode 1 0 OpArgN OpArgU iABC,
      opmode 0 0 OpArgU OpArgU iABC, opmode 0 0 OpArgN OpArgN iABC,
      opmode 0 1 OpArgU OpArgN iABx, opmode 0 1 OpArgU OpArgN iABC]"

definition mode_of :: "OpCode \<Rightarrow> 8 word" where
  "mode_of oc = luaP_opmodes ! op_num oc"

definition getOpMode :: "OpCode \<Rightarrow> OpMode" where
  "getOpMode oc = [iABC, iABx, iAsBx] ! unat (mode_of oc AND 3)"
definition getBMode :: "OpCode \<Rightarrow> OpArgMask" where
  "getBMode oc = [OpArgN, OpArgU, OpArgR, OpArgK] ! unat (drop_bit 4 (mode_of oc) AND 3)"
definition getCMode :: "OpCode \<Rightarrow> OpArgMask" where
  "getCMode oc = [OpArgN, OpArgU, OpArgR, OpArgK] ! unat (drop_bit 2 (mode_of oc) AND 3)"
definition testAMode :: "OpCode \<Rightarrow> bool" where
  "testAMode oc \<longleftrightarrow> mode_of oc AND push_bit 6 1 \<noteq> 0"
definition testTMode :: "OpCode \<Rightarrow> bool" where
  "testTMode oc \<longleftrightarrow> mode_of oc AND push_bit 7 1 \<noteq> 0"

section \<open>Bits of the fields\<close>

lemma bit_MASK1 [simp]:
  "bit (MASK1 n p) k \<longleftrightarrow> p \<le> k \<and> k < p + n \<and> k < 32"
  by (auto simp: MASK1_def bit_simps)

lemma get_field_bits:
  "get_field n p i = take_bit n (drop_bit p (uint i))"
  by (rule bit_eqI) (auto simp: get_field_def bit_simps dest: bit_imp_le_length)

lemma get_field_bounds: "0 \<le> get_field n p i \<and> get_field n p i < 2 ^ n"
  by (simp add: get_field_bits)

lemma bit_get_field:
  "bit (get_field n p i) k \<longleftrightarrow> k < n \<and> bit i (p + k)"
  by (auto simp: get_field_bits bit_simps dest: bit_imp_le_length)

lemma bit_set_field:
  "bit (set_field n p u i) k \<longleftrightarrow>
     k < 32 \<and> (if p \<le> k \<and> k < p + n then bit u (k - p) else bit i k)"
  by (auto simp: set_field_def MASK0_def bit_simps)

lemma get_set_same:
  assumes "0 \<le> u" and "u < 2 ^ n" and "p + n \<le> 32"
  shows "get_field n p (set_field n p u i) = u"
proof (rule bit_eqI)
  fix k
  have "bit u k \<Longrightarrow> k < n"
    using assms(1,2) by (metis bit_take_bit_iff take_bit_int_eq_self)
  then show "bit (get_field n p (set_field n p u i)) k = bit u k"
    using assms(3) by (auto simp: bit_get_field bit_set_field)
qed

lemma get_set_other:
  assumes "q + m \<le> p \<or> p + n \<le> q"
  shows "get_field m q (set_field n p u i) = get_field m q i"
  by (rule bit_eqI) (use assms in \<open>auto simp: bit_get_field bit_set_field dest: bit_imp_le_length\<close>)

lemma set_get_id: "p + n \<le> 32 \<Longrightarrow> set_field n p (get_field n p i) i = i"
  by (rule bit_word_eqI) (auto simp: bit_get_field bit_set_field)

lemma bit_small_int: "0 \<le> (u::int) \<Longrightarrow> u < 2 ^ n \<Longrightarrow> bit u k \<Longrightarrow> k < n"
  by (metis bit_take_bit_iff take_bit_int_eq_self)

lemma op_num_less: "op_num oc < 38"
  by (cases oc) (simp_all add: op_num_def all_opcodes_def)

lemma op_of_num_op_num [simp]: "op_of_num (int (op_num oc)) = Some oc"
  by (cases oc) (simp_all add: op_num_def op_of_num_def all_opcodes_def)

text \<open>A field of a created instruction, when every argument fits its field.\<close>

lemma get_CREATE_ABC:
  assumes "0 \<le> a" "a < 256" "0 \<le> b" "b < 512" "0 \<le> c" "c < 512"
  shows "GET_OPCODE (CREATE_ABC oc a b c) = int (op_num oc)"
    and "GETARG_A (CREATE_ABC oc a b c) = a" and "GETARG_B (CREATE_ABC oc a b c) = b"
    and "GETARG_C (CREATE_ABC oc a b c) = c"
proof -
  have ob: "bit (op_num oc) k \<Longrightarrow> k < 6" for k
    using bit_small_int [of "int (op_num oc)" 6 k] op_num_less [of oc] by (simp add: bit_simps)
  note ab = bit_small_int [where u=a and n=8] and bb = bit_small_int [where u=b and n=9]
    and cb = bit_small_int [where u=c and n=9]
  have a': "bit a k \<Longrightarrow> k < 8" and b': "bit b k \<Longrightarrow> k < 9" and c': "bit c k \<Longrightarrow> k < 9" for k
    using ab bb cb assms by auto
  show "GET_OPCODE (CREATE_ABC oc a b c) = int (op_num oc)"
    by (rule bit_eqI) (auto simp: GET_OPCODE_def CREATE_ABC_def bit_get_field field_defs bit_simps
        dest: ob)
  show "GETARG_A (CREATE_ABC oc a b c) = a"
    by (rule bit_eqI) (auto simp: GETARG_A_def CREATE_ABC_def bit_get_field field_defs bit_simps
        dest: ob a')
  show "GETARG_B (CREATE_ABC oc a b c) = b"
    by (rule bit_eqI) (auto simp: GETARG_B_def CREATE_ABC_def bit_get_field field_defs bit_simps
        dest: ob a' b' c')
  show "GETARG_C (CREATE_ABC oc a b c) = c"
    by (rule bit_eqI) (auto simp: GETARG_C_def CREATE_ABC_def bit_get_field field_defs bit_simps
        dest: ob a' b' c')
qed

lemma get_CREATE_ABx:
  assumes "0 \<le> a" "a < 256" "0 \<le> bx" "bx < 262144"
  shows "GET_OPCODE (CREATE_ABx oc a bx) = int (op_num oc)"
    and "GETARG_A (CREATE_ABx oc a bx) = a" and "GETARG_Bx (CREATE_ABx oc a bx) = bx"
proof -
  have ob: "bit (op_num oc) k \<Longrightarrow> k < 6" for k
    using bit_small_int [of "int (op_num oc)" 6 k] op_num_less [of oc] by (simp add: bit_simps)
  have a': "bit a k \<Longrightarrow> k < 8" and b': "bit bx k \<Longrightarrow> k < 18" for k
    using bit_small_int [where u=a and n=8] bit_small_int [where u=bx and n=18] assms by auto
  show "GET_OPCODE (CREATE_ABx oc a bx) = int (op_num oc)"
    by (rule bit_eqI) (auto simp: GET_OPCODE_def CREATE_ABx_def bit_get_field field_defs bit_simps
        dest: ob)
  show "GETARG_A (CREATE_ABx oc a bx) = a"
    by (rule bit_eqI) (auto simp: GETARG_A_def CREATE_ABx_def bit_get_field field_defs bit_simps
        dest: ob a')
  show "GETARG_Bx (CREATE_ABx oc a bx) = bx"
    by (rule bit_eqI) (auto simp: GETARG_Bx_def CREATE_ABx_def bit_get_field field_defs bit_simps
        dest: ob a' b')
qed

lemma op_num_of_num: "op_of_num n = Some oc \<Longrightarrow> int (op_num oc) = n"
proof -
  assume "op_of_num n = Some oc"
  then have n: "0 \<le> n" "n < 38" and oc: "oc = all_opcodes ! nat n"
    by (auto simp: op_of_num_def split: if_splits)
  have "\<forall>k < 38. op_num (all_opcodes ! k) = k" by code_simp
  with n oc show ?thesis by auto
qed

lemma mask_values:
  "MAXARG_A = 255" "MAXARG_B = 511" "MAXARG_C = 511" "MAXARG_Bx = 262143" "MAXARG_sBx = 131071"
  "BITRK = 256" "MAXINDEXRK = 255" "NO_REG = 255"
  by (simp_all add: MAXARG_A_def MAXARG_B_def MAXARG_C_def MAXARG_Bx_def MAXARG_sBx_def BITRK_def
      MAXINDEXRK_def NO_REG_def field_defs drop_bit_eq_div)

lemma CREATE_fields:
  assumes "op_of_num (GET_OPCODE i) = Some oc"
  shows "CREATE_ABC oc (GETARG_A i) (GETARG_B i) (GETARG_C i) = i"
    and "CREATE_ABx oc (GETARG_A i) (GETARG_Bx i) = i"
proof -
  from op_num_of_num [OF assms] have o': "int (op_num oc) = get_field 6 0 i"
    by (simp add: GET_OPCODE_def field_defs)
  then have ob: "bit (op_num oc) k \<longleftrightarrow> k < 6 \<and> bit i k" for k
    using bit_get_field [of 6 0 i k] by (metis add_0 bit_of_nat_iff_bit of_nat_eq_iff)
  show "CREATE_ABC oc (GETARG_A i) (GETARG_B i) (GETARG_C i) = i"
    by (rule bit_word_eqI)
      (auto simp: CREATE_ABC_def GETARG_A_def GETARG_B_def GETARG_C_def field_defs bit_simps
        bit_get_field ob)
  show "CREATE_ABx oc (GETARG_A i) (GETARG_Bx i) = i"
  proof (rule bit_word_eqI)
    fix n assume "n < LENGTH(32)"
    then show "bit (CREATE_ABx oc (GETARG_A i) (GETARG_Bx i)) n = bit i n"
      by (cases "14 \<le> n")
        (auto simp: CREATE_ABx_def GETARG_A_def GETARG_Bx_def field_defs bit_simps bit_get_field ob)
  qed
qed

section \<open>Properties\<close>

text \<open>
  creating an instruction and reading it are inverse: arguments in range come back from the
  created word, in the three-argument, the unsigned and the signed format, and every word
  that carries an opcode is the one its fields create.\<close>

theorem instruction_roundtrip:
  assumes "0 \<le> a" "a \<le> MAXARG_A" "0 \<le> b" "b \<le> MAXARG_B" "0 \<le> c" "c \<le> MAXARG_C"
    and "0 \<le> bx" "bx \<le> MAXARG_Bx" "- MAXARG_sBx \<le> sbx" "sbx \<le> MAXARG_sBx"
    and "op_of_num (GET_OPCODE i) = Some oi"
  shows "op_of_num (GET_OPCODE (CREATE_ABC oc a b c)) = Some oc \<and>
    GETARG_A (CREATE_ABC oc a b c) = a \<and> GETARG_B (CREATE_ABC oc a b c) = b \<and>
    GETARG_C (CREATE_ABC oc a b c) = c \<and>
    op_of_num (GET_OPCODE (CREATE_ABx oc a bx)) = Some oc \<and>
    GETARG_A (CREATE_ABx oc a bx) = a \<and> GETARG_Bx (CREATE_ABx oc a bx) = bx \<and>
    GETARG_sBx (CREATE_ABx oc a (sbx + MAXARG_sBx)) = sbx \<and>
    CREATE_ABC oi (GETARG_A i) (GETARG_B i) (GETARG_C i) = i \<and>
    CREATE_ABx oi (GETARG_A i) (GETARG_Bx i) = i"
  using assms get_CREATE_ABC [of a b c oc] get_CREATE_ABx [of a bx oc]
    get_CREATE_ABx [of a "sbx + 131071" oc] CREATE_fields [of i oi]
  by (simp add: mask_values GETARG_sBx_def)

theorem instruction_roundtrip_witness:
  "GETARG_sBx (CREATE_ABx OP_JMP 0 (-5 + MAXARG_sBx)) = -5 \<and>
   CREATE_ABC OP_ADD (GETARG_A (CREATE_ABC OP_ADD 7 300 12)) (GETARG_B (CREATE_ABC OP_ADD 7 300 12))
     (GETARG_C (CREATE_ABC OP_ADD 7 300 12)) = CREATE_ABC OP_ADD 7 300 12"
proof -
  have "op_of_num (GET_OPCODE (CREATE_ABC OP_ADD 7 300 12)) = Some OP_ADD" by code_simp
  then show ?thesis
    using instruction_roundtrip [of 0 0 0 0 "-5" "CREATE_ABC OP_ADD 7 300 12" OP_ADD OP_JMP]
    by (simp add: mask_values)
qed

text \<open>Setting a field changes that field only, and setting it to what it holds changes nothing.\<close>

theorem setters_are_lenses:
  assumes "0 \<le> a" "a \<le> MAXARG_A" "0 \<le> b" "b \<le> MAXARG_B" "0 \<le> c" "c \<le> MAXARG_C"
    and "- MAXARG_sBx \<le> sbx" "sbx \<le> MAXARG_sBx"
  shows "GETARG_A (SETARG_A a i) = a \<and> GETARG_B (SETARG_B b i) = b \<and> GETARG_C (SETARG_C c i) = c \<and>
    GETARG_sBx (SETARG_sBx sbx i) = sbx \<and> op_of_num (GET_OPCODE (SET_OPCODE oc i)) = Some oc \<and>
    GET_OPCODE (SETARG_A a i) = GET_OPCODE i \<and> GETARG_Bx (SETARG_A a i) = GETARG_Bx i \<and>
    GETARG_A (SETARG_B b i) = GETARG_A i \<and> GETARG_C (SETARG_B b i) = GETARG_C i \<and>
    GETARG_A (SETARG_C c i) = GETARG_A i \<and> GETARG_B (SETARG_C c i) = GETARG_B i \<and>
    GETARG_A (SET_OPCODE oc i) = GETARG_A i \<and> GETARG_Bx (SET_OPCODE oc i) = GETARG_Bx i \<and>
    GET_OPCODE (SETARG_sBx sbx i) = GET_OPCODE i \<and> GETARG_A (SETARG_sBx sbx i) = GETARG_A i \<and>
    SETARG_A (GETARG_A i) i = i \<and> SETARG_sBx (GETARG_sBx i) i = i"
  using assms op_num_less [of oc]
  by (simp add: mask_values GETARG_A_def SETARG_A_def GETARG_B_def SETARG_B_def GETARG_C_def
      SETARG_C_def GETARG_sBx_def SETARG_sBx_def GETARG_Bx_def SETARG_Bx_def GET_OPCODE_def
      SET_OPCODE_def get_set_same get_set_other set_get_id field_defs)

theorem setters_are_lenses_witness:
  "GETARG_sBx (SETARG_sBx (-3) (CREATE_ABC OP_JMP 9 0 0)) = -3 \<and>
   GETARG_A (SETARG_sBx (-3) (CREATE_ABC OP_JMP 9 0 0)) = GETARG_A (CREATE_ABC OP_JMP 9 0 0)"
  using setters_are_lenses [of 0 0 0 "-3" "CREATE_ABC OP_JMP 9 0 0"] by (simp add: mask_values)

end
