(* ===== verification/Lua_Object.thy ===== *)
theory Lua_Object
  imports Prelude "HOL-Library.Word"
begin

unbundle bit_operations_syntax

text \<open>
  Values of the scripting language and the generic functions over them
  (\<^verbatim>\<open>lua5.1/src/lobject.h\<close>, \<^verbatim>\<open>lobject.c\<close>): numbers as the bits of a double, tagged values, raw
  equality, floating-point bytes, logarithms, chunk names, string formatting.
\<close>

section \<open>Numbers\<close>

text \<open>
  A number is the 64 bits of an IEEE 754 double; only what the code inspects of them is
  defined: the fields, NaN, the comparison \<^verbatim>\<open>==\<close>, the cast from \<^verbatim>\<open>int\<close> and the integers of the
  range of \<^verbatim>\<open>int\<close>.
\<close>

type_synonym lua_Number = "64 word"

definition dbl_exp :: "lua_Number \<Rightarrow> int" where
  "dbl_exp n = uint (drop_bit 52 n AND 0x7FF)"

definition dbl_mant :: "lua_Number \<Rightarrow> int" where
  "dbl_mant n = uint (n AND 0xFFFFFFFFFFFFF)"

definition dbl_neg :: "lua_Number \<Rightarrow> bool" where
  "dbl_neg n \<longleftrightarrow> bit n 63"

definition dbl_zero :: "lua_Number \<Rightarrow> bool" where
  "dbl_zero n \<longleftrightarrow> n = 0 \<or> n = 0x8000000000000000"

definition luai_numisnan :: "lua_Number \<Rightarrow> bool" where
  "luai_numisnan n \<longleftrightarrow> dbl_exp n = 0x7FF \<and> dbl_mant n \<noteq> 0"

definition luai_numeq :: "lua_Number \<Rightarrow> lua_Number \<Rightarrow> bool" where
  "luai_numeq a b \<longleftrightarrow> \<not> luai_numisnan a \<and> \<not> luai_numisnan b \<and>
     (a = b \<or> dbl_zero a \<and> dbl_zero b)"

fun floor_log2 :: "nat \<Rightarrow> nat" where
  "floor_log2 n = (if n < 2 then 0 else Suc (floor_log2 (n div 2)))"

declare floor_log2.simps [simp del]

definition dbl_pack :: "bool \<Rightarrow> int \<Rightarrow> int \<Rightarrow> lua_Number" where
  "dbl_pack s e m = word_of_int ((if s then 2 ^ 63 else 0) + e * 2 ^ 52 + m)"

text \<open>The double of an integer of at most 53 bits.\<close>

definition cast_num :: "int \<Rightarrow> lua_Number" where
  "cast_num i =
     (if i = 0 then 0
      else let a = \<bar>i\<bar>; e = floor_log2 (nat a)
           in dbl_pack (i < 0) (1023 + int e) (a * 2 ^ (52 - e) - 2 ^ 52))"

text \<open>The value of a double that is an integer in the range of \<^verbatim>\<open>int\<close>.\<close>

definition dbl_to_int :: "lua_Number \<Rightarrow> int option" where
  "dbl_to_int n =
     (if dbl_zero n then Some 0
      else let e = dbl_exp n - 1023; m = dbl_mant n + 2 ^ 52
           in if e < 0 \<or> 31 < e then None
              else let s = 52 - nat e; a = m div 2 ^ s; i = (if dbl_neg n then - a else a)
                   in if m mod 2 ^ s \<noteq> 0 \<or> i < - (2 ^ 31) \<or> 2 ^ 31 \<le> i then None else Some i)"

section \<open>Tagged values\<close>

text \<open>
  A string is its bytes: strings are interned, so that two are the same object when they
  have the same bytes.  The other collectable objects are their addresses.  \<open>DeadKey\<close> is the
  tag a key gets when its object has been collected.
\<close>

datatype gc_type = LUA_TTABLE | LUA_TFUNCTION | LUA_TUSERDATA | LUA_TTHREAD

datatype TValue =
    NilV | BoolV bool | LightV "32 word" | NumV lua_Number | StrV string
  | ObjV gc_type "32 word" | DeadKey TValue

fun ttisnil :: "TValue \<Rightarrow> bool" where
  "ttisnil NilV = True" | "ttisnil _ = False"

lemma ttisnil_iff [simp]: "ttisnil v \<longleftrightarrow> v = NilV"
  by (cases v) auto

fun iscollectable :: "TValue \<Rightarrow> bool" where
  "iscollectable (StrV s) = True"
| "iscollectable (ObjV t p) = True"
| "iscollectable (DeadKey v) = True"
| "iscollectable _ = False"

fun luaO_rawequalObj :: "TValue \<Rightarrow> TValue \<Rightarrow> bool" where
  "luaO_rawequalObj (NumV a) (NumV b) \<longleftrightarrow> luai_numeq a b"
| "luaO_rawequalObj a b \<longleftrightarrow> a = b"

fun l_isfalse :: "TValue \<Rightarrow> bool" where
  "l_isfalse NilV = True" | "l_isfalse (BoolV b) = (\<not> b)" | "l_isfalse _ = False"

section \<open>Floating-point bytes\<close>

lemma half_up_less: "(x::32 word) \<ge> 16 \<Longrightarrow> unat (drop_bit 1 (x + 1)) < unat x"
proof -
  assume x: "x \<ge> 16"
  have "unat (x + 1) \<le> unat x + 1"
    by (simp add: unat_word_ariths)
  moreover have "16 \<le> unat x" using x by (simp add: word_le_nat_alt)
  ultimately show ?thesis by (simp add: unat_div drop_bit_eq_div)
qed

function int2fb_loop :: "32 word \<Rightarrow> int \<Rightarrow> 32 word \<times> int" where
  "int2fb_loop x e = (if x \<ge> 16 then int2fb_loop (drop_bit 1 (x + 1)) (e + 1) else (x, e))"
  by pat_completeness auto

termination
  by (relation "measure (\<lambda>(x, e). unat x)") (use half_up_less in auto)

declare int2fb_loop.simps [simp del]

definition luaO_int2fb :: "32 word \<Rightarrow> int" where
  "luaO_int2fb x =
     (let (y, e) = int2fb_loop x 0
      in if y < 8 then uint y else push_bit 3 (e + 1) OR (uint y - 8))"

definition luaO_fb2int :: "int \<Rightarrow> int" where
  "luaO_fb2int x =
     (let e = drop_bit 3 x AND 31
      in if e = 0 then x else push_bit (nat (e - 1)) ((x AND 7) + 8))"

section \<open>Logarithms\<close>

definition log_2 :: "int list" where
  "log_2 = [0, 1] @ replicate 2 2 @ replicate 4 3 @ replicate 8 4 @ replicate 16 5 @
     replicate 32 6 @ replicate 64 7 @ replicate 128 8"

function log2_loop :: "int \<Rightarrow> 32 word \<Rightarrow> int \<times> 32 word" where
  "log2_loop l x = (if x \<ge> 256 then log2_loop (l + 8) (drop_bit 8 x) else (l, x))"
  by pat_completeness auto

termination
  by (relation "measure (\<lambda>(l, x). unat x)")
    (auto simp: unat_div word_le_nat_alt drop_bit_eq_div)

declare log2_loop.simps [simp del]

definition luaO_log2 :: "32 word \<Rightarrow> int" where
  "luaO_log2 x = (let (l, y) = log2_loop (-1) x in l + log_2 ! unat y)"

definition ceillog2 :: "32 word \<Rightarrow> int" where
  "ceillog2 x = luaO_log2 (x - 1) + 1"

section \<open>Chunk names\<close>

text \<open>C strings are lists of characters without the terminating zero.\<close>

definition newline_free :: "string \<Rightarrow> string" where
  "newline_free = takeWhile (\<lambda>c. c \<noteq> CHR 0x0A \<and> c \<noteq> CHR 0x0D)"

definition luaO_chunkid :: "string \<Rightarrow> nat \<Rightarrow> string" where
  "luaO_chunkid source bufflen =
     (if source \<noteq> [] \<and> hd source = CHR ''='' then take (bufflen - 1) (tl source)
      else if source \<noteq> [] \<and> hd source = CHR ''@'' then
        let name = tl source; room = bufflen - 8
        in if length name > room then ''...'' @ drop (length name - room) name else name
      else
        let room = bufflen - 17; len = min (length (newline_free source)) room
        in ''[string '' @ [CHR 0x22] @
           (if len < length source then take len source @ ''...'' else source) @
           [CHR 0x22] @ '']'')"

section \<open>Strings to numbers\<close>

text \<open>
  The C library's \<^verbatim>\<open>strtod\<close> and \<^verbatim>\<open>strtoul\<close> (base 16) are parameters: the value and the number
  of characters used.
\<close>

definition c_string :: "string \<Rightarrow> string" where
  "c_string = takeWhile (\<lambda>c. c \<noteq> CHR 0x00)"

definition isspace :: "char \<Rightarrow> bool" where
  "isspace c \<longleftrightarrow> c = CHR '' '' \<or> of_char c \<in> {9 .. 13 :: nat}"

definition luaO_str2d :: "(string \<Rightarrow> lua_Number \<times> nat) \<Rightarrow> (string \<Rightarrow> 32 word \<times> nat) \<Rightarrow> string \<Rightarrow>
    lua_Number option" where
  "luaO_str2d strtod strtoul16 str =
     (let s = c_string str; (v, k) = strtod s
      in if k = 0 then None
         else
           let (v', k') = (if k < length s \<and> (s ! k = CHR ''x'' \<or> s ! k = CHR ''X'')
                           then (cast_num (uint (fst (strtoul16 s))), snd (strtoul16 s))
                           else (v, k))
           in if dropWhile isspace (drop k' s) = [] then Some v' else None)"

section \<open>Formatting\<close>

text \<open>
  The arguments of a variadic call.  Printing a number (\<^verbatim>\<open>%.14g\<close>) and a pointer (\<^verbatim>\<open>%p\<close>) is the C
  library's and given by the parameters.  \<open>None\<close>: the arguments do not fit the format, or it
  ends in a lone percent sign and is read beyond its end.
\<close>

datatype fmt_arg =
    ArgS "string option" | ArgC int | ArgD int | ArgF lua_Number | ArgP "32 word"

fun until_percent :: "string \<Rightarrow> string \<times> string option" where
  "until_percent [] = ([], None)"
| "until_percent (c # cs) =
     (if c = CHR ''%'' then ([], Some cs)
      else let (a, r) = until_percent cs in (c # a, r))"

lemma until_percent_shorter: "until_percent s = (a, Some r) \<Longrightarrow> length r < length s"
  by (induction s arbitrary: a r) (auto split: if_splits prod.splits)

definition format_item :: "(lua_Number \<Rightarrow> string) \<Rightarrow> (32 word \<Rightarrow> string) \<Rightarrow> char \<Rightarrow>
    fmt_arg list \<Rightarrow> (string \<times> fmt_arg list) option" where
  "format_item num2str ptr2str c args =
     (if c = CHR ''s'' then
        (case args of
           ArgS None # as \<Rightarrow> Some (''(null)'', as)
         | ArgS (Some s) # as \<Rightarrow> Some (s, as) | _ \<Rightarrow> None)
      else if c = CHR ''c'' then
        (case args of
           ArgC i # as \<Rightarrow> Some (c_string [char_of (nat (i mod 256))], as) | _ \<Rightarrow> None)
      else if c = CHR ''d'' then
        (case args of ArgD i # as \<Rightarrow> Some (num2str (cast_num i), as) | _ \<Rightarrow> None)
      else if c = CHR ''f'' then
        (case args of ArgF n # as \<Rightarrow> Some (num2str n, as) | _ \<Rightarrow> None)
      else if c = CHR ''p'' then
        (case args of ArgP p # as \<Rightarrow> Some (ptr2str p, as) | _ \<Rightarrow> None)
      else if c = CHR ''%'' then Some (''%'', args)
      else Some ([CHR ''%'', c], args))"

function luaO_pushvfstring :: "(lua_Number \<Rightarrow> string) \<Rightarrow> (32 word \<Rightarrow> string) \<Rightarrow> string \<Rightarrow>
    fmt_arg list \<Rightarrow> string option" where
  "luaO_pushvfstring num2str ptr2str fmt args =
     (case until_percent fmt of
        (lit, None) \<Rightarrow> Some lit
      | (lit, Some []) \<Rightarrow> None
      | (lit, Some (c # rest)) \<Rightarrow>
          (case format_item num2str ptr2str c args of
             None \<Rightarrow> None
           | Some (s, as) \<Rightarrow>
               (case luaO_pushvfstring num2str ptr2str rest as of
                  None \<Rightarrow> None | Some t \<Rightarrow> Some (lit @ s @ t))))"
  by pat_completeness auto
termination
  by (relation "measure (\<lambda>(_, _, fmt, _). length fmt)")
    (auto dest: until_percent_shorter [OF sym])

declare luaO_pushvfstring.simps [simp del]

end
