(* ===== verification/Lua_Object_Facts.thy ===== *)
theory Lua_Object_Facts
  imports Lua_Object
begin

text \<open>
  Facts about the generic functions over values: the casts between integers and doubles,
  raw equality, floating-point bytes, logarithms, chunk names.
\<close>

section \<open>Integers as doubles\<close>

lemma floor_log2_bounds: "0 < n \<Longrightarrow> 2 ^ floor_log2 n \<le> n \<and> n < 2 ^ Suc (floor_log2 n)"
proof (induction n rule: floor_log2.induct)
  case (1 n)
  show ?case
  proof (cases "n < 2")
    case True
    with 1(2) show ?thesis by (simp add: floor_log2.simps [of n])
  next
    case False
    then have "2 ^ floor_log2 (n div 2) \<le> n div 2 \<and> n div 2 < 2 ^ Suc (floor_log2 (n div 2))"
      using 1(1) by simp
    moreover have "floor_log2 n = Suc (floor_log2 (n div 2))"
      using False by (subst floor_log2.simps) simp
    ultimately show ?thesis by auto
  qed
qed

lemma floor_log2_less: "0 < n \<Longrightarrow> n < 2 ^ m \<Longrightarrow> floor_log2 n < m"
  using floor_log2_bounds [of n] by (metis le_less_trans power_less_imp_less_exp one_less_numeral_iff semiring_norm(76))

lemma dbl_fields:
  "dbl_exp n = uint n div 2 ^ 52 mod 2 ^ 11" "dbl_mant n = uint n mod 2 ^ 52"
  "dbl_neg n \<longleftrightarrow> odd (uint n div 2 ^ 63)"
proof -
  have a: "(0x7FF :: int) = mask 11" "(0xFFFFFFFFFFFFF :: int) = mask 52"
    by (simp_all add: mask_eq_exp_minus_1)
  have t: "take_bit 64 (uint n) = uint n"
    using uint_bounded [of n] by (simp add: take_bit_int_eq_self)
  have "uint (drop_bit 52 n AND 0x7FF) = drop_bit 52 (uint n) AND 0x7FF"
    by (simp add: unsigned_and_eq unsigned_drop_bit_eq t)
  then show "dbl_exp n = uint n div 2 ^ 52 mod 2 ^ 11"
    unfolding dbl_exp_def a by (simp only: take_bit_eq_mask [symmetric] take_bit_eq_mod drop_bit_eq_div)
  have "uint (n AND 0xFFFFFFFFFFFFF) = uint n AND 0xFFFFFFFFFFFFF"
    by (simp add: unsigned_and_eq)
  then show "dbl_mant n = uint n mod 2 ^ 52"
    unfolding dbl_mant_def a by (simp only: take_bit_eq_mask [symmetric] take_bit_eq_mod)
  show "dbl_neg n \<longleftrightarrow> odd (uint n div 2 ^ 63)"
    unfolding dbl_neg_def bit_iff_odd [of "uint n", symmetric] by (simp add: bit_uint_iff)
qed

lemma dbl_pack_fields:
  assumes "0 \<le> e" "e < 2048" "0 \<le> m" "m < 2 ^ 52"
  shows "dbl_exp (dbl_pack s e m) = e" "dbl_mant (dbl_pack s e m) = m"
    "dbl_neg (dbl_pack s e m) = s" "uint (dbl_pack s e m) = (if s then 2 ^ 63 else 0) + e * 2 ^ 52 + m"
proof -
  have "e * 2 ^ 52 + m < 2 ^ 63"
  proof -
    have "e * 2 ^ 52 \<le> 2047 * 2 ^ 52" using assms by (intro mult_right_mono) auto
    with assms(4) show ?thesis by simp
  qed
  then have "0 \<le> (if s then 2 ^ 63 else 0) + e * 2 ^ 52 + m"
    "(if s then 2 ^ 63 else 0) + e * 2 ^ 52 + m < 2 ^ 64"
    using assms by auto
  then show u: "uint (dbl_pack s e m) = (if s then 2 ^ 63 else 0) + e * 2 ^ 52 + m"
    unfolding dbl_pack_def by (subst uint_word_of_int) (simp add: take_bit_int_eq_self)
  then have q: "uint (dbl_pack s e m) = ((if s then 2 ^ 11 else 0) + e) * 2 ^ 52 + m"
    by (simp add: algebra_simps)
  show "dbl_mant (dbl_pack s e m) = m"
    unfolding dbl_fields q using assms by (subst mod_mult_self3) (simp add: mod_pos_pos_trivial)
  have d: "uint (dbl_pack s e m) div 2 ^ 52 = (if s then 2 ^ 11 else 0) + e"
    unfolding q using assms by (subst div_mult_self3) (simp_all add: div_pos_pos_trivial)
  show "dbl_exp (dbl_pack s e m) = e"
    unfolding dbl_fields d using assms by simp
  have "uint (dbl_pack s e m) div 2 ^ 63 = (uint (dbl_pack s e m) div 2 ^ 52) div 2 ^ 11"
    by (simp add: div_mult2_eq [symmetric] zdiv_zmult2_eq [symmetric])
  also have "\<dots> = (if s then 1 else 0)"
    unfolding d using assms div_mult_self3 [of "2 ^ 11 :: int" 1 e] by (auto simp: add.commute)
  finally show "dbl_neg (dbl_pack s e m) = s" by (simp add: dbl_fields)
qed


lemma cast_num_fields:
  assumes "i \<noteq> 0" and "\<bar>i\<bar> < 2 ^ 53"
  shows "dbl_exp (cast_num i) = 1023 + int (floor_log2 (nat \<bar>i\<bar>))"
    and "dbl_mant (cast_num i) = \<bar>i\<bar> * 2 ^ (52 - floor_log2 (nat \<bar>i\<bar>)) - 2 ^ 52"
    and "dbl_neg (cast_num i) = (i < 0)"
proof -
  define a where "a = nat \<bar>i\<bar>"
  define e where "e = floor_log2 a"
  have a: "\<bar>i\<bar> = int a" "0 < a" "a < 2 ^ 53" using assms by (auto simp: a_def)
  from floor_log2_bounds [OF a(2)] have b: "2 ^ e \<le> a" "a < 2 ^ Suc e" by (auto simp: e_def)
  from floor_log2_less [OF a(2,3)] have e: "e < 53" by (simp add: e_def)
  then have p: "2 ^ e * 2 ^ (52 - e) = (2 ^ 52 :: nat)" "2 ^ Suc e * 2 ^ (52 - e) = (2 ^ 53 :: nat)"
    by (simp_all flip: power_add)
  have "2 ^ e * 2 ^ (52 - e) \<le> a * 2 ^ (52 - e)" "a * 2 ^ (52 - e) < 2 ^ Suc e * 2 ^ (52 - e)"
    using b by simp_all
  then have "2 ^ 52 \<le> a * 2 ^ (52 - e)" "a * 2 ^ (52 - e) < 2 ^ 53" unfolding p .
  then have m: "0 \<le> int a * 2 ^ (52 - e) - 2 ^ 52" "int a * 2 ^ (52 - e) - 2 ^ 52 < 2 ^ 52"
    by (simp_all flip: of_nat_power of_nat_mult of_nat_le_iff of_nat_less_iff add: of_nat_diff)
      (metis (mono_tags) of_nat_le_iff of_nat_less_iff of_nat_mult of_nat_numeral of_nat_power)+
  have c: "cast_num i = dbl_pack (i < 0) (1023 + int e) (int a * 2 ^ (52 - e) - 2 ^ 52)"
    using assms(1) a(1) by (simp add: cast_num_def Let_def e_def)
  show "dbl_exp (cast_num i) = 1023 + int (floor_log2 (nat \<bar>i\<bar>))"
    and "dbl_mant (cast_num i) = \<bar>i\<bar> * 2 ^ (52 - floor_log2 (nat \<bar>i\<bar>)) - 2 ^ 52"
    and "dbl_neg (cast_num i) = (i < 0)"
    unfolding c using m e dbl_pack_fields [of "1023 + int e" "int a * 2 ^ (52 - e) - 2 ^ 52" "i < 0"] a(1)
    by (simp_all add: e_def)
qed


lemma floor_log2_unique:
  assumes "2 ^ e \<le> n" and "n < 2 ^ Suc e"
  shows "floor_log2 n = e"
proof -
  have n: "0 < n" using assms(1) by (metis gr0I le_zero_eq power_not_zero zero_neq_numeral)
  from floor_log2_bounds [OF n] assms have "2 ^ e < (2 ^ Suc (floor_log2 n) :: nat)"
    "2 ^ floor_log2 n < (2 ^ Suc e :: nat)" by linarith+
  then have "e < Suc (floor_log2 n)" "floor_log2 n < Suc e"
    by (metis power_less_imp_less_exp one_less_numeral_iff semiring_norm(76))+
  then show ?thesis by simp
qed

lemma dbl_pack_of_fields: "dbl_pack (dbl_neg n) (dbl_exp n) (dbl_mant n) = n"
proof (rule word_uint_eqI)
  have "dbl_exp n < 2 ^ 11" unfolding dbl_fields by (rule pos_mod_bound) simp
  moreover have "dbl_mant n < 2 ^ 52" unfolding dbl_fields by (rule pos_mod_bound) simp
  ultimately have r: "0 \<le> dbl_exp n" "dbl_exp n < 2048" "0 \<le> dbl_mant n" "dbl_mant n < 2 ^ 52"
    by (simp_all add: dbl_exp_def dbl_mant_def)
  have u: "uint n < 2 ^ 64" "0 \<le> uint n" using uint_bounded [of n] by auto
  have hi: "uint n div 2 ^ 63 = (if dbl_neg n then 1 else 0)"
  proof -
    have "0 \<le> uint n div 2 ^ 63" "uint n div 2 ^ 63 < 2"
      using u by (simp_all add: div_less_iff_less_mult pos_imp_zdiv_nonneg_iff)
    then have "uint n div 2 ^ 63 = 0 \<or> uint n div 2 ^ 63 = 1" by linarith
    then show ?thesis unfolding dbl_fields(3) by auto
  qed
  have "uint n = (uint n div 2 ^ 52) * 2 ^ 52 + uint n mod 2 ^ 52" by simp
  moreover have "uint n div 2 ^ 52 = (uint n div 2 ^ 63) * 2 ^ 11 + uint n div 2 ^ 52 mod 2 ^ 11"
    using zdiv_zmult2_eq [of "2 ^ 11" "uint n" "2 ^ 52"] div_mult_mod_eq [of "uint n div 2 ^ 52" "2 ^ 11"]
    by simp
  ultimately have "uint n = ((if dbl_neg n then 1 else 0) * 2 ^ 11 + dbl_exp n) * 2 ^ 52 + dbl_mant n"
    using hi by (simp only: dbl_fields(1,2))
  then show "uint (dbl_pack (dbl_neg n) (dbl_exp n) (dbl_mant n)) = uint n"
    using dbl_pack_fields(4) [OF r] by (simp add: algebra_simps split: if_splits)
qed


lemma dbl_zero_fields: "dbl_zero n \<longleftrightarrow> dbl_exp n = 0 \<and> dbl_mant n = 0"
proof
  assume "dbl_zero n"
  then show "dbl_exp n = 0 \<and> dbl_mant n = 0"
    by (auto simp: dbl_zero_def dbl_fields)
next
  assume "dbl_exp n = 0 \<and> dbl_mant n = 0"
  with dbl_pack_of_fields [of n] show "dbl_zero n"
    by (cases "dbl_neg n") (auto simp: dbl_zero_def dbl_pack_def)
qed

lemma cast_num_not_nan: "\<bar>i\<bar> < 2 ^ 53 \<Longrightarrow> \<not> luai_numisnan (cast_num i)"
proof (cases "i = 0")
  case False
  assume "\<bar>i\<bar> < 2 ^ 53"
  with False have "floor_log2 (nat \<bar>i\<bar>) < 53" by (intro floor_log2_less) auto
  with cast_num_fields(1) [OF False \<open>\<bar>i\<bar> < 2 ^ 53\<close>] show ?thesis
    by (simp add: luai_numisnan_def)
qed (simp add: cast_num_def luai_numisnan_def dbl_exp_def)

lemma dbl_to_int_cast_num:
  assumes "- (2 ^ 31) \<le> i" and "i < 2 ^ 31"
  shows "dbl_to_int (cast_num i) = Some i"
proof (cases "i = 0")
  case True
  then show ?thesis by (simp add: cast_num_def dbl_to_int_def dbl_zero_def)
next
  case False
  define a where "a = nat \<bar>i\<bar>"
  define e where "e = floor_log2 a"
  have ia: "\<bar>i\<bar> = int a" and a: "0 < a" "a < 2 ^ 32" and i53: "\<bar>i\<bar> < 2 ^ 53"
    using assms False by (auto simp: a_def)
  note f = cast_num_fields [OF False i53, folded a_def e_def]
  have e: "e < 32" unfolding e_def by (rule floor_log2_less [OF a])
  have nz: "\<not> dbl_zero (cast_num i)" using f(1) by (simp add: dbl_zero_fields)
  have m: "dbl_mant (cast_num i) + 2 ^ 52 = int a * 2 ^ (52 - e)" using f(2) ia by simp
  show ?thesis
    using nz e f(1,3) assms ia m
    by (auto simp: dbl_to_int_def Let_def)
qed

lemma dbl_to_int_range: "dbl_to_int n = Some i \<Longrightarrow> - (2 ^ 31) \<le> i \<and> i < 2 ^ 31"
  by (auto simp: dbl_to_int_def Let_def split: if_splits)

lemma dbl_to_int_exact:
  assumes "dbl_to_int n = Some i" and "\<not> dbl_zero n"
  shows "cast_num i = n"
proof -
  define e where "e = dbl_exp n - 1023"
  define m where "m = dbl_mant n + 2 ^ 52"
  define s where "s = 52 - nat e"
  define a where "a = m div 2 ^ s"
  from assms have e: "0 \<le> e" "e \<le> 31" and ms: "m mod 2 ^ s = 0" and i: "i = (if dbl_neg n then - a else a)"
    by (auto simp: dbl_to_int_def Let_def e_def m_def s_def a_def split: if_splits)
  have "dbl_mant n < 2 ^ 52" unfolding dbl_fields by (rule pos_mod_bound) simp
  then have m: "2 ^ 52 \<le> m" "m < 2 ^ 53" by (auto simp: m_def dbl_mant_def)
  have am: "a * 2 ^ s = m" using ms by (simp add: a_def mult_div_mod_eq [symmetric] div_mult_mod_eq)
      (metis add.right_neutral div_mult_mod_eq)
  have p: "(2 ^ nat e * 2 ^ s :: int) = 2 ^ 52" "(2 ^ Suc (nat e) * 2 ^ s :: int) = 2 ^ 53"
    using e by (simp_all add: s_def flip: power_add)
  have "2 ^ nat e * 2 ^ s \<le> a * 2 ^ s" "a * 2 ^ s < 2 ^ Suc (nat e) * 2 ^ s"
    using m am p by simp_all
  then have a: "2 ^ nat e \<le> a" "a < 2 ^ Suc (nat e)" by simp_all
  have a0: "0 < a" using a(1) by (smt (verit) zero_less_power)
  have "nat (2 ^ nat e) \<le> nat a" "nat a < nat (2 ^ Suc (nat e))"
    using a a0 by (simp_all add: nat_mono)
  then have fl: "floor_log2 (nat a) = nat e"
    by (intro floor_log2_unique) (simp_all only: nat_power_eq zero_le_numeral nat_numeral)
  have "\<bar>i\<bar> = a" "i \<noteq> 0" "(i < 0) = dbl_neg n" using i a0 by auto
  then have "cast_num i = dbl_pack (dbl_neg n) (1023 + e) (a * 2 ^ s - 2 ^ 52)"
    using e fl by (simp add: cast_num_def Let_def s_def)
  also have "\<dots> = n" using dbl_pack_of_fields [of n] am by (simp add: e_def m_def)
  finally show ?thesis .
qed

text \<open>The double of an integer equals exactly the doubles with that integer value.\<close>

lemma cast_num_eq_iff:
  assumes "- (2 ^ 31) \<le> i" and "i < 2 ^ 31"
  shows "luai_numeq (cast_num i) n \<longleftrightarrow> dbl_to_int n = Some i"
proof
  assume eq: "luai_numeq (cast_num i) n"
  show "dbl_to_int n = Some i"
  proof (cases "cast_num i = n")
    case False
    with eq have z: "dbl_zero (cast_num i)" "dbl_zero n" by (auto simp: luai_numeq_def)
    with dbl_to_int_cast_num [OF assms] show ?thesis by (simp add: dbl_to_int_def)
  qed (use dbl_to_int_cast_num [OF assms] in simp)
next
  assume n: "dbl_to_int n = Some i"
  have nn: "\<not> luai_numisnan (cast_num i)" by (rule cast_num_not_nan) (use assms in auto)
  show "luai_numeq (cast_num i) n"
  proof (cases "dbl_zero n")
    case True
    with n have "i = 0" by (simp add: dbl_to_int_def)
    with True show ?thesis
      by (auto simp: luai_numeq_def cast_num_def dbl_zero_def luai_numisnan_def dbl_exp_def dbl_mant_def)
  next
    case False
    from dbl_to_int_exact [OF n False] nn show ?thesis by (simp add: luai_numeq_def)
  qed
qed

lemma numeq_sym: "luai_numeq a b \<Longrightarrow> luai_numeq b a"
  by (auto simp: luai_numeq_def)

lemma numeq_trans: "luai_numeq a b \<Longrightarrow> luai_numeq b c \<Longrightarrow> luai_numeq a c"
  by (auto simp: luai_numeq_def)

lemma numeq_refl: "luai_numeq a a \<longleftrightarrow> \<not> luai_numisnan a"
  by (auto simp: luai_numeq_def)

lemma numeq_to_int: "luai_numeq a b \<Longrightarrow> dbl_to_int a = dbl_to_int b"
  by (auto simp: luai_numeq_def dbl_to_int_def)

lemma rawequal_sym: "luaO_rawequalObj a b \<Longrightarrow> luaO_rawequalObj b a"
  by (cases a; cases b) (auto dest: numeq_sym)

lemma rawequal_trans: "luaO_rawequalObj a b \<Longrightarrow> luaO_rawequalObj b c \<Longrightarrow> luaO_rawequalObj a c"
  by (cases a; cases b; cases c) (auto dest: numeq_trans)

section \<open>Floating-point bytes\<close>

lemma int2fb_loop_bounds:
  assumes "int2fb_loop x e = (y, e')" and "unat x < 2 ^ 32 - 1"
  shows "\<exists>k. e' = e + int k \<and> unat x \<le> unat y * 2 ^ k \<and> unat y * 2 ^ k < unat x + 2 ^ k \<and>
    unat y < 16 \<and> (k = 0 \<or> 8 \<le> unat y)"
  using assms
proof (induction x e arbitrary: y e' rule: int2fb_loop.induct)
  case (1 x e)
  show ?case
  proof (cases "x \<ge> 16")
    case False
    with 1(2) have "y = x" "e' = e" by (auto simp: int2fb_loop.simps [of x])
    with False show ?thesis by (intro exI [of _ 0]) (auto simp: word_le_nat_alt)
  next
    case True
    define x' where "x' = drop_bit 1 (x + 1)"
    have "unat (x + 1) = unat x + 1" using 1(3) by (simp add: unat_word_ariths)
    then have x': "unat x' = (unat x + 1) div 2" by (simp add: x'_def drop_bit_eq_div unat_div)
    from True have x16: "16 \<le> unat x" by (simp add: word_le_nat_alt)
    from True 1(2) have "int2fb_loop x' (e + 1) = (y, e')"
      by (simp add: int2fb_loop.simps [of x] x'_def)
    moreover have "unat x' < 2 ^ 32 - 1" using x' 1(3) by linarith
    ultimately obtain k where
      k: "e' = e + 1 + int k" "unat x' \<le> unat y * 2 ^ k" "unat y * 2 ^ k < unat x' + 2 ^ k"
      "unat y < 16" "k = 0 \<or> 8 \<le> unat y"
      using 1(1) [OF True, folded x'_def] by blast
    have "8 \<le> unat y" using k x' x16 by (cases "k = 0") auto
    with k x' show ?thesis by (intro exI [of _ "Suc k"]) auto
  qed
qed

lemma shift_or: "0 \<le> b \<Longrightarrow> b < 8 \<Longrightarrow> push_bit 3 a OR b = a * 8 + (b::int)"
proof -
  assume b: "0 \<le> b" "b < 8"
  have "take_bit 3 b = b" using b by (simp add: take_bit_int_eq_self)
  then have "bit b k \<Longrightarrow> k < 3" for k by (metis bit_take_bit_iff)
  then have "push_bit 3 a OR b = push_bit 3 a + b"
    by (intro disjunctive_add [symmetric]) (metis bit_push_bit_iff_int linorder_not_le)
  then show ?thesis by (simp add: push_bit_eq_mult)
qed


lemma fb2int_split:
  assumes u: "0 \<le> u" "u < 8" and k: "k < 30"
  shows "luaO_fb2int ((int k + 1) * 8 + u) = (u + 8) * 2 ^ k"
proof -
  define n where "n = (int k + 1) * 8 + u"
  have d: "drop_bit 3 n = int k + 1" using u by (simp add: n_def drop_bit_eq_div)
  have "n AND 7 = n mod 8"
    using take_bit_eq_mask [of 3 n] by (simp add: take_bit_eq_mod mask_eq_exp_minus_1)
  also have "\<dots> = u" unfolding n_def by (subst mod_mult_self3) (use u in simp)
  finally have a: "n AND 7 = u" .
  have "(int k + 1) AND 31 = int k + 1"
    using k take_bit_eq_mask [of 5 "int k + 1"] by (simp add: take_bit_eq_mod mask_eq_exp_minus_1)
  then have "luaO_fb2int n = (u + 8) * 2 ^ k" by (simp add: luaO_fb2int_def d a push_bit_eq_mult)
  then show ?thesis by (simp only: n_def)
qed

lemma exponent_bound:
  assumes "y * 2 ^ k < n + 2 ^ k" "n < 2 ^ 32 - 1" "8 \<le> (y :: nat)"
  shows "k < 30"
proof -
  have "8 * 2 ^ k \<le> y * 2 ^ k" using assms(3) by simp
  with assms(1,2) have "7 * 2 ^ k < (2 ^ 32 :: nat)" by linarith
  then show ?thesis
    by (cases "k < 30") (auto dest!: leI intro: le_less_trans [OF mult_le_mono2 [OF power_increasing]]
        dest: power_increasing [of 30 k "2::nat"])
qed

lemma eighth: "8 * k \<le> q \<Longrightarrow> q < x + k \<Longrightarrow> 8 * (q - x) \<le> (q::int)"
  by presburger

text \<open>C35: a floating-point byte rounds a size up, by at most one part in eight of the result: it fits
  eight bits and decoding gives at least the encoded number.  The largest unsigned number is
  the exception, where adding one wraps and the code is that of zero.\<close>

theorem int2fb_rounds_up:
  assumes "x \<noteq> -1"
  shows "uint x \<le> luaO_fb2int (luaO_int2fb x) \<and>
    8 * (luaO_fb2int (luaO_int2fb x) - uint x) \<le> luaO_fb2int (luaO_int2fb x) \<and>
    0 \<le> luaO_int2fb x \<and> luaO_int2fb x < 256 \<and> luaO_int2fb (-1) = 0"
proof -
  obtain y e where l: "int2fb_loop x 0 = (y, e)" by fastforce
  have "unat x \<noteq> unat (-1 :: 32 word)" using assms by (metis word_unat_eq_iff)
  moreover have "unat (-1 :: 32 word) = 2 ^ 32 - 1"
    by (simp add: unsigned_minus_1_eq_mask mask_eq_exp_minus_1)
  moreover have "unat x < 2 ^ 32" using unsigned_less [of x] by simp
  ultimately have x: "unat x < 2 ^ 32 - 1" by linarith
  from int2fb_loop_bounds [OF l x] obtain k where
    k: "e = int k" "unat x \<le> unat y * 2 ^ k" "unat y * 2 ^ k < unat x + 2 ^ k" "unat y < 16"
      "k = 0 \<or> 8 \<le> unat y" by auto
  have m: "luaO_int2fb (-1) = 0" by code_simp
  show ?thesis
  proof (cases "unat y < 8")
    case True
    with k(5) have k0: "k = 0" by simp
    have "unat y = unat x" using k(2,3) unfolding k0 power_0 mult_1_right by linarith
    then have "y = x" by (simp only: word_unat_eq_iff)
    moreover have "y < 8" using True by (simp add: word_less_nat_alt)
    moreover have "int (unat y) < 8" using True by linarith
    ultimately show ?thesis
      using l m k0 by (simp add: luaO_int2fb_def luaO_fb2int_def drop_bit_eq_div)
  next
    case False
    define u where "u = uint y - 8"
    have "8 \<le> int (unat y)" "int (unat y) < 16" using False k(4) by linarith+
    then have u: "0 \<le> u" "u < 8" and uy: "int (unat y) = u + 8" by (simp_all add: u_def)
    have fb: "luaO_int2fb x = (int k + 1) * 8 + u"
      using False l k(1) shift_or [OF u, of "int k + 1"]
      by (simp add: luaO_int2fb_def u_def word_less_nat_alt)
    have k30: "k < 30" by (rule exponent_bound [OF k(3) x]) (use False in simp)
    have v: "luaO_fb2int (luaO_int2fb x) = (u + 8) * 2 ^ k" unfolding fb by (rule fb2int_split [OF u k30])
    have ux: "uint x = int (unat x)" by simp
    define P where "P = unat y * 2 ^ k"
    have "int P = (u + 8) * 2 ^ k" unfolding P_def using uy by simp
    moreover have "int (unat x) \<le> int P" "int P < int (unat x + 2 ^ k)"
      using k(2,3) unfolding P_def of_nat_le_iff of_nat_less_iff .
    moreover have "int (unat x + 2 ^ k) = int (unat x) + 2 ^ k" by simp
    ultimately have b: "int (unat x) \<le> (u + 8) * 2 ^ k" "(u + 8) * 2 ^ k < int (unat x) + 2 ^ k"
      by linarith+
    have "8 * 2 ^ k \<le> (u + 8) * 2 ^ k" using u by (intro mult_right_mono) auto
    from eighth [OF this b(2)] have "8 * ((u + 8) * 2 ^ k - uint x) \<le> (u + 8) * 2 ^ k"
      unfolding ux .
    with b(1) have "uint x \<le> luaO_fb2int (luaO_int2fb x) \<and>
      8 * (luaO_fb2int (luaO_int2fb x) - uint x) \<le> luaO_fb2int (luaO_int2fb x)"
      unfolding v ux by blast
    moreover have "0 \<le> luaO_int2fb x \<and> luaO_int2fb x < 256" using u k30 fb by simp
    ultimately show ?thesis using m by blast
  qed
qed

theorem int2fb_rounds_up_witness:
  "uint (1000 :: 32 word) \<le> luaO_fb2int (luaO_int2fb 1000) \<and> luaO_fb2int (luaO_int2fb 1000) = 1024"
  using int2fb_rounds_up [of 1000] by (simp, code_simp)

section \<open>Logarithms\<close>

lemma log_2_table: "\<forall>k \<in> {1..<256}. 1 \<le> log_2 ! k \<and> 2 ^ nat (log_2 ! k - 1) \<le> k \<and> k < 2 ^ nat (log_2 ! k)"
proof -
  have "list_all (\<lambda>k. 1 \<le> log_2 ! k \<and> 2 ^ nat (log_2 ! k - 1) \<le> k \<and> k < 2 ^ nat (log_2 ! k)) [1..<256]"
    by code_simp
  then show ?thesis by (auto simp: list_all_iff)
qed


lemma log2_loop_bounds:
  assumes "log2_loop l x = (l', y)"
  shows "\<exists>j. l' = l + 8 * int j \<and> unat y = unat x div 2 ^ (8 * j) \<and> unat y < 256 \<and>
    (x \<noteq> 0 \<longrightarrow> y \<noteq> 0)"
  using assms
proof (induction l x rule: log2_loop.induct)
  case (1 l x)
  show ?case
  proof (cases "x \<ge> 256")
    case False
    with 1(2) show ?thesis
      by (intro exI [of _ 0]) (auto simp: log2_loop.simps [of l x] word_le_nat_alt)
  next
    case True
    define x' where "x' = drop_bit 8 x"
    have x': "unat x' = unat x div 2 ^ 8" by (simp add: x'_def drop_bit_eq_div unat_div)
    have "256 \<le> unat x" using True by (simp add: word_le_nat_alt)
    then have "unat x' \<noteq> 0" using x' by (simp add: div_eq_0_iff)
    then have nz: "x' \<noteq> 0" by auto
    from True 1(2) have "log2_loop (l + 8) x' = (l', y)" by (simp add: log2_loop.simps [of l] x'_def)
    from 1(1) [OF True, folded x'_def, OF this] obtain j where
      j: "l' = l + 8 + 8 * int j" "unat y = unat x' div 2 ^ (8 * j)" "unat y < 256" "y \<noteq> 0"
      using nz by auto
    have "unat y = unat x div 2 ^ (8 * Suc j)"
      unfolding j(2) x' div_mult2_eq [symmetric] by (simp add: power_add)
    with j show ?thesis by (intro exI [of _ "Suc j"]) auto
  qed
qed

lemma luaO_log2_floor:
  assumes "x \<noteq> 0"
  shows "\<exists>r. luaO_log2 x = int r \<and> 2 ^ r \<le> unat x \<and> unat x < 2 ^ Suc r"
proof -
  obtain l y where l: "log2_loop (-1) x = (l, y)" by fastforce
  from log2_loop_bounds [OF l] assms obtain j where
    j: "l = -1 + 8 * int j" "unat y = unat x div 2 ^ (8 * j)" "unat y < 256" "y \<noteq> 0" by auto
  from j(3,4) have y: "unat y \<in> {1..<256}" by (simp add: Suc_le_eq unat_gt_0)
  define t where "t = nat (log_2 ! unat y - 1)"
  from bspec [OF log_2_table y] have
    tb: "1 \<le> log_2 ! unat y" "2 ^ t \<le> unat y" "unat y < 2 ^ nat (log_2 ! unat y)"
    by (simp_all add: t_def)
  moreover from tb(1) have "nat (log_2 ! unat y) = Suc t" by (simp add: t_def)
  ultimately have lt: "log_2 ! unat y = int t + 1" "2 ^ t \<le> unat y" "unat y < 2 ^ Suc t"
    by (simp_all add: t_def)
  define d :: nat where "d = 2 ^ (8 * j)"
  have d: "0 < d" by (simp add: d_def)
  have "2 ^ t * d \<le> unat y * d" using lt(2) by simp
  also have "\<dots> \<le> unat x" unfolding j(2) d_def [symmetric] by (rule div_times_less_eq_dividend)
  finally have lo: "2 ^ (t + 8 * j) \<le> unat x" by (simp add: d_def power_add)
  have "unat x < Suc (unat y) * d"
    unfolding j(2) d_def [symmetric] using d by (metis dividend_less_div_times mult_Suc add.commute)
  also have "\<dots> \<le> 2 ^ Suc t * d" using lt(3) by (intro mult_right_mono) auto
  finally have hi: "unat x < 2 ^ Suc (t + 8 * j)" by (simp add: d_def power_add algebra_simps)
  have "luaO_log2 x = int (t + 8 * j)" using l lt(1) j(1) by (simp add: luaO_log2_def)
  with lo hi show ?thesis by blast
qed

lemma ceillog2_bounds:
  assumes "x \<noteq> 0"
  shows "\<exists>c. ceillog2 x = int c \<and> unat x \<le> 2 ^ c \<and> (c \<noteq> 0 \<longrightarrow> 2 ^ (c - 1) < unat x) \<and> c \<le> 32"
proof (cases "x = 1")
  case True
  have "ceillog2 1 = 0" by code_simp
  with True show ?thesis by simp
next
  case False
  have "unat x \<noteq> 0" "unat x \<noteq> 1"
    using assms False by (metis unat_eq_0) (metis False unsigned_1 word_unat_eq_iff)
  then have x: "unat (x - 1) = unat x - 1" "2 \<le> unat x"
    by (auto simp: unat_sub word_le_nat_alt)
  then have "x - 1 \<noteq> 0" by auto
  from luaO_log2_floor [OF this] x obtain r where
    r: "luaO_log2 (x - 1) = int r" "2 ^ r < unat x" "unat x \<le> 2 ^ Suc r" by auto
  have "unat x < 2 ^ 32" using unsigned_less [of x] by simp
  with r(2) have "2 ^ r < (2 ^ 32 :: nat)" by (rule less_trans)
  then have "r < 32" by (metis power_less_imp_less_exp one_less_numeral_iff semiring_norm(76))
  with r show ?thesis by (intro exI [of _ "Suc r"]) (auto simp: ceillog2_def)
qed

text \<open>
  the table-driven logarithm is the floor of the binary logarithm for every positive number,
  and the rounded-up one is the least exponent whose power of two is at least the number.\<close>

theorem log2_is_floor:
  assumes "x \<noteq> 0"
  shows "(\<exists>r. luaO_log2 x = int r \<and> 2 ^ r \<le> unat x \<and> unat x < 2 ^ Suc r) \<and>
    (\<exists>c. ceillog2 x = int c \<and> unat x \<le> 2 ^ c \<and> (c \<noteq> 0 \<longrightarrow> 2 ^ (c - 1) < unat x))"
  using luaO_log2_floor [OF assms] ceillog2_bounds [OF assms] by blast

theorem log2_is_floor_witness:
  "(\<exists>r. luaO_log2 1000 = int r \<and> 2 ^ r \<le> unat (1000 :: 32 word) \<and> unat (1000 :: 32 word) < 2 ^ Suc r)"
  using log2_is_floor [of 1000] by simp

section \<open>Chunk names\<close>

lemma newline_free_length: "length (newline_free s) \<le> length s"
  by (simp add: newline_free_def length_takeWhile_le)

text \<open>The name of a chunk fits its buffer with the terminating zero, and never contains a line
  break of the source text.\<close>

theorem chunkid_fits:
  assumes "17 < n"
  shows "length (luaO_chunkid source n) < n \<and>
    (hd (source @ [CHR 0x00]) \<notin> {CHR ''='', CHR ''@''} \<longrightarrow>
       set (luaO_chunkid source n) \<inter> {CHR 0x0A, CHR 0x0D} = {})"
proof -
  define room where "room = n - 17"
  define len where "len = min (length (newline_free source)) room"
  have nl: "set (newline_free source) \<inter> {CHR 0x0A, CHR 0x0D} = {}"
    by (auto simp: newline_free_def dest: set_takeWhileD)
  have pre: "source = newline_free source @ dropWhile (\<lambda>c. c \<noteq> CHR 0x0A \<and> c \<noteq> CHR 0x0D) source"
    by (simp add: newline_free_def)
  have tk: "take len source = take len (newline_free source)"
    by (subst pre) (simp add: len_def)
  have full: "source = newline_free source" if "\<not> len < length source"
  proof -
    from that newline_free_length [of source] have "length source = length (newline_free source)"
      by (simp add: len_def)
    with pre show ?thesis by (metis append_eq_conv_conj take_all_iff order_refl)
  qed
  have "length (luaO_chunkid source n) < n"
    using assms newline_free_length [of source] by (auto simp: luaO_chunkid_def Let_def)
  moreover have "set (luaO_chunkid source n) \<inter> {CHR 0x0A, CHR 0x0D} = {}"
    if "hd (source @ [CHR 0x00]) \<notin> {CHR ''='', CHR ''@''}"
  proof -
    have "luaO_chunkid source n = ''[string '' @ [CHR 0x22] @
        (if len < length source then take len (newline_free source) @ ''...'' else newline_free source) @
        [CHR 0x22] @ '']''"
      using that full tk by (cases source) (auto simp: luaO_chunkid_def Let_def room_def len_def)
    with nl show ?thesis by (auto dest: in_set_takeD)
  qed
  ultimately show ?thesis by blast
qed

theorem chunkid_fits_witness:
  "length (luaO_chunkid ''return 1'' 60) < 60 \<and>
   set (luaO_chunkid ''return 1'' 60) \<inter> {CHR 0x0A, CHR 0x0D} = {}"
  using chunkid_fits [of 60 "''return 1''"] by simp

end
