(* ===== verification/Lua_Debug.thy ===== *)
theory Lua_Debug
  imports Lua_Object Lua_Opcodes
begin

text \<open>
  Function prototypes (\<^verbatim>\<open>lua5.1/src/lobject.h\<close>) and the code checker, a symbolic execution
  of the code of a prototype (\<^verbatim>\<open>lua5.1/src/ldebug.c\<close>).
\<close>

section \<open>Prototypes\<close>

record LocVar =
  varname :: "string option"
  startpc :: int
  endpc :: int

text \<open>
  Nested prototypes make the type recursive, so it is a datatype with the fields of the
  structure as selectors; the sizes of the vectors are their lengths.  \<open>None\<close> is \<^verbatim>\<open>NULL\<close>.
\<close>

datatype Proto = Proto
  (p_source: "string option") (linedefined: int) (lastlinedefined: int)
  (nups: "8 word") (numparams: "8 word") (is_vararg: "8 word") (maxstacksize: "8 word")
  (p_code: "instruction list") (p_k: "TValue list") (p_p: "Proto list")
  (lineinfo: "int list") (locvars: "LocVar list") (upvalues: "string option list")

definition sizecode :: "Proto \<Rightarrow> int" where "sizecode f = int (length (p_code f))"
definition sizek :: "Proto \<Rightarrow> int" where "sizek f = int (length (p_k f))"
definition sizep :: "Proto \<Rightarrow> int" where "sizep f = int (length (p_p f))"

definition VARARG_HASARG :: "8 word" where "VARARG_HASARG = 1"
definition VARARG_ISVARARG :: "8 word" where "VARARG_ISVARARG = 2"
definition VARARG_NEEDSARG :: "8 word" where "VARARG_NEEDSARG = 4"
definition MAXSTACK :: int where "MAXSTACK = 250"
definition LUA_MULTRET :: int where "LUA_MULTRET = -1"

text \<open>A read of the code vector; the checks keep every index inside it.\<close>

definition code_at :: "Proto \<Rightarrow> int \<Rightarrow> instruction" where
  "code_at f pc = (if 0 \<le> pc \<and> pc < sizecode f then p_code f ! nat pc else 0)"

definition op_at :: "Proto \<Rightarrow> int \<Rightarrow> OpCode option" where
  "op_at f pc = op_of_num (GET_OPCODE (code_at f pc))"

section \<open>The code checker\<close>

definition checkreg :: "Proto \<Rightarrow> int \<Rightarrow> bool" where
  "checkreg f r \<longleftrightarrow> r < uint (maxstacksize f)"

definition precheck :: "Proto \<Rightarrow> bool" where
  "precheck f \<longleftrightarrow>
     uint (maxstacksize f) \<le> MAXSTACK \<and>
     uint (numparams f) + uint (is_vararg f AND VARARG_HASARG) \<le> uint (maxstacksize f) \<and>
     (is_vararg f AND VARARG_NEEDSARG = 0 \<or> is_vararg f AND VARARG_HASARG \<noteq> 0) \<and>
     int (length (upvalues f)) \<le> uint (nups f) \<and>
     (length (lineinfo f) = length (p_code f) \<or> length (lineinfo f) = 0) \<and>
     0 < sizecode f \<and> op_at f (sizecode f - 1) = Some OP_RETURN"

definition luaG_checkopenop :: "instruction \<Rightarrow> bool" where
  "luaG_checkopenop i \<longleftrightarrow>
     op_of_num (GET_OPCODE i) \<in> {Some OP_CALL, Some OP_TAILCALL, Some OP_RETURN, Some OP_SETLIST} \<and>
     GETARG_B i = 0"

fun checkArgMode :: "Proto \<Rightarrow> int \<Rightarrow> OpArgMask \<Rightarrow> bool" where
  "checkArgMode f r OpArgN \<longleftrightarrow> r = 0"
| "checkArgMode f r OpArgU \<longleftrightarrow> True"
| "checkArgMode f r OpArgR \<longleftrightarrow> checkreg f r"
| "checkArgMode f r OpArgK \<longleftrightarrow> (if ISK r then INDEXK r < sizek f else checkreg f r)"

definition is_open_setlist :: "instruction \<Rightarrow> bool" where
  "is_open_setlist d \<longleftrightarrow> op_of_num (GET_OPCODE d) = Some OP_SETLIST \<and> GETARG_C d = 0"

text \<open>The number of words before a destination that look like a \<^verbatim>\<open>SETLIST\<close> with a count word.\<close>

fun setlist_run :: "Proto \<Rightarrow> nat \<Rightarrow> nat" where
  "setlist_run f 0 = 0"
| "setlist_run f (Suc d) =
     (if is_open_setlist (code_at f (int d)) then Suc (setlist_run f d) else 0)"

definition check_dest :: "Proto \<Rightarrow> int \<Rightarrow> bool" where
  "check_dest f dest \<longleftrightarrow> 0 \<le> dest \<and> dest < sizecode f \<and>
     (0 < dest \<longrightarrow> even (setlist_run f (nat dest)))"

text \<open>The arguments B and C, checked for the mode of the opcode.\<close>

definition check_mode :: "Proto \<Rightarrow> int \<Rightarrow> OpCode \<Rightarrow> instruction \<Rightarrow> (int \<times> int) option" where
  "check_mode f pc oc i =
     (case getOpMode oc of
        iABC \<Rightarrow>
          if checkArgMode f (GETARG_B i) (getBMode oc) \<and> checkArgMode f (GETARG_C i) (getCMode oc)
          then Some (GETARG_B i, GETARG_C i) else None
      | iABx \<Rightarrow>
          if getBMode oc = OpArgK \<longrightarrow> GETARG_Bx i < sizek f then Some (GETARG_Bx i, 0) else None
      | iAsBx \<Rightarrow>
          if getBMode oc = OpArgR \<longrightarrow> check_dest f (pc + 1 + GETARG_sBx i)
          then Some (GETARG_sBx i, 0) else None)"

definition is_pseudo :: "Proto \<Rightarrow> int \<Rightarrow> bool" where
  "is_pseudo f pc \<longleftrightarrow> op_at f pc = Some OP_GETUPVAL \<or> op_at f pc = Some OP_MOVE"

text \<open>
  The checks of one opcode: the new values of \<^verbatim>\<open>pc\<close> (before the increment of the loop) and of
  \<^verbatim>\<open>last\<close>.
\<close>

definition check_op ::
  "Proto \<Rightarrow> int \<Rightarrow> int \<Rightarrow> int \<Rightarrow> int \<Rightarrow> OpCode \<Rightarrow> int \<Rightarrow> int \<Rightarrow> int \<Rightarrow> (int \<times> int) option" where
  "check_op f lastpc reg pc lst oc a b c =
     (if oc = OP_LOADBOOL then
        (if c = 1 \<longrightarrow> pc + 2 < sizecode f \<and>
             (op_at f (pc + 1) \<noteq> Some OP_SETLIST \<or> GETARG_C (code_at f (pc + 1)) \<noteq> 0)
         then Some (pc, lst) else None)
      else if oc = OP_LOADNIL then
        Some (pc, if a \<le> reg \<and> reg \<le> b then pc else lst)
      else if oc = OP_GETUPVAL \<or> oc = OP_SETUPVAL then
        (if b < uint (nups f) then Some (pc, lst) else None)
      else if oc = OP_GETGLOBAL \<or> oc = OP_SETGLOBAL then
        (case p_k f ! nat b of StrV _ \<Rightarrow> Some (pc, lst) | _ \<Rightarrow> None)
      else if oc = OP_SELF then
        (if checkreg f (a + 1) then Some (pc, if reg = a + 1 then pc else lst) else None)
      else if oc = OP_CONCAT then
        (if b < c then Some (pc, lst) else None)
      else if oc = OP_TFORLOOP then
        (if c \<ge> 1 \<and> checkreg f (a + 2 + c) then Some (pc, if reg \<ge> a + 2 then pc else lst)
         else None)
      else if oc = OP_FORLOOP \<or> oc = OP_FORPREP \<or> oc = OP_JMP then
        (if oc \<noteq> OP_JMP \<and> \<not> checkreg f (a + 3) then None
         else
           let dest = pc + 1 + b
           in Some (if reg \<noteq> NO_REG \<and> pc < dest \<and> dest \<le> lastpc then pc + b else pc, lst))
      else if oc = OP_CALL \<or> oc = OP_TAILCALL then
        (if b \<noteq> 0 \<and> \<not> checkreg f (a + b - 1) then None
         else if c - 1 = LUA_MULTRET \<and> \<not> luaG_checkopenop (code_at f (pc + 1)) then None
         else if c - 1 \<noteq> LUA_MULTRET \<and> c - 1 \<noteq> 0 \<and> \<not> checkreg f (a + (c - 1) - 1) then None
         else Some (pc, if reg \<ge> a then pc else lst))
      else if oc = OP_RETURN then
        (if b - 1 > 0 \<and> \<not> checkreg f (a + (b - 1) - 1) then None else Some (pc, lst))
      else if oc = OP_SETLIST then
        (if b > 0 \<and> \<not> checkreg f (a + b) then None
         else if c = 0 then (if pc + 1 < sizecode f - 1 then Some (pc + 1, lst) else None)
         else Some (pc, lst))
      else if oc = OP_CLOSURE then
        (if \<not> b < sizep f then None
         else
           let nup = unat (nups (p_p f ! nat b))
           in if pc + int nup < sizecode f \<and> list_all (\<lambda>j. is_pseudo f (pc + 1 + int j)) [0..<nup]
              then Some (if reg \<noteq> NO_REG then pc + int nup else pc, lst) else None)
      else if oc = OP_VARARG then
        (if is_vararg f AND VARARG_ISVARARG \<noteq> 0 \<and> is_vararg f AND VARARG_NEEDSARG = 0 \<and>
            (b - 1 = LUA_MULTRET \<longrightarrow> luaG_checkopenop (code_at f (pc + 1))) \<and>
            checkreg f (a + (b - 1) - 1)
         then Some (pc, lst) else None)
      else Some (pc, lst))"

text \<open>One round of the loop.\<close>

definition symb_step :: "Proto \<Rightarrow> int \<Rightarrow> int \<Rightarrow> int \<Rightarrow> int \<Rightarrow> (int \<times> int) option" where
  "symb_step f lastpc reg pc lst =
     (let i = code_at f pc; a = GETARG_A i
      in case op_of_num (GET_OPCODE i) of
           None \<Rightarrow> None
         | Some oc \<Rightarrow>
             if \<not> checkreg f a then None
             else (case check_mode f pc oc i of
                     None \<Rightarrow> None
                   | Some (b, c) \<Rightarrow>
                       let lst1 = (if testAMode oc \<and> a = reg then pc else lst)
                       in if testTMode oc \<and>
                             \<not> (pc + 2 < sizecode f \<and> op_at f (pc + 1) = Some OP_JMP) then None
                          else check_op f lastpc reg pc lst1 oc a b c))"

lemma check_op_forward: "check_op f lastpc reg pc lst oc a b c = Some (pc', lst') \<Longrightarrow> pc \<le> pc'"
  by (auto simp: check_op_def Let_def split: if_splits TValue.splits)

lemma symb_step_forward: "symb_step f lastpc reg pc lst = Some (pc', lst') \<Longrightarrow> pc \<le> pc'"
  by (auto simp: symb_step_def Let_def split: option.splits if_splits dest: check_op_forward)

function symb_loop :: "Proto \<Rightarrow> int \<Rightarrow> int \<Rightarrow> int \<Rightarrow> int \<Rightarrow> int option" where
  "symb_loop f lastpc reg pc lst =
     (if pc < lastpc
      then (case symb_step f lastpc reg pc lst of
              None \<Rightarrow> None
            | Some (pc', lst') \<Rightarrow> symb_loop f lastpc reg (pc' + 1) lst')
      else Some lst)"
  by pat_completeness auto
termination
  by (relation "measure (\<lambda>(f, lastpc, reg, pc, lst). nat (lastpc - pc))")
    (auto dest: symb_step_forward)

declare symb_loop.simps [simp del]

text \<open>\<open>None\<close> is the result 0 of a failed check.\<close>

definition symbexec :: "Proto \<Rightarrow> int \<Rightarrow> int \<Rightarrow> instruction option" where
  "symbexec f lastpc reg =
     (if precheck f
      then map_option (code_at f) (symb_loop f lastpc reg 0 (sizecode f - 1))
      else None)"

definition luaG_checkcode :: "Proto \<Rightarrow> bool" where
  "luaG_checkcode f \<longleftrightarrow>
     (case symbexec f (sizecode f) NO_REG of None \<Rightarrow> False | Some i \<Rightarrow> i \<noteq> 0)"

section \<open>Control flow of the interpreter\<close>

text \<open>
  The instructions that may run after the one at \<open>pc\<close> in the same call, as the main loop of
  \<^verbatim>\<open>lvm.c\<close> moves its program counter.
\<close>

definition next_pcs :: "Proto \<Rightarrow> int \<Rightarrow> int list" where
  "next_pcs f pc =
     (let i = code_at f pc
      in case op_of_num (GET_OPCODE i) of
           None \<Rightarrow> []
         | Some oc \<Rightarrow>
             if oc = OP_RETURN then []
             else if oc = OP_JMP \<or> oc = OP_FORPREP then [pc + 1 + GETARG_sBx i]
             else if oc = OP_FORLOOP then [pc + 1, pc + 1 + GETARG_sBx i]
             else if oc = OP_EQ \<or> oc = OP_LT \<or> oc = OP_LE \<or> oc = OP_TEST \<or> oc = OP_TESTSET \<or>
                     oc = OP_TFORLOOP
             then [pc + 2, pc + 1 + GETARG_sBx (code_at f (pc + 1)) + 1]
             else if oc = OP_LOADBOOL then [if GETARG_C i \<noteq> 0 then pc + 2 else pc + 1]
             else if oc = OP_SETLIST then [if GETARG_C i = 0 then pc + 2 else pc + 1]
             else if oc = OP_CLOSURE
             then [pc + 1 + uint (nups (p_p f ! nat (GETARG_Bx i)))]
             else [pc + 1])"

inductive reaches :: "Proto \<Rightarrow> int \<Rightarrow> bool" for f where
  entry: "reaches f 0"
| step: "reaches f pc \<Longrightarrow> pc' \<in> set (next_pcs f pc) \<Longrightarrow> reaches f pc'"

end
