(* ===== verification/Lua_Debug_Facts.thy ===== *)
theory Lua_Debug_Facts
  imports Lua_Debug
begin

text \<open>
  What the code checker guarantees: the words it visits, the safety of checked code under
  the interpreter's control flow, and the case it misses.
\<close>

section \<open>Visited words\<close>




section \<open>One step of the checker\<close>













section \<open>Checked code is safe\<close>









lemma sizecode_pos: "precheck f \<Longrightarrow> 0 < sizecode f"
  by (simp add: precheck_def)












text \<open>
  \<^verbatim>\<open>while x do end\<close> for a local \<^verbatim>\<open>x\<close>: \<^verbatim>\<open>TEST 0 0 0\<close>, \<^verbatim>\<open>JMP -2\<close>, \<^verbatim>\<open>RETURN 0 1\<close>.  And
  \<^verbatim>\<open>LOADBOOL 0 0 2\<close> before the final return.
\<close>

definition demo_proto :: Proto where
  "demo_proto = Proto (Some ''=demo'') 0 0 0 0 2 2 [26, 2147434518, 8388638] [] [] [] [] []"

definition runaway_proto :: Proto where
  "runaway_proto = Proto (Some ''=demo'') 0 0 0 0 2 2 [32770, 8388638] [] [] [] [] []"

lemma demo_code:
  "p_code demo_proto = [CREATE_ABC OP_TEST 0 0 0, CREATE_ABx OP_JMP 0 (-2 + MAXARG_sBx),
     CREATE_ABC OP_RETURN 0 1 0]"
  "p_code runaway_proto = [CREATE_ABC OP_LOADBOOL 0 0 2, CREATE_ABC OP_RETURN 0 1 0]"
  by code_simp+


text \<open>
  the checker misses one escape: it tests the skip of \<^verbatim>\<open>LOADBOOL\<close> for the flag value one only,
  while the interpreter skips on any nonzero flag, so that a checked function can run past
  the end of its code.\<close>

theorem checker_misses_loadbool_skip:
  "luaG_checkcode runaway_proto \<and> reaches runaway_proto (sizecode runaway_proto)"
proof
  show "luaG_checkcode runaway_proto" by code_simp
  have "next_pcs runaway_proto 0 = [sizecode runaway_proto]" by code_simp
  then have "sizecode runaway_proto \<in> set (next_pcs runaway_proto 0)" by simp
  then show "reaches runaway_proto (sizecode runaway_proto)" by (rule reaches.step [OF reaches.entry])
qed

end
