(* ===== verification/Lua_Zio.thy ===== *)
theory Lua_Zio
  imports Prelude
begin

text \<open>
  Buffered input streams (\<^verbatim>\<open>lua5.1/src/lzio.c\<close>, \<^verbatim>\<open>lzio.h\<close>).  Bytes are characters.  The user's
  reader is the list of the blocks it will return; after the last one, and for an empty
  block, it signals the end.
\<close>

text \<open>
  \<open>z_p\<close> is what is unread in the current buffer, and \<^verbatim>\<open>n\<close> its length, but for one case:
  \<^verbatim>\<open>zgetc\<close> at the end of the stream decrements a zero \<^verbatim>\<open>n\<close> of type \<^verbatim>\<open>size_t\<close>, which \<open>z_wrapped\<close>
  records.  A read in that state goes beyond the buffer: \<open>None\<close>.
\<close>

record zio =
  z_p :: string
  z_blocks :: "string list"
  z_wrapped :: bool

definition EOZ :: int where "EOZ = -1"

definition char2int :: "char \<Rightarrow> int" where "char2int c = int (of_char c)"

definition luaZ_init :: "string list \<Rightarrow> zio" where
  "luaZ_init blocks = \<lparr>z_p = [], z_blocks = blocks, z_wrapped = False\<rparr>"

definition luaZ_fill :: "zio \<Rightarrow> int \<times> zio" where
  "luaZ_fill z =
     (case z_blocks z of
        [] \<Rightarrow> (EOZ, z)
      | [] # bs \<Rightarrow> (EOZ, z\<lparr>z_blocks := bs\<rparr>)
      | (c # cs) # bs \<Rightarrow> (char2int c, \<lparr>z_p = cs, z_blocks = bs, z_wrapped = False\<rparr>))"

definition zgetc :: "zio \<Rightarrow> (int \<times> zio) option" where
  "zgetc z =
     (if z_wrapped z then None
      else case z_p z of
             c # cs \<Rightarrow> Some (char2int c, z\<lparr>z_p := cs\<rparr>)
           | [] \<Rightarrow> Some (luaZ_fill (z\<lparr>z_wrapped := True\<rparr>)))"

text \<open>After a fill that succeeds, the first byte is put back.\<close>

definition luaZ_lookahead :: "zio \<Rightarrow> (int \<times> zio) option" where
  "luaZ_lookahead z =
     (if z_wrapped z then None
      else case z_p z of
             c # cs \<Rightarrow> Some (char2int c, z)
           | [] \<Rightarrow>
               (case z_blocks z of
                  (c # cs) # bs \<Rightarrow>
                    let (r, z1) = luaZ_fill z in Some (char2int c, z1\<lparr>z_p := c # z_p z1\<rparr>)
                | _ \<Rightarrow> Some (luaZ_fill z)))"

text \<open>The bytes read, the number of missing bytes.\<close>

function luaZ_read :: "zio \<Rightarrow> nat \<Rightarrow> ((string \<times> nat) \<times> zio) option" where
  "luaZ_read z n =
     (if n = 0 then Some (([], 0), z)
      else case luaZ_lookahead z of
             None \<Rightarrow> None
           | Some (c, z1) \<Rightarrow>
               if c = EOZ then Some (([], n), z1)
               else
                 let m = (if n \<le> length (z_p z1) then n else length (z_p z1))
                 in if m = 0 then None
                    else (case luaZ_read (z1\<lparr>z_p := drop m (z_p z1)\<rparr>) (n - m) of
                            None \<Rightarrow> None
                          | Some ((b, missing), z2) \<Rightarrow> Some ((take m (z_p z1) @ b, missing), z2)))"
  by pat_completeness auto
termination by (relation "measure snd") auto

declare luaZ_read.simps [simp del]

section \<open>Growing buffers\<close>

definition LUA_MINBUFFER :: nat where "LUA_MINBUFFER = 32"

record mbuffer =
  mb_text :: string
  mb_size :: nat

definition luaZ_openspace :: "nat \<Rightarrow> mbuffer \<Rightarrow> mbuffer" where
  "luaZ_openspace n b =
     (if n > mb_size b
      then b\<lparr>mb_size := (if n < LUA_MINBUFFER then LUA_MINBUFFER else n)\<rparr> else b)"

section \<open>Streams as flat text\<close>

text \<open>What is still to come before the reader first signals the end.\<close>

definition stream :: "zio \<Rightarrow> string" where
  "stream z = z_p z @ concat (takeWhile (\<lambda>b. b \<noteq> []) (z_blocks z))"

lemma char2int_simps [simp]: "char2int c \<noteq> EOZ" "0 \<le> char2int c" "char2int c < 256"
  using nat_of_char_less_256 [of c] by (simp_all add: char2int_def EOZ_def)

lemma char2int_inject [simp]: "char2int a = char2int b \<longleftrightarrow> a = b"
  by (simp add: char2int_def)

lemma lookahead_stream:
  assumes "\<not> z_wrapped z"
  shows "\<exists>z1. luaZ_lookahead z = Some (if stream z = [] then EOZ else char2int (hd (stream z)), z1) \<and>
    \<not> z_wrapped z1 \<and> (stream z \<noteq> [] \<longrightarrow> stream z1 = stream z \<and> z_p z1 \<noteq> [])"
proof (cases "z_p z")
  case Nil
  then show ?thesis
    using assms
    by (cases "z_blocks z"; cases "hd (z_blocks z)")
      (auto simp: luaZ_lookahead_def luaZ_fill_def stream_def)
qed (use assms in \<open>auto simp: luaZ_lookahead_def stream_def\<close>)

lemma zgetc_stream:
  assumes "\<not> z_wrapped z"
  shows "\<exists>z1. zgetc z = Some (if stream z = [] then EOZ else char2int (hd (stream z)), z1) \<and>
    (stream z \<noteq> [] \<longrightarrow> stream z1 = tl (stream z) \<and> \<not> z_wrapped z1)"
proof (cases "z_p z")
  case Nil
  then show ?thesis
    using assms
    by (cases "z_blocks z"; cases "hd (z_blocks z)")
      (auto simp: zgetc_def luaZ_fill_def stream_def)
qed (use assms in \<open>auto simp: zgetc_def stream_def\<close>)

text \<open>Reading is reading from the flat text, however it is cut into blocks.\<close>

lemma luaZ_read_stream:
  "\<not> z_wrapped z \<Longrightarrow> n \<le> length (stream z) \<Longrightarrow>
     \<exists>z1. luaZ_read z n = Some ((take n (stream z), 0), z1) \<and> stream z1 = drop n (stream z) \<and>
       \<not> z_wrapped z1"
proof (induction n arbitrary: z rule: less_induct)
  case (less n)
  show ?case
  proof (cases "n = 0")
    case True
    with less.prems show ?thesis by (simp add: luaZ_read.simps)
  next
    case False
    with less.prems(2) have s: "stream z \<noteq> []" by auto
    from lookahead_stream [OF less.prems(1)] s obtain z1 where
      l: "luaZ_lookahead z = Some (char2int (hd (stream z)), z1)" "\<not> z_wrapped z1"
        "stream z1 = stream z" "z_p z1 \<noteq> []" by auto
    define m where "m = (if n \<le> length (z_p z1) then n else length (z_p z1))"
    define z2 where "z2 = z1\<lparr>z_p := drop m (z_p z1)\<rparr>"
    have m: "0 < m" "m \<le> n" "m \<le> length (z_p z1)" using False l(4) by (auto simp: m_def)
    have z2: "stream z2 = drop m (stream z)" "\<not> z_wrapped z2"
      unfolding l(3) [symmetric] using m l(2) by (simp_all add: z2_def stream_def)
    have t: "take m (z_p z1) = take m (stream z)"
      unfolding l(3) [symmetric] using m by (simp add: stream_def)
    from less.IH [of "n - m" z2] m z2 diff_le_mono [OF less.prems(2), of m] False obtain z3 where
      r: "luaZ_read z2 (n - m) = Some ((take (n - m) (stream z2), 0), z3)"
      "stream z3 = drop (n - m) (stream z2)" "\<not> z_wrapped z3" by auto
    have "luaZ_read z n = Some ((take m (z_p z1) @ take (n - m) (stream z2), 0), z3)"
      using False l(1) m(1) r(1)
      by (subst luaZ_read.simps) (simp add: m_def [symmetric] z2_def [symmetric] Let_def)
    moreover have "take m (z_p z1) @ take (n - m) (stream z2) = take n (stream z)"
      unfolding t z2(1) using m by (metis le_add_diff_inverse take_add)
    ultimately show ?thesis using r(2,3) z2(1) m by simp
  qed
qed

text \<open>Reading more than there is reports how much is missing.\<close>

lemma luaZ_read_short:
  "\<not> z_wrapped z \<Longrightarrow> length (stream z) < n \<Longrightarrow>
     \<exists>z1. luaZ_read z n = Some ((stream z, n - length (stream z)), z1)"
proof (induction n arbitrary: z rule: less_induct)
  case (less n)
  show ?case
  proof (cases "stream z = []")
    case True
    with lookahead_stream [OF less.prems(1)] less.prems(2) show ?thesis
      by (subst luaZ_read.simps) auto
  next
    case False
    from lookahead_stream [OF less.prems(1)] False obtain z1 where
      l: "luaZ_lookahead z = Some (char2int (hd (stream z)), z1)" "\<not> z_wrapped z1"
        "stream z1 = stream z" "z_p z1 \<noteq> []" by auto
    define m where "m = length (z_p z1)"
    define z2 where "z2 = z1\<lparr>z_p := []\<rparr>"
    have s: "stream z = z_p z1 @ stream z2" using l(3) by (simp add: stream_def z2_def)
    have m: "0 < m" "m < n" using l(4) s less.prems(2) by (simp_all add: m_def)
    have "n - m < n" "\<not> z_wrapped z2" "length (stream z2) < n - m"
      using m l(2) s less.prems(2) by (simp_all add: z2_def m_def)
    from less.IH [OF this] obtain z3 where
      r: "luaZ_read z2 (n - m) = Some ((stream z2, n - m - length (stream z2)), z3)" ..
    have "luaZ_read z n = Some ((z_p z1 @ stream z2, n - m - length (stream z2)), z3)"
      using m l(1) r by (subst luaZ_read.simps) (simp add: m_def z2_def Let_def)
    then show ?thesis using s by (simp add: m_def)
  qed
qed

end
