(* ===== verification/Lua_Chunk.thy ===== *)
theory Lua_Chunk
  imports Lua_Debug Lua_Zio
begin

text \<open>
  Precompiled chunks: saving a prototype (\<^verbatim>\<open>lua5.1/src/ldump.c\<close>) and loading it
  (\<^verbatim>\<open>lua5.1/src/lundump.c\<close>).  The machine is little-endian with 32-bit \<^verbatim>\<open>int\<close>, \<^verbatim>\<open>size_t\<close> and
  instructions and 64-bit numbers, as the header records.
\<close>

section \<open>Memory images\<close>

text \<open>The \<open>k\<close> bytes of a number in memory, least significant first.\<close>

fun le_bytes :: "nat \<Rightarrow> nat \<Rightarrow> string" where
  "le_bytes 0 n = []"
| "le_bytes (Suc k) n = char_of n # le_bytes k (n div 256)"

fun le_value :: "string \<Rightarrow> nat" where
  "le_value [] = 0"
| "le_value (c # cs) = of_char c + 256 * le_value cs"

section \<open>Dumping\<close>

text \<open>
  A dump is the list of blocks it hands to the writer.  \<open>run_writer\<close> gives them one by one
  to the user's writer, which has a state of its own, until it returns a nonzero status.
\<close>

fun run_writer :: "(string \<Rightarrow> 's \<Rightarrow> int \<times> 's) \<Rightarrow> string list \<Rightarrow> int \<Rightarrow> 's \<Rightarrow> int \<times> 's" where
  "run_writer wr [] status s = (status, s)"
| "run_writer wr (b # bs) status s =
     (if status = 0 then let (st, s') = wr b s in run_writer wr bs st s'
      else run_writer wr bs status s)"

definition DumpChar :: "nat \<Rightarrow> string list" where "DumpChar y = [[char_of y]]"

definition DumpInt :: "int \<Rightarrow> string list" where
  "DumpInt x = [le_bytes 4 (unat (word_of_int x :: 32 word))]"

definition DumpNumber :: "lua_Number \<Rightarrow> string list" where
  "DumpNumber x = [le_bytes 8 (unat x)]"

definition DumpString :: "string option \<Rightarrow> string list" where
  "DumpString s =
     (case s of
        None \<Rightarrow> [le_bytes 4 0]
      | Some t \<Rightarrow> [le_bytes 4 (length t + 1), t @ [CHR 0x00]])"

definition DumpCode :: "instruction list \<Rightarrow> string list" where
  "DumpCode code = DumpInt (int (length code)) @ [concat (map (\<lambda>i. le_bytes 4 (unat i)) code)]"

fun type_tag :: "TValue \<Rightarrow> nat" where
  "type_tag NilV = 0" | "type_tag (BoolV b) = 1" | "type_tag (LightV p) = 2"
| "type_tag (NumV n) = 3" | "type_tag (StrV s) = 4"
| "type_tag (ObjV LUA_TTABLE p) = 5" | "type_tag (ObjV LUA_TFUNCTION p) = 6"
| "type_tag (ObjV LUA_TUSERDATA p) = 7" | "type_tag (ObjV LUA_TTHREAD p) = 8"
| "type_tag (DeadKey v) = 11"

text \<open>Other constants cannot happen; only their tag is written.\<close>

definition DumpConstant :: "TValue \<Rightarrow> string list" where
  "DumpConstant v = DumpChar (type_tag v) @
     (case v of
        BoolV b \<Rightarrow> DumpChar (if b then 1 else 0)
      | NumV n \<Rightarrow> DumpNumber n
      | StrV s \<Rightarrow> DumpString (Some s)
      | _ \<Rightarrow> [])"

definition DumpLocVar :: "LocVar \<Rightarrow> string list" where
  "DumpLocVar v = DumpString (varname v) @ DumpInt (startpc v) @ DumpInt (endpc v)"

definition DumpDebug :: "bool \<Rightarrow> Proto \<Rightarrow> string list" where
  "DumpDebug strip f =
     (let li = (if strip then [] else lineinfo f);
          lv = (if strip then [] else locvars f);
          uv = (if strip then [] else upvalues f)
      in DumpInt (int (length li)) @
         [concat (map (\<lambda>x. le_bytes 4 (unat (word_of_int x :: 32 word))) li)] @
         DumpInt (int (length lv)) @ concat (map DumpLocVar lv) @
         DumpInt (int (length uv)) @ concat (map DumpString uv))"

text \<open>The constants and the nested functions of \<open>DumpConstants\<close> are given the parent's source.\<close>

fun DumpFunction :: "bool \<Rightarrow> string option \<Rightarrow> Proto \<Rightarrow> string list" where
  "DumpFunction strip p (Proto src ld lld nu np va ms code k ps li lv uv) =
     DumpString (if src = p \<or> strip then None else src) @
     DumpInt ld @ DumpInt lld @
     DumpChar (unat nu) @ DumpChar (unat np) @ DumpChar (unat va) @ DumpChar (unat ms) @
     DumpCode code @
     DumpInt (int (length k)) @ concat (map DumpConstant k) @
     DumpInt (int (length ps)) @ concat (map (DumpFunction strip src) ps) @
     DumpDebug strip (Proto src ld lld nu np va ms code k ps li lv uv)"

definition luaU_header :: string where
  "luaU_header = [CHR 0x1B, CHR ''L'', CHR ''u'', CHR ''a'', CHR 0x51, CHR 0x00, CHR 0x01,
     CHR 0x04, CHR 0x04, CHR 0x04, CHR 0x08, CHR 0x00]"

definition dump_blocks :: "bool \<Rightarrow> Proto \<Rightarrow> string list" where
  "dump_blocks strip f = [luaU_header] @ DumpFunction strip None f"

definition luaU_dump :: "(string \<Rightarrow> 's \<Rightarrow> int \<times> 's) \<Rightarrow> bool \<Rightarrow> Proto \<Rightarrow> 's \<Rightarrow> int \<times> 's" where
  "luaU_dump wr strip f = run_writer wr (dump_blocks strip f) 0"

section \<open>Loading\<close>

text \<open>
  A load fails with the reason the code reports.  Two faults are the code's own: \<open>Bad_read\<close> is a
  read beyond the reader's buffer, and \<open>Null_string\<close> a constant of type string whose object is
  the null pointer, which the code stores for a string of size 0 and any use dereferences.
  Allocation is assumed to succeed.
\<close>

datatype load_error =
    Unexpected_end | Bad_integer | Bad_constant | Code_too_deep | Bad_header | Bad_code
  | Bad_read | Null_string

type_synonym 'a loader = "zio \<Rightarrow> load_error + ('a \<times> zio)"

definition LoadBlock :: "nat \<Rightarrow> string loader" where
  "LoadBlock n z =
     (case luaZ_read z n of
        None \<Rightarrow> Inl Bad_read
      | Some ((b, missing), z1) \<Rightarrow> if missing \<noteq> 0 then Inl Unexpected_end else Inr (b, z1))"

definition LoadChar :: "char loader" where
  "LoadChar z = bnd (LoadBlock 1 z) (\<lambda>(b, z1). Inr (hd b, z1))"

definition LoadByte :: "8 word loader" where
  "LoadByte z = bnd (LoadChar z) (\<lambda>(c, z1). Inr (word_of_nat (of_char c), z1))"

definition LoadInt :: "int loader" where
  "LoadInt z =
     bnd (LoadBlock 4 z) (\<lambda>(b, z1).
       let x = sint (word_of_nat (le_value b) :: 32 word)
       in if x < 0 then Inl Bad_integer else Inr (x, z1))"

definition LoadNumber :: "lua_Number loader" where
  "LoadNumber z = bnd (LoadBlock 8 z) (\<lambda>(b, z1). Inr (word_of_nat (le_value b), z1))"

definition LoadString :: "string option loader" where
  "LoadString z =
     bnd (LoadBlock 4 z) (\<lambda>(b, z1).
       let n = le_value b
       in if n = 0 then Inr (None, z1)
          else bnd (LoadBlock n z1) (\<lambda>(s, z2). Inr (Some (take (n - 1) s), z2)))"

text \<open>A loop that loads \<open>n\<close> items.\<close>

fun load_n :: "'a loader \<Rightarrow> nat \<Rightarrow> 'a list loader" where
  "load_n ld 0 z = Inr ([], z)"
| "load_n ld (Suc n) z =
     bnd (ld z) (\<lambda>(x, z1). bnd (load_n ld n z1) (\<lambda>(xs, z2). Inr (x # xs, z2)))"

text \<open>A vector of \<open>n\<close> 4-byte items is read as one block.\<close>

fun split4 :: "string \<Rightarrow> nat list" where
  "split4 (a # b # c # d # rest) = le_value [a, b, c, d] # split4 rest"
| "split4 _ = []"

definition LoadVector :: "(nat \<Rightarrow> 'a) \<Rightarrow> nat \<Rightarrow> 'a list loader" where
  "LoadVector conv n z = bnd (LoadBlock (4 * n) z) (\<lambda>(b, z1). Inr (map conv (split4 b), z1))"

definition LoadCode :: "instruction list loader" where
  "LoadCode z = bnd (LoadInt z) (\<lambda>(n, z1). LoadVector word_of_nat (nat n) z1)"

definition LoadConstant :: "TValue loader" where
  "LoadConstant z =
     bnd (LoadChar z) (\<lambda>(t, z1).
       if t = CHR 0x00 then Inr (NilV, z1)
       else if t = CHR 0x01 then bnd (LoadChar z1) (\<lambda>(c, z2). Inr (BoolV (c \<noteq> CHR 0x00), z2))
       else if t = CHR 0x03 then bnd (LoadNumber z1) (\<lambda>(n, z2). Inr (NumV n, z2))
       else if t = CHR 0x04 then
         bnd (LoadString z1) (\<lambda>(s, z2). case s of None \<Rightarrow> Inl Null_string | Some u \<Rightarrow> Inr (StrV u, z2))
       else Inl Bad_constant)"

definition LoadLocVar :: "LocVar loader" where
  "LoadLocVar z =
     bnd (LoadString z) (\<lambda>(s, z1). bnd (LoadInt z1) (\<lambda>(a, z2). bnd (LoadInt z2) (\<lambda>(b, z3).
       Inr (\<lparr>varname = s, startpc = a, endpc = b\<rparr>, z3))))"

definition LoadDebug :: "(int list \<times> LocVar list \<times> string option list) loader" where
  "LoadDebug z =
     bnd (LoadInt z) (\<lambda>(n, z1).
     bnd (LoadVector (\<lambda>v. sint (word_of_nat v :: 32 word)) (nat n) z1) (\<lambda>(li, z2).
     bnd (LoadInt z2) (\<lambda>(n2, z3). bnd (load_n LoadLocVar (nat n2) z3) (\<lambda>(lv, z4).
     bnd (LoadInt z4) (\<lambda>(n3, z5). bnd (load_n LoadString (nat n3) z5) (\<lambda>(uv, z6).
       Inr ((li, lv, uv), z6)))))))"

text \<open>
  \<open>room\<close> is how many nested C calls are still allowed: \<^verbatim>\<open>LUAI_MAXCCALLS - nCcalls\<close>.
\<close>

fun LoadFunction :: "nat \<Rightarrow> string option \<Rightarrow> Proto loader" where
  "LoadFunction 0 p z = Inl Code_too_deep"
| "LoadFunction (Suc room) p z =
     bnd (LoadString z) (\<lambda>(src0, z1).
     let src = (if src0 = None then p else src0) in
     bnd (LoadInt z1) (\<lambda>(ld, z2). bnd (LoadInt z2) (\<lambda>(lld, z3).
     bnd (LoadByte z3) (\<lambda>(nu, z4). bnd (LoadByte z4) (\<lambda>(np, z5).
     bnd (LoadByte z5) (\<lambda>(va, z6). bnd (LoadByte z6) (\<lambda>(ms, z7).
     bnd (LoadCode z7) (\<lambda>(code, z8).
     bnd (LoadInt z8) (\<lambda>(nk, z9). bnd (load_n LoadConstant (nat nk) z9) (\<lambda>(k, z10).
     bnd (LoadInt z10) (\<lambda>(n, z11). bnd (load_n (LoadFunction room src) (nat n) z11) (\<lambda>(ps, z12).
     bnd (LoadDebug z12) (\<lambda>((li, lv, uv), z13).
     let f = Proto src ld lld nu np va ms code k ps li lv uv
     in if luaG_checkcode f then Inr (f, z13) else Inl Bad_code)))))))))))))"

definition LoadHeader :: "unit loader" where
  "LoadHeader z =
     bnd (LoadBlock 12 z) (\<lambda>(s, z1). if s \<noteq> luaU_header then Inl Bad_header else Inr ((), z1))"

definition LUAI_MAXCCALLS :: nat where "LUAI_MAXCCALLS = 200"

definition luaU_undump :: "nat \<Rightarrow> Proto loader" where
  "luaU_undump nCcalls z =
     bnd (LoadHeader z) (\<lambda>(_, z1). LoadFunction (LUAI_MAXCCALLS - nCcalls) (Some ''=?'') z1)"

text \<open>The name of the chunk in an error message.\<close>

definition chunk_name :: "string \<Rightarrow> string" where
  "chunk_name name =
     (if name \<noteq> [] \<and> (hd name = CHR ''@'' \<or> hd name = CHR ''='') then tl name
      else if name \<noteq> [] \<and> hd name = CHR 0x1B then ''binary string''
      else name)"

end
