(* ===== verification/Lua_Chunk_Facts.thy ===== *)
theory Lua_Chunk_Facts
  imports Lua_Chunk Lua_Debug_Facts
begin

text \<open>
  Loading is inverse to dumping, whatever blocks the text of the chunk arrives in.
\<close>

section \<open>Memory images\<close>

lemma le_bytes_length [simp]: "length (le_bytes k n) = k"
  by (induction k arbitrary: n) auto

lemma le_value_bytes: "le_value (le_bytes k n) = n mod 256 ^ k"
proof (induction k arbitrary: n)
  case (Suc k)
  have "n mod (256 * 256 ^ k) = n mod 256 + 256 * (n div 256 mod 256 ^ k)"
    by (simp add: mod_mult2_eq)
  then show ?case by (simp add: Suc)
qed simp

lemma le_value_bytes_32 [simp]: "le_value (le_bytes 4 (unat (w :: 32 word))) = unat w"
proof -
  have "unat w < 2 ^ LENGTH(32)" by (rule unsigned_less)
  then show ?thesis by (simp add: le_value_bytes)
qed

lemma le_value_bytes_64 [simp]: "le_value (le_bytes 8 (unat (w :: 64 word))) = unat w"
proof -
  have "unat w < 2 ^ LENGTH(64)" by (rule unsigned_less)
  then show ?thesis by (simp add: le_value_bytes)
qed

lemma le_bytes_4: "le_bytes 4 n = [char_of n, char_of (n div 256), char_of (n div 256 div 256),
    char_of (n div 256 div 256 div 256)]"
proof -
  have "4 = Suc (Suc (Suc (Suc 0)))" by simp
  then show ?thesis by (simp only: le_bytes.simps)
qed

lemma split4_concat:
  "split4 (concat (map (\<lambda>i. le_bytes 4 (f i)) xs)) = map (\<lambda>i. le_value (le_bytes 4 (f i))) xs"
  by (induction xs) (simp_all add: le_bytes_4)

section \<open>Loaders\<close>

text \<open>
  A loader reads \<open>s\<close> as \<open>x\<close>, whatever follows it and however it is cut into blocks, and
  reports the missing bytes when the stream ends before \<open>s\<close> does.
\<close>

definition loads :: "'a loader \<Rightarrow> string \<Rightarrow> 'a \<Rightarrow> bool" where
  "loads m s x \<longleftrightarrow> (\<forall>z. \<not> z_wrapped z \<longrightarrow>
     (\<forall>rest. stream z = s @ rest \<longrightarrow>
        (\<exists>z'. m z = Inr (x, z') \<and> \<not> z_wrapped z' \<and> stream z' = rest)) \<and>
     (\<forall>u. u \<noteq> [] \<longrightarrow> stream z @ u = s \<longrightarrow> m z = Inl Unexpected_end))"

lemma loads_ret: "loads (\<lambda>z. Inr (x, z)) [] x"
  by (auto simp: loads_def)

lemma loads_bind:
  assumes "loads m s x" and "loads (k x) t y"
  shows "loads (\<lambda>z. bnd (m z) (\<lambda>(a, z1). k a z1)) (s @ t) y"
  unfolding loads_def
proof (intro allI impI conjI)
  fix z rest
  assume z: "\<not> z_wrapped z" "stream z = (s @ t) @ rest"
  then have "stream z = s @ (t @ rest)" by simp
  then obtain z1 where "m z = Inr (x, z1)" "\<not> z_wrapped z1" "stream z1 = t @ rest"
    using assms(1) z(1) unfolding loads_def by blast
  moreover from this assms(2) obtain z' where
    "k x z1 = Inr (y, z')" "\<not> z_wrapped z'" "stream z' = rest"
    unfolding loads_def by blast
  ultimately show "\<exists>z'. bnd (m z) (\<lambda>(a, z1). k a z1) = Inr (y, z') \<and> \<not> z_wrapped z' \<and> stream z' = rest"
    by simp
next
  fix z u
  assume z: "\<not> z_wrapped z" "u \<noteq> []" "stream z @ u = s @ t"
  then obtain us where "stream z = s @ us \<and> us @ u = t \<or> stream z @ us = s \<and> u = us @ t"
    by (auto simp: append_eq_append_conv2)
  then consider v where "v \<noteq> []" "stream z @ v = s" | v where "stream z = s @ v" "v @ u = t"
    by (cases "us = []") auto
  then show "bnd (m z) (\<lambda>(a, z1). k a z1) = Inl Unexpected_end"
  proof cases
    case 1
    then have "m z = Inl Unexpected_end" using assms(1) z(1) unfolding loads_def by blast
    then show ?thesis by simp
  next
    case 2
    then obtain z1 where "m z = Inr (x, z1)" "\<not> z_wrapped z1" "stream z1 = v"
      using assms(1) z(1) unfolding loads_def by blast
    moreover from this assms(2) 2(2) z(2) have "k x z1 = Inl Unexpected_end"
      unfolding loads_def by blast
    ultimately show ?thesis by simp
  qed
qed

lemma loads_bind_last:
  assumes "loads m s x" and "\<And>z. k x z = Inr (y, z)"
  shows "loads (\<lambda>z. bnd (m z) (\<lambda>(a, z1). k a z1)) s y"
proof -
  have "loads (k x) [] y" by (auto simp: loads_def assms(2))
  from loads_bind [where k = k, OF assms(1) this] show ?thesis by simp
qed

lemma loads_block: "length s = n \<Longrightarrow> loads (LoadBlock n) s s"
  unfolding loads_def
proof (intro allI impI conjI)
  fix z rest
  assume n: "length s = n" and z: "\<not> z_wrapped z" "stream z = s @ rest"
  then obtain z1 where "luaZ_read z n = Some ((take n (stream z), 0), z1)"
    "stream z1 = drop n (stream z)" "\<not> z_wrapped z1"
    using luaZ_read_stream [of z n] by auto
  with n z show "\<exists>z'. LoadBlock n z = Inr (s, z') \<and> \<not> z_wrapped z' \<and> stream z' = rest"
    by (simp add: LoadBlock_def)
next
  fix z u
  assume n: "length s = n" and z: "\<not> z_wrapped z" "u \<noteq> []" "stream z @ u = s"
  then have "length (stream z) < n" by (metis length_append length_greater_0_conv less_add_same_cancel1)
  with luaZ_read_short [OF z(1) this] show "LoadBlock n z = Inl Unexpected_end"
    by (auto simp: LoadBlock_def)
qed

lemma loads_char: "loads LoadChar [c] c"
  unfolding LoadChar_def [abs_def] by (rule loads_bind_last [OF loads_block]) simp_all

lemma loads_byte: "loads LoadByte (concat (DumpChar (unat b))) b"
  unfolding LoadByte_def [abs_def] DumpChar_def
proof -
  have "unat b < 2 ^ LENGTH(8)" by (rule unsigned_less)
  then show "loads (\<lambda>z. bnd (LoadChar z) (\<lambda>(c, z1). Inr (word_of_nat (of_char c), z1)))
      (concat [[char_of (unat b)]]) b"
    by (simp, intro loads_bind_last [OF loads_char]) simp
qed

lemma loads_int:
  assumes "0 \<le> x" and "x < 2 ^ 31"
  shows "loads LoadInt (concat (DumpInt x)) x"
proof -
  have "sint (word_of_int x :: 32 word) = x"
    using assms by (simp add: signed_take_bit_int_eq_self signed_of_int)
  then show ?thesis
    unfolding LoadInt_def [abs_def] DumpInt_def
    using assms by (simp, intro loads_bind_last [OF loads_block]) (simp_all add: Let_def)
qed

lemma loads_number: "loads LoadNumber (concat (DumpNumber x)) x"
  unfolding LoadNumber_def [abs_def] DumpNumber_def
  by (simp, intro loads_bind_last [OF loads_block]) simp_all

definition string_ok :: "string option \<Rightarrow> bool" where
  "string_ok s \<longleftrightarrow> (case s of None \<Rightarrow> True | Some t \<Rightarrow> length t + 1 < 2 ^ 32)"

lemma loads_string:
  assumes "string_ok s"
  shows "loads LoadString (concat (DumpString s)) s"
proof (cases s)
  case None
  have "loads (\<lambda>z. bnd (LoadBlock 4 z) (\<lambda>(b, z1).
       let n = le_value b
       in if n = 0 then Inr (None, z1)
          else bnd (LoadBlock n z1) (\<lambda>(s, z2). Inr (Some (take (n - 1) s), z2))))
      (le_bytes 4 0) None"
    by (rule loads_bind_last [OF loads_block]) (simp_all add: le_value_bytes)
  with None show ?thesis by (simp add: LoadString_def [abs_def] DumpString_def)
next
  case (Some t)
  define n where "n = length t + 1"
  have n: "le_value (le_bytes 4 n) = n" "n \<noteq> 0"
    using assms Some by (simp_all add: le_value_bytes n_def string_ok_def)
  have "loads (\<lambda>z. bnd (LoadBlock n z) (\<lambda>(s, z2). Inr (Some (take (n - 1) s), z2)))
      (t @ [CHR 0x00]) (Some t)"
    by (rule loads_bind_last [OF loads_block]) (simp_all add: n_def)
  then have "loads (\<lambda>z1. let k = le_value (le_bytes 4 n)
       in if k = 0 then Inr (None, z1)
          else bnd (LoadBlock k z1) (\<lambda>(s, z2). Inr (Some (take (k - 1) s), z2)))
      (t @ [CHR 0x00]) (Some t)"
    using n by simp
  then have "loads (\<lambda>z. bnd (LoadBlock 4 z) (\<lambda>(b, z1). let k = le_value b
       in if k = 0 then Inr (None, z1)
          else bnd (LoadBlock k z1) (\<lambda>(s, z2). Inr (Some (take (k - 1) s), z2))))
      (le_bytes 4 n @ t @ [CHR 0x00]) (Some t)"
    by (rule loads_bind [rotated]) (simp add: loads_block)
  then show ?thesis by (simp add: Some LoadString_def [abs_def] DumpString_def n_def)
qed

lemma loads_list:
  assumes "\<And>x. x \<in> set xs \<Longrightarrow> loads m (dump x) (g x)"
  shows "loads (load_n m (length xs)) (concat (map dump xs)) (map g xs)"
  using assms
proof (induction xs)
  case Nil
  then show ?case by (simp add: loads_ret)
next
  case (Cons x xs)
  have "loads (\<lambda>z. bnd (load_n m (length xs) z) (\<lambda>(ys, z2). Inr (g x # ys, z2)))
      (concat (map dump xs)) (g x # map g xs)"
    by (rule loads_bind_last) (use Cons in auto)
  then have "loads (\<lambda>z. bnd (m z) (\<lambda>(y, z1). bnd (load_n m (length xs) z1) (\<lambda>(ys, z2). Inr (y # ys, z2))))
      (dump x @ concat (map dump xs)) (g x # map g xs)"
    by (rule loads_bind [rotated]) (simp add: Cons.prems)
  then show ?case by simp
qed

lemma loads_vector:
  assumes "\<And>x. x \<in> set xs \<Longrightarrow> conv (le_value (le_bytes 4 (f x))) = x" and "n = length xs"
  shows "loads (LoadVector conv n) (concat (map (\<lambda>x. le_bytes 4 (f x)) xs)) xs"
proof -
  have l: "length (concat (map (\<lambda>x. le_bytes 4 (f x)) xs)) = 4 * length xs"
    by (induction xs) auto
  show ?thesis
    unfolding LoadVector_def [abs_def] assms(2)
    by (rule loads_bind_last [OF loads_block [OF l]])
      (use assms(1) in \<open>simp add: split4_concat map_idI\<close>)
qed

lemma loads_code:
  assumes "int (length code) < 2 ^ 31"
  shows "loads LoadCode (concat (DumpCode code)) code"
  unfolding LoadCode_def [abs_def] DumpCode_def concat_append concat.simps append_Nil2
  by (rule loads_bind [OF loads_int loads_vector]) (use assms in simp_all)

definition constant_ok :: "TValue \<Rightarrow> bool" where
  "constant_ok v \<longleftrightarrow>
     (case v of NilV \<Rightarrow> True | BoolV b \<Rightarrow> True | NumV n \<Rightarrow> True | StrV s \<Rightarrow> string_ok (Some s)
      | _ \<Rightarrow> False)"

lemma loads_constant:
  assumes "constant_ok v"
  shows "loads LoadConstant (concat (DumpConstant v)) v"
  unfolding LoadConstant_def [abs_def] DumpConstant_def concat_append
proof (rule loads_bind)
  show "loads LoadChar (concat (DumpChar (type_tag v))) (char_of (type_tag v))"
    by (simp add: DumpChar_def loads_char)
  show "loads (\<lambda>z1. if char_of (type_tag v) = CHR 0x00 then Inr (NilV, z1)
       else if char_of (type_tag v) = CHR 0x01
       then bnd (LoadChar z1) (\<lambda>(c, z2). Inr (BoolV (c \<noteq> CHR 0x00), z2))
       else if char_of (type_tag v) = CHR 0x03
       then bnd (LoadNumber z1) (\<lambda>(n, z2). Inr (NumV n, z2))
       else if char_of (type_tag v) = CHR 0x04 then
         bnd (LoadString z1) (\<lambda>(s, z2). case s of None \<Rightarrow> Inl Null_string | Some u \<Rightarrow> Inr (StrV u, z2))
       else Inl Bad_constant)
      (concat (case v of BoolV b \<Rightarrow> DumpChar (if b then 1 else 0) | NumV n \<Rightarrow> DumpNumber n
        | StrV s \<Rightarrow> DumpString (Some s) | _ \<Rightarrow> [])) v"
  proof (cases v)
    case (BoolV b)
    have c: "char_of (Suc 0) = CHR 0x01" "char_of (0::nat) = CHR 0x00" by code_simp+
    have "loads (\<lambda>z1. bnd (LoadChar z1) (\<lambda>(c, z2). Inr (BoolV (c \<noteq> CHR 0x00), z2)))
        [char_of (if b then 1 else 0 :: nat)] (BoolV b)"
      by (rule loads_bind_last [OF loads_char]) (use c in auto)
    then show ?thesis unfolding BoolV using c by (simp add: DumpChar_def)
  next
    case (NumV n)
    have c: "char_of (3::nat) = CHR 0x03" by code_simp
    have "loads (\<lambda>z1. bnd (LoadNumber z1) (\<lambda>(n, z2). Inr (NumV n, z2))) (concat (DumpNumber n)) (NumV n)"
      by (rule loads_bind_last [OF loads_number]) simp
    then show ?thesis unfolding NumV using c by simp
  next
    case (StrV s)
    have c: "char_of (4::nat) = CHR 0x04" by code_simp
    have "string_ok (Some s)" using assms StrV by (simp add: constant_ok_def)
    then have "loads (\<lambda>z1. bnd (LoadString z1)
        (\<lambda>(s, z2). case s of None \<Rightarrow> Inl Null_string | Some u \<Rightarrow> Inr (StrV u, z2)))
        (concat (DumpString (Some s))) (StrV s)"
      by (intro loads_bind_last [OF loads_string]) simp_all
    then show ?thesis unfolding StrV using c by simp
  next
    case NilV
    have "char_of (0::nat) = CHR 0x00" by code_simp
    then show ?thesis unfolding NilV by (simp add: loads_ret)
  qed (use assms in \<open>simp_all add: constant_ok_def\<close>)
qed

definition locvar_ok :: "LocVar \<Rightarrow> bool" where
  "locvar_ok v \<longleftrightarrow> string_ok (varname v) \<and> 0 \<le> startpc v \<and> startpc v < 2 ^ 31 \<and>
     0 \<le> endpc v \<and> endpc v < 2 ^ 31"

lemma loads_locvar:
  assumes "locvar_ok v"
  shows "loads LoadLocVar (concat (DumpLocVar v)) v"
  unfolding LoadLocVar_def [abs_def] DumpLocVar_def concat_append
  by (rule loads_bind [OF loads_string], use assms in \<open>simp add: locvar_ok_def\<close>,
      rule loads_bind [OF loads_int], use assms in \<open>simp_all add: locvar_ok_def\<close>)
    (rule loads_bind_last [OF loads_int], simp_all)

lemma concat_concat_map: "concat (concat (map f xs)) = concat (map (\<lambda>v. concat (f v)) xs)"
  by (induction xs) auto

lemma loads_debug:
  assumes "\<forall>x \<in> set li. - (2 ^ 31) \<le> x \<and> x < 2 ^ 31" and "\<forall>v \<in> set lv. locvar_ok v"
    and "\<forall>u \<in> set uv. string_ok u" and "int (length li) < 2 ^ 31" "int (length lv) < 2 ^ 31"
    "int (length uv) < 2 ^ 31"
  shows "loads LoadDebug (concat (DumpInt (int (length li)) @
       [concat (map (\<lambda>x. le_bytes 4 (unat (word_of_int x :: 32 word))) li)] @
       DumpInt (int (length lv)) @ concat (map DumpLocVar lv) @
       DumpInt (int (length uv)) @ concat (map DumpString uv))) (li, lv, uv)"
proof -
  note i = loads_int [OF of_nat_0_le_iff]
  have v1: "loads (LoadVector (\<lambda>v. sint (word_of_nat v :: 32 word)) (nat (int (length li))))
      (concat [concat (map (\<lambda>x. le_bytes 4 (unat (word_of_int x :: 32 word))) li)]) li"
    unfolding concat.simps append_Nil2
    by (rule loads_vector) (use assms(1) in \<open>auto simp: signed_take_bit_int_eq_self signed_of_int\<close>)
  have v2: "loads (load_n LoadLocVar (nat (int (length lv)))) (concat (concat (map DumpLocVar lv))) lv"
    using loads_list [of lv LoadLocVar "\<lambda>v. concat (DumpLocVar v)" id] loads_locvar assms(2)
    by (simp add: concat_concat_map)
  have v3: "loads (load_n LoadString (nat (int (length uv)))) (concat (concat (map DumpString uv))) uv"
    using loads_list [of uv LoadString "\<lambda>v. concat (DumpString v)" id] loads_string assms(3)
    by (simp add: concat_concat_map)
  show ?thesis
    unfolding LoadDebug_def [abs_def] concat_append
    by (rule loads_bind [OF i [OF assms(4)]], rule loads_bind [OF v1],
        rule loads_bind [OF i [OF assms(5)]], rule loads_bind [OF v2],
        rule loads_bind [OF i [OF assms(6)]], rule loads_bind_last [OF v3]) simp
qed

text \<open>What a dumped prototype is loaded as: stripping drops the debug information, and the sources
  are then those the loader is given.\<close>

fun stripped :: "bool \<Rightarrow> string option \<Rightarrow> Proto \<Rightarrow> Proto" where
  "stripped strip p (Proto src ld lld nu np va ms code k ps li lv uv) =
     (let src' = (if strip then p else src)
      in Proto src' ld lld nu np va ms code k (map (stripped strip src') ps)
           (if strip then [] else li) (if strip then [] else lv) (if strip then [] else uv))"

text \<open>The prototypes whose parts fit the fields of a chunk, nested at most \<open>room\<close> deep.\<close>

fun dumpable :: "nat \<Rightarrow> bool \<Rightarrow> string option \<Rightarrow> Proto \<Rightarrow> bool" where
  "dumpable 0 strip p f \<longleftrightarrow> False"
| "dumpable (Suc room) strip p f \<longleftrightarrow>
     p_source f \<noteq> None \<and> string_ok (p_source f) \<and>
     0 \<le> linedefined f \<and> linedefined f < 2 ^ 31 \<and> 0 \<le> lastlinedefined f \<and> lastlinedefined f < 2 ^ 31 \<and>
     int (length (p_code f)) < 2 ^ 31 \<and> int (length (p_k f)) < 2 ^ 31 \<and>
     int (length (p_p f)) < 2 ^ 31 \<and> int (length (lineinfo f)) < 2 ^ 31 \<and>
     int (length (locvars f)) < 2 ^ 31 \<and> int (length (upvalues f)) < 2 ^ 31 \<and>
     (\<forall>v \<in> set (p_k f). constant_ok v) \<and> (\<forall>x \<in> set (lineinfo f). - (2 ^ 31) \<le> x \<and> x < 2 ^ 31) \<and>
     (\<forall>v \<in> set (locvars f). locvar_ok v) \<and> (\<forall>u \<in> set (upvalues f). string_ok u) \<and>
     luaG_checkcode (stripped strip p f) \<and>
     (\<forall>g \<in> set (p_p f). dumpable room strip (if strip then p else p_source f) g)"

lemma loads_function:
  assumes "dumpable room strip q f" and "q \<noteq> None" and "p = None \<or> strip \<or> p = q"
  shows "loads (LoadFunction room q) (concat (DumpFunction strip p f)) (stripped strip q f)"
  using assms
proof (induction room arbitrary: p q f)
  case (Suc room)
  obtain src ld lld nu np va ms code k ps li lv uv where
    f: "f = Proto src ld lld nu np va ms code k ps li lv uv" by (cases f)
  define src' where "src' = (if strip then q else src)"
  define li' lv' uv' where "li' = (if strip then [] else li)"
    and "lv' = (if strip then [] else lv)" and "uv' = (if strip then [] else uv)"
  note i = loads_int [OF of_nat_0_le_iff]
  have d: "src \<noteq> None" "string_ok src" "0 \<le> ld" "ld < 2 ^ 31" "0 \<le> lld" "lld < 2 ^ 31"
    "int (length code) < 2 ^ 31" "int (length k) < 2 ^ 31" "int (length ps) < 2 ^ 31"
    "\<forall>v \<in> set k. constant_ok v" "luaG_checkcode (stripped strip q f)"
    "\<forall>g \<in> set ps. dumpable room strip src' g"
    using Suc.prems(1) by (auto simp: f src'_def split: if_splits)
  have e: "(if strip then [] else lineinfo f) = li'" "(if strip then [] else locvars f) = lv'"
    "(if strip then [] else upvalues f) = uv'"
    by (simp_all add: f li'_def lv'_def uv'_def)
  have dbg: "loads LoadDebug (concat (DumpDebug strip f)) (li', lv', uv')"
    unfolding DumpDebug_def Let_def e
    by (rule loads_debug) (use Suc.prems(1) in \<open>auto simp: f li'_def lv'_def uv'_def\<close>)
  have s: "loads LoadString (concat (DumpString (if src = p \<or> strip then None else src)))
      (if src = p \<or> strip then None else src)"
    using d(2) by (intro loads_string) (simp add: string_ok_def)
  have src: "(if (if src = p \<or> strip then None else src) = None then q else
      (if src = p \<or> strip then None else src)) = src'"
    using d(1) Suc.prems(3) by (auto simp: src'_def)
  have ks: "loads (load_n LoadConstant (nat (int (length k)))) (concat (concat (map DumpConstant k))) k"
    using loads_list [of k LoadConstant "\<lambda>v. concat (DumpConstant v)" id] loads_constant d(10)
    by (simp add: concat_concat_map)
  have pss: "loads (load_n (LoadFunction room src') (nat (int (length ps))))
      (concat (concat (map (DumpFunction strip src) ps))) (map (stripped strip src') ps)"
    using loads_list [of ps "LoadFunction room src'" "\<lambda>g. concat (DumpFunction strip src g)"
        "stripped strip src'"] Suc.IH [where q = src' and p = src] d(1,12) Suc.prems(2)
    by (simp add: concat_concat_map src'_def)
  have chk: "stripped strip q f = Proto src' ld lld nu np va ms code k (map (stripped strip src') ps) li' lv' uv'"
    by (simp add: f src'_def li'_def lv'_def uv'_def)
  show ?case
    unfolding LoadFunction.simps DumpFunction.simps concat_append f Let_def
    apply (rule loads_bind [OF s])
    unfolding src
    apply (rule loads_bind [OF loads_int [OF d(3,4)]])
    apply (rule loads_bind [OF loads_int [OF d(5,6)]])
    apply (rule loads_bind [OF loads_byte])+
    apply (rule loads_bind [OF loads_code [OF d(7)]])
    apply (rule loads_bind [OF i [OF d(8)]])
    apply (rule loads_bind [OF ks])
    apply (rule loads_bind [OF i [OF d(9)]])
    apply (rule loads_bind [OF pss])
    unfolding f [symmetric]
    apply (rule loads_bind_last [OF dbg])
    using d(11) unfolding chk apply simp
    done
qed simp

section \<open>Whole chunks\<close>

lemma loads_undump:
  assumes "dumpable (LUAI_MAXCCALLS - n) strip (Some ''=?'') f"
  shows "loads (luaU_undump n) (concat (dump_blocks strip f)) (stripped strip (Some ''=?'') f)"
proof -
  have "loads LoadHeader luaU_header ()"
    unfolding LoadHeader_def [abs_def]
    by (rule loads_bind_last [OF loads_block]) (simp_all add: luaU_header_def)
  then have h: "loads LoadHeader (concat [luaU_header]) ()" by simp
  show ?thesis
    unfolding luaU_undump_def [abs_def] dump_blocks_def concat_append
    by (rule loads_bind [OF h loads_function]) (use assms in auto)
qed

lemma stream_init: "\<forall>b \<in> set bs. b \<noteq> [] \<Longrightarrow> stream (luaZ_init bs) = concat bs"
  by (simp add: stream_def luaZ_init_def takeWhile_eq_all_conv [THEN iffD2])

lemma run_writer_append: "run_writer (\<lambda>b out. (0, out @ b)) bs 0 out = (0, out @ concat bs)"
  by (induction bs arbitrary: out) auto

text \<open>C18: a dumped function loads back: reading what a writer collected, cut into blocks in any way,
  gives the same prototype (with the debug information dropped when it was stripped) and
  leaves what follows the chunk; every proper beginning of the chunk is rejected with
  \<^verbatim>\<open>unexpected end\<close>.\<close>

theorem undump_dump:
  assumes "dumpable (LUAI_MAXCCALLS - n) strip (Some ''=?'') f"
    and "luaU_dump (\<lambda>b out. (0, out @ b)) strip f [] = (0, chunk)"
    and "\<forall>b \<in> set bs. b \<noteq> []"
  shows "(concat bs = chunk @ rest \<longrightarrow>
      (\<exists>z. luaU_undump n (luaZ_init bs) = Inr (stripped strip (Some ''=?'') f, z) \<and> stream z = rest)) \<and>
    (u \<noteq> [] \<and> concat bs @ u = chunk \<longrightarrow> luaU_undump n (luaZ_init bs) = Inl Unexpected_end)"
proof -
  have c: "chunk = concat (dump_blocks strip f)"
    using assms(2) by (simp add: luaU_dump_def run_writer_append)
  have w: "\<not> z_wrapped (luaZ_init bs)" by (simp add: luaZ_init_def)
  show ?thesis
    using loads_undump [OF assms(1)] w stream_init [OF assms(3)]
    unfolding loads_def c by (metis (no_types, lifting))
qed

lemma stripped_id: "stripped False p f = f"
  by (induction f arbitrary: p) (simp add: map_idI)

text \<open>The chunk of the example function, in two blocks.\<close>

definition demo_chunk :: string where
  "demo_chunk = concat (dump_blocks False demo_proto)"

theorem undump_dump_witness:
  "\<exists>z. luaU_undump 0 (luaZ_init [take 5 demo_chunk, drop 5 demo_chunk]) = Inr (demo_proto, z)"
proof -
  have "luaG_checkcode demo_proto" by code_simp
  then have "dumpable (Suc 199) False (Some ''=?'') demo_proto"
    unfolding dumpable.simps(2) stripped_id by (simp add: demo_proto_def string_ok_def)
  moreover have "Suc 199 = LUAI_MAXCCALLS - 0" by (simp add: LUAI_MAXCCALLS_def)
  ultimately have "dumpable (LUAI_MAXCCALLS - 0) False (Some ''=?'') demo_proto" by simp
  moreover have "luaU_dump (\<lambda>b out. (0, out @ b)) False demo_proto [] = (0, demo_chunk)"
    by (simp add: luaU_dump_def run_writer_append demo_chunk_def)
  moreover have "12 \<le> length demo_chunk"
    by (simp add: demo_chunk_def dump_blocks_def luaU_header_def)
  then have "\<forall>b \<in> set [take 5 demo_chunk, drop 5 demo_chunk]. b \<noteq> []" by auto
  ultimately show ?thesis
    using undump_dump [of 0 False demo_proto demo_chunk "[take 5 demo_chunk, drop 5 demo_chunk]" "[]"]
    by (auto simp: stripped_id)
qed

end
