(* ===== verification/Lua_String.thy ===== *)
theory Lua_String
  imports Lua_Object
begin

text \<open>
  The string table (\<^verbatim>\<open>lua5.1/src/lstring.c\<close>): every string of the scripting language is interned
  in a hash table of chains, so that equality of strings is equality of addresses.
\<close>

text \<open>
  A string object.  Its colours are reduced to what the table asks of them: whether the
  collector has found it dead in its current cycle.
\<close>

record tstring =
  ts_text :: string
  ts_hash :: "32 word"
  ts_dead :: bool
  ts_reserved :: nat

text \<open>
  The table: the chain of each slot as the list of its addresses, and the heap of string
  objects.  An allocation takes the next unused address; it is assumed to succeed.
  \<open>st_sweeping\<close>: the collector is sweeping the table.
\<close>

record strtab =
  st_hash :: "nat list list"
  st_nuse :: nat
  st_heap :: "nat \<Rightarrow> tstring option"
  st_next :: nat
  st_sweeping :: bool

definition st_size :: "strtab \<Rightarrow> nat" where "st_size t = length (st_hash t)"

definition MAX_INT :: nat where "MAX_INT = 2 ^ 31 - 3"

text \<open>The modulus by a power of two.\<close>

definition lmod :: "32 word \<Rightarrow> nat \<Rightarrow> nat" where
  "lmod h n = unat (h AND (word_of_nat n - 1))"

definition hash_of :: "strtab \<Rightarrow> nat \<Rightarrow> 32 word" where
  "hash_of t p = (case st_heap t p of None \<Rightarrow> 0 | Some s \<Rightarrow> ts_hash s)"

definition chain_at :: "(nat \<Rightarrow> 32 word) \<Rightarrow> nat \<Rightarrow> nat \<Rightarrow> nat list list \<Rightarrow> nat list list" where
  "chain_at h n p bs = (let i = lmod (h p) n in bs[i := p # bs ! i])"

definition luaS_resize :: "nat \<Rightarrow> strtab \<Rightarrow> strtab" where
  "luaS_resize newsize t =
     (if st_sweeping t then t
      else t\<lparr>st_hash := fold (chain_at (hash_of t) newsize) (concat (st_hash t))
                           (replicate newsize [])\<rparr>)"

definition newlstr :: "string \<Rightarrow> 32 word \<Rightarrow> strtab \<Rightarrow> nat \<times> strtab" where
  "newlstr str h t =
     (let p = st_next t;
          ts = \<lparr>ts_text = str, ts_hash = h, ts_dead = False, ts_reserved = 0\<rparr>;
          i = lmod h (st_size t);
          t1 = t\<lparr>st_next := p + 1, st_heap := (st_heap t)(p \<mapsto> ts),
                 st_hash := (st_hash t)[i := p # st_hash t ! i], st_nuse := st_nuse t + 1\<rparr>
      in (p, if st_nuse t1 > st_size t1 \<and> st_size t1 \<le> MAX_INT div 2
             then luaS_resize (st_size t1 * 2) t1 else t1))"

text \<open>The hash of a string: from the end, in steps that grow with the length.\<close>

function hash_loop :: "string \<Rightarrow> nat \<Rightarrow> nat \<Rightarrow> 32 word \<Rightarrow> 32 word" where
  "hash_loop str step l1 h =
     (if l1 \<ge> step \<and> step \<noteq> 0
      then hash_loop str step (l1 - step)
             (h XOR (push_bit 5 h + drop_bit 2 h + word_of_nat (of_char (str ! (l1 - 1)))))
      else h)"
  by pat_completeness auto
termination by (relation "measure (\<lambda>(_, _, l1, _). l1)") auto

declare hash_loop.simps [simp del]

definition luaS_hash :: "string \<Rightarrow> 32 word" where
  "luaS_hash str =
     (let l = length str in hash_loop str (drop_bit 5 l + 1) l (word_of_nat l))"

fun find_in_chain :: "strtab \<Rightarrow> string \<Rightarrow> nat list \<Rightarrow> nat option" where
  "find_in_chain t str [] = None"
| "find_in_chain t str (p # ps) =
     (case st_heap t p of
        Some s \<Rightarrow> if ts_text s = str then Some p else find_in_chain t str ps
      | None \<Rightarrow> find_in_chain t str ps)"

text \<open>A dead string that is asked for again is revived.\<close>

definition revive :: "nat \<Rightarrow> strtab \<Rightarrow> strtab" where
  "revive p t =
     (case st_heap t p of
        None \<Rightarrow> t
      | Some s \<Rightarrow> if ts_dead s then t\<lparr>st_heap := (st_heap t)(p \<mapsto> s\<lparr>ts_dead := False\<rparr>)\<rparr> else t)"

definition luaS_newlstr :: "string \<Rightarrow> strtab \<Rightarrow> nat \<times> strtab" where
  "luaS_newlstr str t =
     (let h = luaS_hash str
      in case find_in_chain t str (st_hash t ! lmod h (st_size t)) of
           Some p \<Rightarrow> (p, revive p t)
         | None \<Rightarrow> newlstr str h t)"

section \<open>The invariant\<close>

definition interned :: "strtab \<Rightarrow> nat \<Rightarrow> string \<Rightarrow> bool" where
  "interned t p s \<longleftrightarrow> p \<in> set (concat (st_hash t)) \<and>
     (\<exists>x. st_heap t p = Some x \<and> ts_text x = s)"

text \<open>
  The number of slots is a power of two; each string is in the chain of its hash, once, and
  no two strings have the same text.
\<close>

definition strtab_ok :: "strtab \<Rightarrow> bool" where
  "strtab_ok t \<longleftrightarrow>
     (\<exists>k \<le> 30. st_size t = 2 ^ k) \<and> distinct (concat (st_hash t)) \<and>
     st_nuse t = length (concat (st_hash t)) \<and>
     (\<forall>i < st_size t. \<forall>p \<in> set (st_hash t ! i). p < st_next t \<and>
        (\<exists>x. st_heap t p = Some x \<and> ts_hash x = luaS_hash (ts_text x) \<and> lmod (ts_hash x) (st_size t) = i)) \<and>
     (\<forall>p q s. interned t p s \<longrightarrow> interned t q s \<longrightarrow> p = q)"

end
