(* ===== verification/Lua_String_Facts.thy ===== *)
theory Lua_String_Facts
  imports Lua_String "HOL-Library.Multiset"
begin

text \<open>
  Interning keeps the string table well formed and makes equality of strings equality of
  addresses.
\<close>

section \<open>Slots\<close>

lemma lmod_power: "k \<le> 31 \<Longrightarrow> lmod h (2 ^ k) = unat h mod 2 ^ k"
proof -
  assume k: "k \<le> 31"
  have "(word_of_nat (2 ^ k) - 1 :: 32 word) = mask k"
    by (simp add: mask_eq_exp_minus_1)
  then have "lmod h (2 ^ k) = unat (take_bit k h)"
    by (simp add: lmod_def take_bit_eq_mask)
  also have "\<dots> = take_bit k (unat h)"
    by (simp add: unsigned_take_bit_eq)
  finally show ?thesis by (simp add: take_bit_eq_mod)
qed

lemma lmod_less: "k \<le> 31 \<Longrightarrow> lmod h (2 ^ k) < 2 ^ k"
  by (simp add: lmod_power)

lemma mset_concat_update:
  "i < length bs \<Longrightarrow> mset (concat (bs[i := x # bs ! i])) = add_mset x (mset (concat bs))"
  by (induction bs arbitrary: i) (auto split: nat.splits)

lemma chain_at_length [simp]: "length (chain_at h n p bs) = length bs"
  by (simp add: chain_at_def Let_def)

lemma fold_chain_length [simp]: "length (fold (chain_at h n) ps bs) = length bs"
  by (induction ps arbitrary: bs) auto

lemma fold_chain_mset:
  assumes "\<And>p. lmod (h p) n < length bs"
  shows "mset (concat (fold (chain_at h n) ps bs)) = mset ps + mset (concat bs)"
  using assms
proof (induction ps arbitrary: bs)
  case (Cons p ps)
  then show ?case by (simp add: chain_at_def Let_def mset_concat_update)
qed simp

lemma fold_chain_slot:
  assumes "\<And>p. lmod (h p) n < length bs" and "i < length bs"
  shows "set (fold (chain_at h n) ps bs ! i) = set (bs ! i) \<union> {p \<in> set ps. lmod (h p) n = i}"
  using assms
proof (induction ps arbitrary: bs)
  case (Cons p ps)
  have "set (fold (chain_at h n) ps (chain_at h n p bs) ! i) =
      set (chain_at h n p bs ! i) \<union> {p \<in> set ps. lmod (h p) n = i}"
    by (rule Cons.IH) (use Cons.prems in auto)
  moreover have "set (chain_at h n p bs ! i) = set (bs ! i) \<union> (if lmod (h p) n = i then {p} else {})"
    using Cons.prems by (auto simp: chain_at_def Let_def nth_list_update)
  ultimately show ?case by auto
qed simp

section \<open>Resizing\<close>

lemma strtab_obj:
  assumes "strtab_ok t" and "p \<in> set (concat (st_hash t))"
  shows "\<exists>x. st_heap t p = Some x \<and> ts_hash x = luaS_hash (ts_text x) \<and> p < st_next t \<and>
    p \<in> set (st_hash t ! lmod (ts_hash x) (st_size t))"
proof -
  from assms(2) obtain b where "b \<in> set (st_hash t)" "p \<in> set b" by auto
  then obtain i where i: "i < st_size t" "p \<in> set (st_hash t ! i)"
    by (metis in_set_conv_nth st_size_def)
  with assms(1) have "p < st_next t \<and>
      (\<exists>x. st_heap t p = Some x \<and> ts_hash x = luaS_hash (ts_text x) \<and> lmod (ts_hash x) (st_size t) = i)"
    unfolding strtab_ok_def by blast
  with i(2) show ?thesis by auto
qed

lemma concat_replicate_Nil [simp]: "concat (replicate n []) = []"
  by (induction n) auto

lemma resize_keeps:
  assumes "strtab_ok t" and "k \<le> 30"
  shows "strtab_ok (luaS_resize (2 ^ k) t)"
    "interned (luaS_resize (2 ^ k) t) = interned t"
    "st_next (luaS_resize (2 ^ k) t) = st_next t" "st_heap (luaS_resize (2 ^ k) t) = st_heap t"
proof -
  define t' where "t' = luaS_resize (2 ^ k) t"
  show "st_next (luaS_resize (2 ^ k) t) = st_next t" "st_heap (luaS_resize (2 ^ k) t) = st_heap t"
    by (simp_all add: luaS_resize_def)
  have h: "st_heap t' = st_heap t" "st_next t' = st_next t" "st_nuse t' = st_nuse t"
    by (simp_all add: t'_def luaS_resize_def)
  show "interned (luaS_resize (2 ^ k) t) = interned t" and "strtab_ok (luaS_resize (2 ^ k) t)"
  proof (atomize (full), cases "st_sweeping t")
    case True
    then have "luaS_resize (2 ^ k) t = t" by (simp add: luaS_resize_def)
    with assms(1) show "interned (luaS_resize (2 ^ k) t) = interned t \<and> strtab_ok (luaS_resize (2 ^ k) t)"
      by simp
  next
    case False
    let ?bs = "replicate (2 ^ k) [] :: nat list list"
    have lm: "lmod (hash_of t p) (2 ^ k) < length ?bs" for p using assms(2) lmod_less by simp
    have st: "st_hash t' = fold (chain_at (hash_of t) (2 ^ k)) (concat (st_hash t)) ?bs"
      using False by (simp add: t'_def luaS_resize_def)
    have ms: "mset (concat (st_hash t')) = mset (concat (st_hash t))"
      unfolding st by (subst fold_chain_mset) (use lm in auto)
    then have se: "set (concat (st_hash t')) = set (concat (st_hash t))" by (rule mset_eq_setD)
    then have int: "interned t' = interned t" by (simp add: fun_eq_iff interned_def h)
    have sz: "st_size t' = 2 ^ k" by (simp add: st_size_def st)
    have slot: "set (st_hash t' ! i) = {p \<in> set (concat (st_hash t)). lmod (hash_of t p) (2 ^ k) = i}"
      if "i < 2 ^ k" for i
      unfolding st by (subst fold_chain_slot) (use lm that in auto)
    have obj: "\<exists>x. st_heap t p = Some x \<and> ts_hash x = luaS_hash (ts_text x) \<and> p < st_next t"
      if "p \<in> set (concat (st_hash t))" for p
      using strtab_obj [OF assms(1) that] by auto
    have "strtab_ok t'"
      unfolding strtab_ok_def
    proof (intro conjI)
      show "\<exists>k \<le> 30. st_size t' = 2 ^ k" using assms(2) sz by blast
      show "distinct (concat (st_hash t'))"
        using ms assms(1) by (metis mset_eq_imp_distinct_iff strtab_ok_def)
      show "st_nuse t' = length (concat (st_hash t'))"
        using ms assms(1) h(3) by (metis size_mset strtab_ok_def)
      show "\<forall>p q s. interned t' p s \<longrightarrow> interned t' q s \<longrightarrow> p = q"
        using assms(1) unfolding int strtab_ok_def by blast
      show "\<forall>i < st_size t'. \<forall>p \<in> set (st_hash t' ! i). p < st_next t' \<and>
          (\<exists>x. st_heap t' p = Some x \<and> ts_hash x = luaS_hash (ts_text x) \<and> lmod (ts_hash x) (st_size t') = i)"
        using slot obj unfolding sz h by (fastforce simp: hash_of_def)
    qed
    with int show "interned (luaS_resize (2 ^ k) t) = interned t \<and> strtab_ok (luaS_resize (2 ^ k) t)"
      by (simp add: t'_def)
  qed
qed

section \<open>Interning\<close>

lemma find_in_chain_Some: "find_in_chain t s ps = Some p \<Longrightarrow>
    p \<in> set ps \<and> (\<exists>x. st_heap t p = Some x \<and> ts_text x = s)"
  by (induction ps) (auto split: option.splits if_splits)

lemma find_in_chain_None: "find_in_chain t s ps = None \<Longrightarrow> p \<in> set ps \<Longrightarrow> st_heap t p = Some x \<Longrightarrow>
    ts_text x \<noteq> s"
  by (induction ps) (auto split: option.splits if_splits)

lemma revive_facts:
  assumes "strtab_ok t"
  shows "strtab_ok (revive p t)" "interned (revive p t) = interned t"
proof -
  have e: "st_hash (revive p t) = st_hash t" "st_nuse (revive p t) = st_nuse t"
    "st_next (revive p t) = st_next t" "st_size (revive p t) = st_size t"
    by (auto simp: revive_def st_size_def split: option.splits)
  have o: "map_option (\<lambda>x. (ts_text x, ts_hash x)) (st_heap (revive p t) q) =
      map_option (\<lambda>x. (ts_text x, ts_hash x)) (st_heap t q)" for q
    by (auto simp: revive_def split: option.splits)
  have x: "(\<exists>x. st_heap (revive p t) q = Some x \<and> P (ts_text x) (ts_hash x)) \<longleftrightarrow>
      (\<exists>x. st_heap t q = Some x \<and> P (ts_text x) (ts_hash x))" for P q
    by (auto simp: revive_def split: option.splits)
  show i: "interned (revive p t) = interned t"
    using x [where P = "\<lambda>a b. a = _"] by (auto simp: fun_eq_iff interned_def e)
  show "strtab_ok (revive p t)"
    using assms x [where P = "\<lambda>a b. b = luaS_hash a \<and> lmod b (st_size t) = _"]
    unfolding strtab_ok_def e i by blast
qed

text \<open>Adding a string that is not in the table.\<close>

lemma newlstr_facts:
  assumes ok: "strtab_ok t" and new: "\<And>q. \<not> interned t q s" and r: "newlstr s (luaS_hash s) t = (p, t')"
  shows "strtab_ok t'" "interned t' q u \<longleftrightarrow> interned t q u \<or> q = p \<and> u = s"
proof -
  define i where "i = lmod (luaS_hash s) (st_size t)"
  define x where "x = \<lparr>ts_text = s, ts_hash = luaS_hash s, ts_dead = False, ts_reserved = 0\<rparr>"
  define t1 where "t1 = t\<lparr>st_next := st_next t + 1, st_heap := (st_heap t)(st_next t \<mapsto> x),
    st_hash := (st_hash t)[i := st_next t # st_hash t ! i], st_nuse := st_nuse t + 1\<rparr>"
  have p: "p = st_next t" and t': "t' = (if st_nuse t1 > st_size t1 \<and> st_size t1 \<le> MAX_INT div 2
      then luaS_resize (st_size t1 * 2) t1 else t1)"
    using r unfolding newlstr_def Let_def t1_def x_def i_def by (auto simp del: One_nat_def)
  from ok obtain k where k: "k \<le> 30" "st_size t = 2 ^ k" by (auto simp: strtab_ok_def)
  have i: "i < length (st_hash t)" using k lmod_less [of k] by (simp add: i_def st_size_def)
  have f: "st_size t1 = st_size t" "st_nuse t1 = st_nuse t + 1" "st_next t1 = st_next t + 1"
    "st_heap t1 = (st_heap t)(p \<mapsto> x)" "st_hash t1 = (st_hash t)[i := p # st_hash t ! i]"
    by (simp_all add: t1_def st_size_def p)
  have ms: "mset (concat (st_hash t1)) = add_mset p (mset (concat (st_hash t)))"
    unfolding f(5) by (rule mset_concat_update [OF i])
  then have se: "set (concat (st_hash t1)) = insert p (set (concat (st_hash t)))"
    by (metis set_mset_add_mset_insert set_mset_mset)
  have fresh: "p \<notin> set (concat (st_hash t))" using strtab_obj [OF ok, of p] p by auto
  have int: "interned t1 q u \<longleftrightarrow> interned t q u \<or> q = p \<and> u = s" for q u
    using fresh se f(4) by (auto simp: interned_def x_def)
  have ok1: "strtab_ok t1"
    unfolding strtab_ok_def
  proof (intro conjI)
    show "\<exists>k \<le> 30. st_size t1 = 2 ^ k" using k f(1) by auto
    have "distinct (p # concat (st_hash t))" using fresh ok by (simp add: strtab_ok_def)
    then show "distinct (concat (st_hash t1))"
      using ms by (metis mset.simps(2) mset_eq_imp_distinct_iff)
    show "st_nuse t1 = length (concat (st_hash t1))"
      using ms ok f(2) by (metis One_nat_def add.right_neutral add_Suc_right mset.simps(2) size_mset length_Cons strtab_ok_def)
    show "\<forall>p q s. interned t1 p s \<longrightarrow> interned t1 q s \<longrightarrow> p = q"
      using ok new unfolding int strtab_ok_def by blast
    show "\<forall>j < st_size t1. \<forall>q \<in> set (st_hash t1 ! j). q < st_next t1 \<and>
        (\<exists>x. st_heap t1 q = Some x \<and> ts_hash x = luaS_hash (ts_text x) \<and> lmod (ts_hash x) (st_size t1) = j)"
    proof (intro allI impI ballI)
      fix j q assume j: "j < st_size t1" and q: "q \<in> set (st_hash t1 ! j)"
      show "q < st_next t1 \<and> (\<exists>x. st_heap t1 q = Some x \<and> ts_hash x = luaS_hash (ts_text x) \<and>
          lmod (ts_hash x) (st_size t1) = j)"
      proof (cases "q = p")
        case True
        have "j = i"
        proof (rule ccontr)
          assume "j \<noteq> i"
          then have "p \<in> set (st_hash t ! j)" using q True by (simp add: f(5))
          with j f(1) fresh show False by (auto simp: st_size_def)
        qed
        with True show ?thesis by (simp add: f x_def i_def p)
      next
        case False
        then have "q \<in> set (st_hash t ! j)" using q i by (cases "j = i") (auto simp: f(5))
        with j f(1) ok have "q < st_next t \<and> (\<exists>x. st_heap t q = Some x \<and>
            ts_hash x = luaS_hash (ts_text x) \<and> lmod (ts_hash x) (st_size t) = j)"
          unfolding strtab_ok_def by metis
        with False show ?thesis by (auto simp: f)
      qed
    qed
  qed
  show "strtab_ok t'" and "interned t' q u \<longleftrightarrow> interned t q u \<or> q = p \<and> u = s"
  proof (atomize (full), cases "st_nuse t1 > st_size t1 \<and> st_size t1 \<le> MAX_INT div 2")
    case True
    then have "(2::nat) ^ k \<le> MAX_INT div 2" using k f(1) by simp
    then have "(2::nat) ^ k < 2 ^ 30" by (simp add: MAX_INT_def)
    then have "Suc k \<le> 30" by (metis Suc_leI power_less_imp_less_exp one_less_numeral_iff semiring_norm(76))
    from resize_keeps [OF ok1 this] True t' k f(1) int
    show "strtab_ok t' \<and> interned t' q u = (interned t q u \<or> q = p \<and> u = s)"
      by (simp add: mult.commute)
  next
    case False
    with ok1 int t' show "strtab_ok t' \<and> interned t' q u = (interned t q u \<or> q = p \<and> u = s)" by auto
  qed
qed

lemma luaS_newlstr_facts:
  assumes ok: "strtab_ok t" and r: "luaS_newlstr s t = (p, t')"
  shows "strtab_ok t'" "interned t' q u \<longleftrightarrow> interned t q u \<or> q = p \<and> u = s"
proof -
  define i where "i = lmod (luaS_hash s) (st_size t)"
  from ok obtain k where k: "k \<le> 30" "st_size t = 2 ^ k" by (auto simp: strtab_ok_def)
  have i: "i < length (st_hash t)" using k lmod_less [of k] by (simp add: i_def st_size_def)
  have "strtab_ok t' \<and> (interned t' q u \<longleftrightarrow> interned t q u \<or> q = p \<and> u = s)"
  proof (cases "find_in_chain t s (st_hash t ! i)")
    case (Some p')
    then have p: "p' = p" "t' = revive p t" using r by (auto simp: luaS_newlstr_def Let_def i_def)
    from find_in_chain_Some [OF Some] p i have "interned t p s" by (auto simp: interned_def)
    with revive_facts [OF ok, of p] p show ?thesis by auto
  next
    case None
    have "\<not> interned t q s" for q
    proof
      assume "interned t q s"
      then obtain x where x: "q \<in> set (concat (st_hash t))" "st_heap t q = Some x" "ts_text x = s"
        by (auto simp: interned_def)
      with strtab_obj [OF ok x(1)] have "q \<in> set (st_hash t ! i)" by (auto simp: i_def)
      from find_in_chain_None [OF None this x(2)] x(3) show False by simp
    qed
    moreover have "newlstr s (luaS_hash s) t = (p, t')"
      using None r by (simp add: luaS_newlstr_def Let_def i_def)
    ultimately show ?thesis using newlstr_facts [OF ok] by blast
  qed
  then show "strtab_ok t'" "interned t' q u \<longleftrightarrow> interned t q u \<or> q = p \<and> u = s" by auto
qed

section \<open>The contract of an interner\<close>

fun intern_all :: "('s \<Rightarrow> 't \<Rightarrow> 'a \<times> 't) \<Rightarrow> 's list \<Rightarrow> 't \<Rightarrow> 'a list \<times> 't" where
  "intern_all f [] t = ([], t)"
| "intern_all f (s # ss) t =
     (let (p, t1) = f s t; (ps, t2) = intern_all f ss t1 in (p # ps, t2))"

locale interner =
  fixes ok :: "'t \<Rightarrow> bool" and holds :: "'t \<Rightarrow> 'a \<Rightarrow> 's \<Rightarrow> bool" and intern :: "'s \<Rightarrow> 't \<Rightarrow> 'a \<times> 't"
  assumes keeps: "ok t \<Longrightarrow> intern s t = (p, t') \<Longrightarrow> ok t'"
    and adds: "ok t \<Longrightarrow> intern s t = (p, t') \<Longrightarrow> holds t' q u \<longleftrightarrow> holds t q u \<or> q = p \<and> u = s"
    and unique: "ok t \<Longrightarrow> holds t p s \<Longrightarrow> holds t q s \<Longrightarrow> p = q"
    and one_text: "holds t p s \<Longrightarrow> holds t p u \<Longrightarrow> s = u"
begin

lemma intern_all_holds:
  "ok t \<Longrightarrow> intern_all intern ss t = (ps, t') \<Longrightarrow> ok t' \<and> length ps = length ss \<and>
     (\<forall>q u. holds t q u \<longrightarrow> holds t' q u) \<and> (\<forall>i < length ss. holds t' (ps ! i) (ss ! i))"
proof (induction ss arbitrary: t ps)
  case (Cons s ss)
  obtain p t1 qs where r: "intern s t = (p, t1)" "intern_all intern ss t1 = (qs, t')" "ps = p # qs"
    using Cons.prems(2) by (auto split: prod.splits)
  note ok1 = keeps [OF Cons.prems(1) r(1)] and ad = adds [OF Cons.prems(1) r(1)]
  from Cons.IH [OF ok1 r(2)] ad show ?case by (auto simp: r(3) nth_Cons split: nat.splits)
qed simp

text \<open>Addresses are equal exactly where the texts are.\<close>

lemma same_address_iff:
  assumes "ok t" and "intern_all intern ss t = (ps, t')" and "i < length ss" and "j < length ss"
  shows "ps ! i = ps ! j \<longleftrightarrow> ss ! i = ss ! j"
  using intern_all_holds [OF assms(1,2)] assms(3,4) unique one_text by metis

end

interpretation strings: interner strtab_ok interned luaS_newlstr
proof
  fix t s p t' q u
  assume a: "strtab_ok t" "luaS_newlstr s t = (p, t')"
  show "strtab_ok t'" "interned t' q u \<longleftrightarrow> interned t q u \<or> q = p \<and> u = s"
    by (rule luaS_newlstr_facts [OF a])+
next
  fix t p s q
  assume "strtab_ok t" "interned t p s" "interned t q s"
  then show "p = q" unfolding strtab_ok_def by blast
next
  fix t p s u
  assume "interned t p s" "interned t p u"
  then show "s = u" by (auto simp: interned_def)
qed

section \<open>Properties\<close>

text \<open>C23: strings are interned: whatever strings are created, in any order and with any resizing of
  the table, two of them are the same object exactly when they have the same text, every
  one stays in the table with its text, and the table stays well formed.\<close>

theorem interning_is_injective:
  assumes "strtab_ok t" and "intern_all luaS_newlstr ss t = (ps, t')" and "i < length ss" and "j < length ss"
  shows "(ps ! i = ps ! j \<longleftrightarrow> ss ! i = ss ! j) \<and> interned t' (ps ! i) (ss ! i) \<and> strtab_ok t'"
  using strings.same_address_iff [OF assms] strings.intern_all_holds [OF assms(1,2)] assms(3) by blast

definition new_strtab :: strtab where
  "new_strtab = \<lparr>st_hash = [[], []], st_nuse = 0, st_heap = Map.empty, st_next = 1, st_sweeping = False\<rparr>"

lemma new_strtab_ok: "strtab_ok new_strtab"
  unfolding strtab_ok_def
  by (auto simp: new_strtab_def st_size_def interned_def less_Suc_eq intro: exI [of _ 1])

theorem interning_is_injective_witness:
  "\<exists>ps t'. intern_all luaS_newlstr [''a'', ''b'', ''a'', ''c''] new_strtab = (ps, t') \<and>
     ps ! 0 = ps ! 2 \<and> ps ! 0 \<noteq> ps ! 1 \<and> interned t' (ps ! 2) ''a''"
proof -
  obtain ps t' where r: "intern_all luaS_newlstr [''a'', ''b'', ''a'', ''c''] new_strtab = (ps, t')"
    by fastforce
  from interning_is_injective [OF new_strtab_ok r, of 0 2]
    interning_is_injective [OF new_strtab_ok r, of 0 1]
    interning_is_injective [OF new_strtab_ok r, of 2 2]
  have "ps ! 0 = ps ! 2 \<and> ps ! 0 \<noteq> ps ! 1 \<and> interned t' (ps ! 2) ''a''" by simp
  with r show ?thesis by blast
qed

end
