(* ===== verification/Lua_Table.thy ===== *)
theory Lua_Table
  imports Lua_String
begin

text \<open>
  Tables (\<^verbatim>\<open>lua5.1/src/ltable.c\<close>): an array part and a hash part of nodes chained through free
  places, where a key that collides with one out of its own place moves it away.  A pointer into a
  table is a slot; the collector, which alone makes dead keys, is not modelled.
\<close>

section \<open>State\<close>

definition MAXBITS :: nat where "MAXBITS = 26"

definition MAXASIZE :: nat where "MAXASIZE = 2 ^ MAXBITS"

record node =
  n_val :: TValue
  n_key :: TValue
  n_next :: "nat option"

text \<open>
  \<open>lt_dummy\<close>: the hash part is the shared node \<^verbatim>\<open>dummynode\<close>.  The last free position is the index
  it points to; one step before the first node is \<open>-1\<close>.
\<close>

record ltable =
  lt_flags :: nat
  lt_metatable :: "32 word option"
  lt_array :: "TValue list"
  lt_node :: "node list"
  lt_dummy :: bool
  lt_lastfree :: int

abbreviation sizearray :: "ltable \<Rightarrow> nat" where "sizearray t \<equiv> length (lt_array t)"

abbreviation sizenode :: "ltable \<Rightarrow> nat" where "sizenode t \<equiv> length (lt_node t)"

definition empty_node :: node where
  "empty_node = \<lparr>n_val = NilV, n_key = NilV, n_next = None\<rparr>"

datatype slot = Array_slot nat | Node_slot nat

text \<open>An error of the language, or a walk that does not come to its end.\<close>

datatype table_fault = Index_is_nil | Index_is_NaN | Table_overflow | Invalid_key_to_next | Stuck

fun slot_value :: "ltable \<Rightarrow> slot \<Rightarrow> TValue" where
  "slot_value t (Array_slot i) = lt_array t ! i"
| "slot_value t (Node_slot i) = n_val (lt_node t ! i)"

fun slot_store :: "slot \<Rightarrow> TValue \<Rightarrow> ltable \<Rightarrow> ltable" where
  "slot_store (Array_slot i) v t = t\<lparr>lt_array := (lt_array t)[i := v]\<rparr>"
| "slot_store (Node_slot i) v t = t\<lparr>lt_node := (lt_node t)[i := (lt_node t ! i)\<lparr>n_val := v\<rparr>]\<rparr>"

section \<open>Main positions\<close>

definition hashmod :: "nat \<Rightarrow> 32 word \<Rightarrow> nat" where
  "hashmod sz n = unat n mod nat ((int sz - 1) OR 1)"

definition hashnum :: "nat \<Rightarrow> lua_Number \<Rightarrow> nat" where
  "hashnum sz n =
     (if luai_numeq n (cast_num 0) then 0 else hashmod sz (ucast n + ucast (drop_bit 32 n)))"

fun mainposition :: "nat \<Rightarrow> TValue \<Rightarrow> nat" where
  "mainposition sz (NumV n) = hashnum sz n"
| "mainposition sz (StrV s) = lmod (luaS_hash s) sz"
| "mainposition sz (BoolV b) = lmod (if b then 1 else 0) sz"
| "mainposition sz (LightV p) = hashmod sz p"
| "mainposition sz (ObjV ty p) = hashmod sz p"
| "mainposition sz (DeadKey v) = mainposition sz v"
| "mainposition sz NilV = 0"

text \<open>
  The conversion to an integer may round any way and the result is compared with the number, so
  that it counts only for a number that is an integer.
\<close>

fun arrayindex :: "TValue \<Rightarrow> int" where
  "arrayindex (NumV n) = (case dbl_to_int n of Some k \<Rightarrow> k | None \<Rightarrow> -1)"
| "arrayindex _ = -1"

section \<open>Search\<close>

text \<open>The walk along a chain; a chain has no more nodes than the table.\<close>

fun walk :: "(TValue \<Rightarrow> bool) \<Rightarrow> node list \<Rightarrow> nat \<Rightarrow> nat \<Rightarrow> table_fault + nat option" where
  "walk p ns 0 i = Inl Stuck"
| "walk p ns (Suc f) i =
     (if p (n_key (ns ! i)) then Inr (Some i)
      else case n_next (ns ! i) of None \<Rightarrow> Inr None | Some j \<Rightarrow> walk p ns f j)"

definition search :: "(TValue \<Rightarrow> bool) \<Rightarrow> ltable \<Rightarrow> nat \<Rightarrow> table_fault + slot option" where
  "search p t i = bnd (walk p (lt_node t) (sizenode t) i) (\<lambda>r. Inr (map_option Node_slot r))"

definition luaH_getnum :: "ltable \<Rightarrow> int \<Rightarrow> table_fault + slot option" where
  "luaH_getnum t k =
     (if 1 \<le> k \<and> k \<le> int (sizearray t) then Inr (Some (Array_slot (nat (k - 1))))
      else search (\<lambda>x. case x of NumV m \<Rightarrow> luai_numeq m (cast_num k) | _ \<Rightarrow> False) t
             (hashnum (sizenode t) (cast_num k)))"

definition luaH_getstr :: "ltable \<Rightarrow> string \<Rightarrow> table_fault + slot option" where
  "luaH_getstr t s = search (\<lambda>x. x = StrV s) t (lmod (luaS_hash s) (sizenode t))"

definition get_generic :: "ltable \<Rightarrow> TValue \<Rightarrow> table_fault + slot option" where
  "get_generic t key = search (\<lambda>x. luaO_rawequalObj x key) t (mainposition (sizenode t) key)"

definition luaH_get :: "ltable \<Rightarrow> TValue \<Rightarrow> table_fault + slot option" where
  "luaH_get t key = (case key of
     NilV \<Rightarrow> Inr None
   | StrV s \<Rightarrow> luaH_getstr t s
   | NumV n \<Rightarrow> (case dbl_to_int n of Some k \<Rightarrow> luaH_getnum t k | None \<Rightarrow> get_generic t key)
   | _ \<Rightarrow> get_generic t key)"

section \<open>New keys\<close>

fun free_below :: "node list \<Rightarrow> nat \<Rightarrow> nat option" where
  "free_below ns 0 = None"
| "free_below ns (Suc i) = (if ttisnil (n_key (ns ! i)) then Some i else free_below ns i)"

definition getfreepos :: "ltable \<Rightarrow> nat option \<times> ltable" where
  "getfreepos t = (case free_below (lt_node t) (nat (lt_lastfree t)) of
     Some i \<Rightarrow> (Some i, t\<lparr>lt_lastfree := int i\<rparr>)
   | None \<Rightarrow> (None, t\<lparr>lt_lastfree := min (lt_lastfree t) 0 - 1\<rparr>))"

text \<open>The node before \<open>mp\<close> on the chain from \<open>i\<close>.\<close>

fun find_previous :: "node list \<Rightarrow> nat \<Rightarrow> nat \<Rightarrow> nat \<Rightarrow> table_fault + nat" where
  "find_previous ns mp 0 i = Inl Stuck"
| "find_previous ns mp (Suc f) i =
     (if n_next (ns ! i) = Some mp then Inr i
      else case n_next (ns ! i) of None \<Rightarrow> Inl Stuck | Some j \<Rightarrow> find_previous ns mp f j)"

definition move_colliding :: "nat \<Rightarrow> nat \<Rightarrow> nat \<Rightarrow> node list \<Rightarrow> table_fault + node list" where
  "move_colliding mp n othern ns =
     bnd (find_previous ns mp (length ns) othern) (\<lambda>p.
       let ns1 = ns[p := (ns ! p)\<lparr>n_next := Some n\<rparr>];
           ns2 = ns1[n := ns1 ! mp]
       in Inr (ns2[mp := (ns2 ! mp)\<lparr>n_next := None, n_val := NilV\<rparr>]))"

definition chain_new :: "nat \<Rightarrow> nat \<Rightarrow> node list \<Rightarrow> node list" where
  "chain_new mp n ns =
     (let ns1 = ns[n := (ns ! n)\<lparr>n_next := n_next (ns ! mp)\<rparr>]
      in ns1[mp := (ns1 ! mp)\<lparr>n_next := Some n\<rparr>])"

definition take_node :: "nat \<Rightarrow> TValue \<Rightarrow> ltable \<Rightarrow> slot \<times> ltable" where
  "take_node i key t = (Node_slot i, t\<lparr>lt_node := (lt_node t)[i := (lt_node t ! i)\<lparr>n_key := key\<rparr>]\<rparr>)"

text \<open>\<open>grow\<close> is what happens when no node is free.\<close>

definition newkey ::
  "(ltable \<Rightarrow> TValue \<Rightarrow> table_fault + slot \<times> ltable) \<Rightarrow> ltable \<Rightarrow> TValue \<Rightarrow> table_fault + slot \<times> ltable" where
  "newkey grow t key =
     (let mp = mainposition (sizenode t) key
      in if \<not> ttisnil (n_val (lt_node t ! mp)) \<or> lt_dummy t
         then (case getfreepos t of
             (None, t1) \<Rightarrow> grow t1 key
           | (Some n, t1) \<Rightarrow>
               (let othern = mainposition (sizenode t) (n_key (lt_node t ! mp))
                in if othern \<noteq> mp
                   then bnd (move_colliding mp n othern (lt_node t1)) (\<lambda>ns.
                     Inr (take_node mp key (t1\<lparr>lt_node := ns\<rparr>)))
                   else Inr (take_node n key (t1\<lparr>lt_node := chain_new mp n (lt_node t1)\<rparr>))))
         else Inr (take_node mp key t))"

section \<open>Counting\<close>

definition count_at :: "nat \<Rightarrow> nat \<Rightarrow> nat list \<Rightarrow> nat list" where
  "count_at i c nums = nums[i := nums ! i + c]"

definition countint :: "TValue \<Rightarrow> nat list \<Rightarrow> nat \<times> nat list" where
  "countint key nums =
     (let k = arrayindex key
      in if 0 < k \<and> k \<le> int MAXASIZE then (1, count_at (nat (ceillog2 (word_of_int k))) 1 nums)
         else (0, nums))"

text \<open>The slices up to the powers of two; \<open>i\<close> is the next index to count.\<close>

fun count_slices :: "TValue list \<Rightarrow> nat list \<Rightarrow> nat \<Rightarrow> nat list \<Rightarrow> nat \<Rightarrow> nat \<times> nat list" where
  "count_slices arr [] i nums ause = (ause, nums)"
| "count_slices arr (lg # lgs) i nums ause =
     (let lim = min (2 ^ lg) (length arr)
      in if length arr < 2 ^ lg \<and> lim < i then (ause, nums)
         else (let lc = length (filter (\<lambda>v. \<not> ttisnil v) (drop (i - 1) (take lim arr)))
               in count_slices arr lgs (max i (lim + 1)) (count_at lg lc nums) (ause + lc)))"

definition numusearray :: "ltable \<Rightarrow> nat list \<Rightarrow> nat \<times> nat list" where
  "numusearray t nums = count_slices (lt_array t) [0..<MAXBITS + 1] 1 nums 0"

text \<open>All elements, those that may live in the array, and the counts.\<close>

fun count_nodes :: "node list \<Rightarrow> nat list \<Rightarrow> nat \<times> nat \<times> nat list" where
  "count_nodes [] nums = (0, 0, nums)"
| "count_nodes (n # ns) nums =
     (if ttisnil (n_val n) then count_nodes ns nums
      else (case countint (n_key n) nums of (c, nums1) \<Rightarrow>
        (case count_nodes ns nums1 of (tot, ause, nums2) \<Rightarrow> (tot + 1, ause + c, nums2))))"

definition numusehash :: "ltable \<Rightarrow> nat list \<Rightarrow> nat \<times> nat \<times> nat list" where
  "numusehash t nums = count_nodes (rev (lt_node t)) nums"

text \<open>The sz of the array and the number of its elements; \<open>a\<close> counts those below the power of two.\<close>

fun compute_loop :: "nat list \<Rightarrow> nat \<Rightarrow> nat \<Rightarrow> nat \<Rightarrow> nat \<Rightarrow> nat \<Rightarrow> nat \<times> nat" where
  "compute_loop [] twotoi a na n narray = (n, na)"
| "compute_loop (c # cs) twotoi a na n narray =
     (if twotoi div 2 < narray
      then (let a1 = a + c;
                r = (if 0 < c \<and> twotoi div 2 < a1 then (twotoi, a1) else (n, na))
            in if a1 = narray then r else compute_loop cs (2 * twotoi) a1 (snd r) (fst r) narray)
      else (n, na))"

definition computesizes :: "nat list \<Rightarrow> nat \<Rightarrow> nat \<times> nat" where
  "computesizes nums narray = compute_loop nums 1 0 0 0 narray"

section \<open>Sizes\<close>

definition setarrayvector :: "nat \<Rightarrow> ltable \<Rightarrow> ltable" where
  "setarrayvector sz t =
     t\<lparr>lt_array := take sz (lt_array t) @ replicate (sz - sizearray t) NilV\<rparr>"

definition setnodevector :: "nat \<Rightarrow> ltable \<Rightarrow> table_fault + ltable" where
  "setnodevector sz t =
     (if sz = 0 then Inr (t\<lparr>lt_node := [empty_node], lt_dummy := True, lt_lastfree := 0\<rparr>)
      else let lsize = nat (ceillog2 (word_of_nat sz))
           in if MAXBITS < lsize then Inl Table_overflow
              else Inr (t\<lparr>lt_node := replicate (2 ^ lsize) empty_node, lt_dummy := False,
                          lt_lastfree := 2 ^ lsize\<rparr>))"

text \<open>Each key that has a value is set again.\<close>

fun reinsert ::
  "(ltable \<Rightarrow> 'k \<Rightarrow> table_fault + slot \<times> ltable) \<Rightarrow> ('k \<times> TValue) list \<Rightarrow> ltable \<Rightarrow> table_fault + ltable" where
  "reinsert st [] t = Inr t"
| "reinsert st ((k, v) # kvs) t =
     (if ttisnil v then reinsert st kvs t
      else bnd (st t k) (\<lambda>(s, t1). reinsert st kvs (slot_store s v t1)))"

definition resize ::
  "(ltable \<Rightarrow> int \<Rightarrow> table_fault + slot \<times> ltable) \<Rightarrow> (ltable \<Rightarrow> TValue \<Rightarrow> table_fault + slot \<times> ltable) \<Rightarrow>
     nat \<Rightarrow> nat \<Rightarrow> ltable \<Rightarrow> table_fault + ltable" where
  "resize setnum st nasize nhsize t =
     (let t1 = (if sizearray t < nasize then setarrayvector nasize t else t)
      in bnd (setnodevector nhsize t1) (\<lambda>t2.
         bnd (if nasize < sizearray t
              then reinsert setnum (map (\<lambda>i. (int i + 1, lt_array t ! i)) [nasize..<sizearray t])
                     (t2\<lparr>lt_array := take nasize (lt_array t)\<rparr>)
              else Inr t2) (\<lambda>t3.
         reinsert st (rev (map (\<lambda>n. (n_key n, n_val n)) (lt_node t))) t3)))"

definition rehash ::
  "(ltable \<Rightarrow> int \<Rightarrow> table_fault + slot \<times> ltable) \<Rightarrow> (ltable \<Rightarrow> TValue \<Rightarrow> table_fault + slot \<times> ltable) \<Rightarrow>
     ltable \<Rightarrow> TValue \<Rightarrow> table_fault + ltable" where
  "rehash setnum st t ek =
     (case numusearray t (replicate (MAXBITS + 1) 0) of (na0, nums0) \<Rightarrow>
        (case numusehash t nums0 of (tot, ause, nums1) \<Rightarrow>
          (case countint ek nums1 of (c, nums2) \<Rightarrow>
            (case computesizes nums2 (na0 + ause + c) of (nasize, na) \<Rightarrow>
              resize setnum st nasize (na0 + tot + 1 - na) t))))"

section \<open>Setting\<close>

text \<open>
  A new key may make the table grow, which sets all keys again; the first argument bounds how often
  this may nest.
\<close>

fun luaH_set :: "nat \<Rightarrow> ltable \<Rightarrow> TValue \<Rightarrow> table_fault + slot \<times> ltable"
  and luaH_setnum :: "nat \<Rightarrow> ltable \<Rightarrow> int \<Rightarrow> table_fault + slot \<times> ltable" where
  "luaH_set 0 t key = Inl Stuck"
| "luaH_set (Suc f) t key =
     bnd (luaH_get t key) (\<lambda>p. case p of
        Some s \<Rightarrow> Inr (s, t\<lparr>lt_flags := 0\<rparr>)
      | None \<Rightarrow>
          (if ttisnil key then Inl Index_is_nil
           else if (case key of NumV n \<Rightarrow> luai_numisnan n | _ \<Rightarrow> False) then Inl Index_is_NaN
           else newkey (\<lambda>t1 key. bnd (rehash (luaH_setnum f) (luaH_set f) t1 key) (\<lambda>t2. luaH_set f t2 key))
                  (t\<lparr>lt_flags := 0\<rparr>) key))"
| "luaH_setnum 0 t k = Inl Stuck"
| "luaH_setnum (Suc f) t k =
     bnd (luaH_getnum t k) (\<lambda>p. case p of
        Some s \<Rightarrow> Inr (s, t)
      | None \<Rightarrow> newkey (\<lambda>t1 key. bnd (rehash (luaH_setnum f) (luaH_set f) t1 key) (\<lambda>t2. luaH_set f t2 key))
                  t (NumV (cast_num k)))"

definition luaH_setstr :: "nat \<Rightarrow> ltable \<Rightarrow> string \<Rightarrow> table_fault + slot \<times> ltable" where
  "luaH_setstr f t s =
     bnd (luaH_getstr t s) (\<lambda>p. case p of
        Some sl \<Rightarrow> Inr (sl, t)
      | None \<Rightarrow> newkey (\<lambda>t1 key. bnd (rehash (luaH_setnum f) (luaH_set f) t1 key) (\<lambda>t2. luaH_set f t2 key))
                  t (StrV s))"

definition luaH_new :: "nat \<Rightarrow> nat \<Rightarrow> table_fault + ltable" where
  "luaH_new narray nhash = setnodevector nhash (setarrayvector narray
     \<lparr>lt_flags = 255, lt_metatable = None, lt_array = [], lt_node = [empty_node], lt_dummy = True, lt_lastfree = 0\<rparr>)"

definition luaH_resizearray :: "nat \<Rightarrow> ltable \<Rightarrow> nat \<Rightarrow> table_fault + ltable" where
  "luaH_resizearray f t nasize =
     resize (luaH_setnum f) (luaH_set f) nasize (if lt_dummy t then 0 else sizenode t) t"

section \<open>Traversal\<close>

definition same_key :: "TValue \<Rightarrow> TValue \<Rightarrow> bool" where
  "same_key key x \<longleftrightarrow> luaO_rawequalObj x key \<or> (iscollectable key \<and> x = DeadKey key)"

definition findindex :: "ltable \<Rightarrow> TValue \<Rightarrow> table_fault + int" where
  "findindex t key =
     (if ttisnil key then Inr (-1)
      else let i = arrayindex key
           in if 0 < i \<and> i \<le> int (sizearray t) then Inr (i - 1)
              else bnd (walk (same_key key) (lt_node t) (sizenode t) (mainposition (sizenode t) key)) (\<lambda>r.
                case r of None \<Rightarrow> Inl Invalid_key_to_next | Some n \<Rightarrow> Inr (int (n + sizearray t))))"

definition luaH_next :: "ltable \<Rightarrow> TValue \<Rightarrow> table_fault + (TValue \<times> TValue) option" where
  "luaH_next t key =
     bnd (findindex t key) (\<lambda>i. let i1 = nat (i + 1) in
       case find (\<lambda>i. \<not> ttisnil (lt_array t ! i)) [i1..<sizearray t] of
         Some i \<Rightarrow> Inr (Some (NumV (cast_num (int i + 1)), lt_array t ! i))
       | None \<Rightarrow>
           (case find (\<lambda>i. \<not> ttisnil (n_val (lt_node t ! i))) [max i1 (sizearray t) - sizearray t..<sizenode t] of
              Some i \<Rightarrow> Inr (Some (n_key (lt_node t ! i), n_val (lt_node t ! i)))
            | None \<Rightarrow> Inr None))"

section \<open>A boundary\<close>

definition nil_at :: "ltable \<Rightarrow> nat \<Rightarrow> table_fault + bool" where
  "nil_at t j = bnd (luaH_getnum t (int j)) (\<lambda>p.
     Inr (case p of None \<Rightarrow> True | Some s \<Rightarrow> ttisnil (slot_value t s)))"

function binary_search :: "(nat \<Rightarrow> table_fault + bool) \<Rightarrow> nat \<Rightarrow> nat \<Rightarrow> table_fault + nat" where
  "binary_search isnil i j =
     (if 1 < j - i
      then let m = (i + j) div 2
           in case isnil m of Inl e \<Rightarrow> Inl e
              | Inr b \<Rightarrow> if b then binary_search isnil i m else binary_search isnil m j
      else Inr i)"
  by pat_completeness auto

termination
  by (relation "measure (\<lambda>(p, i, j). j - i)") auto

declare binary_search.simps [simp del]

fun linear_search :: "ltable \<Rightarrow> nat \<Rightarrow> nat \<Rightarrow> table_fault + nat" where
  "linear_search t 0 i = Inl Stuck"
| "linear_search t (Suc f) i = bnd (nil_at t i) (\<lambda>b. if b then Inr (i - 1) else linear_search t f (i + 1))"

text \<open>
  Doubling until an index is absent; too far out the search is linear, over at most all slots.  The
  index \<open>j\<close> starts at one at least.
\<close>

function probe :: "ltable \<Rightarrow> nat \<Rightarrow> nat \<Rightarrow> table_fault + nat" where
  "probe t i j = (case nil_at t j of
     Inl e \<Rightarrow> Inl e
   | Inr True \<Rightarrow> binary_search (nil_at t) i j
   | Inr False \<Rightarrow>
       (if j = 0 \<or> MAX_INT < j * 2 then linear_search t (sizearray t + sizenode t + 2) 1
        else probe t j (j * 2)))"
  by pat_completeness auto

termination
  by (relation "measure (\<lambda>(t, i, j). MAX_INT - j)") auto

declare probe.simps [simp del]

definition unbound_search :: "ltable \<Rightarrow> nat \<Rightarrow> table_fault + nat" where
  "unbound_search t j = probe t j (j + 1)"

definition luaH_getn :: "ltable \<Rightarrow> table_fault + nat" where
  "luaH_getn t =
     (let j = sizearray t
      in if 0 < j \<and> ttisnil (lt_array t ! (j - 1))
         then binary_search (\<lambda>m. Inr (ttisnil (lt_array t ! (m - 1)))) 0 j
         else if lt_dummy t then Inr j
         else unbound_search t j)"

end
