(* ===== verification/Lua_Table_Facts.thy ===== *)
theory Lua_Table_Facts
  imports Lua_Table Lua_Object_Facts Lua_String_Facts
begin

text \<open>
  Chains of nodes: the links as a partial function that is injective and has a rank, what the two
  ways to add a node do to them, the invariant of the hash part and the meaning of a search.
\<close>

section \<open>Links\<close>

abbreviation hop :: "(nat \<Rightarrow> nat option) \<Rightarrow> nat \<Rightarrow> nat \<Rightarrow> bool" where
  "hop nx i j \<equiv> nx i = Some j"

abbreviation reach :: "(nat \<Rightarrow> nat option) \<Rightarrow> nat \<Rightarrow> nat \<Rightarrow> bool" where
  "reach nx \<equiv> (hop nx)\<^sup>*\<^sup>*"

text \<open>Every node has at most one before it, and no chain comes back to itself.\<close>

definition linear :: "(nat \<Rightarrow> nat option) \<Rightarrow> bool" where
  "linear nx \<longleftrightarrow> (\<forall>i i' j. nx i = Some j \<longrightarrow> nx i' = Some j \<longrightarrow> i = i') \<and>
     (\<exists>r::nat \<Rightarrow> nat. \<forall>i j. nx i = Some j \<longrightarrow> r i < r j)"

lemma linear_inj: "linear nx \<Longrightarrow> nx i = Some j \<Longrightarrow> nx i' = Some j \<Longrightarrow> i = i'"
  by (auto simp: linear_def)

lemma linear_irrefl: "linear nx \<Longrightarrow> nx i \<noteq> Some i"
  by (auto simp: linear_def)

lemma linear_insert:
  assumes lin: "linear nx" and f: "nx f = None" "\<And>i. nx i \<noteq> Some f" "f \<noteq> m"
  shows "linear (nx(f := nx m, m := Some f))"
proof -
  obtain r :: "nat \<Rightarrow> nat" where r: "\<And>i j. nx i = Some j \<Longrightarrow> r i < r j" and
    inj: "\<And>i i' j. nx i = Some j \<Longrightarrow> nx i' = Some j \<Longrightarrow> i = i'"
    using lin by (auto simp: linear_def)
  let ?r = "\<lambda>i. if i = f then 2 * r m + 1 else 2 * r i"
  have rank: "?r i < ?r j" if "(nx(f := nx m, m := Some f)) i = Some j" for i j
    using that r f(2,3) by (fastforce split: if_splits)
  show ?thesis unfolding linear_def
  proof (intro conjI allI impI exI [of _ ?r])
    fix i i' j
    assume "(nx(f := nx m, m := Some f)) i = Some j" "(nx(f := nx m, m := Some f)) i' = Some j"
    then show "i = i'" using inj f by (auto split: if_splits)
  qed (rule rank)
qed

lemma reach_insert:
  assumes "nx f = None" and "reach nx i j"
  shows "reach (nx(f := nx m, m := Some f)) i j"
  using assms(2)
proof induction
  case (step j k)
  let ?nx = "nx(f := nx m, m := Some f)"
  have "reach ?nx j k"
  proof (cases "j = m")
    case True
    with step(2) assms(1) have "f \<noteq> m" "hop ?nx j f" "hop ?nx f k" by auto
    then show ?thesis by (intro converse_rtranclp_into_rtranclp [OF _ r_into_rtranclp])
  next
    case False
    with step(2) assms(1) have "hop ?nx j k" by auto
    then show ?thesis by blast
  qed
  with step(3) show ?case by (rule rtranclp_trans)
qed simp

lemma linear_move:
  assumes lin: "linear nx" and p: "nx p = Some m" and f: "nx f = None" "\<And>i. nx i \<noteq> Some f"
  shows "linear (nx(p := Some f, f := nx m, m := None))"
proof -
  obtain r :: "nat \<Rightarrow> nat" where r: "\<And>i j. nx i = Some j \<Longrightarrow> r i < r j" and
    inj: "\<And>i i' j. nx i = Some j \<Longrightarrow> nx i' = Some j \<Longrightarrow> i = i'"
    using lin by (auto simp: linear_def)
  have ne: "f \<noteq> m" "f \<noteq> p" using f p by auto
  let ?r = "\<lambda>i. if i = f then r m else r i"
  show ?thesis unfolding linear_def
  proof (intro conjI allI impI exI [of _ ?r])
    fix i i' j
    assume "(nx(p := Some f, f := nx m, m := None)) i = Some j" "(nx(p := Some f, f := nx m, m := None)) i' = Some j"
    then show "i = i'" using inj f by (auto split: if_splits)
  next
    fix i j assume "(nx(p := Some f, f := nx m, m := None)) i = Some j"
    then show "?r i < ?r j" using r [of i j] r [of m j] r [OF p] f(2) ne by (auto split: if_splits)
  qed
qed

lemma reach_move:
  assumes lin: "linear nx" and p: "nx p = Some m" and f: "nx f = None" "f \<noteq> m"
    and "reach nx i j" "i \<noteq> m"
  shows "reach (nx(p := Some f, f := nx m, m := None)) i (if j = m then f else j)"
  using assms(5)
proof induction
  case base
  then show ?case using assms(6) by simp
next
  case (step j k)
  let ?nx = "nx(p := Some f, f := nx m, m := None)"
  have "p \<noteq> m" using linear_irrefl [OF lin] p by blast
  have "hop ?nx (if j = m then f else j) (if k = m then f else k)"
  proof (cases "j = m")
    case True
    then have "k \<noteq> m" using step(2) linear_irrefl [OF lin] by blast
    then show ?thesis using True step(2) f by auto
  next
    case False
    then show ?thesis using step(2) f p linear_inj [OF lin] \<open>p \<noteq> m\<close> by auto
  qed
  with step(3) show ?case by (rule rtranclp.rtrancl_into_rtrancl)
qed

section \<open>Walks\<close>

definition nxt :: "node list \<Rightarrow> nat \<Rightarrow> nat option" where
  "nxt ns i = (if i < length ns then n_next (ns ! i) else None)"

definition closed :: "node list \<Rightarrow> bool" where
  "closed ns \<longleftrightarrow> linear (nxt ns) \<and> (\<forall>i j. nxt ns i = Some j \<longrightarrow> j < length ns)"

lemma reach_bound: "reach (nxt ns) i j \<Longrightarrow> closed ns \<Longrightarrow> i < length ns \<Longrightarrow> j < length ns"
  by (induction rule: rtranclp_induct) (auto simp: closed_def)

lemma walk_Some: "walk p ns f i = Inr (Some j) \<Longrightarrow> i < length ns \<Longrightarrow> closed ns \<Longrightarrow> reach (nxt ns) i j \<and> p (n_key (ns ! j))"
proof (induction p ns f i rule: walk.induct)
  case (2 p ns f i)
  show ?case
  proof (cases "p (n_key (ns ! i))")
    case False
    then obtain k where k: "n_next (ns ! i) = Some k" "walk p ns f k = Inr (Some j)"
      using 2(2) by (auto split: option.splits)
    then have "hop (nxt ns) i k" using 2(3) by (simp add: nxt_def)
    moreover from this 2(4) have "k < length ns" by (auto simp: closed_def)
    ultimately show ?thesis using 2(1) [OF False k(1,2)] 2(4) by (auto intro: converse_rtranclp_into_rtranclp)
  qed (use 2(2) in simp)
qed simp

lemma walk_None: "walk p ns f i = Inr None \<Longrightarrow> reach (nxt ns) i j \<Longrightarrow> \<not> p (n_key (ns ! j))"
proof (induction p ns f i rule: walk.induct)
  case (2 p ns f i)
  then have n: "\<not> p (n_key (ns ! i))" by (auto split: if_splits)
  show ?case using 2(3)
  proof (cases rule: converse_rtranclpE)
    case base
    then show ?thesis using n by simp
  next
    case (step k)
    then have k: "n_next (ns ! i) = Some k" by (simp add: nxt_def split: if_splits)
    then show ?thesis using 2(1) [OF n k _ step(2)] 2(2) n by simp
  qed
qed simp

text \<open>What a step of a walk keeps holds within as many steps as there are nodes.\<close>

lemma chain_induct [consumes 2, case_names step]:
  assumes "closed ns" "i < length ns"
    and step: "\<And>f i. i < length ns \<Longrightarrow> (\<And>k. nxt ns i = Some k \<Longrightarrow> k < length ns \<and> P f k) \<Longrightarrow> P (Suc f) i"
  shows "P (length ns) i"
proof -
  obtain r :: "nat \<Rightarrow> nat" where r: "\<And>i j. nxt ns i = Some j \<Longrightarrow> r i < r j"
    using assms(1) by (auto simp: closed_def linear_def)
  let ?from = "\<lambda>i. {j. j < length ns \<and> r i \<le> r j}"
  have "P f i" if "i < length ns" "card (?from i) \<le> f" for f i
    using that
  proof (induction f arbitrary: i)
    case 0
    then have "?from i = {}" by simp
    then show ?case using 0 by auto
  next
    case (Suc f)
    show ?case
    proof (rule step [OF Suc(2)])
      fix k assume k: "nxt ns i = Some k"
      then have "k < length ns" using assms(1) by (auto simp: closed_def)
      moreover have "?from k \<subseteq> ?from i" "i \<in> ?from i - ?from k" using r [OF k] Suc(2) by auto
      then have "?from k \<subset> ?from i" by blast
      then have "card (?from k) < card (?from i)" by (intro psubset_card_mono) auto
      ultimately show "k < length ns \<and> P f k" using Suc by auto
    qed
  qed
  moreover have "card (?from i) \<le> length ns"
    using card_mono [of "{..<length ns}" "?from i"] by auto
  ultimately show ?thesis using assms(2) by blast
qed

lemma walk_returns:
  assumes "closed ns" "i < length ns"
  shows "\<exists>q. walk p ns (length ns) i = Inr q"
  using assms
proof (induction rule: chain_induct)
  case (step f i)
  show ?case
  proof (cases "n_next (ns ! i)")
    case (Some k)
    then have "nxt ns i = Some k" using step(1) by (simp add: nxt_def)
    then show ?thesis using step(2) Some by simp
  qed simp
qed

lemma find_previous_returns:
  assumes "closed ns" "i < length ns" "reach (nxt ns) i mp" "i \<noteq> mp"
  shows "\<exists>p. find_previous ns mp (length ns) i = Inr p \<and> nxt ns p = Some mp"
proof -
  have "reach (nxt ns) i mp \<longrightarrow> i \<noteq> mp \<longrightarrow> (\<exists>p. find_previous ns mp (length ns) i = Inr p \<and> nxt ns p = Some mp)"
    using assms(1,2)
  proof (induction rule: chain_induct)
    case (step f i)
    show ?case
    proof (intro impI)
      assume "reach (nxt ns) i mp" "i \<noteq> mp"
      then obtain k where k: "nxt ns i = Some k" "reach (nxt ns) k mp"
        by (cases rule: converse_rtranclpE) auto
      then have "n_next (ns ! i) = Some k" using step(1) by (simp add: nxt_def)
      then show "\<exists>p. find_previous ns mp (Suc f) i = Inr p \<and> nxt ns p = Some mp"
        using step(2) [OF k(1)] k by (cases "k = mp") simp_all
    qed
  qed
  then show ?thesis using assms(3,4) by blast
qed

section \<open>Keys\<close>

text \<open>A key of a table is not nil, not a number that is none, and not dead.\<close>

definition valid_key :: "TValue \<Rightarrow> bool" where
  "valid_key k \<longleftrightarrow> k \<noteq> NilV \<and> luaO_rawequalObj k k \<and> (\<forall>v. k \<noteq> DeadKey v)"

lemma rawequal_arrayindex: "luaO_rawequalObj a b \<Longrightarrow> arrayindex a = arrayindex b"
  by (cases a; cases b) (auto dest: numeq_to_int)

lemma zero_not_nan: "dbl_zero n \<Longrightarrow> \<not> luai_numisnan n"
  by (simp add: luai_numisnan_def dbl_zero_fields)

lemma numeq_zero: "luai_numeq n (cast_num 0) \<longleftrightarrow> dbl_zero n"
proof -
  have "dbl_zero (cast_num 0)" by (simp add: cast_num_def dbl_zero_def)
  then show ?thesis using zero_not_nan by (auto simp: luai_numeq_def)
qed

lemma numeq_hash: "luai_numeq a b \<Longrightarrow> hashnum sz a = hashnum sz b"
  unfolding hashnum_def numeq_zero by (auto simp: luai_numeq_def)

lemma rawequal_position: "luaO_rawequalObj a b \<Longrightarrow> mainposition sz a = mainposition sz b"
  by (cases a; cases b) (auto dest: numeq_hash)

lemma odd_divisor: "nat ((int (2 ^ k) - 1) OR 1) = (if k = 0 then 1 else 2 ^ k - 1)"
proof (cases k)
  case (Suc j)
  then have "odd (int (2 ^ k) - 1)" by simp
  then have "(int (2 ^ k) - 1) OR 1 = int (2 ^ k) - 1" by (simp add: or_one_eq)
  moreover have "int (2 ^ k) - 1 = int (2 ^ k - 1)" by (simp add: of_nat_diff)
  ultimately have "nat ((int (2 ^ k) - 1) OR 1) = nat (int (2 ^ k - 1))" by (simp only:)
  then show ?thesis using Suc by (simp only: nat_int) simp
qed simp

lemma hashmod_bound: "hashmod (2 ^ k) n < 2 ^ k"
proof (cases k)
  case (Suc j)
  have "0 < (2::nat) ^ j" by simp
  then have "(1::nat) < 2 ^ k" unfolding Suc power_Suc by linarith
  then have "0 < (2::nat) ^ k - 1" by simp
  then have "unat n mod (2 ^ k - 1) < 2 ^ k - 1" by (rule mod_less_divisor)
  then have "unat n mod (2 ^ k - 1) < 2 ^ k" by linarith
  with Suc show ?thesis by (simp only: hashmod_def odd_divisor) simp
qed (simp add: hashmod_def)

lemma mainposition_bound: "k < 32 \<Longrightarrow> mainposition (2 ^ k) key < 2 ^ k"
  by (induction key) (simp_all add: hashnum_def hashmod_bound lmod_less)

section \<open>The hash part\<close>

text \<open>
  A place without a key is not on any chain.  A key is found from its own place, which holds a key
  that belongs there: this is what the head of the source calls the main invariant.
\<close>

definition node_ok :: "node list \<Rightarrow> nat \<Rightarrow> bool" where
  "node_ok ns i \<longleftrightarrow>
     (if n_key (ns ! i) = NilV then n_val (ns ! i) = NilV \<and> nxt ns i = None \<and> (\<forall>j. nxt ns j \<noteq> Some i)
      else let m = mainposition (length ns) (n_key (ns ! i))
           in valid_key (n_key (ns ! i)) \<and> reach (nxt ns) m i \<and> n_key (ns ! m) \<noteq> NilV \<and>
              mainposition (length ns) (n_key (ns ! m)) = m)"

definition nodes_ok :: "node list \<Rightarrow> bool" where
  "nodes_ok ns \<longleftrightarrow> (\<exists>k \<le> MAXBITS. length ns = 2 ^ k) \<and> closed ns \<and> (\<forall>i < length ns. node_ok ns i) \<and>
     (\<forall>i < length ns. \<forall>j < length ns. i \<noteq> j \<longrightarrow> n_key (ns ! i) \<noteq> NilV \<longrightarrow>
        \<not> luaO_rawequalObj (n_key (ns ! i)) (n_key (ns ! j)))"

lemma position_less: "nodes_ok ns \<Longrightarrow> mainposition (length ns) k < length ns"
  using mainposition_bound by (force simp: nodes_ok_def MAXBITS_def)

lemma nodes_empty: "k \<le> MAXBITS \<Longrightarrow> nodes_ok (replicate (2 ^ k) empty_node)"
proof -
  have "nxt (replicate (2 ^ k) empty_node) = (\<lambda>_. None)" by (auto simp: nxt_def empty_node_def fun_eq_iff)
  then show "k \<le> MAXBITS \<Longrightarrow> ?thesis"
    by (auto simp: nodes_ok_def closed_def linear_def node_ok_def empty_node_def)
qed

lemma rawequal_nil: "luaO_rawequalObj NilV k \<Longrightarrow> k = NilV"
  by (cases k) auto

lemma search_spec:
  assumes ok: "nodes_ok (lt_node t)" and p: "\<And>x. p x = luaO_rawequalObj x k" and k: "k \<noteq> NilV"
  shows "(\<exists>j < sizenode t. search p t (mainposition (sizenode t) k) = Inr (Some (Node_slot j)) \<and>
      luaO_rawequalObj (n_key (lt_node t ! j)) k) \<or>
    search p t (mainposition (sizenode t) k) = Inr None \<and> (\<forall>j < sizenode t. \<not> luaO_rawequalObj (n_key (lt_node t ! j)) k)"
proof -
  let ?ns = "lt_node t" and ?m = "mainposition (sizenode t) k"
  have c: "closed ?ns" and m: "?m < length ?ns" using ok position_less by (auto simp: nodes_ok_def)
  obtain q where q: "walk p ?ns (length ?ns) ?m = Inr q" using walk_returns [OF c m] by blast
  show ?thesis
  proof (cases q)
    case (Some j)
    then have "reach (nxt ?ns) ?m j \<and> p (n_key (?ns ! j))" using q by (intro walk_Some [OF _ m c]) simp
    then have "reach (nxt ?ns) ?m j" "luaO_rawequalObj (n_key (?ns ! j)) k" by (simp_all add: p)
    then show ?thesis using q Some reach_bound [OF _ c m] by (auto simp: search_def)
  next
    case None
    have "\<not> luaO_rawequalObj (n_key (?ns ! j)) k" if j: "j < length ?ns" for j
    proof
      assume eq: "luaO_rawequalObj (n_key (?ns ! j)) k"
      then have "n_key (?ns ! j) \<noteq> NilV" using k rawequal_nil by metis
      then have "reach (nxt ?ns) (mainposition (length ?ns) (n_key (?ns ! j))) j"
        using ok j by (auto simp: nodes_ok_def node_ok_def Let_def)
      then have "reach (nxt ?ns) ?m j" using rawequal_position [OF eq] by simp
      then show False using walk_None [OF q [unfolded None]] eq p by blast
    qed
    then show ?thesis using q None by (simp add: search_def)
  qed
qed

section \<open>Lookup\<close>

definition in_array :: "ltable \<Rightarrow> TValue \<Rightarrow> bool" where
  "in_array t k \<longleftrightarrow> 1 \<le> arrayindex k \<and> arrayindex k \<le> int (sizearray t)"

lemma get_in_array: "in_array t k \<Longrightarrow> luaH_get t k = Inr (Some (Array_slot (nat (arrayindex k - 1))))"
  by (cases k) (auto simp: in_array_def luaH_get_def luaH_getnum_def split: option.splits)

lemma getnum_in_array:
  assumes "- (2 ^ 31) \<le> i" "i < 2 ^ 31"
  shows "luaH_getnum t i = luaH_get t (NumV (cast_num i))"
  using dbl_to_int_cast_num [OF assms] by (simp add: luaH_get_def)

lemma get_search:
  assumes "\<not> in_array t k" "k \<noteq> NilV"
  shows "\<exists>p. (\<forall>x. p x = luaO_rawequalObj x k) \<and> luaH_get t k = search p t (mainposition (sizenode t) k)"
proof (cases k)
  case (StrV s)
  have "(x = StrV s) = luaO_rawequalObj x k" for x by (cases x) (auto simp: StrV)
  then show ?thesis using StrV by (auto simp: luaH_get_def luaH_getstr_def)
next
  case (NumV n)
  show ?thesis
  proof (cases "dbl_to_int n")
    case (Some i)
    then have i: "luai_numeq (cast_num i) m \<longleftrightarrow> dbl_to_int m = Some i" for m
      using dbl_to_int_range [OF Some] cast_num_eq_iff by blast
    then have n: "luai_numeq (cast_num i) n" using Some by simp
    have eq: "luai_numeq m (cast_num i) \<longleftrightarrow> luai_numeq m n" for m
      by (meson n numeq_trans numeq_sym)
    have "(case x of NumV m \<Rightarrow> luai_numeq m (cast_num i) | _ \<Rightarrow> False) = luaO_rawequalObj x k" for x
      using eq by (cases x) (auto simp: NumV)
    moreover have "luaH_get t k = luaH_getnum t i" using Some by (simp add: luaH_get_def NumV)
    moreover have "\<not> (1 \<le> i \<and> i \<le> int (sizearray t))" using assms(1) Some by (simp add: in_array_def NumV)
    ultimately show ?thesis using numeq_hash [OF n] by (auto simp: luaH_getnum_def NumV)
  qed (auto simp: luaH_get_def get_generic_def NumV)
qed (use assms(2) in \<open>auto simp: luaH_get_def get_generic_def\<close>)

text \<open>The value of a key; nil when it is not there.\<close>

definition rawget :: "ltable \<Rightarrow> TValue \<Rightarrow> TValue" where
  "rawget t k = (case luaH_get t k of Inr (Some s) \<Rightarrow> slot_value t s | _ \<Rightarrow> NilV)"

lemma get_spec:
  assumes "nodes_ok (lt_node t)" "\<not> in_array t k" "k \<noteq> NilV"
  obtains (found) j where "j < sizenode t" "luaH_get t k = Inr (Some (Node_slot j))"
      "luaO_rawequalObj (n_key (lt_node t ! j)) k"
    | (absent) "luaH_get t k = Inr None" "\<And>j. j < sizenode t \<Longrightarrow> \<not> luaO_rawequalObj (n_key (lt_node t ! j)) k"
proof -
  obtain p where p: "\<And>x. p x = luaO_rawequalObj x k" "luaH_get t k = search p t (mainposition (sizenode t) k)"
    using get_search [OF assms(2,3)] by blast
  then show thesis using search_spec [OF assms(1) p(1) assms(3)] found absent by metis
qed

section \<open>What the nodes hold\<close>

definition holds :: "node list \<Rightarrow> TValue \<Rightarrow> TValue \<Rightarrow> bool" where
  "holds ns k v \<longleftrightarrow> (\<exists>i < length ns. luaO_rawequalObj (n_key (ns ! i)) k \<and> n_val (ns ! i) = v \<and> v \<noteq> NilV)"

text \<open>The number of places that have never had a key.\<close>

definition free :: "node list \<Rightarrow> nat" where
  "free ns = card {i. i < length ns \<and> n_key (ns ! i) = NilV}"

lemma key_unique:
  assumes "nodes_ok ns" "i < length ns" "j < length ns" "k \<noteq> NilV"
    "luaO_rawequalObj (n_key (ns ! i)) k" "luaO_rawequalObj (n_key (ns ! j)) k"
  shows "i = j"
proof (rule ccontr)
  assume "i \<noteq> j"
  moreover have "luaO_rawequalObj (n_key (ns ! i)) (n_key (ns ! j))"
    by (rule rawequal_trans [OF assms(5) rawequal_sym [OF assms(6)]])
  moreover have "n_key (ns ! i) \<noteq> NilV" using rawequal_nil assms(4,5) by metis
  ultimately show False using assms(1-3) by (auto simp: nodes_ok_def)
qed

lemma get_nil: "luaH_get t NilV = Inr None"
  by (simp add: luaH_get_def)

lemma rawequal_nil_iff: "luaO_rawequalObj k NilV \<longleftrightarrow> k = NilV"
  by (cases k) auto

lemma lookup_iff:
  assumes ok: "nodes_ok (lt_node t)" and "\<not> in_array t k" "v \<noteq> NilV"
  shows "rawget t k = v \<longleftrightarrow> holds (lt_node t) k v"
proof (cases "k = NilV")
  case True
  have "\<not> holds (lt_node t) NilV v"
    using ok assms(3) by (auto simp: holds_def nodes_ok_def node_ok_def rawequal_nil_iff)
  then show ?thesis using True assms(3) by (simp add: rawget_def get_nil)
next
  case False
  from ok assms(2) False show ?thesis
  proof (cases rule: get_spec)
    case (found j)
    then have "holds (lt_node t) k v \<longleftrightarrow> n_val (lt_node t ! j) = v"
      using key_unique [OF ok _ _ False] assms(3) by (auto simp: holds_def)
    then show ?thesis by (simp add: rawget_def found)
  next
    case absent
    then show ?thesis using assms(3) by (auto simp: rawget_def holds_def)
  qed
qed

lemma lookup_eqI:
  assumes "nodes_ok (lt_node t)" "nodes_ok (lt_node t')" "\<not> in_array t k" "\<not> in_array t' k"
    and "\<And>v. holds (lt_node t) k v \<longleftrightarrow> holds (lt_node t') k v"
  shows "rawget t k = rawget t' k"
  using assms lookup_iff by metis

section \<open>Adding a key\<close>

text \<open>What a new key does to the nodes: it is at \<open>i\<close>, without a value, and takes one free place at most.\<close>

definition added_node :: "node list \<Rightarrow> TValue \<Rightarrow> nat \<Rightarrow> node list \<Rightarrow> bool" where
  "added_node ns k i ns' \<longleftrightarrow> nodes_ok ns' \<and> length ns' = length ns \<and> i < length ns \<and>
     n_key (ns' ! i) = k \<and> n_val (ns' ! i) = NilV \<and>
     (\<forall>k' v. holds ns' k' v = holds ns k' v) \<and> free ns \<le> free ns' + 1 \<and>
     (\<forall>j < length ns. n_key (ns' ! j) = NilV \<longrightarrow> n_key (ns ! j) = NilV) \<and>
     (\<forall>j < length ns. j \<noteq> i \<longrightarrow> (\<exists>j' < length ns. n_key (ns' ! j) = n_key (ns ! j')))"

lemma free_less:
  assumes "length ns' = length ns" "\<And>i. i < length ns \<Longrightarrow> i \<noteq> f \<Longrightarrow> n_key (ns ! i) = NilV \<Longrightarrow> n_key (ns' ! i) = NilV"
  shows "free ns \<le> free ns' + 1"
proof -
  have "{i. i < length ns \<and> n_key (ns ! i) = NilV} \<subseteq> insert f {i. i < length ns' \<and> n_key (ns' ! i) = NilV}"
    using assms by auto
  then have "free ns \<le> card (insert f {i. i < length ns' \<and> n_key (ns' ! i) = NilV})"
    unfolding free_def by (intro card_mono) auto
  also have "\<dots> \<le> free ns' + 1" unfolding free_def by (simp add: card_insert_if)
  finally show ?thesis .
qed

lemma nodes_okD:
  assumes "nodes_ok ns" "i < length ns"
  shows "n_key (ns ! i) = NilV \<Longrightarrow> n_val (ns ! i) = NilV"
    "n_key (ns ! i) = NilV \<Longrightarrow> nxt ns i = None" "n_key (ns ! i) = NilV \<Longrightarrow> nxt ns j \<noteq> Some i"
    "n_key (ns ! i) \<noteq> NilV \<Longrightarrow> valid_key (n_key (ns ! i))"
    "n_key (ns ! i) \<noteq> NilV \<Longrightarrow> reach (nxt ns) (mainposition (length ns) (n_key (ns ! i))) i"
    "n_key (ns ! i) \<noteq> NilV \<Longrightarrow> n_key (ns ! mainposition (length ns) (n_key (ns ! i))) \<noteq> NilV"
    "n_key (ns ! i) \<noteq> NilV \<Longrightarrow> mainposition (length ns) (n_key (ns ! mainposition (length ns) (n_key (ns ! i)))) =
      mainposition (length ns) (n_key (ns ! i))"
  using assms by (auto simp: nodes_ok_def node_ok_def Let_def)

lemma nodes_okI:
  assumes "nodes_ok ns" "length ns' = length ns" "closed ns'" "\<And>i. i < length ns \<Longrightarrow> node_ok ns' i"
    and "\<And>i j. i < length ns \<Longrightarrow> j < length ns \<Longrightarrow> i \<noteq> j \<Longrightarrow> n_key (ns' ! i) \<noteq> NilV \<Longrightarrow>
      \<not> luaO_rawequalObj (n_key (ns' ! i)) (n_key (ns' ! j))"
  shows "nodes_ok ns'"
  using assms by (auto simp: nodes_ok_def)

lemma update_same: "f x = f (ns ! m) \<Longrightarrow> f (ns[m := x] ! i) = f (ns ! i)"
  by (cases "i = m"; cases "m < length ns") (auto simp: list_update_beyond)

lemma update_node:
  "n_val (ns[m := (ns ! m)\<lparr>n_key := k\<rparr>] ! i) = n_val (ns ! i)"
  "n_next (ns[m := (ns ! m)\<lparr>n_key := k\<rparr>] ! i) = n_next (ns ! i)"
  "n_key (ns[m := (ns ! m)\<lparr>n_val := v\<rparr>] ! i) = n_key (ns ! i)"
  "n_next (ns[m := (ns ! m)\<lparr>n_val := v\<rparr>] ! i) = n_next (ns ! i)"
  "n_key (ns[m := (ns ! m)\<lparr>n_next := x\<rparr>] ! i) = n_key (ns ! i)"
  "n_val (ns[m := (ns ! m)\<lparr>n_next := x\<rparr>] ! i) = n_val (ns ! i)"
  by (rule update_same, simp)+

text \<open>Every other node is an old one: \<open>g\<close> says which.\<close>

lemma added_nodeI:
  assumes ok: "nodes_ok ns" and k: "valid_key k" "\<And>j. j < length ns \<Longrightarrow> \<not> luaO_rawequalObj (n_key (ns ! j)) k"
    and len: "length ns' = length ns" and new: "closed ns'" "\<And>i. i < length ns \<Longrightarrow> node_ok ns' i"
    and m: "m < length ns" "n_key (ns' ! m) = k" "n_val (ns' ! m) = NilV"
    and old: "\<And>j. j < length ns \<Longrightarrow> j \<noteq> m \<Longrightarrow>
      g j < length ns \<and> n_key (ns' ! j) = n_key (ns ! g j) \<and> n_val (ns' ! j) = n_val (ns ! g j)"
    and inj: "\<And>i j. i < length ns \<Longrightarrow> j < length ns \<Longrightarrow> i \<noteq> m \<Longrightarrow> j \<noteq> m \<Longrightarrow> g i = g j \<Longrightarrow> i = j"
    and onto: "\<And>i. i < length ns \<Longrightarrow> n_val (ns ! i) \<noteq> NilV \<Longrightarrow> \<exists>j < length ns. j \<noteq> m \<and> g j = i"
    and f: "\<And>i. i < length ns \<Longrightarrow> i \<noteq> f \<Longrightarrow> n_key (ns ! i) = NilV \<Longrightarrow> n_key (ns' ! i) = NilV"
      "\<And>i. i < length ns \<Longrightarrow> n_key (ns' ! i) = NilV \<Longrightarrow> n_key (ns ! i) = NilV"
  shows "added_node ns k m ns'"
proof -
  have k': "\<not> luaO_rawequalObj k (n_key (ns ! j))" if "j < length ns" for j using k(2) [OF that] rawequal_sym by blast
  have "\<not> luaO_rawequalObj (n_key (ns' ! i)) (n_key (ns' ! j))"
    if ij: "i < length ns" "j < length ns" "i \<noteq> j" "n_key (ns' ! i) \<noteq> NilV" for i j
  proof -
    consider "i = m" | "j = m" "i \<noteq> m" | "i \<noteq> m" "j \<noteq> m" by blast
    then show ?thesis
    proof cases
      case 1
      then show ?thesis using ij k' m old [of j] by auto
    next
      case 2
      then show ?thesis using ij k(2) m old [of i] by auto
    next
      case 3
      then have "g i \<noteq> g j" using ij inj by blast
      then show ?thesis using ij 3 ok old [of i] old [of j] by (auto simp: nodes_ok_def)
    qed
  qed
  then have "nodes_ok ns'" by (intro nodes_okI [OF ok len new]) auto
  moreover have "holds ns' k' v = holds ns k' v" for k' v
  proof
    assume "holds ns' k' v"
    then obtain i where "i < length ns" "luaO_rawequalObj (n_key (ns' ! i)) k'" "n_val (ns' ! i) = v" "v \<noteq> NilV"
      by (auto simp: holds_def len)
    moreover from this have "i \<noteq> m" using m(3) by auto
    ultimately show "holds ns k' v" using old [of i] by (auto simp: holds_def)
  next
    assume "holds ns k' v"
    then obtain i where "i < length ns" "luaO_rawequalObj (n_key (ns ! i)) k'" "n_val (ns ! i) = v" "v \<noteq> NilV"
      by (auto simp: holds_def)
    moreover from this obtain j where "j < length ns" "j \<noteq> m" "g j = i" using onto by blast
    ultimately show "holds ns' k' v" using old [of j] by (auto simp: holds_def len)
  qed
  moreover have "free ns \<le> free ns' + 1" by (rule free_less [OF len f(1)])
  moreover have "\<exists>j' < length ns. n_key (ns' ! j) = n_key (ns ! j')" if "j < length ns" "j \<noteq> m" for j
    using old [OF that] by blast
  ultimately show ?thesis using m len f(2) by (simp add: added_node_def)
qed

text \<open>The key takes its own place.\<close>

lemma added_at_own_place:
  assumes ok: "nodes_ok ns" and k: "valid_key k" "\<And>j. j < length ns \<Longrightarrow> \<not> luaO_rawequalObj (n_key (ns ! j)) k"
    and m: "mainposition (length ns) k = m" "n_val (ns ! m) = NilV"
  shows "added_node ns k m (ns[m := (ns ! m)\<lparr>n_key := k\<rparr>])"
proof -
  define ns' where "ns' = ns[m := (ns ! m)\<lparr>n_key := k\<rparr>]"
  have ml: "m < length ns" using position_less [OF ok, of k] m by simp
  have len: "length ns' = length ns" by (simp add: ns'_def)
  have key: "n_key (ns' ! i) = (if i = m then k else n_key (ns ! i))" "n_val (ns' ! i) = n_val (ns ! i)"
    if "i < length ns" for i using that by (cases "i = m") (simp_all add: ns'_def update_node)
  have nx: "nxt ns' = nxt ns" by (simp add: ns'_def nxt_def fun_eq_iff update_node)
  have knil: "k \<noteq> NilV" using k(1) by (simp add: valid_key_def)
  have "node_ok ns' i" if i: "i < length ns" for i
  proof (cases "i = m")
    case True
    then show ?thesis using k(1) knil m(1) by (simp add: node_ok_def key ml len Let_def)
  next
    case False
    then show ?thesis using nodes_okD [OF ok i] position_less [OF ok] knil m(1) i
      by (auto simp: node_ok_def key nx len Let_def)
  qed
  moreover have "closed ns'" using ok by (simp add: nodes_ok_def closed_def nx len)
  ultimately have "added_node ns k m ns'" using ml m(2) knil
    by (intro added_nodeI [OF ok k len, where g = id and f = m]) (auto simp: key split: if_splits)
  then show ?thesis by (simp only: ns'_def)
qed

text \<open>The colliding node is in its own place: the key takes the free node \<open>f\<close>, next on the chain.\<close>

lemma chain_new_facts:
  assumes "m < length ns" "f < length ns" "f \<noteq> m"
  shows "length (chain_new m f ns) = length ns"
    "n_key (chain_new m f ns ! i) = n_key (ns ! i)" "n_val (chain_new m f ns ! i) = n_val (ns ! i)"
    "nxt (chain_new m f ns) = (nxt ns)(f := nxt ns m, m := Some f)"
proof -
  show "nxt (chain_new m f ns) = (nxt ns)(f := nxt ns m, m := Some f)"
  proof
    fix i
    show "nxt (chain_new m f ns) i = ((nxt ns)(f := nxt ns m, m := Some f)) i"
      using assms by (cases "i = m"; cases "i = f") (simp_all add: chain_new_def nxt_def Let_def)
  qed
qed (simp_all add: chain_new_def Let_def update_node)

lemma added_at_chain:
  assumes ok: "nodes_ok ns" and k: "valid_key k" "\<And>j. j < length ns \<Longrightarrow> \<not> luaO_rawequalObj (n_key (ns ! j)) k"
    and m: "mainposition (length ns) k = m" "n_key (ns ! m) \<noteq> NilV" "mainposition (length ns) (n_key (ns ! m)) = m"
    and f: "f < length ns" "n_key (ns ! f) = NilV"
  shows "added_node ns k f ((chain_new m f ns)[f := (chain_new m f ns ! f)\<lparr>n_key := k\<rparr>])"
proof -
  define ns' where "ns' = (chain_new m f ns)[f := (chain_new m f ns ! f)\<lparr>n_key := k\<rparr>]"
  have ml: "m < length ns" using position_less [OF ok, of k] m by simp
  have fm: "f \<noteq> m" using m(2) f(2) by auto
  note c = chain_new_facts [OF ml f(1) fm]
  have len: "length ns' = length ns" by (simp add: ns'_def c)
  have key: "n_key (ns' ! i) = (if i = f then k else n_key (ns ! i))" "n_val (ns' ! i) = n_val (ns ! i)"
    if "i < length ns" for i using that by (cases "i = f") (simp_all add: ns'_def update_node c)
  have "nxt ns' = nxt (chain_new m f ns)" by (simp add: ns'_def nxt_def fun_eq_iff update_node)
  then have nx: "nxt ns' = (nxt ns)(f := nxt ns m, m := Some f)" by (simp only: c)
  have knil: "k \<noteq> NilV" using k(1) by (simp add: valid_key_def)
  have fn: "nxt ns f = None" "\<And>i. nxt ns i \<noteq> Some f" using nodes_okD(2,3) [OF ok f(1) f(2)] by auto
  have cl: "linear (nxt ns)" "\<And>i j. nxt ns i = Some j \<Longrightarrow> j < length ns" using ok by (auto simp: nodes_ok_def closed_def)
  have "closed ns'" using linear_insert [OF cl(1) fn fm] cl(2) f(1)
    by (auto simp: closed_def nx len split: if_splits)
  moreover have "node_ok ns' i" if i: "i < length ns" for i
  proof -
    consider "i = f" | "i \<noteq> f" "n_key (ns ! i) = NilV" | "i \<noteq> f" "n_key (ns ! i) \<noteq> NilV" by blast
    then show ?thesis
    proof cases
      case 1
      have "reach (nxt ns') m f" by (rule r_into_rtranclp) (simp add: nx)
      then show ?thesis using 1 k(1) knil m fm by (simp add: node_ok_def key ml f len)
    next
      case 2
      then have "i \<noteq> m" using m(2) by auto
      then show ?thesis using 2 nodes_okD(1-3) [OF ok i] i by (auto simp: node_ok_def key nx)
    next
      case 3
      let ?mm = "mainposition (length ns) (n_key (ns ! i))"
      have "?mm \<noteq> f" using nodes_okD(6) [OF ok i 3(2)] f(2) by auto
      moreover have "reach (nxt ns') ?mm i" unfolding nx
        by (rule reach_insert [OF fn(1) nodes_okD(5) [OF ok i 3(2)]])
      ultimately show ?thesis using 3 nodes_okD [OF ok i] i position_less [OF ok]
        by (simp add: node_ok_def key len)
    qed
  qed
  ultimately have "added_node ns k f ns'" using f nodes_okD(1) [OF ok f] knil
    by (intro added_nodeI [OF ok k len, where g = id and f = f]) (auto simp: key split: if_splits)
  then show ?thesis by (simp only: ns'_def)
qed

end
