(* ===== verification/Lua_Table_Set.thy ===== *)
theory Lua_Table_Set
  imports Lua_Table_Facts
begin

text \<open>
  Setting a key: the node that is moved away, a new key with and without room, and setting keys
  again after the table has grown.
\<close>

section \<open>Moving a node away\<close>

lemma move_facts:
  assumes "m < length ns" "f < length ns" "f \<noteq> m" "p < length ns" "p \<noteq> m" "p \<noteq> f" "nxt ns p = Some m"
    and "find_previous ns m (length ns) q = Inr p"
  shows "\<exists>ns2. move_colliding m f q ns = Inr ns2 \<and> length ns2 = length ns \<and>
    (\<forall>i < length ns. n_key (ns2 ! i) = n_key (ns ! (if i = f then m else i))) \<and>
    (\<forall>i < length ns. n_val (ns2 ! i) = (if i = m then NilV else n_val (ns ! (if i = f then m else i)))) \<and>
    nxt ns2 = (nxt ns)(p := Some f, f := nxt ns m, m := None)"
proof -
  define ns1 where "ns1 = ns[p := (ns ! p)\<lparr>n_next := Some f\<rparr>]"
  define ns2 where "ns2 = ns1[f := ns1 ! m]"
  define ns3 where "ns3 = ns2[m := (ns2 ! m)\<lparr>n_next := None, n_val := NilV\<rparr>]"
  have 1: "ns1 ! i = (if i = p then (ns ! p)\<lparr>n_next := Some f\<rparr> else ns ! i)" if "i < length ns" for i
    using that by (auto simp: ns1_def)
  have 2: "ns2 ! i = (if i = f then ns ! m else ns1 ! i)" if "i < length ns" for i
    using that assms(1,2,5) 1 by (auto simp: ns2_def ns1_def)
  have 3: "ns3 ! i = (if i = m then (ns ! m)\<lparr>n_next := None, n_val := NilV\<rparr> else ns2 ! i)" if "i < length ns" for i
    using that assms(1,3,5) 1 2 by (auto simp: ns3_def ns2_def ns1_def)
  have len: "length ns3 = length ns" by (simp add: ns3_def ns2_def ns1_def)
  have "n_key (ns3 ! i) = n_key (ns ! (if i = f then m else i))" if "i < length ns" for i
    using that assms(3) by (simp add: 1 2 3)
  moreover have "n_val (ns3 ! i) = (if i = m then NilV else n_val (ns ! (if i = f then m else i)))" if "i < length ns" for i
    using that assms(3) by (simp add: 1 2 3)
  moreover have "nxt ns3 i = ((nxt ns)(p := Some f, f := nxt ns m, m := None)) i" for i
    using assms(1-6) by (simp add: nxt_def len 1 2 3)
  moreover have "move_colliding m f q ns = Inr ns3"
    using assms(8) by (simp add: move_colliding_def ns3_def ns2_def ns1_def Let_def)
  ultimately show ?thesis using len by blast
qed

lemma added_by_moving:
  assumes ok: "nodes_ok ns" and k: "valid_key k" "\<And>j. j < length ns \<Longrightarrow> \<not> luaO_rawequalObj (n_key (ns ! j)) k"
    and m: "mainposition (length ns) k = m" "n_key (ns ! m) \<noteq> NilV"
    and q: "mainposition (length ns) (n_key (ns ! m)) = q" "q \<noteq> m"
    and f: "f < length ns" "n_key (ns ! f) = NilV"
  shows "\<exists>ns2. move_colliding m f q ns = Inr ns2 \<and> added_node ns k m (ns2[m := (ns2 ! m)\<lparr>n_key := k\<rparr>]) \<and>
    n_key (ns2[m := (ns2 ! m)\<lparr>n_key := k\<rparr>] ! f) \<noteq> NilV"
proof -
  have ml: "m < length ns" using position_less [OF ok, of k] m by simp
  have ql: "q < length ns" using position_less [OF ok] q by auto
  have cl: "closed ns" "linear (nxt ns)" "\<And>i j. nxt ns i = Some j \<Longrightarrow> j < length ns" using ok by (auto simp: nodes_ok_def closed_def)
  have rq: "reach (nxt ns) q m" using nodes_okD(5) [OF ok ml m(2)] q by simp
  obtain p where p: "find_previous ns m (length ns) q = Inr p" "nxt ns p = Some m"
    using find_previous_returns [OF cl(1) ql rq q(2)] by blast
  have fn: "nxt ns f = None" "\<And>i. nxt ns i \<noteq> Some f" using nodes_okD(2,3) [OF ok f(1) f(2)] by auto
  have "p \<noteq> m" using linear_irrefl [OF cl(2), of m] p(2) by auto
  moreover have "p < length ns" using p(2) by (simp add: nxt_def split: if_splits)
  moreover have "p \<noteq> f" using p(2) fn(1) by auto
  ultimately have ne: "f \<noteq> m" "p \<noteq> m" "p \<noteq> f" "p < length ns" using m(2) f(2) by auto
  obtain ns2 where ns2: "move_colliding m f q ns = Inr ns2" and len2: "length ns2 = length ns"
    and key2: "\<And>i. i < length ns \<Longrightarrow> n_key (ns2 ! i) = n_key (ns ! (if i = f then m else i))"
      "\<And>i. i < length ns \<Longrightarrow> n_val (ns2 ! i) = (if i = m then NilV else n_val (ns ! (if i = f then m else i)))"
    and nx2: "nxt ns2 = (nxt ns)(p := Some f, f := nxt ns m, m := None)"
    using move_facts [OF ml f(1) ne(1,4,2,3) p(2,1)] by blast
  define ns' where "ns' = ns2[m := (ns2 ! m)\<lparr>n_key := k\<rparr>]"
  have len: "length ns' = length ns" by (simp add: ns'_def len2)
  have key: "n_key (ns' ! i) = (if i = m then k else n_key (ns ! (if i = f then m else i)))"
      "n_val (ns' ! i) = (if i = m then NilV else n_val (ns ! (if i = f then m else i)))"
    if "i < length ns" for i using that by (cases "i = m"; simp add: ns'_def update_node len2 key2)+
  have "nxt ns' = nxt ns2" by (simp add: ns'_def nxt_def fun_eq_iff update_node)
  then have nx: "nxt ns' = (nxt ns)(p := Some f, f := nxt ns m, m := None)" by (simp only: nx2)
  have knil: "k \<noteq> NilV" using k(1) by (simp add: valid_key_def)
  have away: "mainposition (length ns) (n_key (ns ! i)) \<noteq> m" "mainposition (length ns) (n_key (ns ! i)) \<noteq> f"
    if "i < length ns" "n_key (ns ! i) \<noteq> NilV" for i
    using nodes_okD(6,7) [OF ok that] q f(2) by auto
  have "closed ns'" using linear_move [OF cl(2) p(2) fn] cl(3) f(1)
    by (auto simp: closed_def nx len split: if_splits)
  moreover have "node_ok ns' i" if i: "i < length ns" for i
  proof -
    consider "i = m" | "i = f" | "i \<noteq> f" "i \<noteq> m" "n_key (ns ! i) = NilV" | "i \<noteq> f" "i \<noteq> m" "n_key (ns ! i) \<noteq> NilV" by blast
    then show ?thesis
    proof cases
      case 1
      then show ?thesis using k(1) knil m by (simp add: node_ok_def key ml len)
    next
      case 2
      have "reach (nxt ns') q f" using reach_move [OF cl(2) p(2) fn(1) ne(1) rq q(2)] by (simp add: nx)
      then show ?thesis using 2 ne(1) nodes_okD(4,6,7) [OF ok ml m(2)] away [OF ml m(2)] q m(2) ql f(1)
        by (simp add: node_ok_def key len)
    next
      case 3
      then have "i \<noteq> p" using p(2) nodes_okD(2) [OF ok i] by auto
      then show ?thesis using 3 nodes_okD(1-3) [OF ok i 3(3)] i by (auto simp: node_ok_def key nx)
    next
      case 4
      let ?mm = "mainposition (length ns) (n_key (ns ! i))"
      have "reach (nxt ns') ?mm i"
        using reach_move [OF cl(2) p(2) fn(1) ne(1) nodes_okD(5) [OF ok i 4(3)] away(1) [OF i 4(3)]] 4(2) by (simp add: nx)
      then show ?thesis using 4 nodes_okD [OF ok i] i position_less [OF ok] away [OF i 4(3)]
        by (simp add: node_ok_def key len)
    qed
  qed
  moreover have "\<exists>j < length ns. j \<noteq> m \<and> (if j = f then m else j) = i" if "i < length ns" "n_val (ns ! i) \<noteq> NilV" for i
  proof (cases "i = m")
    case False
    then have "i \<noteq> f" using that nodes_okD(1) [OF ok f] by auto
    then show ?thesis using False that(1) by auto
  qed (use f(1) ne(1) in auto)
  ultimately have "added_node ns k m ns'" using f ml m(2) ne(1) knil
    by (intro added_nodeI [OF ok k len, where g = "\<lambda>j. if j = f then m else j" and f = f]) (auto simp: key split: if_splits)
  moreover have "n_key (ns' ! f) \<noteq> NilV" using f(1) ne(1) m(2) by (simp add: key)
  ultimately show ?thesis using ns2 by (auto simp: ns'_def)
qed

section \<open>The invariant of a table\<close>

text \<open>No key of the hash part could live in the array; every place from the last free one on has had a key.\<close>

definition table_ok :: "ltable \<Rightarrow> bool" where
  "table_ok t \<longleftrightarrow> nodes_ok (lt_node t) \<and> sizearray t \<le> MAXASIZE \<and>
     (\<forall>i < sizenode t. n_key (lt_node t ! i) \<noteq> NilV \<longrightarrow> \<not> in_array t (n_key (lt_node t ! i))) \<and>
     (if lt_dummy t then lt_node t = [empty_node] \<and> lt_lastfree t \<le> 0
      else lt_lastfree t \<le> int (sizenode t) \<and>
        (\<forall>i < sizenode t. lt_lastfree t \<le> int i \<longrightarrow> n_key (lt_node t ! i) \<noteq> NilV))"

text \<open>What setting a key promises, apart from a value: the key is at the slot, and nothing else has changed.\<close>

definition added :: "ltable \<Rightarrow> TValue \<Rightarrow> slot \<Rightarrow> ltable \<Rightarrow> bool" where
  "added t k s t' \<longleftrightarrow> table_ok t' \<and> luaH_get t' k = Inr (Some s) \<and> (\<forall>k'. rawget t' k' = rawget t k') \<and>
     lt_array t' = lt_array t \<and> sizenode t' = sizenode t \<and> lt_dummy t' = lt_dummy t \<and>
     free (lt_node t) \<le> free (lt_node t') + (if in_array t k then 0 else 1)"

lemma in_array_cong: "lt_array t' = lt_array t \<Longrightarrow> in_array t' k = in_array t k"
  by (simp add: in_array_def)

lemma lookup_array: "in_array t k \<Longrightarrow> rawget t k = lt_array t ! nat (arrayindex k - 1)"
  by (simp add: rawget_def get_in_array)

lemma lookup_cong:
  assumes "nodes_ok (lt_node t)" "nodes_ok (lt_node t')" "lt_array t' = lt_array t"
    and "\<And>k v. holds (lt_node t') k v = holds (lt_node t) k v"
  shows "rawget t' k = rawget t k"
proof (cases "in_array t k")
  case True
  then show ?thesis using assms(3) by (simp add: lookup_array in_array_cong [OF assms(3)])
next
  case False
  then show ?thesis using assms by (intro lookup_eqI) (auto simp: in_array_cong [OF assms(3)])
qed

lemma free_below_spec:
  "case free_below ns n of Some i \<Rightarrow> i < n \<and> n_key (ns ! i) = NilV \<and> (\<forall>j. i < j \<longrightarrow> j < n \<longrightarrow> n_key (ns ! j) \<noteq> NilV)
   | None \<Rightarrow> \<forall>j < n. n_key (ns ! j) \<noteq> NilV"
  by (induction n) (auto simp: less_Suc_eq split: option.splits)

lemma getfreepos_spec:
  assumes "table_ok t" "getfreepos t = (r, t1)"
  shows "\<exists>l. t1 = t\<lparr>lt_lastfree := l\<rparr> \<and>
    (case r of Some n \<Rightarrow> \<not> lt_dummy t \<and> l = int n \<and> n < sizenode t \<and> n_key (lt_node t ! n) = NilV \<and>
        (\<forall>i < sizenode t. n < i \<longrightarrow> n_key (lt_node t ! i) \<noteq> NilV)
     | None \<Rightarrow> (lt_dummy t \<or> free (lt_node t) = 0) \<and> table_ok (t\<lparr>lt_lastfree := l\<rparr>))"
proof (cases r)
  case (Some n)
  then have f: "free_below (lt_node t) (nat (lt_lastfree t)) = Some n" "t1 = t\<lparr>lt_lastfree := int n\<rparr>"
    using assms(2) by (auto simp: getfreepos_def split: option.splits)
  then have n: "n < nat (lt_lastfree t)" "n_key (lt_node t ! n) = NilV"
    "\<forall>j. n < j \<longrightarrow> j < nat (lt_lastfree t) \<longrightarrow> n_key (lt_node t ! j) \<noteq> NilV"
    using free_below_spec [where ns = "lt_node t" and n = "nat (lt_lastfree t)"] by auto
  then have d: "\<not> lt_dummy t" using assms(1) by (auto simp: table_ok_def split: if_splits)
  have "n_key (lt_node t ! i) \<noteq> NilV" if "i < sizenode t" "n < i" for i
    using that n(3) assms(1) d by (cases "i < nat (lt_lastfree t)") (auto simp: table_ok_def)
  then show ?thesis using Some f(2) d n assms(1) by (auto simp: table_ok_def)
next
  case None
  then have f: "free_below (lt_node t) (nat (lt_lastfree t)) = None" "t1 = t\<lparr>lt_lastfree := min (lt_lastfree t) 0 - 1\<rparr>"
    using assms(2) by (auto simp: getfreepos_def split: option.splits)
  have full: "n_key (lt_node t ! i) \<noteq> NilV" if "i < sizenode t" "\<not> lt_dummy t" for i
    using that assms(1) free_below_spec [where ns = "lt_node t" and n = "nat (lt_lastfree t)"] f(1)
    by (cases "i < nat (lt_lastfree t)") (auto simp: table_ok_def)
  then have "lt_dummy t \<or> free (lt_node t) = 0" by (auto simp: free_def)
  moreover have "table_ok (t\<lparr>lt_lastfree := min (lt_lastfree t) 0 - 1\<rparr>)"
    using assms(1) full by (auto simp: table_ok_def in_array_def split: if_splits)
  ultimately show ?thesis using None f(2) by auto
qed

text \<open>A new key is added in its place, or the table grows.\<close>

lemma added_intro:
  assumes ok: "table_ok t" and k: "valid_key k" "\<not> in_array t k" and n: "added_node (lt_node t) k i ns'" and "\<not> lt_dummy t"
    and l: "l \<le> int (sizenode t)" "\<And>j. j < sizenode t \<Longrightarrow> l \<le> int j \<Longrightarrow> n_key (ns' ! j) \<noteq> NilV"
    and keys: "\<And>j. j < sizenode t \<Longrightarrow> n_key (ns' ! j) \<noteq> NilV \<Longrightarrow> \<not> in_array t (n_key (ns' ! j))"
  shows "added t k (Node_slot i) (t\<lparr>lt_lastfree := l, lt_node := ns'\<rparr>)"
proof -
  let ?t = "t\<lparr>lt_lastfree := l, lt_node := ns'\<rparr>"
  have ns': "nodes_ok ns'" "length ns' = sizenode t" "i < sizenode t" "n_key (ns' ! i) = k"
    "\<And>k v. holds ns' k v = holds (lt_node t) k v" "free (lt_node t) \<le> free ns' + 1"
    using n by (auto simp: added_node_def)
  have ia: "in_array ?t = in_array t" by (simp add: in_array_def fun_eq_iff)
  have "table_ok ?t" using ok ns'(1,2) assms(5) l keys by (simp add: table_ok_def ia)
  moreover have "luaH_get ?t k = Inr (Some (Node_slot i))"
  proof -
    have kn: "k \<noteq> NilV" "luaO_rawequalObj k k" using k(1) by (auto simp: valid_key_def)
    have "nodes_ok (lt_node ?t)" "\<not> in_array ?t k" using ns'(1) k(2) ia by simp_all
    from this kn(1) show ?thesis
    proof (cases rule: get_spec)
      case (found j)
      then have "j = i" using key_unique [OF ns'(1) _ _ kn(1), of j i] ns'(2-4) kn(2) by simp
      then show ?thesis using found(2) by simp
    next
      case absent
      then show ?thesis using absent(2) [of i] ns'(2-4) kn(2) by simp
    qed
  qed
  moreover have "rawget ?t k' = rawget t k'" for k'
    using ok ns' by (intro lookup_cong) (auto simp: table_ok_def)
  ultimately show ?thesis using k(2) ns'(2,6) by (simp add: added_def)
qed

lemma newkey_spec:
  assumes ok: "table_ok t" and k: "valid_key k" "\<not> in_array t k"
    and fresh: "\<And>j. j < sizenode t \<Longrightarrow> \<not> luaO_rawequalObj (n_key (lt_node t ! j)) k"
  shows "(\<exists>s t'. newkey grow t k = Inr (s, t') \<and> added t k s t' \<and> \<not> lt_dummy t) \<or>
    (\<exists>l. newkey grow t k = grow (t\<lparr>lt_lastfree := l\<rparr>) k \<and> (lt_dummy t \<or> free (lt_node t) = 0) \<and>
      table_ok (t\<lparr>lt_lastfree := l\<rparr>))"
proof -
  let ?ns = "lt_node t"
  define m where "m = mainposition (sizenode t) k"
  have nok: "nodes_ok ?ns" using ok by (simp add: table_ok_def)
  have ml: "m < sizenode t" unfolding m_def by (rule position_less [OF nok])
  have knil: "k \<noteq> NilV" using k(1) by (simp add: valid_key_def)
  have keys: "\<not> in_array t (n_key (ns' ! j))"
    if a: "added_node ?ns k i ns'" "j < sizenode t" "n_key (ns' ! j) \<noteq> NilV" for i ns' j
  proof (cases "j = i")
    case False
    then have "\<exists>j' < sizenode t. n_key (ns' ! j) = n_key (?ns ! j')" using a by (simp add: added_node_def)
    then obtain j' where "j' < sizenode t" "n_key (ns' ! j) = n_key (?ns ! j')" by blast
    then show ?thesis using a(3) ok by (auto simp: table_ok_def)
  qed (use a k(2) in \<open>auto simp: added_node_def\<close>)
  have kept: "n_key (ns' ! j) \<noteq> NilV" if "added_node ?ns k i ns'" "j < sizenode t" "n_key (?ns ! j) \<noteq> NilV" for i ns' j
    using that by (auto simp: added_node_def)
  show ?thesis
  proof (cases "n_val (?ns ! m) = NilV \<and> \<not> lt_dummy t")
    case True
    let ?ns' = "?ns[m := (?ns ! m)\<lparr>n_key := k\<rparr>]"
    have a: "added_node ?ns k m ?ns'" using True m_def by (intro added_at_own_place [OF nok k(1) fresh]) auto
    have "added t k (Node_slot m) (t\<lparr>lt_lastfree := lt_lastfree t, lt_node := ?ns'\<rparr>)"
    proof (intro added_intro [OF ok k a])
      fix j assume "j < sizenode t" "lt_lastfree t \<le> int j"
      then show "n_key (?ns' ! j) \<noteq> NilV" using kept [OF a] ok True by (simp add: table_ok_def)
    qed (use True ok keys [OF a] in \<open>auto simp: table_ok_def\<close>)
    moreover have "newkey grow t k = Inr (Node_slot m, t\<lparr>lt_lastfree := lt_lastfree t, lt_node := ?ns'\<rparr>)"
      using True by (simp add: newkey_def Let_def take_node_def flip: m_def)
    ultimately show ?thesis using True by blast
  next
    case False
    obtain q t1 where g: "getfreepos t = (q, t1)" by fastforce
    note spec = getfreepos_spec [OF ok g]
    show ?thesis
    proof (cases q)
      case None
      then obtain l where "t1 = t\<lparr>lt_lastfree := l\<rparr>" "lt_dummy t \<or> free ?ns = 0" "table_ok (t\<lparr>lt_lastfree := l\<rparr>)"
        using spec by auto
      moreover have "newkey grow t k = grow t1 k" using False None g by (auto simp: newkey_def Let_def simp flip: m_def)
      ultimately show ?thesis by blast
    next
      case (Some n)
      then have n: "\<not> lt_dummy t" "n < sizenode t" "n_key (?ns ! n) = NilV" "t1 = t\<lparr>lt_lastfree := int n\<rparr>"
        "\<And>i. i < sizenode t \<Longrightarrow> n < i \<Longrightarrow> n_key (?ns ! i) \<noteq> NilV" using spec by auto
      then have v: "n_val (?ns ! m) \<noteq> NilV" using False by blast
      then have mk: "n_key (?ns ! m) \<noteq> NilV" using nodes_okD(1) [OF nok ml] by blast
      have fin: "added t k (Node_slot i) (t\<lparr>lt_lastfree := int n, lt_node := ns'\<rparr>)"
        if a: "added_node ?ns k i ns'" "n_key (ns' ! n) \<noteq> NilV" for i ns'
      proof (intro added_intro [OF ok k a(1) n(1)])
        fix j assume "j < sizenode t" "int n \<le> int j"
        then show "n_key (ns' ! j) \<noteq> NilV" using n(5) kept [OF a(1)] a(2) by (cases "j = n") auto
      qed (use n(2) keys [OF a(1)] in auto)
      define othern where "othern = mainposition (sizenode t) (n_key (?ns ! m))"
      show ?thesis
      proof (cases "othern = m")
        case True
        let ?ns' = "(chain_new m n ?ns)[n := (chain_new m n ?ns ! n)\<lparr>n_key := k\<rparr>]"
        have "added_node ?ns k n ?ns'"
          using True mk n m_def othern_def by (intro added_at_chain [OF nok k(1) fresh]) auto
        moreover from this have "n_key (?ns' ! n) \<noteq> NilV" using knil by (auto simp: added_node_def)
        moreover have "newkey grow t k = Inr (Node_slot n, t\<lparr>lt_lastfree := int n, lt_node := ?ns'\<rparr>)"
          using v g Some n(1,4) True by (simp add: newkey_def Let_def take_node_def flip: m_def othern_def)
        ultimately show ?thesis using fin n(1) by blast
      next
        case False
        then obtain ns2 where ns2: "move_colliding m n othern ?ns = Inr ns2"
          "added_node ?ns k m (ns2[m := (ns2 ! m)\<lparr>n_key := k\<rparr>])" "n_key (ns2[m := (ns2 ! m)\<lparr>n_key := k\<rparr>] ! n) \<noteq> NilV"
          using added_by_moving [OF nok k(1) fresh m_def [symmetric] mk othern_def [symmetric] _ n(2,3)] by blast
        moreover have "newkey grow t k = Inr (Node_slot m, t\<lparr>lt_lastfree := int n, lt_node := ns2[m := (ns2 ! m)\<lparr>n_key := k\<rparr>]\<rparr>)"
          using v g Some n(1,4) False ns2(1) by (simp add: newkey_def Let_def take_node_def flip: m_def othern_def)
        ultimately show ?thesis using fin n(1) by blast
      qed
    qed
  qed
qed

section \<open>Storing a value\<close>

lemma walk_cong:
  assumes "\<And>i. n_key (ns' ! i) = n_key (ns ! i)" "\<And>i. n_next (ns' ! i) = n_next (ns ! i)"
  shows "walk p ns' f i = walk p ns f i"
  using assms by (induction p ns f i rule: walk.induct) (auto split: option.splits)

lemma get_cong:
  assumes "sizearray t' = sizearray t" "sizenode t' = sizenode t"
    and "\<And>i. n_key (lt_node t' ! i) = n_key (lt_node t ! i)" "\<And>i. n_next (lt_node t' ! i) = n_next (lt_node t ! i)"
  shows "luaH_get t' k = luaH_get t k"
proof -
  have "search p t' i = search p t i" for p i
    using walk_cong [OF assms(3,4)] assms(2) by (simp add: search_def)
  then show ?thesis using assms(1,2)
    by (simp add: luaH_get_def luaH_getnum_def luaH_getstr_def get_generic_def split: TValue.split option.split)
qed

lemma get_flags [simp]: "luaH_get (t\<lparr>lt_flags := x\<rparr>) k = luaH_get t k"
  by (rule get_cong) simp_all

lemma arrayindex_rawequal: "1 \<le> arrayindex k \<Longrightarrow> arrayindex k = arrayindex k' \<Longrightarrow> luaO_rawequalObj k k'"
proof -
  assume i: "1 \<le> arrayindex k" "arrayindex k = arrayindex k'"
  then obtain n m where n: "k = NumV n" "k' = NumV m" "dbl_to_int n = Some (arrayindex k)" "dbl_to_int m = Some (arrayindex k)"
    by (cases k; cases k') (auto split: option.splits)
  then have "luai_numeq (cast_num (arrayindex k)) n" "luai_numeq (cast_num (arrayindex k)) m"
    using cast_num_eq_iff dbl_to_int_range [OF n(3)] by auto
  then have "luai_numeq n m" using numeq_trans numeq_sym by blast
  then show ?thesis using n(1,2) by simp
qed

lemma get_rawequal:
  assumes ok: "nodes_ok (lt_node t)" and eq: "luaO_rawequalObj k k'"
  shows "luaH_get t k = luaH_get t k'"
proof (cases "k = NilV")
  case True
  then show ?thesis using eq by (cases k') auto
next
  case False
  then have k': "k' \<noteq> NilV" using eq rawequal_nil_iff by metis
  have ia: "in_array t k = in_array t k'" using rawequal_arrayindex [OF eq] by (simp add: in_array_def)
  show ?thesis
  proof (cases "in_array t k")
    case True
    then show ?thesis using ia rawequal_arrayindex [OF eq] by (simp add: get_in_array)
  next
    case na: False
    have iff: "luaO_rawequalObj x k \<longleftrightarrow> luaO_rawequalObj x k'" for x
      using eq rawequal_trans rawequal_sym by metis
    from ok na False show ?thesis
    proof (cases rule: get_spec)
      case (found j)
      note j = found
      from ok na k' show ?thesis unfolding ia
      proof (cases rule: get_spec)
        case (found i)
        then have "i = j" using key_unique [OF ok _ _ k'] j iff by auto
        then show ?thesis using found(2) j(2) by simp
      qed (use j iff in auto)
    next
      case absent
      note n = absent
      from ok na k' show ?thesis unfolding ia
      proof (cases rule: get_spec)
        case (found i)
        then show ?thesis using n iff by auto
      qed (use n in simp)
    qed
  qed
qed

lemma get_slot:
  assumes "nodes_ok (lt_node t)" "luaH_get t k = Inr (Some s)"
  shows "case s of Array_slot i \<Rightarrow> in_array t k \<and> int i = arrayindex k - 1 \<and> i < sizearray t
    | Node_slot j \<Rightarrow> \<not> in_array t k \<and> j < sizenode t \<and> luaO_rawequalObj (n_key (lt_node t ! j)) k \<and> n_key (lt_node t ! j) \<noteq> NilV"
proof (cases "in_array t k")
  case True
  then show ?thesis using assms(2) get_in_array [OF True] by (auto simp: in_array_def)
next
  case False
  moreover have kn: "k \<noteq> NilV" using assms(2) by (auto simp: get_nil)
  ultimately show ?thesis using assms rawequal_nil by (cases rule: get_spec [OF assms(1)]) force+
qed

lemma same_slot:
  assumes ok: "nodes_ok (lt_node t)" and s: "luaH_get t k = Inr (Some s)" "luaH_get t k' = Inr (Some s)"
  shows "luaO_rawequalObj k k'"
proof (cases s)
  case (Array_slot i)
  then have "1 \<le> arrayindex k" "arrayindex k = arrayindex k'"
    using get_slot [OF ok s(1)] get_slot [OF ok s(2)] by (auto simp: in_array_def)
  then show ?thesis by (rule arrayindex_rawequal)
next
  case (Node_slot j)
  then have "luaO_rawequalObj (n_key (lt_node t ! j)) k" "luaO_rawequalObj (n_key (lt_node t ! j)) k'"
    using get_slot [OF ok s(1)] get_slot [OF ok s(2)] by simp_all
  then show ?thesis using rawequal_trans [OF rawequal_sym] by blast
qed

lemma nodes_ok_store:
  assumes ok: "nodes_ok ns" and i: "i < length ns" "n_key (ns ! i) \<noteq> NilV"
  shows "nodes_ok (ns[i := (ns ! i)\<lparr>n_val := v\<rparr>])"
proof -
  define ns' where "ns' = ns[i := (ns ! i)\<lparr>n_val := v\<rparr>]"
  have len: "length ns' = length ns" by (simp add: ns'_def)
  have key: "n_key (ns' ! j) = n_key (ns ! j)" for j by (simp add: ns'_def update_node)
  have val: "n_val (ns' ! j) = n_val (ns ! j)" if "j \<noteq> i" for j using that by (simp add: ns'_def)
  have nx: "nxt ns' = nxt ns" by (simp add: ns'_def nxt_def fun_eq_iff update_node)
  have "node_ok ns' j" if "j < length ns" for j
    using nodes_okD [OF ok that] that i(2) val [of j] by (cases "j = i") (auto simp: node_ok_def key len nx Let_def)
  then have "nodes_ok ns'" using ok by (intro nodes_okI [OF ok len]) (auto simp: closed_def nx len key nodes_ok_def)
  then show ?thesis by (simp only: ns'_def)
qed

lemma get_store [simp]: "luaH_get (slot_store s v t) k = luaH_get t k"
  by (cases s) (auto intro!: get_cong simp: update_node)

text \<open>Storing at the slot of a key changes the value of that key only.\<close>

lemma store_spec:
  assumes ok: "table_ok t" and s: "luaH_get t k = Inr (Some s)"
  shows "table_ok (slot_store s v t)" "free (lt_node (slot_store s v t)) = free (lt_node t)"
    "sizearray (slot_store s v t) = sizearray t" "sizenode (slot_store s v t) = sizenode t"
    "lt_dummy (slot_store s v t) = lt_dummy t"
    "rawget (slot_store s v t) k' = (if luaO_rawequalObj k k' then v else rawget t k')"
proof -
  have nok: "nodes_ok (lt_node t)" using ok by (simp add: table_ok_def)
  note slot = get_slot [OF nok s]
  show "sizearray (slot_store s v t) = sizearray t" "sizenode (slot_store s v t) = sizenode t"
    "lt_dummy (slot_store s v t) = lt_dummy t" by (cases s; simp)+
  show "free (lt_node (slot_store s v t)) = free (lt_node t)"
    by (cases s) (simp_all add: free_def update_node)
  show "table_ok (slot_store s v t)"
  proof (cases s)
    case (Array_slot i)
    then show ?thesis using ok by (simp add: table_ok_def in_array_def)
  next
    case (Node_slot j)
    then have j: "j < sizenode t" "n_key (lt_node t ! j) \<noteq> NilV" using slot by auto
    then have "\<not> lt_dummy t" using ok by (auto simp: table_ok_def empty_node_def)
    then show ?thesis using ok nodes_ok_store [OF nok j] Node_slot
      by (simp add: table_ok_def in_array_def update_node)
  qed
  show "rawget (slot_store s v t) k' = (if luaO_rawequalObj k k' then v else rawget t k')"
  proof (cases "luaO_rawequalObj k k'")
    case True
    then have "luaH_get t k' = Inr (Some s)" using get_rawequal [OF nok True] s by simp
    then have "rawget (slot_store s v t) k' = slot_value (slot_store s v t) s" by (simp add: rawget_def)
    also have "\<dots> = v" using slot by (cases s) auto
    finally show ?thesis using True by simp
  next
    case False
    have "slot_value (slot_store s v t) s' = slot_value t s'" if "luaH_get t k' = Inr (Some s')" for s'
    proof -
      have "s \<noteq> s'" using same_slot [OF nok s, of k'] that False by auto
      then show ?thesis by (cases s; cases s') auto
    qed
    then show ?thesis using False by (simp add: rawget_def split: sum.split option.split)
  qed
qed

section \<open>Setting a key when there is room\<close>

definition room :: "ltable \<Rightarrow> TValue \<Rightarrow> bool" where
  "room t k \<longleftrightarrow> in_array t k \<or> (\<exists>j < sizenode t. luaO_rawequalObj (n_key (lt_node t ! j)) k) \<or>
     \<not> lt_dummy t \<and> 0 < free (lt_node t)"

lemma table_ok_flags [simp]: "table_ok (t\<lparr>lt_flags := x\<rparr>) = table_ok t"
  by (simp add: table_ok_def in_array_def)

lemma in_array_flags [simp]: "in_array (t\<lparr>lt_flags := x\<rparr>) = in_array t"
  by (simp add: in_array_def fun_eq_iff)

lemma slot_value_flags [simp]: "slot_value (t\<lparr>lt_flags := x\<rparr>) s = slot_value t s"
  by (cases s) auto

lemma lookup_flags [simp]: "rawget (t\<lparr>lt_flags := x\<rparr>) k = rawget t k"
  by (simp add: rawget_def split: sum.split option.split)

lemma added_flags: "added (t\<lparr>lt_flags := x\<rparr>) k s t' = added t k s t'"
  by (simp add: added_def)

lemma added_self: "table_ok t \<Longrightarrow> luaH_get t k = Inr (Some s) \<Longrightarrow> added t k s t"
  by (simp add: added_def)

lemma newkey_room:
  assumes "table_ok t" "valid_key k" "room t k" "luaH_get t k = Inr None"
  shows "\<exists>s t'. newkey grow t k = Inr (s, t') \<and> added t k s t'"
proof -
  have na: "\<not> in_array t k" using assms(4) get_in_array by auto
  have "k \<noteq> NilV" "nodes_ok (lt_node t)" using assms(1,2) by (auto simp: valid_key_def table_ok_def)
  then have "\<And>j. j < sizenode t \<Longrightarrow> \<not> luaO_rawequalObj (n_key (lt_node t ! j)) k"
    using assms(4) na by (auto elim: get_spec [where t = t and k = k])
  then show ?thesis using newkey_spec [OF assms(1,2) na, of grow] assms(3) na by (auto simp: room_def)
qed

lemma room_flags [simp]: "room (t\<lparr>lt_flags := x\<rparr>) = room t"
  by (simp add: room_def fun_eq_iff)

lemma get_returns:
  assumes "table_ok t"
  shows "\<exists>p. luaH_get t k = Inr p"
proof (cases "k = NilV \<or> in_array t k")
  case False
  then have "nodes_ok (lt_node t)" "\<not> in_array t k" "k \<noteq> NilV" using assms by (auto simp: table_ok_def)
  then show ?thesis by (cases rule: get_spec) auto
qed (auto simp: get_nil get_in_array)

lemma valid_not_nan: "valid_key k \<Longrightarrow> (case k of NumV n \<Rightarrow> luai_numisnan n | _ \<Rightarrow> False) = False"
  by (cases k) (auto simp: valid_key_def numeq_refl)

lemma set_room:
  assumes "table_ok t" "valid_key k" "room t k"
  shows "\<exists>s t'. luaH_set (Suc f) t k = Inr (s, t') \<and> added t k s t'"
proof -
  obtain p where p: "luaH_get t k = Inr p" using get_returns [OF assms(1)] by blast
  show ?thesis
  proof (cases p)
    case (Some s)
    then show ?thesis using p added_self [of "t\<lparr>lt_flags := 0\<rparr>" k s] assms(1) by (auto simp: added_flags)
  next
    case None
    have "k \<noteq> NilV" using assms(2) by (simp add: valid_key_def)
    then show ?thesis using p None valid_not_nan [OF assms(2)] newkey_room [of "t\<lparr>lt_flags := 0\<rparr>" k] assms
      by (simp add: added_flags)
  qed
qed

lemma valid_int: "- (2 ^ 31) \<le> i \<Longrightarrow> i < 2 ^ 31 \<Longrightarrow> valid_key (NumV (cast_num i))"
  using cast_num_not_nan [of i] by (simp add: valid_key_def numeq_refl)

lemma setnum_room:
  assumes "table_ok t" "- (2 ^ 31) \<le> i" "i < 2 ^ 31" "room t (NumV (cast_num i))"
  shows "\<exists>s t'. luaH_setnum (Suc f) t i = Inr (s, t') \<and> added t (NumV (cast_num i)) s t'"
proof -
  obtain p where p: "luaH_getnum t i = Inr p" "luaH_get t (NumV (cast_num i)) = Inr p"
    using get_returns [OF assms(1)] getnum_in_array [OF assms(2,3)] by metis
  show ?thesis
  proof (cases p)
    case (Some s)
    then show ?thesis using p added_self [OF assms(1)] by auto
  next
    case None
    then show ?thesis using p newkey_room [OF assms(1) valid_int [OF assms(2,3)] assms(4)] by simp
  qed
qed

section \<open>Setting keys again\<close>

text \<open>The places that are left for keys of the hash part.\<close>

definition avail :: "ltable \<Rightarrow> nat" where
  "avail t = (if lt_dummy t then 0 else free (lt_node t))"

text \<open>The values after a list of keys has been set, from those before.\<close>

fun over :: "('k \<Rightarrow> TValue) \<Rightarrow> ('k \<times> TValue) list \<Rightarrow> (TValue \<Rightarrow> TValue) \<Rightarrow> TValue \<Rightarrow> TValue" where
  "over kk [] L k' = L k'"
| "over kk ((k, v) # kvs) L k' =
     over kk kvs (if v = NilV then L else (\<lambda>x. if luaO_rawequalObj (kk k) x then v else L x)) k'"

lemma over_value:
  assumes "\<And>k v. (k, v) \<in> set kvs \<Longrightarrow> v \<noteq> NilV \<Longrightarrow> luaO_rawequalObj (kk k) k' \<Longrightarrow> v = w"
  shows "over kk kvs L k' =
    (if \<exists>(k, v) \<in> set kvs. v \<noteq> NilV \<and> luaO_rawequalObj (kk k) k' then w else L k')"
  using assms
proof (induction kvs arbitrary: L)
  case (Cons p kvs)
  obtain a b where p: "p = (a, b)" by (cases p)
  have IH: "over kk kvs L k' = (if \<exists>(k, v) \<in> set kvs. v \<noteq> NilV \<and> luaO_rawequalObj (kk k) k' then w else L k')" for L
    by (rule Cons.IH, rule Cons.prems) auto
  show ?case using Cons.prems [of a b] by (auto simp: p IH)
qed simp

locale setter =
  fixes st :: "ltable \<Rightarrow> 'k \<Rightarrow> table_fault + slot \<times> ltable" and kk :: "'k \<Rightarrow> TValue" and good :: "'k \<Rightarrow> bool"
  assumes st_room: "table_ok t \<Longrightarrow> good k \<Longrightarrow> room t (kk k) \<Longrightarrow> \<exists>s t'. st t k = Inr (s, t') \<and> added t (kk k) s t'"
begin

lemma reinsert_ok:
  assumes "table_ok t" "\<And>k v. (k, v) \<in> set kvs \<Longrightarrow> v \<noteq> NilV \<Longrightarrow> good k"
    and "length (filter (\<lambda>(k, v). v \<noteq> NilV \<and> \<not> in_array t (kk k)) kvs) \<le> avail t"
  shows "\<exists>t'. reinsert st kvs t = Inr t' \<and> table_ok t' \<and> sizearray t' = sizearray t \<and>
    (\<forall>k'. rawget t' k' = over kk kvs (rawget t) k') \<and>
    avail t \<le> avail t' + length (filter (\<lambda>(k, v). v \<noteq> NilV \<and> \<not> in_array t (kk k)) kvs)"
  using assms
proof (induction kvs arbitrary: t)
  case (Cons p kvs)
  obtain k v where p: "p = (k, v)" by (cases p)
  show ?case
  proof (cases "v = NilV")
    case True
    then show ?thesis using Cons.IH [OF Cons.prems(1)] Cons.prems(2,3) by (simp add: p)
  next
    case False
    then have g: "good k" using Cons.prems(2) [of k v] p by simp
    have room: "room t (kk k)"
      using Cons.prems(3) False by (auto simp: p room_def avail_def split: if_splits)
    obtain s t1 where s: "st t k = Inr (s, t1)" and a: "added t (kk k) s t1"
      using st_room [OF Cons.prems(1) g room] by blast
    have ok1: "table_ok t1" "luaH_get t1 (kk k) = Inr (Some s)" "sizearray t1 = sizearray t"
      "rawget t1 = rawget t" "lt_dummy t1 = lt_dummy t"
      "free (lt_node t) \<le> free (lt_node t1) + (if in_array t (kk k) then 0 else 1)"
      using a by (auto simp: added_def)
    let ?t2 = "slot_store s v t1"
    note st = store_spec [OF ok1(1,2), of v]
    have ia: "in_array ?t2 = in_array t" using st(3) ok1(3) by (simp add: in_array_def fun_eq_iff)
    have av: "avail t \<le> avail ?t2 + (if in_array t (kk k) then 0 else 1)"
      using ok1(5,6) st(2,5) by (simp add: avail_def)
    have "length (filter (\<lambda>(k, v). v \<noteq> NilV \<and> \<not> in_array ?t2 (kk k)) kvs) \<le> avail ?t2"
      using Cons.prems(3) False av by (simp add: p ia split: if_splits)
    then obtain t' where t': "reinsert st kvs ?t2 = Inr t'" "table_ok t'" "sizearray t' = sizearray ?t2"
      "\<And>k'. rawget t' k' = over kk kvs (rawget ?t2) k'"
      "avail ?t2 \<le> avail t' + length (filter (\<lambda>(k, v). v \<noteq> NilV \<and> \<not> in_array t (kk k)) kvs)"
      using Cons.IH [OF st(1)] Cons.prems(2) by (auto simp: ia)
    moreover have "rawget ?t2 = (\<lambda>x. if luaO_rawequalObj (kk k) x then v else rawget t x)"
      using st(6) ok1(4) by (simp add: fun_eq_iff)
    moreover have "avail t \<le> avail t' + length (filter (\<lambda>(k, v). v \<noteq> NilV \<and> \<not> in_array t (kk k)) (p # kvs))"
      using t'(5) av False by (auto simp: p split: if_splits)
    ultimately show ?thesis using False s st(3) ok1(3) by (simp add: p)
  qed
qed simp

end

interpretation by_key: setter "luaH_set (Suc f)" "\<lambda>k. k" valid_key for f
  by unfold_locales (rule set_room)

interpretation by_index: setter "luaH_setnum (Suc f)" "\<lambda>i. NumV (cast_num i)" "\<lambda>i. - (2 ^ 31) \<le> i \<and> i < 2 ^ 31" for f
  by unfold_locales (use setnum_room in blast)

end
