(* ===== verification/Lua_Table_Grow.thy ===== *)
theory Lua_Table_Grow
  imports Lua_Table_Set
begin

text \<open>
  Growing a table: what the counts of a rehash mean, the size they give the array, and that the
  new parts have room for every key, so that setting the keys again does not make the table grow.
\<close>

section \<open>Counts\<close>

text \<open>A key that is no index of an array of \<open>n\<close> elements.\<close>

definition outside :: "nat \<Rightarrow> TValue \<Rightarrow> bool" where
  "outside n k \<longleftrightarrow> \<not> (1 \<le> arrayindex k \<and> arrayindex k \<le> int n)"

text \<open>How many are counted up to the power of two \<open>i\<close>.\<close>

definition counted :: "nat list \<Rightarrow> nat \<Rightarrow> nat" where
  "counted nums i = sum_list (take (Suc i) nums)"

lemma counted_count: "lg < length nums \<Longrightarrow> counted (count_at lg c nums) i = counted nums i + (if lg \<le> i then c else 0)"
proof (induction nums arbitrary: lg i)
  case (Cons x nums)
  show ?case
  proof (cases lg)
    case 0
    then show ?thesis by (simp add: counted_def count_at_def)
  next
    case (Suc l)
    then show ?thesis using Cons(1) [of l "i - 1"] Cons(2) by (cases i) (simp_all add: counted_def count_at_def)
  qed
qed simp

lemma counted_Suc: "Suc i < length nums \<Longrightarrow> counted nums (Suc i) = counted nums i + nums ! Suc i"
  by (simp add: counted_def take_Suc_conv_app_nth)

lemma counted_zero: "counted (replicate n 0) i = 0"
  by (simp add: counted_def)

lemma count_at_length [simp]: "length (count_at lg c nums) = length nums"
  by (simp add: count_at_def)

lemma ceillog2_le:
  assumes "1 \<le> k" "k \<le> int MAXASIZE"
  shows "nat (ceillog2 (word_of_int k)) \<le> i \<longleftrightarrow> k \<le> 2 ^ i"
proof -
  have u: "int (unat (word_of_int k :: 32 word)) = k"
    using assms by (simp add: MAXASIZE_def MAXBITS_def unat_eq_nat_uint uint_word_of_int)
  then have "(word_of_int k :: 32 word) \<noteq> 0" using assms(1) by auto
  then obtain c where c: "ceillog2 (word_of_int k) = int c" "unat (word_of_int k :: 32 word) \<le> 2 ^ c"
    "c \<noteq> 0 \<longrightarrow> 2 ^ (c - 1) < unat (word_of_int k :: 32 word)"
    using ceillog2_bounds by blast
  have k: "k \<le> 2 ^ c" "c \<noteq> 0 \<Longrightarrow> 2 ^ (c - 1) < k"
    using c(2,3) u by (metis of_nat_le_iff of_nat_numeral of_nat_power, metis of_nat_less_iff of_nat_numeral of_nat_power)
  show ?thesis
  proof
    assume "nat (ceillog2 (word_of_int k)) \<le> i"
    then have "(2::int) ^ c \<le> 2 ^ i" using c(1) by (intro power_increasing) auto
    then show "k \<le> 2 ^ i" by (rule order_trans [OF k(1)])
  next
    assume le: "k \<le> 2 ^ i"
    show "nat (ceillog2 (word_of_int k)) \<le> i"
    proof (rule ccontr)
      assume "\<not> nat (ceillog2 (word_of_int k)) \<le> i"
      then have "c \<noteq> 0" "(2::int) ^ i \<le> 2 ^ (c - 1)" using c(1) by (auto intro: power_increasing)
      then show False using k(2) le by linarith
    qed
  qed
qed

lemma outside_MAX:
  assumes "i \<le> MAXBITS" "\<not> outside (2 ^ i) k"
  shows "\<not> outside MAXASIZE k"
proof -
  have "(2::int) ^ i \<le> 2 ^ MAXBITS" using assms(1) by (intro power_increasing) auto
  moreover have "1 \<le> arrayindex k" "arrayindex k \<le> 2 ^ i" using assms(2) by (auto simp: outside_def)
  ultimately have "1 \<le> arrayindex k" "arrayindex k \<le> 2 ^ MAXBITS" by linarith+
  then show ?thesis by (simp add: outside_def MAXASIZE_def)
qed

lemma countint_spec:
  assumes "countint k nums = (c, nums')" "length nums = Suc MAXBITS"
  shows "c = (if outside MAXASIZE k then 0 else 1) \<and> length nums' = length nums \<and>
    (\<forall>i \<le> MAXBITS. counted nums' i = counted nums i + (if outside (2 ^ i) k then 0 else 1))"
proof (cases "outside MAXASIZE k")
  case True
  then have "c = 0 \<and> nums' = nums" using assms(1) by (auto simp: countint_def outside_def Let_def split: if_splits)
  then show ?thesis using True outside_MAX by auto
next
  case False
  then have k: "1 \<le> arrayindex k" "arrayindex k \<le> int MAXASIZE" by (auto simp: outside_def)
  let ?lg = "nat (ceillog2 (word_of_int (arrayindex k)))"
  have n: "c = 1" "nums' = count_at ?lg 1 nums" using assms(1) k by (auto simp: countint_def Let_def split: if_splits)
  have "?lg \<le> MAXBITS" using ceillog2_le [OF k, of MAXBITS] k(2) by (simp add: MAXASIZE_def)
  then have "counted nums' i = counted nums i + (if ?lg \<le> i then 1 else 0)" for i
    unfolding n(2) using assms(2) by (intro counted_count) simp
  then show ?thesis using n False ceillog2_le [OF k] k by (auto simp: outside_def)
qed

text \<open>The live nodes with a key that satisfies \<open>p\<close>.\<close>

definition live :: "(TValue \<Rightarrow> bool) \<Rightarrow> node list \<Rightarrow> nat" where
  "live p ns = length (filter (\<lambda>n. n_val n \<noteq> NilV \<and> p (n_key n)) ns)"

lemma live_rev: "live p (rev ns) = live p ns"
  by (simp add: live_def flip: rev_filter)

lemma count_nodes_spec:
  assumes "count_nodes ns nums = (tot, ause, nums')" "length nums = Suc MAXBITS"
  shows "tot = live (\<lambda>_. True) ns \<and> ause = live (\<lambda>k. \<not> outside MAXASIZE k) ns \<and> length nums' = length nums \<and>
    (\<forall>i \<le> MAXBITS. counted nums' i = counted nums i + live (\<lambda>k. \<not> outside (2 ^ i) k) ns)"
  using assms
proof (induction ns nums arbitrary: tot ause nums' rule: count_nodes.induct)
  case (2 n ns nums)
  show ?case
  proof (cases "n_val n = NilV")
    case True
    then show ?thesis using 2(1,3,4) by (simp add: live_def)
  next
    case False
    have nn: "\<not> ttisnil (n_val n)" using False by simp
    obtain c nums1 where c: "countint (n_key n) nums = (c, nums1)" by fastforce
    obtain tot1 ause1 nums2 where r: "count_nodes ns nums1 = (tot1, ause1, nums2)" by (metis prod_cases3)
    have e: "tot = tot1 + 1" "ause = ause1 + c" "nums' = nums2" using 2(3) False c r by auto
    note s = countint_spec [OF c 2(4)]
    have "length nums1 = Suc MAXBITS" using s 2(4) by simp
    note ih = 2(2) [OF nn c [symmetric] r this]
    show ?thesis using ih s False e by (auto simp: live_def)
  qed
qed (simp add: live_def)

text \<open>The live places of an array below \<open>b\<close>.\<close>

definition live_below :: "nat \<Rightarrow> TValue list \<Rightarrow> nat" where
  "live_below b arr = length (filter (\<lambda>v. v \<noteq> NilV) (take b arr))"

lemma live_below_split: "a \<le> b \<Longrightarrow> live_below b arr = live_below a arr + length (filter (\<lambda>v. v \<noteq> NilV) (drop a (take b arr)))"
proof -
  assume "a \<le> b"
  then have "take a arr @ drop a (take b arr) = take b arr" by (metis append_take_drop_id min.absorb1 take_take)
  then show ?thesis unfolding live_below_def by (metis filter_append length_append)
qed

lemma live_below_length: "length arr \<le> b \<Longrightarrow> live_below b arr = live_below (length arr) arr"
  by (simp add: live_below_def)

lemma live_below_min: "live_below (min b (length arr)) arr = live_below b arr"
  by (simp add: live_below_def min_def)

definition slice_start :: "nat \<Rightarrow> TValue list \<Rightarrow> nat" where
  "slice_start lg arr = (if lg = 0 then 0 else min (2 ^ (lg - 1)) (length arr))"

lemma slice_start_le: "slice_start lg arr \<le> min (2 ^ lg) (length arr)"
  by (cases lg) (auto simp: slice_start_def)

lemma count_slices_spec:
  assumes "count_slices arr [lg..<Suc MAXBITS] (Suc (slice_start lg arr)) nums ause = (ause', nums')"
    "length nums = Suc MAXBITS" "lg \<le> Suc MAXBITS"
  shows "length nums' = length nums \<and>
    ause' + live_below (slice_start lg arr) arr = ause + live_below (2 ^ MAXBITS) arr \<and>
    (\<forall>i \<le> MAXBITS. if lg \<le> i then counted nums' i + live_below (slice_start lg arr) arr = counted nums i + live_below (2 ^ i) arr
      else counted nums' i = counted nums i)"
  using assms
proof (induction "Suc MAXBITS - lg" arbitrary: lg nums ause)
  case 0
  then have "lg = Suc MAXBITS" by simp
  then show ?case using 0(2) live_below_min [of "2 ^ MAXBITS" arr] by (simp add: slice_start_def)
next
  case (Suc d)
  then have lg: "lg \<le> MAXBITS" by simp
  then have list: "[lg..<Suc MAXBITS] = lg # [Suc lg..<Suc MAXBITS]" by (simp add: upt_conv_Cons del: upt_Suc)
  let ?lim = "min (2 ^ lg) (length arr)"
  note le = slice_start_le [of lg arr]
  show ?case
  proof (cases "length arr < 2 ^ lg \<and> ?lim < Suc (slice_start lg arr)")
    case True
    then have small: "length arr < 2 ^ lg" "length arr < Suc (slice_start lg arr)" by (auto simp: min_def split: if_splits)
    then have n: "ause' = ause" "nums' = nums" using Suc.prems(1) by (simp_all add: list Let_def del: upt_Suc)
    have "slice_start lg arr = length arr" using small le by simp
    moreover have "live_below (2 ^ i) arr = live_below (length arr) arr" if "lg \<le> i" for i
    proof -
      have "(2::nat) ^ lg \<le> 2 ^ i" using that by (intro power_increasing) auto
      then show ?thesis using True by (intro live_below_length) linarith
    qed
    ultimately show ?thesis using n lg by simp
  next
    case False
    define lc where "lc = length (filter (\<lambda>v. v \<noteq> NilV) (drop (slice_start lg arr) (take ?lim arr)))"
    have next_start: "slice_start (Suc lg) arr = ?lim" by (simp add: slice_start_def)
    have mx: "max (Suc (slice_start lg arr)) (?lim + 1) = Suc (slice_start (Suc lg) arr)" using le by (simp add: next_start)
    have "count_slices arr [Suc lg..<Suc MAXBITS] (Suc (slice_start (Suc lg) arr)) (count_at lg lc nums) (ause + lc) = (ause', nums')"
      using Suc.prems(1) False by (simp add: list lc_def Let_def del: upt_Suc flip: mx)
    from Suc.hyps(1) [OF _ this] Suc.hyps(2) Suc.prems(2) lg
    have ih: "length nums' = length nums"
      "ause' + live_below ?lim arr = ause + lc + live_below (2 ^ MAXBITS) arr"
      "\<forall>i \<le> MAXBITS. if Suc lg \<le> i then counted nums' i + live_below ?lim arr = counted (count_at lg lc nums) i + live_below (2 ^ i) arr
        else counted nums' i = counted (count_at lg lc nums) i"
      unfolding next_start by auto
    have split: "live_below ?lim arr = live_below (slice_start lg arr) arr + lc"
      unfolding lc_def by (rule live_below_split [OF le])
    have cnt: "counted (count_at lg lc nums) i = counted nums i + (if lg \<le> i then lc else 0)" for i
      using lg Suc.prems(2) by (intro counted_count) simp
    have "if lg \<le> i then counted nums' i + live_below (slice_start lg arr) arr = counted nums i + live_below (2 ^ i) arr
      else counted nums' i = counted nums i" if "i \<le> MAXBITS" for i
    proof -
      consider "i < lg" | "i = lg" | "Suc lg \<le> i" by linarith
      then show ?thesis
      proof cases
        case 2
        then show ?thesis using ih(3) [rule_format, OF that] cnt [of i] split live_below_min [of "2 ^ lg" arr] by simp
      next
        case 3
        with ih(3) [rule_format, OF that] have "counted nums' i + live_below ?lim arr =
            counted (count_at lg lc nums) i + live_below (2 ^ i) arr" by simp
        then show ?thesis using 3 cnt [of i] split by simp
      qed (use ih(3) [rule_format, OF that] cnt [of i] in simp)
    qed
    then show ?thesis using ih(1,2) split by simp
  qed
qed

lemma numusearray_spec:
  assumes "numusearray t nums = (ause, nums')" "length nums = Suc MAXBITS" "sizearray t \<le> MAXASIZE"
  shows "ause = live_below (sizearray t) (lt_array t) \<and> length nums' = length nums \<and>
    (\<forall>i \<le> MAXBITS. counted nums' i = counted nums i + live_below (2 ^ i) (lt_array t))"
proof -
  have "live_below (2 ^ MAXBITS) (lt_array t) = live_below (sizearray t) (lt_array t)"
    using assms(3) by (intro live_below_length) (simp add: MAXASIZE_def)
  then show ?thesis
    using count_slices_spec [of "lt_array t" 0 nums 0 ause nums'] assms(1,2)
    by (simp add: numusearray_def slice_start_def live_below_def del: upt_Suc)
qed

section \<open>The new size of the array\<close>

text \<open>The array has a power of two of places or none, more than half of them in use.\<close>

lemma compute_loop_spec:
  assumes "compute_loop (drop i nums) (2 ^ i) a na n narray = (n', na')" "i \<le> length nums"
    and "a = (if i = 0 then 0 else counted nums (i - 1))"
    and "n = 0 \<and> na = 0 \<or> (\<exists>j < length nums. n = 2 ^ j \<and> na = counted nums j \<and> n < 2 * na)"
  shows "n' = 0 \<and> na' = 0 \<or> (\<exists>j < length nums. n' = 2 ^ j \<and> na' = counted nums j \<and> n' < 2 * na')"
  using assms
proof (induction "length nums - i" arbitrary: i a na n)
  case (Suc d)
  then have i: "i < length nums" by simp
  then have list: "drop i nums = nums ! i # drop (Suc i) nums" by (simp add: Cons_nth_drop_Suc)
  have a1: "a + nums ! i = counted nums i"
    using Suc.prems(3) i counted_Suc [of "i - 1" nums] by (cases i) (simp_all add: counted_def take_Suc_conv_app_nth)
  show ?case
  proof (cases "2 ^ i div 2 < narray")
    case True
    define r where "r = (if 0 < nums ! i \<and> 2 ^ i div 2 < a + nums ! i then (2 ^ i, a + nums ! i) else (n, na))"
    have rr: "fst r = 0 \<and> snd r = 0 \<or> (\<exists>j < length nums. fst r = 2 ^ j \<and> snd r = counted nums j \<and> fst r < 2 * snd r)"
    proof (cases "0 < nums ! i \<and> 2 ^ i div 2 < a + nums ! i")
      case True
      then have "r = (2 ^ i, counted nums i)" "(2::nat) ^ i < 2 * counted nums i" by (auto simp: r_def a1)
      then show ?thesis using i by auto
    next
      case False
      then have "r = (n, na)" unfolding r_def by (rule if_not_P)
      then show ?thesis using Suc.prems(4) by simp
    qed
    show ?thesis
    proof (cases "a + nums ! i = narray")
      case all: True
      then have "(n', na') = r" using Suc.prems(1) True by (simp add: list r_def Let_def split: if_splits)
      then show ?thesis using rr by (metis fst_conv snd_conv)
    next
      case False
      have "compute_loop (drop (Suc i) nums) (2 ^ Suc i) (a + nums ! i) (snd r) (fst r) narray = (n', na')"
        using Suc.prems(1) True False by (simp add: list r_def Let_def)
      then show ?thesis using Suc.hyps(1) [of "Suc i"] Suc.hyps(2) i a1 rr by simp
    qed
  qed (use Suc.prems in \<open>simp add: list\<close>)
qed simp

lemma computesizes_spec:
  assumes "computesizes nums narray = (n, na)" "length nums = Suc MAXBITS"
  shows "n = 0 \<and> na = 0 \<or> (\<exists>j \<le> MAXBITS. n = 2 ^ j \<and> na = counted nums j \<and> n < 2 * na)"
  using compute_loop_spec [of 0 nums 0 0 0 narray n na] assms by (auto simp: computesizes_def)

section \<open>New parts\<close>

definition emptied :: "ltable \<Rightarrow> bool" where
  "emptied t \<longleftrightarrow> (\<exists>c \<le> MAXBITS. lt_node t = replicate (2 ^ c) empty_node \<and>
     (if lt_dummy t then c = 0 \<and> lt_lastfree t = 0 else lt_lastfree t = 2 ^ c))"

lemma emptied_ok:
  assumes "emptied t" "sizearray t \<le> MAXASIZE"
  shows "table_ok t" "rawget t k = (if in_array t k then lt_array t ! nat (arrayindex k - 1) else NilV)"
    "avail t = (if lt_dummy t then 0 else sizenode t)"
proof -
  obtain c where c: "c \<le> MAXBITS" "lt_node t = replicate (2 ^ c) empty_node"
    "if lt_dummy t then c = 0 \<and> lt_lastfree t = 0 else lt_lastfree t = 2 ^ c"
    using assms(1) by (auto simp: emptied_def)
  have key: "n_key (lt_node t ! i) = NilV" "n_val (lt_node t ! i) = NilV" if "i < sizenode t" for i
    using that by (simp_all add: c(2) empty_node_def)
  have nok: "nodes_ok (lt_node t)" unfolding c(2) by (rule nodes_empty [OF c(1)])
  show "table_ok t"
  proof (cases "lt_dummy t")
    case True
    then show ?thesis using c nok assms(2) key by (simp add: table_ok_def)
  next
    case False
    then show ?thesis using c nok assms(2) key by (simp add: table_ok_def)
  qed
  have "\<not> holds (lt_node t) k v" for v using key by (auto simp: holds_def)
  then have "rawget t k = NilV" if "\<not> in_array t k" using lookup_iff [OF nok that] by blast
  then show "rawget t k = (if in_array t k then lt_array t ! nat (arrayindex k - 1) else NilV)"
    by (simp add: lookup_array)
  have "{i. i < sizenode t \<and> n_key (lt_node t ! i) = NilV} = {..<sizenode t}" using key by auto
  then show "avail t = (if lt_dummy t then 0 else sizenode t)" by (simp add: avail_def free_def)
qed

lemma setnodevector_spec:
  assumes "sz < 2 ^ 32"
  shows "(\<exists>t2. setnodevector sz t = Inr t2 \<and> emptied t2 \<and> lt_array t2 = lt_array t \<and>
      (if lt_dummy t2 then sz = 0 else sz \<le> sizenode t2)) \<or>
    setnodevector sz t = Inl Table_overflow \<and> 2 ^ MAXBITS < sz"
proof (cases "sz = 0")
  case True
  then show ?thesis by (simp add: setnodevector_def emptied_def exI [of _ 0])
next
  case False
  have u: "unat (word_of_nat sz :: 32 word) = sz" using assms by (simp add: unsigned_of_nat take_bit_nat_eq_self)
  then have "(word_of_nat sz :: 32 word) \<noteq> 0" using False by auto
  then obtain c where c: "ceillog2 (word_of_nat sz) = int c" "sz \<le> 2 ^ c" "c \<noteq> 0 \<longrightarrow> 2 ^ (c - 1) < sz"
    using ceillog2_bounds [of "word_of_nat sz"] u by auto
  show ?thesis
  proof (cases "c \<le> MAXBITS")
    case True
    then show ?thesis using False c by (auto simp: setnodevector_def emptied_def Let_def)
  next
    case big: False
    then have "(2::nat) ^ MAXBITS \<le> 2 ^ (c - 1)" by (intro power_increasing) auto
    moreover have "2 ^ (c - 1) < sz" using c(3) big by auto
    ultimately have "2 ^ MAXBITS < sz" by (rule le_less_trans)
    then show ?thesis using False big c(1) by (simp add: setnodevector_def)
  qed
qed

text \<open>The array after a resize, before the keys are set again.\<close>

definition new_array :: "nat \<Rightarrow> TValue list \<Rightarrow> TValue list" where
  "new_array n arr = take n arr @ replicate (n - length arr) NilV"

lemma new_array_length [simp]: "length (new_array n arr) = n"
  by (simp add: new_array_def)

lemma new_array_nth: "i < n \<Longrightarrow> new_array n arr ! i = (if i < length arr then arr ! i else NilV)"
  by (simp add: new_array_def nth_append)

lemma resize_eq:
  "resize setnum st nasize nhsize t =
     bnd (setnodevector nhsize (t\<lparr>lt_array := new_array nasize (lt_array t)\<rparr>)) (\<lambda>t2.
     bnd (reinsert setnum (map (\<lambda>i. (int i + 1, lt_array t ! i)) [nasize..<sizearray t]) t2) (\<lambda>t3.
       reinsert st (rev (map (\<lambda>n. (n_key n, n_val n)) (lt_node t))) t3))"
proof -
  consider "sizearray t < nasize" | "sizearray t = nasize" | "nasize < sizearray t" by linarith
  then show ?thesis
  proof cases
    case 3
    have "setnodevector nhsize (t\<lparr>lt_array := a\<rparr>) = bnd (setnodevector nhsize t) (\<lambda>t2. Inr (t2\<lparr>lt_array := a\<rparr>))" for a
      by (simp add: setnodevector_def Let_def)
    then show ?thesis using 3 by (simp add: resize_def new_array_def bnd_assoc)
  qed (simp_all add: resize_def setarrayvector_def new_array_def)
qed

text \<open>How many keys of a table a hash part must take when the array has \<open>n\<close> places.\<close>

definition hashed :: "nat \<Rightarrow> ltable \<Rightarrow> nat" where
  "hashed n t = length (filter (\<lambda>i. lt_array t ! i \<noteq> NilV) [n..<sizearray t]) + live (outside n) (lt_node t)"

lemma in_array_outside: "in_array t k = (\<not> outside (sizearray t) k)"
  by (simp add: in_array_def outside_def)

lemma valid_keys: "nodes_ok ns \<Longrightarrow> n \<in> set ns \<Longrightarrow> n_val n \<noteq> NilV \<Longrightarrow> valid_key (n_key n)"
  by (metis in_set_conv_nth nodes_okD(1,4))

lemma live_count: "live (outside n) ns = length (filter (\<lambda>(k, v). v \<noteq> NilV \<and> outside n k) (rev (map (\<lambda>n. (n_key n, n_val n)) ns)))"
  by (simp add: live_def filter_map comp_def case_prod_beta flip: rev_filter)

lemma index_outside:
  assumes "n \<le> i" "i < MAXASIZE"
  shows "outside n (NumV (cast_num (int i + 1)))" "arrayindex (NumV (cast_num (int i + 1))) = int i + 1"
  using dbl_to_int_cast_num [of "int i + 1"] assms by (simp_all add: outside_def MAXASIZE_def MAXBITS_def)

lemma values_kept:
  assumes ok: "table_ok t"
    and base: "\<And>k. rawget t2 k = (if in_array t2 k then lt_array t2 ! nat (arrayindex k - 1) else NilV)"
    and arr: "lt_array t2 = new_array n (lt_array t)"
  shows "over (\<lambda>k. k) (rev (map (\<lambda>n. (n_key n, n_val n)) (lt_node t)))
    (over (\<lambda>i. NumV (cast_num i)) (map (\<lambda>i. (int i + 1, lt_array t ! i)) [n..<sizearray t]) (rawget t2)) k = rawget t k"
proof -
  have nok: "nodes_ok (lt_node t)" and sz: "sizearray t \<le> MAXASIZE"
    and out: "\<And>x. x \<in> set (lt_node t) \<Longrightarrow> n_key x \<noteq> NilV \<Longrightarrow> \<not> in_array t (n_key x)"
    using ok by (auto simp: table_ok_def in_set_conv_nth)
  let ?slice = "map (\<lambda>i. (int i + 1, lt_array t ! i)) [n..<sizearray t]"
  let ?nodes = "rev (map (\<lambda>n. (n_key n, n_val n)) (lt_node t))"
  have idx: "arrayindex (NumV (cast_num (int i + 1))) = int i + 1" if "i < sizearray t" for i
    using that sz by (intro index_outside(2) [OF le_refl]) simp
  have slice: "v = rawget t k" if a: "(i, v) \<in> set ?slice" "luaO_rawequalObj (NumV (cast_num i)) k" for i v
  proof -
    obtain j where j: "n \<le> j" "j < sizearray t" "i = int j + 1" "v = lt_array t ! j" using a(1) by auto
    then have "arrayindex k = int j + 1" using idx rawequal_arrayindex [OF a(2)] by simp
    then show ?thesis using j by (simp add: lookup_array in_array_def)
  qed
  have node: "v = rawget t k" if a: "(x, v) \<in> set ?nodes" "v \<noteq> NilV" "luaO_rawequalObj x k" for x v
  proof -
    obtain m where m: "m \<in> set (lt_node t)" "x = n_key m" "v = n_val m" using a(1) by auto
    then have h: "holds (lt_node t) k v" using a by (auto simp: holds_def in_set_conv_nth)
    have "x \<noteq> NilV" using valid_keys [OF nok m(1)] a(2) m by (auto simp: valid_key_def)
    then have "\<not> in_array t k" using out [OF m(1)] rawequal_arrayindex [OF a(3)] m(2) by (auto simp: in_array_def)
    then show ?thesis using lookup_iff [OF nok _ a(2)] h by auto
  qed
  have "rawget t2 k = rawget t k"
    if no: "\<And>i v. (i, v) \<in> set ?slice \<Longrightarrow> v \<noteq> NilV \<Longrightarrow> \<not> luaO_rawequalObj (NumV (cast_num i)) k"
      "\<And>x v. (x, v) \<in> set ?nodes \<Longrightarrow> v \<noteq> NilV \<Longrightarrow> \<not> luaO_rawequalObj x k"
  proof (cases "in_array t k")
    case True
    define j where "j = nat (arrayindex k - 1)"
    have j: "arrayindex k = int j + 1" "j < sizearray t" using True by (auto simp: in_array_def j_def)
    then have v: "rawget t k = lt_array t ! j" using True by (simp add: lookup_array)
    show ?thesis
    proof (cases "j < n")
      case True
      then show ?thesis using v j by (simp add: base arr in_array_def new_array_nth)
    next
      case False
      have "luaO_rawequalObj (NumV (cast_num (int j + 1))) k"
        using idx [OF j(2)] j(1) by (intro arrayindex_rawequal) simp_all
      then have "lt_array t ! j = NilV" using no(1) [of "int j + 1" "lt_array t ! j"] False j(2) by auto
      then show ?thesis using v j False by (simp add: base arr in_array_def)
    qed
  next
    case False
    have "rawget t k = NilV"
    proof (rule ccontr)
      assume n: "rawget t k \<noteq> NilV"
      then have "holds (lt_node t) k (rawget t k)" using lookup_iff [OF nok False n] by simp
      then obtain i where "i < sizenode t" "luaO_rawequalObj (n_key (lt_node t ! i)) k" "n_val (lt_node t ! i) \<noteq> NilV"
        by (auto simp: holds_def)
      then show False using no(2) [of "n_key (lt_node t ! i)" "n_val (lt_node t ! i)"] by auto
    qed
    moreover have "rawget t2 k = NilV" using False by (auto simp: base arr in_array_def new_array_nth)
    ultimately show ?thesis by simp
  qed
  note rest = this
  have on: "over (\<lambda>k. k) ?nodes L k = (if \<exists>(x, v) \<in> set ?nodes. v \<noteq> NilV \<and> luaO_rawequalObj x k then rawget t k else L k)" for L
    by (rule over_value) (rule node)
  have os: "over (\<lambda>i. NumV (cast_num i)) ?slice L k =
      (if \<exists>(i, v) \<in> set ?slice. v \<noteq> NilV \<and> luaO_rawequalObj (NumV (cast_num i)) k then rawget t k else L k)" for L
    by (rule over_value) (rule slice)
  show ?thesis
  proof (cases "(\<exists>(x, v) \<in> set ?nodes. v \<noteq> NilV \<and> luaO_rawequalObj x k) \<or>
      (\<exists>(i, v) \<in> set ?slice. v \<noteq> NilV \<and> luaO_rawequalObj (NumV (cast_num i)) k)")
    case True
    then show ?thesis unfolding on os by argo
  next
    case False
    then have "rawget t2 k = rawget t k" by (intro rest) blast+
    then show ?thesis using False unfolding on os by argo
  qed
qed

text \<open>A resize keeps the value of every key, and leaves the places that it was asked for beyond those it needs.\<close>

lemma resize_ok:
  assumes ok: "table_ok t" and n: "n \<le> MAXASIZE" and nh: "hashed n t \<le> nh" "nh < 2 ^ 32"
  shows "(\<exists>t'. resize (luaH_setnum (Suc f)) (luaH_set (Suc f)) n nh t = Inr t' \<and> table_ok t' \<and> sizearray t' = n \<and>
      (\<forall>k. rawget t' k = rawget t k) \<and> nh \<le> avail t' + hashed n t) \<or>
    resize (luaH_setnum (Suc f)) (luaH_set (Suc f)) n nh t = Inl Table_overflow \<and> 2 ^ MAXBITS < nh"
proof -
  have nok: "nodes_ok (lt_node t)" and sz: "sizearray t \<le> MAXASIZE"
    and out: "\<And>x. x \<in> set (lt_node t) \<Longrightarrow> n_key x \<noteq> NilV \<Longrightarrow> outside (sizearray t) (n_key x)"
    using ok by (auto simp: table_ok_def in_array_outside in_set_conv_nth)
  from setnodevector_spec [OF nh(2), of "t\<lparr>lt_array := new_array n (lt_array t)\<rparr>"]
  show ?thesis
  proof (elim disjE exE conjE)
    fix t2 assume s: "setnodevector nh (t\<lparr>lt_array := new_array n (lt_array t)\<rparr>) = Inr t2" "emptied t2"
      "lt_array t2 = lt_array (t\<lparr>lt_array := new_array n (lt_array t)\<rparr>)" "if lt_dummy t2 then nh = 0 else nh \<le> sizenode t2"
    then have arr: "lt_array t2 = new_array n (lt_array t)" "sizearray t2 = n" by simp_all
    note e = emptied_ok [OF s(2)] arr(2) n
    have ok2: "table_ok t2" using e(1) arr(2) n by simp
    have av2: "nh \<le> avail t2" using e(3) s(4) arr(2) n by (simp split: if_splits)
    have ia2: "in_array t2 k = (\<not> outside n k)" for k by (simp add: in_array_outside arr(2))
    let ?slice = "map (\<lambda>i. (int i + 1, lt_array t ! i)) [n..<sizearray t]"
    let ?nodes = "rev (map (\<lambda>n. (n_key n, n_val n)) (lt_node t))"
    have c1: "length (filter (\<lambda>(k, v). v \<noteq> NilV \<and> \<not> in_array t2 (NumV (cast_num k))) ?slice) =
      length (filter (\<lambda>i. lt_array t ! i \<noteq> NilV) [n..<sizearray t])"
      using index_outside sz by (auto simp: filter_map comp_def ia2 intro!: arg_cong [of _ _ length] filter_cong)
    have "\<exists>t3. reinsert (luaH_setnum (Suc f)) ?slice t2 = Inr t3 \<and> table_ok t3 \<and> sizearray t3 = sizearray t2 \<and>
      (\<forall>k'. rawget t3 k' = over (\<lambda>i. NumV (cast_num i)) ?slice (rawget t2) k') \<and>
      avail t2 \<le> avail t3 + length (filter (\<lambda>(k, v). v \<noteq> NilV \<and> \<not> in_array t2 (NumV (cast_num k))) ?slice)"
    proof (rule by_index.reinsert_ok [OF ok2])
      show "length (filter (\<lambda>(k, v). v \<noteq> NilV \<and> \<not> in_array t2 (NumV (cast_num k))) ?slice) \<le> avail t2"
        using av2 nh(1) unfolding c1 by (simp add: hashed_def)
    qed (use sz in \<open>auto simp: MAXASIZE_def MAXBITS_def\<close>)
    then obtain t3 where t3: "reinsert (luaH_setnum (Suc f)) ?slice t2 = Inr t3" "table_ok t3" "sizearray t3 = n"
      "\<And>k'. rawget t3 k' = over (\<lambda>i. NumV (cast_num i)) ?slice (rawget t2) k'"
      "avail t2 \<le> avail t3 + length (filter (\<lambda>i. lt_array t ! i \<noteq> NilV) [n..<sizearray t])"
      unfolding c1 arr(2) by blast
    have c2: "length (filter (\<lambda>(k, v). v \<noteq> NilV \<and> \<not> in_array t3 k) ?nodes) = live (outside n) (lt_node t)"
      by (simp add: live_count in_array_outside t3(3))
    have "\<exists>t4. reinsert (luaH_set (Suc f)) ?nodes t3 = Inr t4 \<and> table_ok t4 \<and> sizearray t4 = sizearray t3 \<and>
      (\<forall>k'. rawget t4 k' = over (\<lambda>k. k) ?nodes (rawget t3) k') \<and>
      avail t3 \<le> avail t4 + length (filter (\<lambda>(k, v). v \<noteq> NilV \<and> \<not> in_array t3 k) ?nodes)"
    proof (rule by_key.reinsert_ok [OF t3(2)])
      show "length (filter (\<lambda>(k, v). v \<noteq> NilV \<and> \<not> in_array t3 k) ?nodes) \<le> avail t3"
        using av2 nh(1) t3(5) unfolding c2 by (simp add: hashed_def)
    qed (use valid_keys [OF nok] in auto)
    then obtain t4 where t4: "reinsert (luaH_set (Suc f)) ?nodes t3 = Inr t4" "table_ok t4" "sizearray t4 = n"
      "\<And>k'. rawget t4 k' = over (\<lambda>k. k) ?nodes (rawget t3) k'"
      "avail t3 \<le> avail t4 + live (outside n) (lt_node t)"
      unfolding c2 t3(3) by blast
    have "rawget t4 k = rawget t k" for k
      unfolding t4(4) t3(4) [abs_def] by (rule values_kept [OF ok _ arr(1)]) (use e(2) arr(2) n in simp)
    then show ?thesis using s(1) t3 t4 av2 by (simp add: resize_eq hashed_def)
  qed (simp add: resize_eq)
qed

section \<open>A rehash\<close>

text \<open>The keys that have a value.\<close>

definition elements :: "ltable \<Rightarrow> nat" where
  "elements t = live_below (sizearray t) (lt_array t) + live (\<lambda>_. True) (lt_node t)"

lemma live_split: "live (\<lambda>k. \<not> p k) ns + live p ns = live (\<lambda>_. True) ns"
  by (induction ns) (auto simp: live_def)

lemma live_below_rest: "live_below n arr + length (filter (\<lambda>i. arr ! i \<noteq> NilV) [n..<length arr]) = live_below (length arr) arr"
proof (cases "n \<le> length arr")
  case True
  have "drop n arr = map ((!) arr) [n..<length arr]"
    using True by (intro nth_equalityI) auto
  then have "length (filter (\<lambda>v. v \<noteq> NilV) (drop n arr)) = length (filter (\<lambda>i. arr ! i \<noteq> NilV) [n..<length arr])"
    by (simp add: filter_map comp_def)
  then show ?thesis using live_below_split [OF True, of arr] by simp
next
  case False
  then show ?thesis using live_below_length [of arr n] by simp
qed

lemma outside_zero [simp]: "outside 0 k"
  by (simp add: outside_def)

lemma rehash_sizes:
  assumes ok: "table_ok t" and "numusearray t (replicate (MAXBITS + 1) 0) = (na0, nums0)"
    "numusehash t nums0 = (tot, ause, nums1)" "countint ek nums1 = (c, nums2)" "computesizes nums2 narray = (n, na)"
  shows "n \<le> MAXASIZE" "na0 + tot + 1 - na = hashed n t + (if outside n ek then 1 else 0)"
    "na0 + tot = elements t"
proof -
  have a: "na0 = live_below (sizearray t) (lt_array t)" "length nums0 = Suc MAXBITS"
    "\<And>i. i \<le> MAXBITS \<Longrightarrow> counted nums0 i = live_below (2 ^ i) (lt_array t)"
    using numusearray_spec [OF assms(2)] ok by (auto simp: table_ok_def counted_zero simp del: replicate_Suc)
  have h: "tot = live (\<lambda>_. True) (lt_node t)" "length nums1 = Suc MAXBITS"
    "\<And>i. i \<le> MAXBITS \<Longrightarrow> counted nums1 i = counted nums0 i + live (\<lambda>k. \<not> outside (2 ^ i) k) (lt_node t)"
    using count_nodes_spec [OF assms(3) [unfolded numusehash_def] a(2)] a(2) by (auto simp: live_rev)
  have c: "length nums2 = Suc MAXBITS"
    "\<And>i. i \<le> MAXBITS \<Longrightarrow> counted nums2 i = counted nums1 i + (if outside (2 ^ i) ek then 0 else 1)"
    using countint_spec [OF assms(4) h(2)] h(2) by auto
  have na: "na = live_below n (lt_array t) + live (\<lambda>k. \<not> outside n k) (lt_node t) + (if outside n ek then 0 else 1)"
    using computesizes_spec [OF assms(5) c(1)] a(3) h(3) c(2) by (auto simp: live_below_def live_def)
  show "n \<le> MAXASIZE"
    using computesizes_spec [OF assms(5) c(1)] by (auto simp: MAXASIZE_def intro: power_increasing)
  show "na0 + tot = elements t" by (simp add: elements_def a(1) h(1))
  show "na0 + tot + 1 - na = hashed n t + (if outside n ek then 1 else 0)"
  proof -
    have "na0 + tot + 1 = na + (hashed n t + (if outside n ek then 1 else 0))"
      using live_split [of "outside n" "lt_node t"] live_below_rest [of n "lt_array t"]
      by (simp add: na a(1) h(1) hashed_def)
    then show ?thesis by simp
  qed
qed

lemma live_length: "live p ns \<le> length ns"
  by (simp add: live_def)

lemma elements_small: "table_ok t \<Longrightarrow> elements t < 2 ^ 31"
proof -
  assume ok: "table_ok t"
  then obtain k where "k \<le> MAXBITS" "sizenode t = 2 ^ k" "sizearray t \<le> 2 ^ MAXBITS"
    by (auto simp: table_ok_def nodes_ok_def MAXASIZE_def)
  then have "sizenode t \<le> 2 ^ MAXBITS" "sizearray t \<le> 2 ^ MAXBITS" by (auto intro: power_increasing)
  moreover have "live_below (sizearray t) (lt_array t) \<le> sizearray t" by (simp add: live_below_def)
  ultimately have "elements t \<le> 2 ^ MAXBITS + 2 ^ MAXBITS"
    unfolding elements_def using live_length [of "\<lambda>_. True" "lt_node t"] by linarith
  then show ?thesis by (simp add: MAXBITS_def)
qed

lemma rehash_ok:
  assumes ok: "table_ok t"
  shows "(\<exists>t'. rehash (luaH_setnum (Suc f)) (luaH_set (Suc f)) t ek = Inr t' \<and> table_ok t' \<and>
      (\<forall>k. rawget t' k = rawget t k) \<and> (in_array t' ek \<or> 0 < avail t')) \<or>
    rehash (luaH_setnum (Suc f)) (luaH_set (Suc f)) t ek = Inl Table_overflow \<and> 2 ^ MAXBITS \<le> elements t"
proof -
  obtain na0 nums0 where 1: "numusearray t (replicate (MAXBITS + 1) 0) = (na0, nums0)" by fastforce
  obtain tot ause nums1 where 2: "numusehash t nums0 = (tot, ause, nums1)" by (metis prod_cases3)
  obtain c nums2 where 3: "countint ek nums1 = (c, nums2)" by fastforce
  obtain n na where 4: "computesizes nums2 (na0 + ause + c) = (n, na)" by fastforce
  note s = rehash_sizes [OF ok 1 2 3 4]
  let ?nh = "na0 + tot + 1 - na"
  have eq: "rehash setnum st t ek = resize setnum st n ?nh t" for setnum st
    by (simp only: rehash_def 1 2 3 4 prod.case)
  have "?nh < 2 ^ 32" using elements_small [OF ok] s(3) by simp
  moreover have "hashed n t \<le> ?nh" using s(2) by simp
  ultimately show ?thesis using resize_ok [OF ok s(1), of ?nh f] s(2,3) unfolding eq
    by (auto simp: in_array_outside split: if_splits)
qed

section \<open>Setting\<close>

lemma grow_spec:
  assumes ok: "table_ok t" and k: "valid_key k" "luaH_get t k = Inr None"
    and g: "g = (\<lambda>t1 key. bnd (rehash (luaH_setnum (Suc f)) (luaH_set (Suc f)) t1 key) (\<lambda>t2. luaH_set (Suc f) t2 key))"
  shows "(\<exists>s t'. newkey g t k = Inr (s, t') \<and> table_ok t' \<and> luaH_get t' k = Inr (Some s) \<and> (\<forall>k'. rawget t' k' = rawget t k')) \<or>
    newkey g t k = Inl Table_overflow \<and> 2 ^ MAXBITS \<le> elements t"
proof -
  have na: "\<not> in_array t k" using k(2) get_in_array by auto
  have nok: "k \<noteq> NilV" "nodes_ok (lt_node t)" using k(1) ok by (auto simp: valid_key_def table_ok_def)
  then have "\<And>j. j < sizenode t \<Longrightarrow> \<not> luaO_rawequalObj (n_key (lt_node t ! j)) k"
    using k(2) na by (auto elim: get_spec [where t = t and k = k])
  then have new: "(\<exists>s t'. newkey g t k = Inr (s, t') \<and> added t k s t' \<and> \<not> lt_dummy t) \<or>
      (\<exists>l. newkey g t k = g (t\<lparr>lt_lastfree := l\<rparr>) k \<and> (lt_dummy t \<or> free (lt_node t) = 0) \<and> table_ok (t\<lparr>lt_lastfree := l\<rparr>))"
    by (rule newkey_spec [OF ok k(1) na])
  consider (added) s t' where "newkey g t k = Inr (s, t')" "added t k s t'"
    | (grow) l where "newkey g t k = g (t\<lparr>lt_lastfree := l\<rparr>) k" "table_ok (t\<lparr>lt_lastfree := l\<rparr>)"
    using new by blast
  then show ?thesis
  proof cases
    case added
    then show ?thesis by (auto simp: added_def)
  next
    case l: (grow l)
    let ?t = "t\<lparr>lt_lastfree := l\<rparr>"
    have "luaH_get ?t k' = luaH_get t k'" for k' by (rule get_cong) simp_all
    moreover have "slot_value ?t s = slot_value t s" for s by (cases s) auto
    ultimately have same: "rawget ?t k' = rawget t k'" for k'
      by (simp add: rawget_def split: sum.split option.split)
    have el: "elements ?t = elements t" by (simp add: elements_def)
    consider (grown) t2 where "rehash (luaH_setnum (Suc f)) (luaH_set (Suc f)) ?t k = Inr t2" "table_ok t2"
        "\<forall>k. rawget t2 k = rawget ?t k" "in_array t2 k \<or> 0 < avail t2"
      | (full) "rehash (luaH_setnum (Suc f)) (luaH_set (Suc f)) ?t k = Inl Table_overflow" "2 ^ MAXBITS \<le> elements ?t"
      using rehash_ok [OF l(2), of f k] by blast
    then show ?thesis
    proof cases
      case t2: (grown t2)
      then have "room t2 k" by (auto simp: room_def avail_def split: if_splits)
      then obtain s t3 where "luaH_set (Suc f) t2 k = Inr (s, t3)" "added t2 k s t3"
        using set_room [OF t2(2) k(1)] by blast
      moreover have "newkey g t k = luaH_set (Suc f) t2 k"
        unfolding l(1) unfolding g by (simp only: t2(1) bnd.simps)
      ultimately show ?thesis using t2(3) same by (auto simp: added_def simp del: luaH_set.simps)
    next
      case full
      moreover from this have "newkey g t k = Inl Table_overflow"
        unfolding l(1) unfolding g by (simp only: bnd.simps)
      ultimately show ?thesis using el by simp
    qed
  qed
qed

text \<open>Setting a key finds or makes its slot and changes no value, or there are too many elements.\<close>

definition set_done :: "ltable \<Rightarrow> TValue \<Rightarrow> table_fault + slot \<times> ltable \<Rightarrow> bool" where
  "set_done t k r \<longleftrightarrow>
     (\<exists>s t'. r = Inr (s, t') \<and> table_ok t' \<and> luaH_get t' k = Inr (Some s) \<and> (\<forall>k'. rawget t' k' = rawget t k')) \<or>
     r = Inl Table_overflow \<and> 2 ^ MAXBITS \<le> elements t"

lemma set_done_flags: "set_done (t\<lparr>lt_flags := x\<rparr>) k r = set_done t k r"
  by (simp add: set_done_def elements_def)

lemma set_spec:
  assumes ok: "table_ok t" and k: "valid_key k"
  shows "set_done t k (luaH_set (Suc (Suc f)) t k)"
proof -
  obtain p where p: "luaH_get t k = Inr p" using get_returns [OF ok] by blast
  show ?thesis
  proof (cases p)
    case (Some s)
    then show ?thesis using p ok by (simp add: set_done_def)
  next
    case None
    let ?g = "\<lambda>t1 key. bnd (rehash (luaH_setnum (Suc f)) (luaH_set (Suc f)) t1 key) (\<lambda>t2. luaH_set (Suc f) t2 key)"
    have "set_done (t\<lparr>lt_flags := 0\<rparr>) k (newkey ?g (t\<lparr>lt_flags := 0\<rparr>) k)"
      unfolding set_done_def using p None ok by (intro grow_spec [OF _ k _ refl]) simp_all
    moreover have "luaH_set (Suc (Suc f)) t k = newkey ?g (t\<lparr>lt_flags := 0\<rparr>) k"
      using p None k valid_not_nan [OF k] by (simp add: valid_key_def)
    ultimately show ?thesis by (simp only: set_done_flags)
  qed
qed

lemma setstr_spec:
  assumes ok: "table_ok t"
  shows "set_done t (StrV s) (luaH_setstr (Suc f) t s)"
proof -
  obtain p where p: "luaH_getstr t s = Inr p" "luaH_get t (StrV s) = Inr p"
    using get_returns [OF ok, of "StrV s"] by (auto simp: luaH_get_def)
  show ?thesis
  proof (cases p)
    case (Some s)
    then show ?thesis using p ok by (simp add: set_done_def luaH_setstr_def)
  next
    case None
    then have "luaH_setstr (Suc f) t s =
        newkey (\<lambda>t1 key. bnd (rehash (luaH_setnum (Suc f)) (luaH_set (Suc f)) t1 key) (\<lambda>t2. luaH_set (Suc f) t2 key)) t (StrV s)"
      using p by (simp add: luaH_setstr_def)
    then show ?thesis unfolding set_done_def using p None
      by (simp only:) (intro grow_spec [OF ok _ _ refl], simp_all add: valid_key_def)
  qed
qed

lemma setnum_spec:
  assumes ok: "table_ok t" and i: "- (2 ^ 31) \<le> i" "i < 2 ^ 31"
  shows "set_done t (NumV (cast_num i)) (luaH_setnum (Suc (Suc f)) t i)"
proof -
  obtain p where p: "luaH_getnum t i = Inr p" "luaH_get t (NumV (cast_num i)) = Inr p"
    using get_returns [OF ok] getnum_in_array [OF i] by metis
  show ?thesis
  proof (cases p)
    case (Some s)
    then show ?thesis using p ok by (simp add: set_done_def)
  next
    case None
    then show ?thesis unfolding set_done_def using p
      by (simp del: luaH_set.simps) (intro grow_spec [OF ok valid_int [OF i] _ refl], simp)
  qed
qed

end
