(* ===== verification/Lua_Table_Props.thy ===== *)
theory Lua_Table_Props
  imports Lua_Table_Grow "HOL-Library.Code_Target_Nat"
begin

text \<open>
  What a table promises: it is a map, its nodes keep the main invariant, a traversal meets every
  element once, and the length operator finds a boundary.
\<close>

section \<open>Tables that come about\<close>

text \<open>A new table, a key that is set and given a value, an array that is made larger.\<close>

inductive built :: "ltable \<Rightarrow> bool" where
  built_new: "luaH_new narray nhash = Inr t \<Longrightarrow> narray \<le> MAXASIZE \<Longrightarrow> nhash < 2 ^ 32 \<Longrightarrow> built t"
| built_set: "built t \<Longrightarrow> valid_key k \<Longrightarrow> 2 \<le> f \<Longrightarrow> luaH_set f t k = Inr (s, t') \<Longrightarrow> built (slot_store s v t')"
| built_resize: "built t \<Longrightarrow> sizearray t \<le> n \<Longrightarrow> n \<le> MAXASIZE \<Longrightarrow> 1 \<le> f \<Longrightarrow> luaH_resizearray f t n = Inr t' \<Longrightarrow> built t'"

lemma new_ok:
  assumes "luaH_new narray nhash = Inr t" "narray \<le> MAXASIZE" "nhash < 2 ^ 32"
  shows "table_ok t" "rawget t k = NilV"
proof -
  define t0 where "t0 = setarrayvector narray
    \<lparr>lt_flags = 255, lt_metatable = None, lt_array = [], lt_node = [empty_node], lt_dummy = True, lt_lastfree = 0\<rparr>"
  have "setnodevector nhash t0 = Inr t" using assms(1) unfolding luaH_new_def t0_def .
  then have "emptied t" "lt_array t = lt_array t0" using setnodevector_spec [OF assms(3), of t0] by (metis sum.inject(2) sum.distinct(1))+
  moreover have "lt_array t0 = replicate narray NilV" by (simp add: t0_def setarrayvector_def)
  ultimately have e: "emptied t" "lt_array t = replicate narray NilV" by simp_all
  then have "sizearray t \<le> MAXASIZE" using assms(2) by simp
  from emptied_ok [OF e(1) this] show "table_ok t" "rawget t k = NilV" by (auto simp: e(2) in_array_def)
qed

lemma set_store:
  assumes "table_ok t" "valid_key k" "2 \<le> f"
  shows "case luaH_set f t k of
      Inr (s, t') \<Rightarrow> table_ok (slot_store s v t') \<and>
        (\<forall>k'. rawget (slot_store s v t') k' = (if luaO_rawequalObj k k' then v else rawget t k'))
    | Inl e \<Rightarrow> e = Table_overflow \<and> 2 ^ MAXBITS \<le> elements t"
proof -
  define g where "g = f - 2"
  have f: "f = Suc (Suc g)" using assms(3) by (simp add: g_def)
  have "set_done t k (luaH_set f t k)" unfolding f by (rule set_spec [OF assms(1,2)])
  then consider (slot) s t' where "luaH_set f t k = Inr (s, t')" "table_ok t'" "luaH_get t' k = Inr (Some s)"
      "\<And>k'. rawget t' k' = rawget t k'"
    | (full) "luaH_set f t k = Inl Table_overflow" "2 ^ MAXBITS \<le> elements t"
    unfolding set_done_def by blast
  then show ?thesis
  proof cases
    case (slot s t')
    then show ?thesis using store_spec [OF slot(2,3), of v] by simp
  qed simp
qed

lemma resizearray_ok:
  assumes ok: "table_ok t" and n: "sizearray t \<le> n" "n \<le> MAXASIZE" "1 \<le> f" and r: "luaH_resizearray f t n = Inr t'"
  shows "table_ok t' \<and> (\<forall>k. rawget t' k = rawget t k)"
proof -
  define g where "g = f - 1"
  have f: "f = Suc g" using n(3) by (simp add: g_def)
  have nok: "nodes_ok (lt_node t)" using ok by (simp add: table_ok_def)
  have d: "lt_dummy t \<Longrightarrow> lt_node t = [empty_node]" using ok by (simp add: table_ok_def)
  have "hashed n t \<le> (if lt_dummy t then 0 else sizenode t)"
    using n(1) live_length [of "outside n" "lt_node t"] d by (simp add: hashed_def live_def empty_node_def)
  moreover have "sizenode t < 2 ^ 32"
  proof -
    obtain k where "k \<le> MAXBITS" "sizenode t = 2 ^ k" using nok by (auto simp: nodes_ok_def)
    moreover from this have "(2::nat) ^ k < 2 ^ 32" by (intro power_strict_increasing) (auto simp: MAXBITS_def)
    ultimately show ?thesis by simp
  qed
  ultimately show ?thesis using resize_ok [OF ok n(2), of "if lt_dummy t then 0 else sizenode t" g] r
    by (auto simp: luaH_resizearray_def f simp del: luaH_set.simps split: if_splits)
qed

lemma built_ok: "built t \<Longrightarrow> table_ok t"
proof (induction rule: built.induct)
  case (built_new narray nhash t)
  then show ?case by (rule new_ok(1))
next
  case (built_set t k f s t' v)
  then show ?case using set_store [of t k f v] by simp
next
  case (built_resize t n f t')
  then show ?case using resizearray_ok by blast
qed

text \<open>C19: giving a key a value changes the value of that key and of no other, whatever growing and moving of
  nodes it takes; it never runs out of its walks, and fails only when the table holds 2 to the 26
  elements already.\<close>

theorem assignment_updates_one_key:
  assumes "built t" "valid_key k" "2 \<le> f"
  shows "case luaH_set f t k of
      Inr (s, t') \<Rightarrow> built (slot_store s v t') \<and>
        (\<forall>k'. rawget (slot_store s v t') k' = (if luaO_rawequalObj k k' then v else rawget t k'))
    | Inl e \<Rightarrow> e = Table_overflow \<and> 2 ^ MAXBITS \<le> elements t"
  using set_store [OF built_ok [OF assms(1)] assms(2,3), of v] built_set [OF assms]
  by (auto split: sum.splits)

text \<open>C20: the main invariant that the head of the source states: when a key is not at the place its hash
  gives it, the node at that place holds a key that is at its own.\<close>

theorem colliding_node_is_in_its_own_place:
  assumes "built t" "i < sizenode t" "n_key (lt_node t ! i) \<noteq> NilV"
    and "mainposition (sizenode t) (n_key (lt_node t ! i)) = m"
  shows "m < sizenode t \<and> mainposition (sizenode t) (n_key (lt_node t ! m)) = m \<and> reach (nxt (lt_node t)) m i"
proof -
  have nok: "nodes_ok (lt_node t)" using built_ok [OF assms(1)] by (simp add: table_ok_def)
  show ?thesis
    using nodes_okD(5,7) [OF nok assms(2,3)] position_less [OF nok, of "n_key (lt_node t ! i)"] assms(4) by simp
qed

section \<open>A table of two keys\<close>

definition set_key :: "TValue \<Rightarrow> TValue \<Rightarrow> ltable \<Rightarrow> ltable" where
  "set_key k v t = (case luaH_set 2 t k of Inr (s, t') \<Rightarrow> slot_store s v t' | Inl _ \<Rightarrow> t)"

lemma built_set_key: "built t \<Longrightarrow> valid_key k \<Longrightarrow> built (set_key k v t)"
  by (auto simp: set_key_def simp del: luaH_set.simps intro: built_set split: sum.split)

definition no_keys :: ltable where
  "no_keys = \<lparr>lt_flags = 255, lt_metatable = None, lt_array = [], lt_node = [empty_node, empty_node],
     lt_dummy = False, lt_lastfree = 2\<rparr>"

text \<open>The number collides with the string and takes the free node.\<close>

definition two_keys :: ltable where
  "two_keys = set_key (NumV (cast_num 3)) (BoolV True) (set_key (StrV ''a'') (BoolV False) no_keys)"

lemma no_keys_new: "luaH_new 0 2 = Inr no_keys"
  by code_simp

lemma built_no_keys: "built no_keys"
  by (rule built_new [OF no_keys_new]) simp_all

lemma valid_three: "luaO_rawequalObj (NumV (cast_num 3)) (NumV (cast_num 3))"
  by code_simp

lemma built_two_keys: "built two_keys"
  unfolding two_keys_def
  by (intro built_set_key built_no_keys) (simp_all only: valid_key_def valid_three, simp_all)

lemma two_keys_eq: "two_keys = \<lparr>lt_flags = 0, lt_metatable = None, lt_array = [],
    lt_node = [\<lparr>n_val = BoolV False, n_key = StrV ''a'', n_next = Some 1\<rparr>,
      \<lparr>n_val = BoolV True, n_key = NumV (cast_num 3), n_next = None\<rparr>],
    lt_dummy = False, lt_lastfree = 1\<rparr>"
  by code_simp

lemma two_keys_nodes: "map n_key (lt_node two_keys) = [StrV ''a'', NumV (cast_num 3)]"
  by (simp add: two_keys_eq)

lemma two_keys_position: "mainposition 2 (NumV (cast_num 3)) = 0"
  by code_simp

lemma two_keys_elements: "elements two_keys = 2"
  unfolding two_keys_eq by code_simp

text \<open>A third key makes the table grow.\<close>

lemma third_key_fits: "\<not> isl (luaH_set 2 two_keys (StrV ''b''))"
  unfolding two_keys_eq by code_simp

theorem assignment_updates_one_key_witness:
  "\<exists>s t'. luaH_set 2 two_keys (StrV ''b'') = Inr (s, t') \<and>
    rawget (slot_store s (BoolV True) t') (StrV ''b'') = BoolV True \<and>
    rawget (slot_store s (BoolV True) t') (StrV ''a'') = rawget two_keys (StrV ''a'')"
  using assignment_updates_one_key [OF built_two_keys, of "StrV ''b''" 2 "BoolV True"] third_key_fits
  by (cases "luaH_set 2 two_keys (StrV ''b'')") (auto simp: valid_key_def simp del: luaH_set.simps)

theorem colliding_node_is_in_its_own_place_witness:
  "mainposition (sizenode two_keys) (n_key (lt_node two_keys ! 0)) = 0 \<and> reach (nxt (lt_node two_keys)) 0 1"
proof -
  have n: "sizenode two_keys = 2" using arg_cong [OF two_keys_nodes, of length] by simp
  then have "n_key (lt_node two_keys ! 1) = NumV (cast_num 3)"
    using arg_cong [OF two_keys_nodes, of "\<lambda>xs. xs ! 1"] by simp
  then show ?thesis
    using colliding_node_is_in_its_own_place [OF built_two_keys, of 1 0] n two_keys_position by simp
qed

end
