(* ===== verification/Lua_Table_Next.thy ===== *)
theory Lua_Table_Next
  imports Lua_Table_Props
begin

text \<open>
  Traversal (\<^verbatim>\<open>luaH_next\<close>): the elements in the order of the slots; the place of a key is found from the
  key alone, so that a traversal may give new values to the elements it meets.
\<close>

section \<open>The order of a traversal\<close>

definition entries :: "ltable \<Rightarrow> (TValue \<times> TValue) list" where
  "entries t = map (\<lambda>i. (NumV (cast_num (int i + 1)), lt_array t ! i)) [0..<sizearray t] @
     map (\<lambda>n. (n_key n, n_val n)) (lt_node t)"

abbreviation filled :: "TValue \<times> TValue \<Rightarrow> bool" where "filled e \<equiv> snd e \<noteq> NilV"

fun position :: "ltable \<Rightarrow> slot \<Rightarrow> nat" where
  "position t (Array_slot i) = i"
| "position t (Node_slot i) = sizearray t + i"

lemma entries_length [simp]: "length (entries t) = sizearray t + sizenode t"
  by (simp add: entries_def)

lemma entries_array: "i < sizearray t \<Longrightarrow> entries t ! i = (NumV (cast_num (int i + 1)), lt_array t ! i)"
  by (simp add: entries_def nth_append)

lemma entries_node: "i < sizenode t \<Longrightarrow> entries t ! (sizearray t + i) = (n_key (lt_node t ! i), n_val (lt_node t ! i))"
  by (simp add: entries_def nth_append)

lemma find_map: "find p (map f xs) = map_option f (find (\<lambda>x. p (f x)) xs)"
  by (induction xs) auto

lemma find_append: "find p (xs @ ys) = (case find p xs of Some x \<Rightarrow> Some x | None \<Rightarrow> find p ys)"
  by (induction xs) auto

text \<open>The next element is the first one with a value behind the place of the key.\<close>

lemma next_find:
  assumes "findindex t k = Inr i" "-1 \<le> i"
  shows "luaH_next t k = Inr (find filled (drop (nat (i + 1)) (entries t)))"
proof -
  define p where "p = nat (i + 1)"
  have d: "drop p (entries t) = map (\<lambda>i. (NumV (cast_num (int i + 1)), lt_array t ! i)) [p..<sizearray t] @
      map (\<lambda>i. (n_key (lt_node t ! i), n_val (lt_node t ! i))) [p - sizearray t..<sizenode t]"
  proof -
    have "map (\<lambda>n. (n_key n, n_val n)) (lt_node t) = map (\<lambda>i. (n_key (lt_node t ! i), n_val (lt_node t ! i))) [0..<sizenode t]"
      by (rule nth_equalityI) auto
    then show ?thesis by (simp add: entries_def drop_map drop_upt)
  qed
  have m: "max p (sizearray t) - sizearray t = p - sizearray t" by simp
  show ?thesis
    unfolding p_def [symmetric] d find_append find_map
    using assms by (simp add: luaH_next_def p_def [symmetric] m split: option.split)
qed

section \<open>The place of a key\<close>

lemma findindex_get:
  assumes ok: "table_ok t" and k: "valid_key k" and s: "luaH_get t k = Inr (Some s)"
  shows "findindex t k = Inr (int (position t s))"
proof (cases "in_array t k")
  case True
  then have "s = Array_slot (nat (arrayindex k - 1))" using s by (simp add: get_in_array)
  then show ?thesis using True k by (auto simp: findindex_def in_array_def Let_def valid_key_def)
next
  case False
  have nok: "nodes_ok (lt_node t)" and ne: "k \<noteq> NilV" using ok k by (auto simp: table_ok_def valid_key_def)
  from nok False ne show ?thesis
  proof (cases rule: get_spec)
    case (found j)
    let ?ns = "lt_node t" and ?m = "mainposition (sizenode t) k"
    have c: "closed ?ns" and m: "?m < length ?ns" using nok position_less by (auto simp: nodes_ok_def)
    obtain q where q: "walk (same_key k) ?ns (length ?ns) ?m = Inr q" using walk_returns [OF c m] by blast
    have "n_key (?ns ! j) \<noteq> NilV" using found(3) ne rawequal_nil by metis
    then have r: "reach (nxt ?ns) ?m j"
      using nodes_okD(5) [OF nok found(1)] rawequal_position [OF found(3)] by simp
    have "q = Some j"
    proof (cases q)
      case None
      then show ?thesis using walk_None [OF q [unfolded None] r] found(3) by (simp add: same_key_def)
    next
      case (Some n)
      then have n: "reach (nxt ?ns) ?m n" "same_key k (n_key (?ns ! n))" using walk_Some [OF q [unfolded Some] m c] by auto
      then have l: "n < length ?ns" using reach_bound c m by blast
      have "n_key (?ns ! n) \<noteq> DeadKey k" using nodes_okD(4) [OF nok l] by (auto simp: valid_key_def)
      then have "luaO_rawequalObj (n_key (?ns ! n)) k" using n(2) by (simp add: same_key_def)
      then show ?thesis using key_unique [OF nok l found(1) ne _ found(3)] Some by simp
    qed
    then show ?thesis
      using q found(2) s False ne by (auto simp: findindex_def in_array_def Let_def)
  qed (use s in simp)
qed

lemma next_without_the_key:
  assumes ok: "table_ok t" and k: "k \<noteq> NilV" "\<not> in_array t k" and absent: "luaH_get t k = Inr None"
  shows "luaH_next t k = Inl Invalid_key_to_next"
proof -
  let ?ns = "lt_node t" and ?m = "mainposition (sizenode t) k"
  have nok: "nodes_ok ?ns" using ok by (simp add: table_ok_def)
  have c: "closed ?ns" and m: "?m < length ?ns" using nok position_less by (auto simp: nodes_ok_def)
  obtain q where q: "walk (same_key k) ?ns (length ?ns) ?m = Inr q" using walk_returns [OF c m] by blast
  have "q = None"
  proof (cases q)
    case (Some n)
    then have n: "reach (nxt ?ns) ?m n" "same_key k (n_key (?ns ! n))" using walk_Some [OF q [unfolded Some] m c] by auto
    then have l: "n < length ?ns" using reach_bound c m by blast
    then have "n_key (?ns ! n) \<noteq> DeadKey k" using nodes_okD(4) [OF nok l] by (auto simp: valid_key_def)
    then have eq: "luaO_rawequalObj (n_key (?ns ! n)) k" using n(2) by (simp add: same_key_def)
    from nok k(2,1) show ?thesis
    proof (cases rule: get_spec)
      case found
      then show ?thesis using absent by simp
    next
      case absent
      then show ?thesis using l eq by blast
    qed
  qed simp
  then have "findindex t k = Inl Invalid_key_to_next" using q k by (auto simp: findindex_def in_array_def Let_def)
  then show ?thesis by (simp add: luaH_next_def)
qed

lemma findindex_nil: "findindex t NilV = Inr (-1)"
  by (simp add: findindex_def)

text \<open>Every element is found by its key.\<close>

lemma entry_slot:
  assumes ok: "table_ok t" and q: "q < length (entries t)" "filled (entries t ! q)"
  shows "valid_key (fst (entries t ! q)) \<and>
    (\<exists>s. luaH_get t (fst (entries t ! q)) = Inr (Some s) \<and> position t s = q \<and> slot_value t s = snd (entries t ! q))"
proof (cases "q < sizearray t")
  case True
  then have "q < 2 ^ 26" using ok by (simp add: table_ok_def MAXASIZE_def MAXBITS_def)
  then have i: "dbl_to_int (cast_num (int q + 1)) = Some (int q + 1)" by (intro dbl_to_int_cast_num) auto
  then have "in_array t (NumV (cast_num (int q + 1)))" using True by (simp add: in_array_def)
  moreover have "\<not> luai_numisnan (cast_num (int q + 1))" by (rule cast_num_not_nan) (use \<open>q < 2 ^ 26\<close> in auto)
  ultimately show ?thesis using True i
    by (auto simp: entries_array get_in_array valid_key_def luai_numeq_def)
next
  case False
  then obtain i where i: "q = sizearray t + i" "i < sizenode t" using q(1) by (metis entries_length le_Suc_ex nat_add_left_cancel_less not_less)
  have nok: "nodes_ok (lt_node t)" using ok by (simp add: table_ok_def)
  let ?k = "n_key (lt_node t ! i)"
  have ne: "?k \<noteq> NilV" using nodes_okD(1) [OF nok i(2)] q(2) i by (auto simp: entries_node)
  have v: "valid_key ?k" by (rule nodes_okD(4) [OF nok i(2) ne])
  have out: "\<not> in_array t ?k" using ok i(2) ne by (auto simp: table_ok_def)
  from nok out ne have "luaH_get t ?k = Inr (Some (Node_slot i))"
  proof (cases rule: get_spec)
    case (found j)
    then show ?thesis using key_unique [OF nok found(1) i(2) ne found(3)] v by (simp add: valid_key_def)
  next
    case absent
    then show ?thesis using absent(2) [OF i(2)] v by (simp add: valid_key_def)
  qed
  then show ?thesis using v i by (simp add: entries_node)
qed

section \<open>The loop of a client\<close>

text \<open>
  A loop over the elements, as a script writes it: it asks for the element after the last one, until
  there is none, and may give each element it meets a new value, nil among them, which clears it.
\<close>

fun traverse :: "(TValue \<Rightarrow> TValue \<Rightarrow> TValue) \<Rightarrow> nat \<Rightarrow> ltable \<Rightarrow> TValue \<Rightarrow> table_fault + (TValue \<times> TValue) list \<times> ltable" where
  "traverse g 0 t k = Inl Stuck"
| "traverse g (Suc f) t k =
     bnd (luaH_next t k) (\<lambda>r. case r of
        None \<Rightarrow> Inr ([], t)
      | Some (k', v) \<Rightarrow>
          bnd (luaH_set 1 t k') (\<lambda>(s, t1).
          bnd (traverse g f (slot_store s (g k' v) t1) k') (\<lambda>(kvs, t2). Inr ((k', v) # kvs, t2))))"

lemma entries_store:
  assumes ok: "table_ok t" and s: "luaH_get t k = Inr (Some s)" and p: "position t s < p"
  shows "drop p (entries (slot_store s v t)) = drop p (entries t)"
proof (rule nth_equalityI)
  have len: "length (entries (slot_store s v t)) = length (entries t)" using store_spec(3,4) [OF ok s] by simp
  then show "length (drop p (entries (slot_store s v t))) = length (drop p (entries t))" by simp
  fix i assume i: "i < length (drop p (entries (slot_store s v t)))"
  have "entries (slot_store s v t) ! (p + i) = entries t ! (p + i)"
  proof (cases "p + i < sizearray t")
    case True
    then show ?thesis using p by (cases s) (auto simp: entries_array)
  next
    case False
    then obtain j where j: "p + i = sizearray t + j" by (metis le_Suc_ex not_less)
    then have "j < sizenode t" using i len by simp
    then show ?thesis using p j store_spec(3,4) [OF ok s, of v]
      by (cases s) (auto simp: entries_node entries_def nth_append)
  qed
  then show "drop p (entries (slot_store s v t)) ! i = drop p (entries t) ! i" using i len by simp
qed

lemma flags_kept [simp]: "entries (t\<lparr>lt_flags := x\<rparr>) = entries t" "position (t\<lparr>lt_flags := x\<rparr>) s = position t s"
  "table_ok (t\<lparr>lt_flags := x\<rparr>) = table_ok t"
  by (cases s; simp add: entries_def table_ok_def in_array_def)+

lemma traverse_spec:
  assumes "table_ok t" "findindex t k = Inr (int p - 1)" "length (filter filled (drop p (entries t))) < f"
  shows "\<exists>t'. traverse g f t k = Inr (filter filled (drop p (entries t)), t')"
  using assms
proof (induction f arbitrary: t k p)
  case (Suc f)
  have n: "luaH_next t k = Inr (find filled (drop p (entries t)))"
    using next_find [OF Suc.prems(2)] by simp
  show ?case
  proof (cases "find filled (drop p (entries t))")
    case None
    then have "filter filled (drop p (entries t)) = []" by (auto simp: find_None_iff filter_empty_conv)
    then show ?thesis using n None by simp
  next
    case (Some e)
    then obtain i where i: "i < length (drop p (entries t))" "filled (drop p (entries t) ! i)"
        "e = drop p (entries t) ! i" "\<And>j. j < i \<Longrightarrow> \<not> filled (drop p (entries t) ! j)"
      unfolding find_Some_iff by blast
    define q where "q = p + i"
    obtain k' v where kv: "e = (k', v)" by fastforce
    have "drop p (entries t) ! i = entries t ! q" "q < length (entries t)" using i(1) by (auto simp: q_def)
    then have q: "q < length (entries t)" "entries t ! q = (k', v)" using i(3) kv by simp_all
    have v: "v \<noteq> NilV" using i(2,3) kv by (metis snd_conv)
    have "drop p (entries t) = take i (drop p (entries t)) @ drop q (entries t)"
      using append_take_drop_id [of i "drop p (entries t)"] by (simp add: q_def add.commute del: append_take_drop_id)
    then have "filter filled (drop p (entries t)) = filter filled (take i (drop p (entries t))) @ filter filled (drop q (entries t))"
      by (metis filter_append)
    moreover have "filter filled (take i (drop p (entries t))) = []"
    proof -
      have "\<not> filled x" if x: "x \<in> set (take i (drop p (entries t)))" for x
      proof -
        obtain j where "j < i" "x = drop p (entries t) ! j" using x i(1) by (auto simp: in_set_conv_nth)
        then show ?thesis using i(4) by blast
      qed
      then show ?thesis by (simp add: filter_empty_conv)
    qed
    moreover have "drop q (entries t) = (k', v) # drop (Suc q) (entries t)"
      using q by (metis Cons_nth_drop_Suc)
    ultimately have rest: "filter filled (drop p (entries t)) = (k', v) # filter filled (drop (Suc q) (entries t))"
      using v by simp
    obtain s where s: "luaH_get t k' = Inr (Some s)" "position t s = q" "valid_key k'"
      using entry_slot [OF Suc.prems(1) q(1)] q(2) v by auto
    let ?t1 = "t\<lparr>lt_flags := 0\<rparr>"
    have ok1: "table_ok ?t1" and s1: "luaH_get ?t1 k' = Inr (Some s)" using Suc.prems(1) s by simp_all
    let ?t2 = "slot_store s (g k' v) ?t1"
    have ok2: "table_ok ?t2" by (rule store_spec(1) [OF ok1 s1])
    have d2: "drop (Suc q) (entries ?t2) = drop (Suc q) (entries t)"
      using entries_store [OF ok1 s1, of "Suc q"] s(2) by simp
    have "luaH_get ?t2 k' = Inr (Some s)" using s1 by simp
    then have "findindex ?t2 k' = Inr (int (position ?t2 s))" by (rule findindex_get [OF ok2 s(3)])
    moreover have "position ?t2 s = q" using s(2) by (cases s) auto
    ultimately have "findindex ?t2 k' = Inr (int (Suc q) - 1)" by simp
    then have "\<exists>t'. traverse g f ?t2 k' = Inr (filter filled (drop (Suc q) (entries ?t2)), t')"
      using Suc.prems(3) rest by (intro Suc.IH ok2) (simp_all add: d2)
    then obtain t' where t': "traverse g f ?t2 k' = Inr (filter filled (drop (Suc q) (entries t)), t')"
      unfolding d2 by blast
    have "luaH_set 1 t k' = Inr (s, ?t1)" using s(1) by simp
    then have "traverse g (Suc f) t k = Inr ((k', v) # filter filled (drop (Suc q) (entries t)), t')"
      using n Some kv t' by (simp del: luaH_set.simps)
    then show ?thesis using rest by auto
  qed
qed simp

section \<open>What a traversal meets\<close>

lemma filled_count: "length (filter filled (entries t)) = elements t"
proof -
  have "length (filter (\<lambda>i. lt_array t ! i \<noteq> NilV) [0..<sizearray t]) = length (filter (\<lambda>v. v \<noteq> NilV) (lt_array t))"
    using live_below_rest [of 0 "lt_array t"] by (simp add: live_below_def)
  then show ?thesis by (simp add: entries_def elements_def live_def live_below_def filter_map o_def)
qed

lemma entries_lookup:
  assumes ok: "table_ok t" and v: "v \<noteq> NilV"
  shows "rawget t k = v \<longleftrightarrow> (\<exists>k'. (k', v) \<in> set (entries t) \<and> luaO_rawequalObj k' k)"
proof
  have nok: "nodes_ok (lt_node t)" using ok by (simp add: table_ok_def)
  assume l: "rawget t k = v"
  show "\<exists>k'. (k', v) \<in> set (entries t) \<and> luaO_rawequalObj k' k"
  proof (cases "in_array t k")
    case True
    define i where "i = nat (arrayindex k - 1)"
    have i: "i < sizearray t" "arrayindex k = int i + 1" using True by (auto simp: i_def in_array_def)
    have "lt_array t ! i = v" using l lookup_array [OF True] by (simp add: i_def)
    then have "entries t ! i = (NumV (cast_num (int i + 1)), v)" by (simp add: entries_array [OF i(1)])
    then have "(NumV (cast_num (int i + 1)), v) \<in> set (entries t)"
      using i(1) by (metis entries_length nth_mem trans_less_add1)
    moreover have "i < 2 ^ 26" using i(1) ok by (simp add: table_ok_def MAXASIZE_def MAXBITS_def)
    then have "arrayindex (NumV (cast_num (int i + 1))) = arrayindex k"
      using dbl_to_int_cast_num [of "int i + 1"] i(2) by simp
    then have "luaO_rawequalObj (NumV (cast_num (int i + 1))) k" using i(2) by (intro arrayindex_rawequal) auto
    ultimately show ?thesis by blast
  next
    case False
    then have "holds (lt_node t) k v" using l lookup_iff [OF nok False v] by simp
    then obtain j where "j < sizenode t" "luaO_rawequalObj (n_key (lt_node t ! j)) k" "n_val (lt_node t ! j) = v"
      by (auto simp: holds_def)
    moreover from this have "(n_key (lt_node t ! j), v) \<in> set (entries t)" by (force simp: entries_def)
    ultimately show ?thesis by blast
  qed
next
  have nok: "nodes_ok (lt_node t)" using ok by (simp add: table_ok_def)
  assume "\<exists>k'. (k', v) \<in> set (entries t) \<and> luaO_rawequalObj k' k"
  then obtain k' q where q: "q < length (entries t)" "entries t ! q = (k', v)" "luaO_rawequalObj k' k"
    by (metis in_set_conv_nth)
  then obtain s where "luaH_get t k' = Inr (Some s)" "slot_value t s = v"
    using entry_slot [OF ok q(1)] v by auto
  then show "rawget t k = v" using get_rawequal [OF nok q(3)] by (simp add: rawget_def)
qed

lemma entries_distinct:
  assumes ok: "table_ok t"
  shows "sorted_wrt (\<lambda>a b. \<not> luaO_rawequalObj (fst a) (fst b)) (filter filled (entries t))"
proof -
  have nok: "nodes_ok (lt_node t)" using ok by (simp add: table_ok_def)
  have d: "\<not> luaO_rawequalObj (fst (entries t ! p)) (fst (entries t ! q))"
    if pq: "p < q" "q < length (entries t)" "filled (entries t ! p)" "filled (entries t ! q)" for p q
  proof
    assume "luaO_rawequalObj (fst (entries t ! p)) (fst (entries t ! q))"
    then have "luaH_get t (fst (entries t ! p)) = luaH_get t (fst (entries t ! q))" by (rule get_rawequal [OF nok])
    then show False using entry_slot [OF ok, of p] entry_slot [OF ok, of q] pq by auto
  qed
  have "sorted_wrt (\<lambda>a b. filled a \<longrightarrow> filled b \<longrightarrow> \<not> luaO_rawequalObj (fst a) (fst b)) (entries t)"
    unfolding sorted_wrt_iff_nth_less using d by blast
  then have "sorted_wrt (\<lambda>a b. filled a \<longrightarrow> filled b \<longrightarrow> \<not> luaO_rawequalObj (fst a) (fst b)) (filter filled (entries t))"
    by (rule sorted_wrt_filter)
  then show ?thesis by (rule sorted_wrt_mono_rel [rotated]) auto
qed

text \<open>C21: a traversal ends, whatever new values, nil among them, it gives the elements it meets, and meets
  each element once: the pairs it sees are the keys and values of the table as it was.\<close>

theorem traversal_meets_each_element_once:
  assumes "built t"
  shows "\<exists>kvs t'. traverse g (Suc (elements t)) t NilV = Inr (kvs, t') \<and> length kvs = elements t \<and>
    sorted_wrt (\<lambda>a b. \<not> luaO_rawequalObj (fst a) (fst b)) kvs \<and>
    (\<forall>k v. v \<noteq> NilV \<longrightarrow> (rawget t k = v \<longleftrightarrow> (\<exists>k'. (k', v) \<in> set kvs \<and> luaO_rawequalObj k' k)))"
proof -
  note ok = built_ok [OF assms]
  obtain t' where "traverse g (Suc (elements t)) t NilV = Inr (filter filled (entries t), t')"
    using traverse_spec [OF ok, of NilV 0 "Suc (elements t)" g] by (auto simp: findindex_nil filled_count)
  then show ?thesis using entries_distinct [OF ok] entries_lookup [OF ok] by (auto simp: filled_count)
qed

text \<open>The traversal of a table of two elements that clears them.\<close>

theorem traversal_meets_each_element_once_witness:
  "\<exists>kvs t'. traverse (\<lambda>_ _. NilV) 3 two_keys NilV = Inr (kvs, t') \<and> length kvs = 2"
  using traversal_meets_each_element_once [OF built_two_keys, of "\<lambda>_ _. NilV"]
  by (auto simp: two_keys_elements numeral_3_eq_3)

end
