(* ===== verification/Lua_Table_Len.thy ===== *)
theory Lua_Table_Len
  imports Lua_Table_Props
begin

text \<open>
  The length operator (\<^verbatim>\<open>luaH_getn\<close>): whichever of its searches runs, it ends and finds a boundary.
\<close>

section \<open>Elements at an index\<close>

definition elem :: "ltable \<Rightarrow> nat \<Rightarrow> TValue" where
  "elem t i = rawget t (NumV (cast_num (int i)))"

lemma index_in_array:
  assumes "i < 2 ^ 31"
  shows "in_array t (NumV (cast_num (int i))) \<longleftrightarrow> 1 \<le> i \<and> i \<le> sizearray t"
  using dbl_to_int_cast_num [of "int i"] assms by (simp add: in_array_def)

lemma elem_array: "i < 2 ^ 31 \<Longrightarrow> 1 \<le> i \<Longrightarrow> i \<le> sizearray t \<Longrightarrow> elem t i = lt_array t ! (i - 1)"
  using index_in_array [of i t] dbl_to_int_cast_num [of "int i"] by (simp add: elem_def lookup_array nat_diff_distrib)

lemma nil_at_elem:
  assumes "nodes_ok (lt_node t)" "j < 2 ^ 31"
  shows "nil_at t j = Inr (elem t j = NilV)"
proof -
  let ?k = "NumV (cast_num (int j))"
  have g: "luaH_getnum t (int j) = luaH_get t ?k" by (rule getnum_in_array) (use assms(2) in auto)
  obtain p where "luaH_get t ?k = Inr p"
  proof (cases "in_array t ?k")
    case True
    then show ?thesis using that by (simp add: get_in_array)
  next
    case False
    with assms(1) show ?thesis by (cases rule: get_spec) (auto intro: that)
  qed
  then show ?thesis by (auto simp: nil_at_def g elem_def rawget_def split: option.splits)
qed

section \<open>The searches\<close>

definition boundary :: "(nat \<Rightarrow> bool) \<Rightarrow> nat \<Rightarrow> bool" where
  "boundary isnil n \<longleftrightarrow> (n = 0 \<or> \<not> isnil n) \<and> isnil (Suc n)"

lemma binary_search_spec:
  assumes "i < j" "i = 0 \<or> \<not> b i" "b j" "\<And>m. i < m \<Longrightarrow> m < j \<Longrightarrow> isnil m = Inr (b m)"
  shows "\<exists>n. binary_search isnil i j = Inr n \<and> i \<le> n \<and> n < j \<and> boundary b n"
  using assms
proof (induction isnil i j rule: binary_search.induct)
  case (1 isnil i j)
  show ?case
  proof (cases "1 < j - i")
    case True
    let ?m = "(i + j) div 2"
    have m: "i < ?m" "?m < j" using True by auto
    have q: "isnil ?m = Inr (b ?m)" by (rule 1(6) [OF m])
    have step: "binary_search isnil i j = (if b ?m then binary_search isnil i ?m else binary_search isnil ?m j)"
      using True by (subst binary_search.simps) (simp add: q Let_def)
    show ?thesis
    proof (cases "b ?m")
      case True
      have "\<exists>n. binary_search isnil i ?m = Inr n \<and> i \<le> n \<and> n < ?m \<and> boundary b n"
        by (rule 1(1) [OF \<open>1 < j - i\<close> refl q True m(1) 1(4) True]) (use 1(6) m in auto)
      then show ?thesis using True m unfolding step by (auto intro: less_trans)
    next
      case False
      have "\<exists>n. binary_search isnil ?m j = Inr n \<and> ?m \<le> n \<and> n < j \<and> boundary b n"
        by (rule 1(2) [OF \<open>1 < j - i\<close> refl q False m(2) _ 1(5)]) (use 1(6) m False in auto)
      then show ?thesis using False m unfolding step by (auto intro: order_trans [of i ?m])
    qed
  next
    case False
    then have "j = Suc i" using 1(3) by simp
    then show ?thesis using 1(4,5) by (subst binary_search.simps) (simp add: boundary_def)
  qed
qed

text \<open>The indices from one on that have a value cannot outnumber the slots.\<close>

lemma run_length:
  assumes ok: "table_ok t" and run: "\<And>i. 1 \<le> i \<Longrightarrow> i \<le> m \<Longrightarrow> elem t i \<noteq> NilV" and m: "m < 2 ^ 31"
  shows "m \<le> sizearray t + sizenode t"
proof -
  have nok: "nodes_ok (lt_node t)" using ok by (simp add: table_ok_def)
  have "\<exists>n. n < sizenode t \<and> luaO_rawequalObj (n_key (lt_node t ! n)) (NumV (cast_num (int i)))"
    if i: "sizearray t < i" "i \<le> m" for i
  proof -
    have "\<not> in_array t (NumV (cast_num (int i)))" using index_in_array [of i t] i m by simp
    then have "holds (lt_node t) (NumV (cast_num (int i))) (elem t i)"
      using lookup_iff [OF nok] run [of i] i unfolding elem_def by fastforce
    then show ?thesis by (auto simp: holds_def)
  qed
  then obtain g where g: "\<And>i. sizearray t < i \<Longrightarrow> i \<le> m \<Longrightarrow>
      g i < sizenode t \<and> luaO_rawequalObj (n_key (lt_node t ! g i)) (NumV (cast_num (int i)))" by metis
  have "inj_on g {sizearray t<..m}"
  proof (rule inj_onI)
    fix i j assume ij: "i \<in> {sizearray t<..m}" "j \<in> {sizearray t<..m}" "g i = g j"
    have "luaO_rawequalObj (NumV (cast_num (int i))) (NumV (cast_num (int j)))"
      using g [of i] g [of j] ij rawequal_trans rawequal_sym by (metis greaterThanAtMost_iff)
    then have "arrayindex (NumV (cast_num (int i))) = arrayindex (NumV (cast_num (int j)))" by (rule rawequal_arrayindex)
    then show "i = j" using dbl_to_int_cast_num [of "int i"] dbl_to_int_cast_num [of "int j"] ij m by simp
  qed
  then have "card {sizearray t<..m} \<le> card {..<sizenode t}"
    by (rule card_inj_on_le) (use g in auto)
  then show ?thesis by simp
qed

lemma linear_search_spec:
  assumes ok: "table_ok t" and "1 \<le> i" "\<And>j. 1 \<le> j \<Longrightarrow> j < i \<Longrightarrow> elem t j \<noteq> NilV" "sizearray t + sizenode t + 2 \<le> f + i"
    "i \<le> sizearray t + sizenode t + 1"
  shows "\<exists>n. linear_search t f i = Inr n \<and> boundary (\<lambda>j. elem t j = NilV) n"
  using assms(2-)
proof (induction f arbitrary: i)
  case (Suc f)
  obtain k where "k \<le> MAXBITS" "sizenode t = 2 ^ k" "sizearray t \<le> 2 ^ MAXBITS"
    using ok by (auto simp: table_ok_def nodes_ok_def MAXASIZE_def)
  moreover have "(2::nat) ^ k \<le> 2 ^ MAXBITS" using \<open>k \<le> MAXBITS\<close> by (rule power_increasing) simp
  ultimately have small: "sizearray t + sizenode t + 1 < 2 ^ 31" by (simp add: MAXBITS_def)
  have n: "nil_at t i = Inr (elem t i = NilV)"
    by (rule nil_at_elem) (use ok Suc.prems(4) small in \<open>auto simp: table_ok_def\<close>)
  show ?case
  proof (cases "elem t i = NilV")
    case True
    then have "linear_search t (Suc f) i = Inr (i - 1)" using n by simp
    moreover have "boundary (\<lambda>j. elem t j = NilV) (i - 1)"
      using True Suc.prems(1) Suc.prems(2) [of "i - 1"] by (cases "i = 1") (simp_all add: boundary_def)
    ultimately show ?thesis by blast
  next
    case False
    then have run: "elem t j \<noteq> NilV" if "1 \<le> j" "j < i + 1" for j
      using Suc.prems(2) that by (cases "j = i") auto
    have "i \<le> sizearray t + sizenode t" by (rule run_length [OF ok run]) (use Suc.prems(4) small in auto)
    then have "\<exists>n. linear_search t f (i + 1) = Inr n \<and> boundary (\<lambda>j. elem t j = NilV) n"
      using Suc.prems(3) run by (intro Suc.IH) auto
    then show ?thesis using n False by simp
  qed
qed simp

lemma probe_spec:
  assumes "table_ok t" "1 \<le> j" "j \<le> MAX_INT" "i < j" "i = 0 \<or> elem t i \<noteq> NilV"
  shows "\<exists>n. probe t i j = Inr n \<and> boundary (\<lambda>j. elem t j = NilV) n"
  using assms
proof (induction t i j rule: probe.induct)
  case (1 t i j)
  have nok: "nodes_ok (lt_node t)" using 1(2) by (simp add: table_ok_def)
  have small: "j < 2 ^ 31" using 1(4) by (simp add: MAX_INT_def)
  have n: "nil_at t j = Inr (elem t j = NilV)" by (rule nil_at_elem [OF nok small])
  show ?case
  proof (cases "elem t j = NilV")
    case True
    then have "probe t i j = binary_search (nil_at t) i j" by (subst probe.simps) (simp add: n)
    moreover have "\<exists>n. binary_search (nil_at t) i j = Inr n \<and> i \<le> n \<and> n < j \<and> boundary (\<lambda>j. elem t j = NilV) n"
      using True 1(5,6) small by (intro binary_search_spec) (auto intro!: nil_at_elem [OF nok])
    ultimately show ?thesis by auto
  next
    case False
    show ?thesis
    proof (cases "MAX_INT < j * 2")
      case True
      then have "probe t i j = linear_search t (sizearray t + sizenode t + 2) 1"
        using False by (subst probe.simps) (simp add: n)
      then show ?thesis using linear_search_spec [OF 1(2), of 1 "sizearray t + sizenode t + 2"] by simp
    next
      case small: False
      have "probe t i j = probe t j (j * 2)" using False small 1(3) by (subst probe.simps) (simp add: n)
      moreover have "\<exists>n. probe t j (j * 2) = Inr n \<and> boundary (\<lambda>j. elem t j = NilV) n"
        using 1(2,3) False small by (intro 1(1)) (auto simp: n)
      ultimately show ?thesis by simp
    qed
  qed
qed

lemma getn_boundary:
  assumes ok: "table_ok t"
  shows "\<exists>n. luaH_getn t = Inr n \<and> boundary (\<lambda>j. elem t j = NilV) n"
proof -
  let ?j = "sizearray t"
  have j: "?j < 2 ^ 26 + 1" using ok by (simp add: table_ok_def MAXASIZE_def MAXBITS_def)
  have arr: "elem t i = lt_array t ! (i - 1)" if "1 \<le> i" "i \<le> ?j" for i
    by (rule elem_array) (use that j in auto)
  consider (binary) "0 < ?j" "lt_array t ! (?j - 1) = NilV"
    | (dummy) "?j = 0 \<or> elem t ?j \<noteq> NilV" "lt_dummy t" | (hash) "?j = 0 \<or> elem t ?j \<noteq> NilV" "\<not> lt_dummy t"
    using arr [of ?j] by (cases "?j = 0") auto
  then show ?thesis
  proof cases
    case binary
    then have "luaH_getn t = binary_search (\<lambda>m. Inr (ttisnil (lt_array t ! (m - 1)))) 0 ?j"
      by (simp add: luaH_getn_def)
    moreover have "\<exists>n. binary_search (\<lambda>m. Inr (ttisnil (lt_array t ! (m - 1)))) 0 ?j = Inr n \<and> 0 \<le> n \<and> n < ?j \<and>
        boundary (\<lambda>j. elem t j = NilV) n"
      using binary arr arr [of ?j] by (intro binary_search_spec) (auto simp: Suc_le_eq)
    ultimately show ?thesis by auto
  next
    case dummy
    have "luaH_getn t = Inr ?j" using dummy arr [of ?j] by (auto simp: luaH_getn_def Suc_le_eq Let_def)
    moreover have "elem t (Suc ?j) = NilV"
    proof -
      have "\<not> in_array t (NumV (cast_num (int (Suc ?j))))" using index_in_array [of "Suc ?j" t] j by simp
      moreover have "lt_node t = [empty_node]" "nodes_ok (lt_node t)" using ok dummy by (auto simp: table_ok_def)
      ultimately show ?thesis
        using lookup_iff [of t _ "elem t (Suc ?j)"] unfolding elem_def by (fastforce simp: holds_def empty_node_def)
    qed
    ultimately show ?thesis using dummy by (auto simp: boundary_def)
  next
    case hash
    have "luaH_getn t = probe t ?j (?j + 1)" using hash arr [of ?j] by (auto simp: luaH_getn_def unbound_search_def Suc_le_eq Let_def)
    then show ?thesis using probe_spec [OF ok, of "?j + 1" ?j] hash(1) j by (simp add: MAX_INT_def)
  qed
qed

text \<open>C22: the length operator returns, and what it returns is a boundary: zero or an index that has a value,
  when the index after it has none.\<close>

theorem length_is_a_boundary:
  assumes "built t"
  shows "\<exists>n. luaH_getn t = Inr n \<and> (n = 0 \<or> rawget t (NumV (cast_num (int n))) \<noteq> NilV) \<and>
    rawget t (NumV (cast_num (int n + 1))) = NilV"
  using getn_boundary [OF built_ok [OF assms]] by (auto simp: boundary_def elem_def add.commute)

text \<open>A table with a value at one of its indices only.\<close>

theorem length_is_a_boundary_witness:
  "\<exists>n. luaH_getn two_keys = Inr n \<and> rawget two_keys (NumV (cast_num (int n + 1))) = NilV"
  using length_is_a_boundary [OF built_two_keys] by blast

end
