(* ===== verification/Spec2Isabelle.thy ===== *)
theory Spec2Isabelle
  imports Iw_Config_Props Iw_Sip_Props Iw_RtspServer_Props Iw_Ivr_Props Iw_Streamer_Props Iw_SpeechServer_Props Iw_Session_Props Iw_Lease Iw_SipCall_Props Iw_Waiter_Props Lua_Opcodes Lua_Object_Facts Lua_Debug_Facts Lua_Chunk_Facts Lua_String_Facts Lua_Table_Next Lua_Table_Len
begin

text \<open>
  A verification library for the message-passing core, the call and media sessions, the
  media proxy and the bytecode loader of the telephony platform under \<^verbatim>\<open>src/\<close>.

  \<^bold>\<open>How the program is put together.\<close>  The platform runs lightweight processes.  A process
  owns message handles: bounded channels of messages that can be poisoned.  Handles are found
  through one registrar.  A process talks to another by messages: it sends a request to a
  handle or to a service, and waits on a transaction handle of its own until the answer, an
  unrelated shutdown request or the deadline comes.  A module (the media proxy, the waiter of
  system handles, the SIP stack, the streamer, the speech and RTSP clients) is a process that
  answers such requests in a loop.  A session (a call, a media proxy connection, a stream, a
  speech or RTSP conversation) is the client side of a module: an active object, with a
  listener process that turns incoming events into state.  Calls are driven by scripts, which
  the vendored script engine may load as precompiled chunks.

  \<^bold>\<open>The theories, from the bottom.\<close>

  \<^item> \<open>Prelude\<close>: results (\<open>Inl\<close> of a fault, \<open>Inr\<close> of a value) and their sequencing, the ordered
    map of \<^verbatim>\<open>std::map\<close> as a sorted association list, and its contract, the locale
    \<open>ordered_map\<close>.
  \<^item> \<open>Iw_Message\<close>: message ids, addresses, the message record, the error codes
    (\<^verbatim>\<open>iw_core/IwBase.h\<close>, \<^verbatim>\<open>Message.*\<close>, \<^verbatim>\<open>UIDOwner.cpp\<close>).  A message class is a constructor
    of the body of the message.
  \<^item> \<open>Iw_Handle\<close>: one handle over the buffered channel of the CSP library
    (\<^verbatim>\<open>iw_core/LpHandle.cpp\<close>, \<^verbatim>\<open>kentcsp\<close>): send, read, poison, interruptors.  The locale
    \<open>bounded_fifo\<close> is the contract of the channel, interpreted on the channel and again on the
    handle above it.
  \<^item> \<open>Iw_World\<close>: what processes share: the heap of handles, the registrar
    (\<^verbatim>\<open>iw_core/LocalProcessRegistrar.cpp\<close>), the counters, the clock.  What the other
    processes do while one waits is the timeline of the world, a list of delays and events,
    which \<open>alt_wait\<close> consumes; \<open>SelectFromChannels\<close> is the prioritised select over it.
  \<^item> \<open>Iw_Process\<close>, \<open>Iw_Process_Facts\<close>, \<open>Iw_Process_Props\<close>: the running context, routing,
    transactions, registration, the run loop and both boot routines
    (\<^verbatim>\<open>iw_core/LightweightProcess.cpp\<close>).
  \<^item> \<open>Iw_ActiveObject\<close>, \<open>Iw_Session\<close>, \<open>Iw_Session_Props\<close>: active objects
    (\<^verbatim>\<open>iw_core/ActiveObject.cpp\<close>) and the offer/answer session
    (\<^verbatim>\<open>iw_telephony/OfferAnswerSession.cpp\<close>): the state of one call and every operation on it.
  \<^item> \<open>Iw_SipCall\<close>, \<open>Iw_SipCall_Props\<close>: the SIP call over that session
    (\<^verbatim>\<open>iw_telephony/SipCall.cpp\<close>).
  \<^item> \<open>Iw_Media\<close>: media formats, transport addresses, session descriptions
    (\<^verbatim>\<open>iw_telephony/Telephony.cpp\<close>, \<^verbatim>\<open>iw_core/IwBase.cpp\<close>).
  \<^item> \<open>Iw_RtpProxy\<close>, \<open>Iw_RtpProxy_Facts\<close>, \<open>Iw_RtpProxy_Props\<close>: the media proxy
    (\<^verbatim>\<open>iw_live555rtpproxy/ProcLive555RtpProxy.cpp\<close>) with the sinks and sources of live555 it
    connects (\<^verbatim>\<open>MediaSink.cpp\<close>, \<^verbatim>\<open>FramedSource.cpp\<close>).
  \<^item> \<open>Iw_Clients\<close>, \<open>Iw_Mrcp\<close>, \<open>Iw_Clients_Props\<close>: the client sessions
    (\<^verbatim>\<open>RtpProxySession.cpp\<close>, \<^verbatim>\<open>StreamingSession.cpp\<close>, \<^verbatim>\<open>RtspSession.cpp\<close>,
    \<^verbatim>\<open>MrcpSession.cpp\<close>).  The locale \<open>lease\<close> is what they share with a call: a resource
    that is held or not, and given back once.
  \<^item> \<open>Iw_RtspServer\<close>, \<open>Iw_RtspServer_Props\<close>: the service behind the RTSP session
    (\<^verbatim>\<open>iw_live555rtsp/ProcLive555Rtsp.cpp\<close>): one client and one session for all who use it.
  \<^item> \<open>Iw_Streamer\<close>, \<open>Iw_StreamerProc\<close>: the streamer behind the streaming session
    (\<^verbatim>\<open>iw_m2ims/ProcM2Ims.cpp\<close>): the pipeline of filters of a session as lists of stages that
    leave at the first error, the requests and the loop.  The filter library is an argument and
    the calls it gets are output.
  \<^item> \<open>Iw_Streamer_Facts\<close>, \<open>Iw_Streamer_Inv\<close>, \<open>Iw_Streamer_Props\<close>: triples over stages, the locale
    \<open>pipeline_invariant\<close> of what a relation must satisfy to hold across the pipeline, its
    interpretation for the books on filters, the invariant of the process and its properties.
  \<^item> \<open>Iw_SpeechServer\<close>, \<open>Iw_SpeechServer_Props\<close>: the speech service behind the speech session
    (\<^verbatim>\<open>iw_unimrcp/ProcUniMrcp.cpp\<close>, \<^verbatim>\<open>MrcpUtils.cpp\<close>), and the locale \<open>server_frame\<close> of a
    relation its steps respect, interpreted for the sessions of the map, for a request no session
    holds and for the output.
  \<^item> \<open>Iw_Ivr\<close>, \<open>Iw_Ivr_Props\<close>: the process that takes calls and the runner it forks for a script
    (\<^verbatim>\<open>iw_ivr/ProcIvr.cpp\<close>, \<^verbatim>\<open>ProcScriptRunner.cpp\<close>).
  \<^item> \<open>Iw_SipStack\<close>, \<open>Iw_SipUas\<close>, \<open>Iw_SipUac\<close>, \<open>Iw_SipProc\<close>: the SIP stack process behind the calls
    (\<^verbatim>\<open>iw_resip\<close>): the primitive steps over its contexts, dialog sets and map; incoming calls
    (\<^verbatim>\<open>UASDialogUsageManager.cpp\<close>); outgoing calls, registrations and subscriptions
    (\<^verbatim>\<open>UACDialogUsageManager.cpp\<close>); dispatch, the loop and its end (\<^verbatim>\<open>ProcResipStack.cpp\<close>).  The
    SIP library is an argument of every step, a \<open>dum_view\<close>, and the commands it gets are output.
  \<^item> \<open>Iw_SipFacts\<close>, \<open>Iw_Sip_Props\<close>: the locales \<open>step_frame\<close>, \<open>stack_frame\<close>, \<open>stack_run\<close> and
    \<open>stack_free\<close> are the contract of a relation that the primitive steps respect, and so every
    handler and every run; they are interpreted for the invariant of the map, the count of offered
    calls, contexts that have subscribed and registrations that were answered.
  \<^item> \<open>Iw_Lease\<close>: the media proxy session and the media proxy composed.
  \<^item> \<open>Iw_Waiter\<close>, \<open>Iw_Waiter_Props\<close>: the process that waits for system handles on behalf of
    others (\<^verbatim>\<open>iw_core/ProcHandleWaiter.cpp\<close>).
  \<^item> \<open>Json_Spirit\<close>, \<open>Json_Facts\<close>: the values of a configuration file, the semantic actions of the
    reader with its escapes, and the strings of the writer (\<^verbatim>\<open>json_spirit\<close>).
  \<^item> \<open>Iw_Config\<close>, \<open>Iw_CmdLine\<close>, \<open>Iw_Config_Props\<close>: lookup by path and the typed getters
    (\<^verbatim>\<open>iw_core/JSONConfiguration.cpp\<close>, \<^verbatim>\<open>ConfigurationFactory.cpp\<close>), and the command line
    (\<^verbatim>\<open>iw_core/CmdLine.cpp\<close>).
  \<^item> \<open>Lua_Opcodes\<close>, \<open>Lua_Object\<close>, \<open>Lua_Zio\<close>, \<open>Lua_Debug\<close>, \<open>Lua_Chunk\<close>, \<open>Lua_String\<close> and the
    theories of facts beside them: instructions, values and their formatting, input streams, the
    checker of bytecode, dumping and loading of chunks, the string table
    (\<^verbatim>\<open>lua5.1/src/lopcodes.*\<close>, \<^verbatim>\<open>lobject.*\<close>, \<^verbatim>\<open>lzio.*\<close>, \<^verbatim>\<open>ldebug.c\<close>, \<^verbatim>\<open>ldump.c\<close>,
    \<^verbatim>\<open>lundump.c\<close>, \<^verbatim>\<open>lstring.c\<close>).
  \<^item> \<open>Lua_Table\<close>: the tables of the script engine (\<^verbatim>\<open>lua5.1/src/ltable.c\<close>): array part, hash
    part with its chains, counting, resizing, traversal, length; a pointer into a table is a slot.
  \<^item> \<open>Lua_Table_Facts\<close>, \<open>Lua_Table_Set\<close>, \<open>Lua_Table_Grow\<close>: chains as links without a circle, the
    invariant of the nodes, the value of a key; the locale \<open>setter\<close> of an operation that makes
    place for a key, interpreted for setting by key and by index; rehash and resizing.
    \<open>Lua_Table_Props\<close>, \<open>Lua_Table_Next\<close>, \<open>Lua_Table_Len\<close>: tables that come about, traversals, length.

  \<^bold>\<open>How state and operations correspond to the code.\<close>  A class is a record with its members
  in the order of the class; a handle is referred to by its object UID, so that two sessions
  that share a handle share it in the model.  A handler is a function from the state before to
  the state after together with what it returns; an exception that leaves a function is \<open>Inl\<close>
  of a fault, with the constructor of the exception class.  Fibers of one kernel thread are
  scheduled cooperatively and operations on the registrar hold its mutex, so each is one step.
  Machine words are kept at their width in the script engine; UIDs and clock are integers.

  \<^bold>\<open>What the lemmas show.\<close>
  Handles are FIFO queues of at most 1000 messages, and selecting takes the
  first pending one in the order of the list.  A waiting process returns what was sent to a
  handle it waited on, within its deadline, and its transaction handle is gone afterwards on
  every path.  A request reaches the handle its destination is registered with.
  Unregistering tells all listeners.  Boot is all or nothing for modules, while the boot of
  processes hides failures.  Each call operation is described on every branch.  The
  pool of the media proxy refines a set of free connections, connections granted are exclusive,
  and the session gives back what it took.  The waiter keeps its slots well formed and answers
  the one that was signalled.  The actions of the reader rebuild the value they came from, an
  option has at most one type, and the switches of a command line are those a reference
  definition finds.  The RTSP service answers a set-up in one of three ways, and a refused one
  ends the session of everyone else; an offered call is never served.  The streamer destroys every
  filter once, tries a modification once, and takes the end of an old file for that of a new one.
  The speech service follows a null pointer in four cases only, and forgets a request that another
  overtakes.  A run of the SIP stack
  ends with every call hung up exactly once, a subscription is good for one offered call, and a
  request that is remembered too long or not long enough refuses or crashes later ones.  Loading a dumped chunk gives the chunk back, whatever blocks it
  is read in, checked code never leaves its bounds, and interning makes equality of strings
  equality of addresses.  A table is a map: a key that is set changes and no other, a key out of
  its place collides with one in its place, a traversal that changes what it meets still meets
  each element once, and its length is a boundary.  Properties of kind \<open>error\<close> state how the code behaves where that
  behaviour is surprising, such as a refused play that reports success.

  \<^bold>\<open>Bounds and fuel.\<close>  A channel holds 1000 messages (\<open>MAX_MESSAGES_IN_QUEUE\<close>).  A round of the
  waiter waits for at most 100 pairs.  The waiting loop of a transaction makes at most as many
  rounds as there are messages now and in the timeline, which \<open>wait_fuel\<close> counts, and
  \<open>stopped_fuel\<close> counts the same for a synchronous play; their termination properties show
  that this fuel is enough.  Loops that the code means to run forever (a suspended start, the
  hang-up wait) take fuel, and running out of it means \<open>still waiting\<close>; the properties say
  when they return and when they never do.  The last loop of the SIP stack gets the number of
  entries of its map, which is enough because each round removes one.  \<open>LoadFunction\<close> carries the nesting that the C stack
  allows, as \<open>LUAI_MAXCCALLS\<close> does.  Setting a key of a table grows it once at most and setting
  the old keys again never does, so two levels suffice; a walk along a chain takes as many steps
  as the table has nodes.

  \<^bold>\<open>Not modelled.\<close>  Logging and console output: they do not decide what the modelled parts do.
  The grammar of configuration files, which rests on Boost.Spirit: it is a parameter that gives
  the actions of a text; numbers and layout of the writer.  The
  adapters over libraries whose sources are not in the tree (OpalVoIP, the second
  media proxy); of the SIP stack, the log levels of its library and the object that wakes it.  The
  bridges that hand the sessions to scripts.  The event loop of live555 and the transport of packets.  The
  interpreter, compiler and collector of the script engine; so the keys the collector marks as dead
  do not occur in the tables.  SQLite.  Front ends, bindings and
  installers.  \<^verbatim>\<open>iw_telephony/Call.cpp\<close> and \<^verbatim>\<open>BridgedMediaCallSession.cpp\<close>, which the
  project does not build.  The C and C++ libraries' own conversions (\<^verbatim>\<open>strtod\<close>,
  \<^verbatim>\<open>sprintf\<close>, regular expressions, the parser of descriptions) are parameters.
\<close>

end
